(* ===== verification/Prelude.thy ===== *)
theory Prelude
  imports Main "HOL-Library.AList"
begin

text \<open>
  Shared vocabulary of the LianTuanfen development. Timestamps are the values of
  JavaScript \<open>Date\<close> objects (milliseconds since the epoch, compared as numbers by
  \<open><\<close>, \<open>>\<close>, \<open><=\<close>), so they are integers. Row identifiers are MySQL
  \<open>AUTO_INCREMENT\<close> keys, natural numbers. The collection \<open>db_simps\<close> gathers the
  equations that evaluate the table primitives; \<open>handler_defs\<close> the handler
  definitions that component proofs unfold.
\<close>

type_synonym time = int
type_synonym uid = nat
type_synonym aid = nat
type_synonym cid = nat

named_theorems db_simps "equations of the table primitives"
named_theorems handler_defs "definitions of the request handlers"

text \<open>
  \<open>Date.prototype.setHours(getHours() + k)\<close> moves a timestamp by \<open>k\<close> hours of
  3600000 milliseconds (daylight-saving jumps of the server's zone are not modelled).
\<close>

definition hour_ms :: int where
  "hour_ms = 3600000"

lemma hour_ms_pos [simp]: "0 < hour_ms"
  by (simp add: hour_ms_def)

text \<open>
  SQL \<open>COUNT(*)\<close> over a table held as a list of rows: the number of rows that
  satisfy the \<open>WHERE\<close> clause.
\<close>

definition count_rows :: "('r \<Rightarrow> bool) \<Rightarrow> 'r list \<Rightarrow> nat" where
  "count_rows P rs = length (filter P rs)"

lemma count_rows_Nil [simp, db_simps]: "count_rows P [] = 0"
  by (simp add: count_rows_def)

lemma count_rows_Cons [simp, db_simps]:
  "count_rows P (r # rs) = (if P r then Suc (count_rows P rs) else count_rows P rs)"
  by (simp add: count_rows_def)

lemma count_rows_append [simp]:
  "count_rows P (rs @ ss) = count_rows P rs + count_rows P ss"
  by (simp add: count_rows_def)

lemma count_rows_zero_iff: "count_rows P rs = 0 \<longleftrightarrow> (\<forall>r \<in> set rs. \<not> P r)"
  by (simp add: count_rows_def filter_empty_conv)

lemma count_rows_pos_iff: "0 < count_rows P rs \<longleftrightarrow> (\<exists>r \<in> set rs. P r)"
  by (induction rs) auto

lemma count_rows_filter:
  "count_rows P (filter Q rs) = count_rows (\<lambda>r. Q r \<and> P r) rs"
  by (simp add: count_rows_def conj_commute)

lemma count_rows_filter_le: "count_rows P (filter Q rs) \<le> count_rows P rs"
  by (induction rs) auto

lemma count_rows_filter_less:
  "r \<in> set rs \<Longrightarrow> P r \<Longrightarrow> \<not> Q r \<Longrightarrow> count_rows P (filter Q rs) < count_rows P rs"
proof (induction rs)
  case Nil
  then show ?case by simp
next
  case (Cons x rs)
  then show ?case
    using count_rows_filter_le [of P Q rs] by (auto simp: le_imp_less_Suc)
qed

lemma count_rows_key_le1:
  "distinct (map f xs) \<Longrightarrow> count_rows (\<lambda>x. f x = a) xs \<le> 1"
proof (induction xs)
  case (Cons x xs)
  show ?case
  proof (cases "f x = a")
    case True
    have "\<forall>y \<in> set xs. f y \<noteq> a"
      using Cons.prems True by (auto simp: image_iff)
    then have "count_rows (\<lambda>y. f y = a) xs = 0"
      by (simp add: count_rows_zero_iff)
    with True show ?thesis by simp
  next
    case False
    with Cons show ?thesis by simp
  qed
qed simp

lemma count_rows_disj:
  "(\<And>r. \<not> (P r \<and> Q r)) \<Longrightarrow> count_rows (\<lambda>r. P r \<or> Q r) rs = count_rows P rs + count_rows Q rs"
  by (induction rs) auto

lemma count_rows_cong:
  "(\<And>r. r \<in> set rs \<Longrightarrow> P r = Q r) \<Longrightarrow> count_rows P rs = count_rows Q rs"
  by (induction rs) auto

lemma count_rows_map:
  "count_rows P (map f rs) = count_rows (P \<circ> f) rs"
  by (induction rs) auto

lemma count_rows_mono:
  "(\<And>r. r \<in> set rs \<Longrightarrow> P r \<Longrightarrow> Q r) \<Longrightarrow> count_rows P rs \<le> count_rows Q rs"
  by (induction rs) auto

text \<open>
  Tables keyed by a primary key are association lists \<open>(key \<times> row) list\<close>
  (\<open>map_of\<close> reads a row, \<open>AList.update\<close> writes one, \<open>AList.delete\<close> removes
  it). \<open>AList.update\<close> of a key that is absent appends the row at the end, as an
  insert with a fresh \<open>AUTO_INCREMENT\<close> key does.
\<close>

definition keys_of :: "('k \<times> 'v) list \<Rightarrow> 'k list" where
  "keys_of t = map fst t"

lemma map_of_update_same [simp]: "map_of (AList.update k v t) k = Some v"
  by (simp add: update_conv')

lemma map_of_update_other [simp]: "j \<noteq> k \<Longrightarrow> map_of (AList.update k v t) j = map_of t j"
  by (simp add: update_conv')

lemma map_of_delete_same [simp]: "map_of (AList.delete k t) k = None"
  by (simp add: delete_conv')

lemma distinct_keys_update [simp]:
  "distinct (keys_of t) \<Longrightarrow> distinct (keys_of (AList.update k v t))"
  by (simp add: keys_of_def distinct_update)

lemma distinct_keys_delete [simp]:
  "distinct (keys_of t) \<Longrightarrow> distinct (keys_of (AList.delete k t))"
  by (simp add: keys_of_def distinct_delete)

lemma update_fresh_append:
  "k \<notin> set (keys_of t) \<Longrightarrow> AList.update k v t = t @ [(k, v)]"
  by (induction t) (auto simp: keys_of_def)

text \<open>\<open>UPDATE t SET ... WHERE id = k\<close>: every row with key \<open>k\<close> is rewritten.\<close>

definition update_rows :: "'k \<Rightarrow> ('v \<Rightarrow> 'v) \<Rightarrow> ('k \<times> 'v) list \<Rightarrow> ('k \<times> 'v) list" where
  "update_rows k f t = map (\<lambda>(j, v). if j = k then (j, f v) else (j, v)) t"

lemma keys_of_update_rows [simp]: "keys_of (update_rows k f t) = keys_of t"
  by (induction t) (auto simp: update_rows_def keys_of_def)

lemma map_of_update_rows [simp]:
  "map_of (update_rows k f t) j = (if j = k then map_option f (map_of t j) else map_of t j)"
  by (induction t) (auto simp: update_rows_def)

lemma map_of_append_not_None:
  "map_of xs j \<noteq> None \<Longrightarrow> map_of (xs @ ys) j \<noteq> None"
  by (auto simp: map_of_append map_add_def split: option.split)

lemma in_set_update_rows:
  "(j, v) \<in> set (update_rows k f t) \<longleftrightarrow> (\<exists>w. (j, w) \<in> set t \<and> v = (if j = k then f w else w))"
  by (induction t) (auto simp: update_rows_def split: if_splits)

lemma in_set_delete:
  "(k, x) \<in> set (AList.delete v t) \<longleftrightarrow> (k, x) \<in> set t \<and> k \<noteq> v"
  by (induction t) auto

lemma find_append_None:
  "find P xs = None \<Longrightarrow> find P (xs @ ys) = find P ys"
  by (induction xs) auto

lemma insort_key_map:
  "insort_key f (g x) (map g xs) = map g (insort_key (\<lambda>y. f (g y)) x xs)"
  by (induction xs) auto

lemma sort_key_map:
  "sort_key f (map g xs) = map g (sort_key (\<lambda>y. f (g y)) xs)"
  by (induction xs) (auto simp: insort_key_map)

lemma update_rows_absent:
  "k \<notin> set (keys_of t) \<Longrightarrow> update_rows k f t = t"
  by (induction t) (auto simp: update_rows_def keys_of_def)

lemma update_rows_same:
  "distinct (map fst t) \<Longrightarrow> map_of t k = Some r \<Longrightarrow> update_rows k (\<lambda>_. r) t = t"
proof (induction t)
  case Nil
  then show ?case by simp
next
  case (Cons x t)
  obtain j v where x: "x = (j, v)" by (cases x)
  show ?case
  proof (cases "j = k")
    case True
    then have "v = r" "k \<notin> set (keys_of t)" using Cons.prems by (simp_all add: x keys_of_def)
    then show ?thesis using True update_rows_absent [of k t "\<lambda>_. r"] by (simp add: x update_rows_def)
  next
    case False
    then show ?thesis using Cons by (simp add: x update_rows_def)
  qed
qed

lemma distinct_column_update_rows:
  "distinct (map (\<lambda>(j, v). g v) t) \<Longrightarrow> distinct (keys_of t) \<Longrightarrow>
     (\<forall>(j, v) \<in> set t. j \<noteq> k \<longrightarrow> g v \<noteq> g x) \<Longrightarrow>
     distinct (map (\<lambda>(j, v). g v) (update_rows k (\<lambda>_. x) t))"
proof (induction t)
  case Nil
  then show ?case by (simp add: update_rows_def)
next
  case (Cons p t)
  obtain j v where p: "p = (j, v)" by (cases p)
  have IH: "distinct (map (\<lambda>(j, v). g v) (update_rows k (\<lambda>_. x) t))"
    using Cons by (simp add: p keys_of_def)
  have keys: "j \<notin> set (keys_of t)" using Cons.prems(2) by (simp add: p keys_of_def)
  show ?case
  proof (cases "j = k")
    case True
    then have "update_rows k (\<lambda>_. x) (p # t) = (k, x) # t"
      using keys by (simp add: p update_rows_def update_rows_absent [unfolded update_rows_def])
    with Cons.prems(1,3) keys True show ?thesis
      by (force simp: p keys_of_def)
  next
    case False
    with Cons.prems(1,3) show ?thesis
      using IH by (auto simp: p update_rows_def split: if_splits)
  qed
qed

text \<open>A handler's result with its extra values dropped, as a route answers it.\<close>

lemma map_sum_fst_Inr: "map_sum id fst x = Inr d' \<longleftrightarrow> (\<exists>y. x = Inr (d', y))"
  by (cases x) auto

text \<open>A table rewritten row by row, each row from its own key.\<close>

lemma map_of_map_rows:
  "map_of (map (\<lambda>(k, v). (k, f k v)) t) j = map_option (f j) (map_of t j)"
  by (induction t) auto

lemma keys_of_map_rows [simp]: "keys_of (map (\<lambda>(k, v). (k, f k v)) t) = keys_of t"
  by (induction t) (auto simp: keys_of_def)

text \<open>
  In a list whose rows have distinct keys, \<open>find\<close> of a predicate that pins the key
  returns the one row that satisfies it.
\<close>

lemma find_distinct_key:
  assumes "distinct (map key rs)" and "r \<in> set rs" and "P r"
    and "\<And>s. s \<in> set rs \<Longrightarrow> P s \<Longrightarrow> key s = key r"
  shows "find P rs = Some r"
  using assms
proof (induction rs)
  case Nil
  then show ?case by simp
next
  case (Cons x rs)
  show ?case
  proof (cases "P x")
    case True
    with Cons.prems(4) have k: "key x = key r" by simp
    have "x = r"
    proof (rule ccontr)
      assume "x \<noteq> r"
      with Cons.prems(2) have "key r \<in> key ` set rs" by simp
      with k Cons.prems(1) show False by simp
    qed
    with True show ?thesis by simp
  next
    case False
    with Cons.prems(2,3) have r: "r \<in> set rs" by auto
    have "find P rs = Some r"
    proof (rule Cons.IH)
      show "distinct (map key rs)" using Cons.prems(1) by simp
      show "r \<in> set rs" by (rule r)
      show "P r" by (rule Cons.prems(3))
      show "\<And>s. s \<in> set rs \<Longrightarrow> P s \<Longrightarrow> key s = key r"
        using Cons.prems(4) by simp
    qed
    with False show ?thesis by simp
  qed
qed

lemma find_None_list_all: "find P rs = None \<longleftrightarrow> list_all (\<lambda>r. \<not> P r) rs"
  by (induction rs) auto

text \<open>JavaScript truthiness of an optional request-body value.\<close>

definition js_truthy_str :: "string option \<Rightarrow> bool" where
  "js_truthy_str v = (case v of None \<Rightarrow> False | Some s \<Rightarrow> s \<noteq> [])"

definition js_truthy_int :: "int option \<Rightarrow> bool" where
  "js_truthy_int v = (case v of None \<Rightarrow> False | Some n \<Rightarrow> n \<noteq> 0)"

text \<open>\<open>v || d\<close> on a numeric body field.\<close>

definition js_or_int :: "int option \<Rightarrow> int \<Rightarrow> int" where
  "js_or_int v d = (case v of Some n \<Rightarrow> if n \<noteq> 0 then n else d | None \<Rightarrow> d)"

lemma js_truthy_str_simps [simp]:
  "js_truthy_str None = False" "js_truthy_str (Some s) = (s \<noteq> [])"
  by (simp_all add: js_truthy_str_def)

lemma js_truthy_int_simps [simp]:
  "js_truthy_int None = False" "js_truthy_int (Some n) = (n \<noteq> 0)"
  by (simp_all add: js_truthy_int_def)

lemma js_or_int_simps [simp]:
  "js_or_int None d = d" "js_or_int (Some n) d = (if n \<noteq> 0 then n else d)"
  by (simp_all add: js_or_int_def)

end
