(* ===== verification/Status.thy ===== *)
theory Status
  imports Prelude
begin

text \<open>
  The time-window evaluator. The server derives an activity's displayed status from
  the stored one and the clock, in the same \<open>if\<close> chain in
  \<open>getAllActivities\<close> and \<open>getActivityById\<close>
  (src/liantuanfen/server/controllers/activityController.js); the client decides
  from that displayed status whether the join and cancel buttons are offered
  (\<open>canRegister\<close>, \<open>canCancelRegistration\<close> in components/ActivityCard.tsx and
  pages/ActivityDetail.tsx). The theory holds the derivation, the specification's
  partition it refines, and the client predicates with their equivalence.
\<close>

section \<open>Stored and displayed status\<close>

text \<open>The \<open>activities.status\<close> column, \<open>ENUM('pending','approved','rejected','completed')\<close>.\<close>

datatype stored_status = Pending | Approved | Rejected | Completed

text \<open>The \<open>status\<close> string of an activity in a response, after the derivation.\<close>

datatype view_status = VPending | VApproved | VRejected | VCompleted | VUpcoming | VOngoing

primrec view_of :: "stored_status \<Rightarrow> view_status" where
  "view_of Pending = VPending"
| "view_of Approved = VApproved"
| "view_of Rejected = VRejected"
| "view_of Completed = VCompleted"

text \<open>
  The server's derivation, branch for branch: only an \<open>approved\<close> row is rewritten,
  and the three tests are made in the code's order (ongoing, then completed, then
  upcoming); a row that passes none keeps \<open>approved\<close>.
\<close>

fun derive_status :: "time \<Rightarrow> stored_status \<Rightarrow> time \<Rightarrow> time \<Rightarrow> view_status" where
  "derive_status now Approved st et =
     (if now \<ge> st \<and> now \<le> et then VOngoing
      else if now > et then VCompleted
      else if now < st then VUpcoming
      else VApproved)"
| "derive_status now s st et = view_of s"

text \<open>
  The specification's evaluator: stored \<open>pending\<close>, \<open>rejected\<close> and
  \<open>completed\<close> are shown as they are; \<open>approved\<close> is upcoming before the start,
  ongoing from the start to the end inclusive, completed after the end.
\<close>

fun spec_status :: "time \<Rightarrow> stored_status \<Rightarrow> time \<Rightarrow> time \<Rightarrow> view_status" where
  "spec_status now Approved st et =
     (if now < st then VUpcoming else if now \<le> et then VOngoing else VCompleted)"
| "spec_status now s st et = view_of s"

section \<open>The client's decisions\<close>

text \<open>The fields of an activity object the client's predicates read.\<close>

record activity_view =
  v_status :: view_status
  v_is_joined :: bool
  v_current :: int
  v_max :: int
  v_start :: time

text \<open>\<open>canRegister\<close> of components/ActivityCard.tsx.\<close>

definition canRegister_card :: "time \<Rightarrow> activity_view \<Rightarrow> bool" where
  "canRegister_card now a =
     (if v_status a = VCompleted \<or> v_status a = VPending \<or> v_status a = VRejected then False
      else if v_is_joined a then False
      else if v_current a \<ge> v_max a then False
      else (let one_hour_after_start = v_start a + hour_ms
            in v_status a = VUpcoming \<or> (v_status a = VOngoing \<and> now \<le> one_hour_after_start)))"

text \<open>\<open>canRegister\<close> of pages/ActivityDetail.tsx: the first test omits pending and rejected.\<close>

definition canRegister_detail :: "time \<Rightarrow> activity_view \<Rightarrow> bool" where
  "canRegister_detail now a =
     (if v_status a = VCompleted then False
      else if v_is_joined a then False
      else if v_current a \<ge> v_max a then False
      else (let one_hour_after_start = v_start a + hour_ms
            in v_status a = VUpcoming \<or> (v_status a = VOngoing \<and> now \<le> one_hour_after_start)))"

text \<open>\<open>canCancelRegistration\<close>, the same in both files: joined and strictly before the start.\<close>

definition canCancelRegistration :: "time \<Rightarrow> activity_view \<Rightarrow> bool" where
  "canCancelRegistration now a = (if \<not> v_is_joined a then False else now < v_start a)"

lemmas status_defs = canRegister_card_def canRegister_detail_def canCancelRegistration_def

section \<open>Properties of the evaluator\<close>

lemma derive_status_not_approved [simp]:
  "s \<noteq> Approved \<Longrightarrow> derive_status now s st et = view_of s"
  by (cases s) simp_all

text \<open>
  For an approved activity the derivation never leaves the status
  \<open>approved\<close>: the three tests of the server partition every instant into
  upcoming, ongoing and completed.
\<close>

theorem derive_status_approved_total:
  "derive_status now Approved st et \<in> {VUpcoming, VOngoing, VCompleted}"
  by auto

text \<open>
  C8: the server's derivation refines the specification's evaluator: on every stored
  status and every instant they agree, provided the start is not after the end.
\<close>

theorem derive_status_refines_spec:
  "st \<le> et \<Longrightarrow> derive_status now s st et = spec_status now s st et"
  by (cases s) auto

lemma derive_status_refines_spec_witness:
  "derive_status 5 Approved 0 10 = spec_status 5 Approved 0 10 \<and> derive_status 5 Approved 0 10 = VOngoing"
  using derive_status_refines_spec [of 0 10 5 Approved] by simp

text \<open>
  Where the start is after the end (nothing in \<open>createActivity\<close> or
  \<open>updateActivity\<close> forbids it) the server tests \<open>now > end\<close> before
  \<open>now < start\<close> and calls completed an activity the specification calls upcoming.
\<close>

lemma derive_status_inverted_window:
  "et < now \<Longrightarrow> now < st \<Longrightarrow> derive_status now Approved st et = VCompleted"
  by simp

lemma derive_status_ongoing_iff:
  "derive_status now s st et = VOngoing \<longleftrightarrow> s = Approved \<and> st \<le> now \<and> now \<le> et"
  by (cases s) auto

lemma derive_status_upcoming_iff:
  "derive_status now s st et = VUpcoming \<longleftrightarrow> s = Approved \<and> now < st \<and> now \<le> et"
  by (cases s) auto

lemma derive_status_completed_iff:
  "derive_status now s st et = VCompleted \<longleftrightarrow>
     s = Completed \<or> (s = Approved \<and> et < now)"
  by (cases s) auto

section \<open>Properties of the client predicates\<close>

text \<open>
  C9: the two copies of \<open>canRegister\<close> (ActivityCard.tsx and ActivityDetail.tsx)
  decide alike on every activity object and every instant, although only the first
  tests for pending and rejected activities.
\<close>

theorem canRegister_card_eq_detail: "canRegister_card now a = canRegister_detail now a"
  by (auto simp: canRegister_card_def canRegister_detail_def Let_def)

lemma canRegister_card_iff:
  "canRegister_card now a \<longleftrightarrow>
     \<not> v_is_joined a \<and> v_current a < v_max a \<and>
     (v_status a = VUpcoming \<or> (v_status a = VOngoing \<and> now \<le> v_start a + hour_ms))"
  by (auto simp: canRegister_card_def Let_def)

lemma canCancelRegistration_iff:
  "canCancelRegistration now a \<longleftrightarrow> v_is_joined a \<and> now < v_start a"
  by (simp add: canCancelRegistration_def)

end
