(* ===== verification/Db.thy ===== *)
theory Db
  imports Status
begin

text \<open>
  The MySQL database the controllers share, as created in src/liantuanfen/server/index.js
  (tables \<open>users\<close>, \<open>clubs\<close>, \<open>activities\<close>, \<open>user_activities\<close>,
  \<open>club_members\<close>, and the columns \<open>max_participants\<close> and \<open>image_url\<close> that
  \<open>checkAndAddColumns\<close> of activityController.js adds). Tables keyed by their
  \<open>AUTO_INCREMENT\<close> id are association lists in insertion order; the two relation tables, which have no uniqueness
  constraint on their pairs, are lists of rows in insertion order. The theory also
  holds the authenticated principal (\<open>req.user\<close>), the error responses of the
  handlers, and the row-level primitives the handlers are written with.
\<close>

section \<open>Rows and tables\<close>

text \<open>\<open>users.role\<close>, \<open>ENUM('admin','student','club_admin')\<close>.\<close>

datatype role = Admin | Student | ClubAdmin

record user_row =
  u_name :: string
  u_password :: string
  u_avatar :: "string option"
  u_student_id :: "string option"
  u_bio :: "string option"
  u_email :: "string option"
  u_role :: role
  u_points :: int

record club_row =
  c_name :: string
  c_description :: string
  c_logo :: "string option"
  c_admin :: uid

datatype member_role = Member | Officer | President

record member_row =
  m_user :: uid
  m_club :: cid
  m_role :: member_role
  m_joined :: time

record activity_row =
  a_title :: string
  a_description :: string
  a_club :: cid
  a_location :: string
  a_start :: time
  a_end :: time
  a_points :: int
  a_max :: int
  a_status :: stored_status
  a_image :: "string option"
  a_feedback :: "string option"
  a_created :: time

text \<open>\<open>user_activities.status\<close>, \<open>ENUM('registered','participated','completed')\<close>.\<close>

datatype reg_status = Registered | Participated | RCompleted

record ua_row =
  ua_id :: nat
  ua_user :: uid
  ua_activity :: aid
  ua_status :: reg_status
  ua_earned :: int
  ua_created :: time

record db =
  users :: "(uid \<times> user_row) list"
  clubs :: "(cid \<times> club_row) list"
  activities :: "(aid \<times> activity_row) list"
  user_activities :: "ua_row list"
  club_members :: "member_row list"
  next_uid :: nat
  next_cid :: nat
  next_aid :: nat
  next_ua :: nat

text \<open>The decoded JWT payload that \<open>authenticateToken\<close> stores in \<open>req.user\<close>.\<close>

record principal =
  p_id :: uid
  p_role :: role

section \<open>Error responses\<close>

text \<open>
  One constructor per distinct error response of the handlers (the HTTP status and
  the message), so that every early \<open>return res.status(...)\<close> is a value.
  \<open>DbError\<close> is the 500 response of a failed query, here a foreign-key violation.
\<close>

datatype api_error =
    Unauthorized | AdminRequired | ClubAdminRequired
  | EmptyBody | MissingActivityFields | ClubNotFound | CreateForbidden | NotClubAdminOfClub
  | ActivityNotFound | UpdateForbidden | NoFieldsToUpdate | InvalidReviewStatus
  | NotFoundOrNotApproved | ActivityEnded | ActivityStarted | ActivityFull | AlreadyJoined
  | EmptyUserIds | CompleteForbidden | NoEligibleUsers | DeleteForbidden
  | LeaveAfterStart | NotRegistered
  | MissingClubFields | ClubNameExists | ClubUpdateForbidden | AlreadyMember | NotMember
  | PresidentCannotLeave | InvalidMemberRole | MemberRoleForbidden | MemberNotFound
  | ClubDeleteForbidden | ClubHasActivities
  | MissingUserFields | UsernameExists | StudentIdExists | EmailExists | DuplicateUser
  | MissingCredentials | InvalidCredentials | UserNotFound | UpdateUserForbidden
  | InvalidEmail | InvalidUsername | InvalidStudentId | PointsNotNumber | EmailTaken
  | UsernameOrStudentIdExists | InvalidRole | CannotDeleteSelf | UserHasRelations
  | DbError

primrec http_status :: "api_error \<Rightarrow> nat" where
  "http_status Unauthorized = 401"
| "http_status AdminRequired = 403"
| "http_status ClubAdminRequired = 403"
| "http_status EmptyBody = 400"
| "http_status MissingActivityFields = 400"
| "http_status ClubNotFound = 404"
| "http_status CreateForbidden = 403"
| "http_status NotClubAdminOfClub = 403"
| "http_status ActivityNotFound = 404"
| "http_status UpdateForbidden = 403"
| "http_status NoFieldsToUpdate = 400"
| "http_status InvalidReviewStatus = 400"
| "http_status NotFoundOrNotApproved = 404"
| "http_status ActivityEnded = 400"
| "http_status ActivityStarted = 400"
| "http_status ActivityFull = 400"
| "http_status AlreadyJoined = 400"
| "http_status EmptyUserIds = 400"
| "http_status CompleteForbidden = 403"
| "http_status NoEligibleUsers = 400"
| "http_status DeleteForbidden = 403"
| "http_status LeaveAfterStart = 400"
| "http_status NotRegistered = 400"
| "http_status MissingClubFields = 400"
| "http_status ClubNameExists = 400"
| "http_status ClubUpdateForbidden = 403"
| "http_status AlreadyMember = 400"
| "http_status NotMember = 400"
| "http_status PresidentCannotLeave = 400"
| "http_status InvalidMemberRole = 400"
| "http_status MemberRoleForbidden = 403"
| "http_status MemberNotFound = 404"
| "http_status ClubDeleteForbidden = 403"
| "http_status ClubHasActivities = 400"
| "http_status MissingUserFields = 400"
| "http_status UsernameExists = 400"
| "http_status StudentIdExists = 400"
| "http_status EmailExists = 400"
| "http_status DuplicateUser = 400"
| "http_status MissingCredentials = 400"
| "http_status InvalidCredentials = 401"
| "http_status UserNotFound = 404"
| "http_status UpdateUserForbidden = 403"
| "http_status InvalidEmail = 400"
| "http_status InvalidUsername = 400"
| "http_status InvalidStudentId = 400"
| "http_status PointsNotNumber = 400"
| "http_status EmailTaken = 400"
| "http_status UsernameOrStudentIdExists = 400"
| "http_status InvalidRole = 400"
| "http_status CannotDeleteSelf = 400"
| "http_status UserHasRelations = 400"
| "http_status DbError = 500"

section \<open>Row primitives\<close>

text \<open>
  \<open>SELECT COUNT(*) FROM user_activities WHERE activity_id = ?\<close>: the
  \<open>current_participants\<close> of every activity query, and the count \<open>joinActivity\<close>
  compares with \<open>max_participants\<close>. Rows of every status count.
\<close>

definition participants :: "db \<Rightarrow> aid \<Rightarrow> nat" where
  "participants d a = count_rows (\<lambda>r. ua_activity r = a) (user_activities d)"

text \<open>\<open>SELECT * FROM user_activities WHERE user_id = ? AND activity_id = ?\<close> is non-empty.\<close>

definition is_registered :: "db \<Rightarrow> uid \<Rightarrow> aid \<Rightarrow> bool" where
  "is_registered d u a = list_ex (\<lambda>r. ua_user r = u \<and> ua_activity r = a) (user_activities d)"

text \<open>
  \<open>INSERT INTO user_activities (user_id, activity_id, status) VALUES (?, ?, 'registered')\<close>:
  a fresh id, \<open>earned_points\<close> and \<open>created_at\<close> from the column defaults. The
  foreign keys on \<open>user_id\<close> and \<open>activity_id\<close> make the insert fail when either
  row is missing.
\<close>

definition insert_registration :: "time \<Rightarrow> uid \<Rightarrow> aid \<Rightarrow> db \<Rightarrow> api_error + db" where
  "insert_registration now u a d =
     (if map_of (users d) u = None \<or> map_of (activities d) a = None then Inl DbError
      else Inr (d\<lparr>user_activities := user_activities d @
                   [\<lparr>ua_id = next_ua d, ua_user = u, ua_activity = a, ua_status = Registered,
                     ua_earned = 0, ua_created = now\<rparr>],
                 next_ua := Suc (next_ua d)\<rparr>))"

text \<open>\<open>DELETE FROM user_activities WHERE user_id = ? AND activity_id = ?\<close>.\<close>

definition delete_registration :: "uid \<Rightarrow> aid \<Rightarrow> db \<Rightarrow> db" where
  "delete_registration u a d =
     d\<lparr>user_activities := filter (\<lambda>r. \<not> (ua_user r = u \<and> ua_activity r = a)) (user_activities d)\<rparr>"

text \<open>
  Well-formedness of the stored tables: primary keys are distinct, the
  \<open>AUTO_INCREMENT\<close> counters are above every key in use, and every
  \<open>user_activities\<close> row satisfies its foreign keys.
\<close>

definition wf_db :: "db \<Rightarrow> bool" where
  "wf_db d =
     (distinct (keys_of (users d)) \<and> distinct (keys_of (clubs d)) \<and>
      distinct (keys_of (activities d)) \<and>
      list_all (\<lambda>k. k < next_aid d) (keys_of (activities d)) \<and>
      list_all (\<lambda>r. ua_id r < next_ua d \<and> map_of (users d) (ua_user r) \<noteq> None \<and>
                    map_of (activities d) (ua_activity r) \<noteq> None) (user_activities d))"

lemma wf_db_activity_key:
  "wf_db d \<Longrightarrow> (a, act) \<in> set (activities d) \<Longrightarrow> map_of (activities d) a = Some act"
  by (simp add: wf_db_def keys_of_def)

lemma is_registered_iff:
  "is_registered d u a \<longleftrightarrow> (\<exists>r \<in> set (user_activities d). ua_user r = u \<and> ua_activity r = a)"
  by (simp add: is_registered_def list_ex_iff)

lemma insert_registration_Inr:
  "insert_registration now u a d = Inr d' \<longleftrightarrow>
     map_of (users d) u \<noteq> None \<and> map_of (activities d) a \<noteq> None \<and>
     d' = d\<lparr>user_activities := user_activities d @
              [\<lparr>ua_id = next_ua d, ua_user = u, ua_activity = a, ua_status = Registered,
                ua_earned = 0, ua_created = now\<rparr>],
            next_ua := Suc (next_ua d)\<rparr>"
  by (auto simp: insert_registration_def)

lemma participants_insert [simp]:
  "insert_registration now u a d = Inr d' \<Longrightarrow>
     participants d' b = (if b = a then Suc (participants d b) else participants d b)"
  by (auto simp: insert_registration_Inr participants_def)

lemma participants_delete:
  "participants (delete_registration u a d) b \<le> participants d b"
  by (simp add: participants_def delete_registration_def count_rows_filter_le)

lemma participants_delete_same:
  "is_registered d u a \<Longrightarrow> participants (delete_registration u a d) a < participants d a"
  unfolding participants_def delete_registration_def is_registered_iff
  by (auto intro: count_rows_filter_less)

lemma is_registered_insert [simp]:
  "insert_registration now u a d = Inr d' \<Longrightarrow>
     is_registered d' v b \<longleftrightarrow> is_registered d v b \<or> (v = u \<and> b = a)"
  by (auto simp: insert_registration_Inr is_registered_def)

lemma is_registered_delete [simp]:
  "is_registered (delete_registration u a d) v b \<longleftrightarrow> is_registered d v b \<and> \<not> (v = u \<and> b = a)"
  by (auto simp: delete_registration_def is_registered_def list_ex_iff)

lemma wf_db_insert_registration:
  "wf_db d \<Longrightarrow> insert_registration now u a d = Inr d' \<Longrightarrow> wf_db d'"
  by (auto simp: wf_db_def insert_registration_Inr list_all_iff)

lemma wf_db_delete_registration:
  "wf_db d \<Longrightarrow> wf_db (delete_registration u a d)"
  by (auto simp: wf_db_def delete_registration_def list_all_iff)

lemma delete_registration_other_tables [simp]:
  "users (delete_registration u a d) = users d"
  "activities (delete_registration u a d) = activities d"
  "clubs (delete_registration u a d) = clubs d"
  by (simp_all add: delete_registration_def)

end
