(* ===== verification/Fixtures.thy ===== *)
theory Fixtures
  imports Db
begin

text \<open>
  Concrete databases for the witnesses and scenarios: the specification's example
  activity (start \<open>T\<close>, end \<open>T + 2h\<close>, two places, ten points) in club 1,
  administered by user 9; students 1, 2 and 3 (A, B and C of the scenario) and the
  system administrator 10. Times are milliseconds; \<open>T\<close> is 100 hours after the epoch.
\<close>

definition fx_T :: time where
  "fx_T = 360000000"

definition fx_user :: "string \<Rightarrow> role \<Rightarrow> user_row" where
  "fx_user n r = \<lparr>u_name = n, u_password = ''h'', u_avatar = None, u_student_id = None,
                  u_bio = None, u_email = None, u_role = r, u_points = 0\<rparr>"

definition fx_activity :: activity_row where
  "fx_activity = \<lparr>a_title = ''talk'', a_description = ''d'', a_club = 1, a_location = ''hall'',
                   a_start = fx_T, a_end = fx_T + 7200000, a_points = 10, a_max = 2,
                   a_status = Approved, a_image = None, a_feedback = None, a_created = 0\<rparr>"

definition fx_db :: db where
  "fx_db = \<lparr>users = [(1, fx_user ''A'' Student), (2, fx_user ''B'' Student),
                     (3, fx_user ''C'' Student), (9, fx_user ''P'' ClubAdmin),
                     (10, fx_user ''root'' Admin)],
            clubs = [(1, \<lparr>c_name = ''club'', c_description = ''d'', c_logo = None, c_admin = 9\<rparr>)],
            activities = [(1, fx_activity)],
            user_activities = [], club_members = [],
            next_uid = 11, next_cid = 2, next_aid = 2, next_ua = 0\<rparr>"

definition fx_student :: "uid \<Rightarrow> principal" where
  "fx_student n = \<lparr>p_id = n, p_role = Student\<rparr>"

definition fx_club_admin :: principal where
  "fx_club_admin = \<lparr>p_id = 9, p_role = ClubAdmin\<rparr>"

definition fx_admin :: principal where
  "fx_admin = \<lparr>p_id = 10, p_role = Admin\<rparr>"

text \<open>A registration row of activity 1, made an hour before the start.\<close>

definition fx_row :: "uid \<Rightarrow> nat \<Rightarrow> reg_status \<Rightarrow> int \<Rightarrow> ua_row" where
  "fx_row u i st e = \<lparr>ua_id = i, ua_user = u, ua_activity = 1, ua_status = st, ua_earned = e,
                      ua_created = fx_T - 3600000\<rparr>"

text \<open>A and B registered for activity 1, the state of the scenario before settlement.\<close>

definition fx_db_AB :: db where
  "fx_db_AB = fx_db\<lparr>user_activities := [fx_row 1 0 Registered 0, fx_row 2 1 Registered 0], next_ua := 2\<rparr>"

text \<open>
  Activity 1 settled for A alone (A's row completed, A credited ten points), then
  approved again by an administrator's review, with B still registered.
\<close>

definition fx_db_reopened :: db where
  "fx_db_reopened = fx_db\<lparr>users := [(1, (fx_user ''A'' Student)\<lparr>u_points := 10\<rparr>), (2, fx_user ''B'' Student),
                                    (3, fx_user ''C'' Student), (9, fx_user ''P'' ClubAdmin),
                                    (10, fx_user ''root'' Admin)],
                          user_activities := [fx_row 1 0 RCompleted 10, fx_row 2 1 Registered 0],
                          next_ua := 2\<rparr>"

lemmas fixture_defs = fx_T_def fx_user_def fx_activity_def fx_db_def fx_student_def
  fx_club_admin_def fx_admin_def fx_row_def fx_db_AB_def fx_db_reopened_def

end
