(* ===== verification/Registration.thy ===== *)
theory Registration
  imports Fixtures
begin

text \<open>
  The registration state machine of one (user, activity) pair: \<open>joinActivity\<close>
  inserts a \<open>registered\<close> row, \<open>leaveActivity\<close> deletes it
  (src/liantuanfen/server/controllers/activityController.js). Each handler is one
  function from the clock, the principal, the activity id and the database to an
  error response or the new database; the nested query callbacks are the nested
  \<open>if\<close>s, in the code's order. The theory proves the behaviour of every branch,
  that both handlers keep the capacity bound and the absence of duplicate
  registrations, and the join/leave round trip.
\<close>

section \<open>Handlers\<close>

text \<open>
  \<open>joinActivity\<close>, lines 475--565. The cut-off it computes is
  \<open>oneHourBeforeStart\<close>, an hour \<^emph>\<open>before\<close> the start, and the window test is
  \<open>now > startTime && now < oneHourBeforeStart\<close>.
\<close>

definition joinActivity :: "time \<Rightarrow> principal \<Rightarrow> aid \<Rightarrow> db \<Rightarrow> api_error + db" where
  "joinActivity now u a d =
     (case map_of (activities d) a of
        None \<Rightarrow> Inl NotFoundOrNotApproved
      | Some act \<Rightarrow>
          if a_status act \<noteq> Approved then Inl NotFoundOrNotApproved
          else
            (let one_hour_before_start = a_start act - hour_ms in
             if now > a_end act then Inl ActivityEnded
             else if now > a_start act \<and> now < one_hour_before_start then Inl ActivityStarted
             else if int (participants d a) \<ge> a_max act then Inl ActivityFull
             else if is_registered d (p_id u) a then Inl AlreadyJoined
             else insert_registration now (p_id u) a d))"

text \<open>\<open>leaveActivity\<close>, lines 853--914: any stored status, cut off at the start.\<close>

definition leaveActivity :: "time \<Rightarrow> principal \<Rightarrow> aid \<Rightarrow> db \<Rightarrow> api_error + db" where
  "leaveActivity now u a d =
     (case map_of (activities d) a of
        None \<Rightarrow> Inl ActivityNotFound
      | Some act \<Rightarrow>
          if now \<ge> a_start act then Inl LeaveAfterStart
          else if \<not> is_registered d (p_id u) a then Inl NotRegistered
          else Inr (delete_registration (p_id u) a d))"

declare joinActivity_def [handler_defs] leaveActivity_def [handler_defs]

section \<open>Invariants\<close>

text \<open>
  The capacity bound: no activity has more rows than its \<open>max_participants\<close>
  (a negative maximum admits none).
\<close>

definition capacity_ok :: "db \<Rightarrow> bool" where
  "capacity_ok d = list_all (\<lambda>(a, act). participants d a \<le> nat (a_max act)) (activities d)"

text \<open>
  At most one row per (user, activity) pair: the uniqueness the specification asks
  for. The schema has no \<open>UNIQUE\<close> constraint, so only the handlers' checks keep it.
\<close>

definition unique_registrations :: "db \<Rightarrow> bool" where
  "unique_registrations d = distinct (map (\<lambda>r. (ua_user r, ua_activity r)) (user_activities d))"

lemma capacity_ok_iff:
  "capacity_ok d \<longleftrightarrow> (\<forall>a act. (a, act) \<in> set (activities d) \<longrightarrow> participants d a \<le> nat (a_max act))"
  by (auto simp: capacity_ok_def list_all_iff)

section \<open>Behaviour of joinActivity\<close>

text \<open>The test for an activity that has started can never hold: its cut-off lies before the start.\<close>

lemma join_window_test_false: "\<not> (now > st \<and> now < st - hour_ms)"
  by (simp add: hour_ms_def)

lemma joinActivity_eq:
  "joinActivity now u a d =
     (case map_of (activities d) a of
        None \<Rightarrow> Inl NotFoundOrNotApproved
      | Some act \<Rightarrow>
          if a_status act \<noteq> Approved then Inl NotFoundOrNotApproved
          else if now > a_end act then Inl ActivityEnded
          else if int (participants d a) \<ge> a_max act then Inl ActivityFull
          else if is_registered d (p_id u) a then Inl AlreadyJoined
          else insert_registration now (p_id u) a d)"
  by (simp add: joinActivity_def Let_def join_window_test_false split: option.split)

lemma joinActivity_Inr:
  "joinActivity now u a d = Inr d' \<Longrightarrow>
     \<exists>act. map_of (activities d) a = Some act \<and> a_status act = Approved \<and> now \<le> a_end act \<and>
       int (participants d a) < a_max act \<and> \<not> is_registered d (p_id u) a \<and>
       insert_registration now (p_id u) a d = Inr d'"
  by (auto simp: joinActivity_eq split: option.splits if_splits)

lemma joinActivity_capacity_ok:
  assumes "wf_db d" and "capacity_ok d" and "joinActivity now u a d = Inr d'"
  shows "capacity_ok d'"
proof -
  obtain act where act: "map_of (activities d) a = Some act" and
    lt: "int (participants d a) < a_max act" and ins: "insert_registration now (p_id u) a d = Inr d'"
    using joinActivity_Inr [OF assms(3)] by blast
  have acts: "activities d' = activities d"
    using ins by (auto simp: insert_registration_Inr)
  show ?thesis
    unfolding capacity_ok_iff acts
  proof (intro allI impI)
    fix b act'
    assume b: "(b, act') \<in> set (activities d)"
    show "participants d' b \<le> nat (a_max act')"
    proof (cases "b = a")
      case True
      with b act wf_db_activity_key [OF assms(1)] have "act' = act" by fastforce
      with True lt ins show ?thesis by simp
    next
      case False
      with b assms(2) ins show ?thesis by (simp add: capacity_ok_iff)
    qed
  qed
qed

lemma joinActivity_wf_db:
  "wf_db d \<Longrightarrow> joinActivity now u a d = Inr d' \<Longrightarrow> wf_db d'"
  by (blast dest: joinActivity_Inr wf_db_insert_registration)

lemma joinActivity_unique:
  "unique_registrations d \<Longrightarrow> joinActivity now u a d = Inr d' \<Longrightarrow> unique_registrations d'"
  by (fastforce dest!: joinActivity_Inr simp: unique_registrations_def insert_registration_Inr is_registered_iff)

text \<open>The stored \<open>activities\<close>, \<open>users\<close> and \<open>clubs\<close> tables are not written by a join.\<close>

lemma joinActivity_frame:
  "joinActivity now u a d = Inr d' \<Longrightarrow>
     activities d' = activities d \<and> users d' = users d \<and> clubs d' = clubs d"
  by (auto dest!: joinActivity_Inr simp: insert_registration_Inr)

text \<open>Every way a join is refused, in the order the code tests.\<close>

lemma joinActivity_errors:
  "map_of (activities d) a = None \<Longrightarrow> joinActivity now u a d = Inl NotFoundOrNotApproved"
  "map_of (activities d) a = Some act \<Longrightarrow> a_status act \<noteq> Approved \<Longrightarrow>
     joinActivity now u a d = Inl NotFoundOrNotApproved"
  "map_of (activities d) a = Some act \<Longrightarrow> a_status act = Approved \<Longrightarrow> now > a_end act \<Longrightarrow>
     joinActivity now u a d = Inl ActivityEnded"
  "map_of (activities d) a = Some act \<Longrightarrow> a_status act = Approved \<Longrightarrow> now \<le> a_end act \<Longrightarrow>
     int (participants d a) \<ge> a_max act \<Longrightarrow> joinActivity now u a d = Inl ActivityFull"
  "map_of (activities d) a = Some act \<Longrightarrow> a_status act = Approved \<Longrightarrow> now \<le> a_end act \<Longrightarrow>
     int (participants d a) < a_max act \<Longrightarrow> is_registered d (p_id u) a \<Longrightarrow>
     joinActivity now u a d = Inl AlreadyJoined"
  by (simp_all add: joinActivity_eq)

section \<open>Behaviour of leaveActivity\<close>

lemma leaveActivity_Inr:
  "leaveActivity now u a d = Inr d' \<longleftrightarrow>
     (\<exists>act. map_of (activities d) a = Some act \<and> now < a_start act \<and>
        is_registered d (p_id u) a \<and> d' = delete_registration (p_id u) a d)"
  by (auto simp: leaveActivity_def split: option.splits)

lemma leaveActivity_wf_db:
  "wf_db d \<Longrightarrow> leaveActivity now u a d = Inr d' \<Longrightarrow> wf_db d'"
  by (auto simp: leaveActivity_Inr wf_db_delete_registration)

lemma leaveActivity_capacity_ok:
  "capacity_ok d \<Longrightarrow> leaveActivity now u a d = Inr d' \<Longrightarrow> capacity_ok d'"
  by (auto simp: leaveActivity_Inr capacity_ok_iff intro: order_trans [OF participants_delete])

lemma leaveActivity_unique:
  "unique_registrations d \<Longrightarrow> leaveActivity now u a d = Inr d' \<Longrightarrow> unique_registrations d'"
  by (auto simp: leaveActivity_Inr unique_registrations_def delete_registration_def distinct_map_filter)

text \<open>
  C5: at and after the start of an activity a leave is refused with the
  \<open>WindowClosed\<close> response, whatever the activity's stored status and whatever the
  status of the caller's registration.
\<close>

theorem leaveActivity_after_start:
  "map_of (activities d) a = Some act \<Longrightarrow> a_start act \<le> now \<Longrightarrow>
     leaveActivity now u a d = Inl LeaveAfterStart"
  by (simp add: leaveActivity_def)

section \<open>Round trip\<close>

text \<open>
  C6: a join followed by a leave of the same user before the start restores the
  registration table exactly, and with it every activity's participant count (only
  the \<open>AUTO_INCREMENT\<close> counter has moved).
\<close>

theorem join_leave_roundtrip:
  assumes "joinActivity now u a d = Inr d1" and "map_of (activities d) a = Some act"
    and "now' < a_start act"
  shows "\<exists>d2. leaveActivity now' u a d1 = Inr d2 \<and> user_activities d2 = user_activities d \<and>
           activities d2 = activities d \<and> users d2 = users d"
proof -
  from joinActivity_Inr [OF assms(1)] have
    nreg: "\<not> is_registered d (p_id u) a" and ins: "insert_registration now (p_id u) a d = Inr d1"
    by auto
  from ins have d1: "user_activities d1 = user_activities d @
      [\<lparr>ua_id = next_ua d, ua_user = p_id u, ua_activity = a, ua_status = Registered,
        ua_earned = 0, ua_created = now\<rparr>]" and acts: "activities d1 = activities d"
    and us: "users d1 = users d"
    by (auto simp: insert_registration_Inr)
  have reg1: "is_registered d1 (p_id u) a"
    using ins by simp
  have "filter (\<lambda>r. \<not> (ua_user r = p_id u \<and> ua_activity r = a)) (user_activities d) = user_activities d"
    using nreg by (auto simp: is_registered_iff filter_id_conv)
  then have "user_activities (delete_registration (p_id u) a d1) = user_activities d"
    by (simp add: delete_registration_def d1)
  moreover have "leaveActivity now' u a d1 = Inr (delete_registration (p_id u) a d1)"
    using assms(2,3) reg1 by (simp add: leaveActivity_def acts)
  ultimately show ?thesis
    by (simp add: acts us)
qed

section \<open>Properties\<close>

text \<open>
  C2: a join succeeds exactly when the activity exists with stored status
  \<open>approved\<close>, the clock is not past its end, it has fewer rows than its
  maximum, the caller has no row for it, and the insert satisfies the foreign keys;
  the new database is the insert's. No time window other than the end is enforced.
\<close>

theorem joinActivity_Inr_iff:
  "joinActivity now u a d = Inr d' \<longleftrightarrow>
     (\<exists>act. map_of (activities d) a = Some act \<and> a_status act = Approved \<and> now \<le> a_end act \<and>
        int (participants d a) < a_max act \<and> \<not> is_registered d (p_id u) a \<and>
        insert_registration now (p_id u) a d = Inr d')"
  by (auto simp: joinActivity_eq split: option.splits)

lemma joinActivity_Inr_iff_witness:
  "(\<exists>d'. joinActivity (fx_T - 3600000) (fx_student 1) 1 fx_db = Inr d') \<and>
   (\<forall>d'. joinActivity (fx_T + 7200001) (fx_student 1) 1 fx_db \<noteq> Inr d')"
proof
  have ins: "\<exists>d'. insert_registration (fx_T - 3600000) 1 1 fx_db = Inr d'"
    by (simp add: fixture_defs insert_registration_def)
  show "\<exists>d'. joinActivity (fx_T - 3600000) (fx_student 1) 1 fx_db = Inr d'"
    using ins by (auto simp: joinActivity_Inr_iff fixture_defs participants_def is_registered_def)
  show "\<forall>d'. joinActivity (fx_T + 7200001) (fx_student 1) 1 fx_db \<noteq> Inr d'"
    by (auto simp: joinActivity_Inr_iff fixture_defs)
qed

text \<open>
  C3: more than an hour after the start of an approved activity that has not ended,
  with a free place, a user with no registration is still accepted: the one-hour
  grace window of the specification and of the client is not enforced by the server.
\<close>

theorem join_after_grace_accepted:
  assumes "map_of (activities d) a = Some act" and "a_status act = Approved"
    and "a_start act + hour_ms < now" and "now \<le> a_end act"
    and "int (participants d a) < a_max act" and "\<not> is_registered d (p_id u) a"
    and "map_of (users d) (p_id u) \<noteq> None"
  shows "\<exists>d'. joinActivity now u a d = Inr d'"
  using assms by (simp add: joinActivity_eq insert_registration_def)

lemma join_after_grace_accepted_witness:
  "\<exists>d'. joinActivity (fx_T + 5400000) (fx_student 1) 1 fx_db = Inr d'"
proof -
  have act: "map_of (activities fx_db) 1 = Some fx_activity" by (simp add: fixture_defs)
  show ?thesis
  proof (rule join_after_grace_accepted [OF act])
    show "a_status fx_activity = Approved" by (simp add: fixture_defs)
    show "a_start fx_activity + hour_ms < fx_T + 5400000" by (simp add: fixture_defs hour_ms_def)
    show "fx_T + 5400000 \<le> a_end fx_activity" by (simp add: fixture_defs)
    show "int (participants fx_db 1) < a_max fx_activity" by (simp add: fixture_defs participants_def)
    show "\<not> is_registered fx_db (p_id (fx_student 1)) 1" by (simp add: fixture_defs is_registered_def)
    show "map_of (users fx_db) (p_id (fx_student 1)) \<noteq> None" by (simp add: fixture_defs)
  qed
qed

lemma leaveActivity_after_start_witness:
  "leaveActivity (fx_T + 3600000) (fx_student 1) 1 fx_db_AB = Inl LeaveAfterStart"
proof -
  have "map_of (activities fx_db_AB) 1 = Some fx_activity" by (simp add: fixture_defs)
  moreover have "a_start fx_activity \<le> fx_T + 3600000" by (simp add: fixture_defs)
  ultimately show ?thesis by (rule leaveActivity_after_start)
qed

lemma join_leave_roundtrip_witness:
  "\<exists>d1 d2. joinActivity (fx_T - 3600000) (fx_student 1) 1 fx_db = Inr d1 \<and>
     leaveActivity (fx_T - 1800000) (fx_student 1) 1 d1 = Inr d2 \<and>
     user_activities d2 = user_activities fx_db"
proof -
  obtain d1 where j: "joinActivity (fx_T - 3600000) (fx_student 1) 1 fx_db = Inr d1"
    by (simp add: fixture_defs joinActivity_eq participants_def is_registered_def insert_registration_def hour_ms_def)
  have act: "map_of (activities fx_db) 1 = Some fx_activity" by (simp add: fixture_defs)
  have t: "fx_T - 1800000 < a_start fx_activity" by (simp add: fixture_defs)
  from join_leave_roundtrip [OF j act t] j show ?thesis by blast
qed

end
