(* ===== verification/Settlement.thy ===== *)
theory Settlement
  imports Registration
begin

text \<open>
  Point settlement: \<open>completeActivity\<close> of
  src/liantuanfen/server/controllers/activityController.js (lines 568--660). After
  its guards it issues three separate statements, each in the callback of the one
  before: the registrant update, the point credit, the activity status update. Each
  statement is a definition here and the handler composes them in that order. The
  theory proves what one successful settlement does to rows, balances and the
  activity, that a direct retry is refused, which rows the point credit reads, and
  that settlement keeps the table invariants.
\<close>

section \<open>The three statements\<close>

text \<open>
  The \<open>WHERE\<close> clause of the registrant update:
  \<open>activity_id = ? AND user_id IN (?) AND status IN ('registered', 'participated')\<close>.
\<close>

definition eligible :: "aid \<Rightarrow> uid list \<Rightarrow> ua_row \<Rightarrow> bool" where
  "eligible a ids r =
     (ua_activity r = a \<and> ua_user r \<in> set ids \<and>
      (ua_status r = Registered \<or> ua_status r = Participated))"

text \<open>\<open>UPDATE user_activities SET status = 'completed', earned_points = ? WHERE ...\<close>.\<close>

definition settle_rows :: "int \<Rightarrow> aid \<Rightarrow> uid list \<Rightarrow> ua_row list \<Rightarrow> ua_row list" where
  "settle_rows pts a ids rs =
     map (\<lambda>r. if eligible a ids r then r\<lparr>ua_status := RCompleted, ua_earned := pts\<rparr> else r) rs"

text \<open>
  \<open>UPDATE users u JOIN user_activities ua ON u.id = ua.user_id
    SET u.points = u.points + ua.earned_points
    WHERE ua.activity_id = ? AND ua.user_id IN (?) AND ua.status = 'completed'\<close>.
  MySQL updates each row of a multiple-table \<open>UPDATE\<close> at most once, with one
  matching joined row; the model takes the first. The \<open>WHERE\<close> clause selects
  every completed row of the listed users, not only the rows this call completed.
\<close>

definition credited :: "aid \<Rightarrow> uid list \<Rightarrow> ua_row list \<Rightarrow> uid \<Rightarrow> int" where
  "credited a ids rs u =
     (if u \<in> set ids then
        (case find (\<lambda>r. ua_activity r = a \<and> ua_user r = u \<and> ua_status r = RCompleted) rs of
           Some r \<Rightarrow> ua_earned r
         | None \<Rightarrow> 0)
      else 0)"

definition credit_points :: "aid \<Rightarrow> uid list \<Rightarrow> db \<Rightarrow> db" where
  "credit_points a ids d =
     d\<lparr>users := map (\<lambda>(u, row). (u, row\<lparr>u_points := u_points row + credited a ids (user_activities d) u\<rparr>))
                 (users d)\<rparr>"

text \<open>\<open>UPDATE activities SET status = "completed" WHERE id = ?\<close>.\<close>

definition set_activity_status :: "aid \<Rightarrow> stored_status \<Rightarrow> db \<Rightarrow> db" where
  "set_activity_status a s d = d\<lparr>activities := update_rows a (\<lambda>act. act\<lparr>a_status := s\<rparr>) (activities d)\<rparr>"

section \<open>The handler\<close>

text \<open>
  The guards in the code's order: a non-empty \<open>user_ids\<close>, an activity whose
  stored status is \<open>approved\<close>, its club, and the caller being a system admin or
  the club's \<open>admin_id\<close>. The result on success is the new database and
  \<open>affected_users\<close>, the \<open>affectedRows\<close> of the registrant update; with no
  affected row the handler answers 400 and the registrant update has changed nothing.
\<close>

definition completeActivity :: "principal \<Rightarrow> aid \<Rightarrow> uid list \<Rightarrow> db \<Rightarrow> api_error + db \<times> nat" where
  "completeActivity u a ids d =
     (if ids = [] then Inl EmptyUserIds
      else case map_of (activities d) a of
        None \<Rightarrow> Inl NotFoundOrNotApproved
      | Some act \<Rightarrow>
          if a_status act \<noteq> Approved then Inl NotFoundOrNotApproved
          else case map_of (clubs d) (a_club act) of
            None \<Rightarrow> Inl ClubNotFound
          | Some club \<Rightarrow>
              if p_role u \<noteq> Admin \<and> c_admin club \<noteq> p_id u then Inl CompleteForbidden
              else
                (let affected = count_rows (eligible a ids) (user_activities d);
                     d1 = d\<lparr>user_activities := settle_rows (a_points act) a ids (user_activities d)\<rparr>
                 in if affected > 0
                    then Inr (set_activity_status a Completed (credit_points a ids d1), affected)
                    else Inl NoEligibleUsers))"

declare completeActivity_def [handler_defs]

text \<open>
  Completed rows belong to completed activities: the settlement invariant. While it
  holds, an approved activity has no completed row, so the point credit reads only
  the rows the same call has just completed.
\<close>

definition settled_consistent :: "db \<Rightarrow> bool" where
  "settled_consistent d =
     list_all (\<lambda>r. ua_status r = RCompleted \<longrightarrow>
                   (case map_of (activities d) (ua_activity r) of
                      Some act \<Rightarrow> a_status act = Completed | None \<Rightarrow> False))
       (user_activities d)"

section \<open>What each statement writes\<close>

lemma credit_points_tables [simp]:
  "activities (credit_points a ids d) = activities d"
  "user_activities (credit_points a ids d) = user_activities d"
  "clubs (credit_points a ids d) = clubs d"
  "keys_of (users (credit_points a ids d)) = keys_of (users d)"
  "next_aid (credit_points a ids d) = next_aid d"
  "next_ua (credit_points a ids d) = next_ua d"
  by (simp_all add: credit_points_def)

lemma map_of_credit_points:
  "map_of (users (credit_points a ids d)) v =
     map_option (\<lambda>row. row\<lparr>u_points := u_points row + credited a ids (user_activities d) v\<rparr>)
       (map_of (users d) v)"
  by (simp add: credit_points_def map_of_map_rows [where f = "\<lambda>u row. row\<lparr>u_points := u_points row + credited a ids (user_activities d) u\<rparr>"])

lemma set_activity_status_tables [simp]:
  "users (set_activity_status a s d) = users d"
  "user_activities (set_activity_status a s d) = user_activities d"
  "clubs (set_activity_status a s d) = clubs d"
  "keys_of (activities (set_activity_status a s d)) = keys_of (activities d)"
  "next_aid (set_activity_status a s d) = next_aid d"
  "next_ua (set_activity_status a s d) = next_ua d"
  "map_of (activities (set_activity_status a s d)) b =
     (if b = a then map_option (\<lambda>act. act\<lparr>a_status := s\<rparr>) (map_of (activities d) b)
      else map_of (activities d) b)"
  by (simp_all add: set_activity_status_def)

lemma settle_rows_keys [simp]:
  "map (\<lambda>r. (ua_user r, ua_activity r)) (settle_rows pts a ids rs) = map (\<lambda>r. (ua_user r, ua_activity r)) rs"
  "map ua_activity (settle_rows pts a ids rs) = map ua_activity rs"
  by (induction rs) (simp_all add: settle_rows_def)

lemma settle_rows_set:
  "s \<in> set (settle_rows pts a ids rs) \<longleftrightarrow>
     (\<exists>r \<in> set rs. s = (if eligible a ids r then r\<lparr>ua_status := RCompleted, ua_earned := pts\<rparr> else r))"
  by (auto simp: settle_rows_def)

lemma participants_settle [simp]:
  "participants (d\<lparr>user_activities := settle_rows pts a ids (user_activities d)\<rparr>) b = participants d b"
proof -
  have "count_rows (\<lambda>r. ua_activity r = b) (settle_rows pts a ids rs) =
        count_rows (\<lambda>r. ua_activity r = b) rs" for rs
    by (induction rs) (auto simp: settle_rows_def eligible_def)
  then show ?thesis by (simp add: participants_def)
qed

lemma participants_credit_status [simp]:
  "participants (credit_points a ids d) b = participants d b"
  "participants (set_activity_status a s d) b = participants d b"
  by (simp_all add: participants_def)

section \<open>Behaviour of completeActivity\<close>

lemma completeActivity_Inr:
  assumes "completeActivity u a ids d = Inr (d', n)"
  shows "\<exists>act club. ids \<noteq> [] \<and> map_of (activities d) a = Some act \<and> a_status act = Approved \<and>
     map_of (clubs d) (a_club act) = Some club \<and> (p_role u = Admin \<or> c_admin club = p_id u) \<and>
     n = count_rows (eligible a ids) (user_activities d) \<and> 0 < n \<and>
     d' = set_activity_status a Completed
            (credit_points a ids (d\<lparr>user_activities := settle_rows (a_points act) a ids (user_activities d)\<rparr>))"
  using assms
  by (auto simp: completeActivity_def Let_def split: option.splits if_splits)

text \<open>Every way a settlement is refused, in the order the code tests.\<close>

lemma completeActivity_errors:
  "completeActivity u a [] d = Inl EmptyUserIds"
  "ids \<noteq> [] \<Longrightarrow> map_of (activities d) a = None \<Longrightarrow>
     completeActivity u a ids d = Inl NotFoundOrNotApproved"
  "ids \<noteq> [] \<Longrightarrow> map_of (activities d) a = Some act \<Longrightarrow> a_status act \<noteq> Approved \<Longrightarrow>
     completeActivity u a ids d = Inl NotFoundOrNotApproved"
  "ids \<noteq> [] \<Longrightarrow> map_of (activities d) a = Some act \<Longrightarrow> a_status act = Approved \<Longrightarrow>
     map_of (clubs d) (a_club act) = None \<Longrightarrow> completeActivity u a ids d = Inl ClubNotFound"
  "ids \<noteq> [] \<Longrightarrow> map_of (activities d) a = Some act \<Longrightarrow> a_status act = Approved \<Longrightarrow>
     map_of (clubs d) (a_club act) = Some club \<Longrightarrow> p_role u \<noteq> Admin \<Longrightarrow> c_admin club \<noteq> p_id u \<Longrightarrow>
     completeActivity u a ids d = Inl CompleteForbidden"
  by (simp_all add: completeActivity_def)

lemma completeActivity_no_eligible:
  "ids \<noteq> [] \<Longrightarrow> map_of (activities d) a = Some act \<Longrightarrow> a_status act = Approved \<Longrightarrow>
     map_of (clubs d) (a_club act) = Some club \<Longrightarrow> (p_role u = Admin \<or> c_admin club = p_id u) \<Longrightarrow>
     count_rows (eligible a ids) (user_activities d) = 0 \<Longrightarrow>
     completeActivity u a ids d = Inl NoEligibleUsers"
  by (auto simp: completeActivity_def)

lemma completeActivity_InrE:
  assumes "completeActivity u a ids d = Inr (d', n)"
  obtains act club where "ids \<noteq> []" "map_of (activities d) a = Some act" "a_status act = Approved"
    "map_of (clubs d) (a_club act) = Some club" "p_role u = Admin \<or> c_admin club = p_id u"
    "n = count_rows (eligible a ids) (user_activities d)" "0 < n"
    "d' = set_activity_status a Completed
            (credit_points a ids (d\<lparr>user_activities := settle_rows (a_points act) a ids (user_activities d)\<rparr>))"
  using completeActivity_Inr [OF assms] by blast

lemma settled_consistent_no_completed:
  "settled_consistent d \<Longrightarrow> map_of (activities d) a = Some act \<Longrightarrow> a_status act \<noteq> Completed \<Longrightarrow>
     list_all (\<lambda>r. ua_activity r = a \<longrightarrow> ua_status r \<noteq> RCompleted) (user_activities d)"
  by (auto simp: settled_consistent_def list_all_iff)

lemma credited_settle_rows:
  assumes "list_all (\<lambda>r. ua_activity r = a \<longrightarrow> ua_status r \<noteq> RCompleted) rs"
  shows "credited a ids (settle_rows pts a ids rs) v =
           (if list_ex (\<lambda>r. eligible a ids r \<and> ua_user r = v) rs then pts else 0)"
  using assms
proof (induction rs)
  case Nil
  then show ?case by (simp add: credited_def settle_rows_def)
next
  case (Cons x rs)
  then show ?case
    by (auto simp: credited_def settle_rows_def eligible_def)
qed


text \<open>
  C1: a successful settlement of an activity credits every user that had an
  eligible (registered or participated) row among the listed ids with exactly the
  activity's points, once, and leaves every other balance unchanged, provided
  completed rows belong to completed activities.
\<close>

theorem completeActivity_points:
  assumes "settled_consistent d" and "map_of (activities d) a = Some act"
    and "completeActivity u a ids d = Inr (d', n)"
  shows "map_of (users d') v =
           map_option (\<lambda>row. row\<lparr>u_points := u_points row +
               (if list_ex (\<lambda>r. eligible a ids r \<and> ua_user r = v) (user_activities d)
                then a_points act else 0)\<rparr>) (map_of (users d) v)"
proof -
  from assms(3) obtain act' where act': "map_of (activities d) a = Some act'" and
    appr: "a_status act' = Approved" and
    d': "d' = set_activity_status a Completed
            (credit_points a ids (d\<lparr>user_activities := settle_rows (a_points act') a ids (user_activities d)\<rparr>))"
    by (rule completeActivity_InrE)
  from act' assms(2) have [simp]: "act' = act" by simp
  have "list_all (\<lambda>r. ua_activity r = a \<longrightarrow> ua_status r \<noteq> RCompleted) (user_activities d)"
    using settled_consistent_no_completed [OF assms(1,2)] appr by simp
  then show ?thesis
    by (simp add: d' map_of_credit_points credited_settle_rows)
qed

lemma completeActivity_activity:
  "completeActivity u a ids d = Inr (d', n) \<Longrightarrow> map_of (activities d) a = Some act \<Longrightarrow>
     map_of (activities d') a = Some (act\<lparr>a_status := Completed\<rparr>)"
  by (erule completeActivity_InrE) simp

text \<open>
  C7: after a successful settlement the activity is stored as completed, so
  repeating the request, with any caller and any non-empty list, is refused and
  credits nothing.
\<close>

theorem completeActivity_retry:
  assumes "completeActivity u a ids d = Inr (d', n)" and "ids' \<noteq> []"
  shows "completeActivity u' a ids' d' = Inl NotFoundOrNotApproved"
proof -
  from assms(1) obtain act where "map_of (activities d) a = Some act"
    by (elim completeActivity_InrE) fast
  with assms(1) have "map_of (activities d') a = Some (act\<lparr>a_status := Completed\<rparr>)"
    by (rule completeActivity_activity)
  with assms(2) show ?thesis by (simp add: completeActivity_def)
qed

text \<open>
  C4: a later successful settlement of the same activity credits a listed user whose
  row was already completed (by an earlier settlement) its earned points again: the
  point credit reads every completed row of the listed users, not only the rows this
  call completed.
\<close>

theorem completeActivity_recredits:
  assumes "unique_registrations d" and "completeActivity u a ids d = Inr (d', n)"
    and "r \<in> set (user_activities d)" and "ua_activity r = a" and "ua_status r = RCompleted"
    and "ua_user r \<in> set ids"
  shows "map_of (users d') (ua_user r) =
           map_option (\<lambda>row. row\<lparr>u_points := u_points row + ua_earned r\<rparr>) (map_of (users d) (ua_user r))"
proof -
  from assms(2) obtain act club where "ids \<noteq> []" "map_of (activities d) a = Some act"
    "a_status act = Approved" "map_of (clubs d) (a_club act) = Some club"
    "p_role u = Admin \<or> c_admin club = p_id u" "n = count_rows (eligible a ids) (user_activities d)"
    "0 < n" and d': "d' = set_activity_status a Completed
            (credit_points a ids (d\<lparr>user_activities := settle_rows (a_points act) a ids (user_activities d)\<rparr>))"
    by (rule completeActivity_InrE)
  let ?rs = "settle_rows (a_points act) a ids (user_activities d)"
  let ?P = "\<lambda>s. ua_activity s = a \<and> ua_user s = ua_user r \<and> ua_status s = RCompleted"
  have ne: "\<not> eligible a ids r"
    using assms(5) by (simp add: eligible_def)
  have "find ?P ?rs = Some r"
  proof (rule find_distinct_key [where key = "\<lambda>s. (ua_user s, ua_activity s)"])
    show "distinct (map (\<lambda>s. (ua_user s, ua_activity s)) ?rs)"
      using assms(1) by (simp add: unique_registrations_def)
    show "r \<in> set ?rs"
      using assms(3) ne by (force simp: settle_rows_set)
    show "?P r" using assms(4,5) by simp
    show "\<And>s. s \<in> set ?rs \<Longrightarrow> ?P s \<Longrightarrow> (ua_user s, ua_activity s) = (ua_user r, ua_activity r)"
      using assms(4) by simp
  qed
  then have "credited a ids ?rs (ua_user r) = ua_earned r"
    using assms(6) by (simp add: credited_def)
  then show ?thesis
    by (simp add: d' map_of_credit_points)
qed


section \<open>Witnesses\<close>

theorem completeActivity_points_witness:
  "\<exists>d'. completeActivity fx_club_admin 1 [1, 2] fx_db_AB = Inr (d', 2) \<and>
     map_of (users d') 1 = Some ((fx_user ''A'' Student)\<lparr>u_points := 10\<rparr>) \<and>
     map_of (users d') 3 = Some (fx_user ''C'' Student)"
proof -
  have h1: "settled_consistent fx_db_AB"
    by (simp add: fixture_defs settled_consistent_def)
  have h2: "map_of (activities fx_db_AB) 1 = Some fx_activity"
    by (simp add: fixture_defs)
  obtain d' where h3: "completeActivity fx_club_admin 1 [1, 2] fx_db_AB = Inr (d', 2)"
    by (simp add: fixture_defs completeActivity_def eligible_def)
  have "map_of (users d') 1 = Some ((fx_user ''A'' Student)\<lparr>u_points := 10\<rparr>)"
    using completeActivity_points [OF h1 h2 h3, of 1]
    by (simp add: fixture_defs eligible_def)
  moreover have "map_of (users d') 3 = Some (fx_user ''C'' Student)"
    using completeActivity_points [OF h1 h2 h3, of 3]
    by (simp add: fixture_defs eligible_def)
  ultimately show ?thesis using h3 by blast
qed

lemma completeActivity_retry_witness:
  "\<exists>d' n. completeActivity fx_club_admin 1 [1, 2] fx_db_AB = Inr (d', n) \<and>
     completeActivity fx_admin 1 [1] d' = Inl NotFoundOrNotApproved"
proof -
  obtain d' where h: "completeActivity fx_club_admin 1 [1, 2] fx_db_AB = Inr (d', 2)"
    by (simp add: fixture_defs completeActivity_def eligible_def)
  from completeActivity_retry [OF h, of "[1]" fx_admin] h show ?thesis by blast
qed

lemma completeActivity_recredits_witness:
  "\<exists>d' n. completeActivity fx_admin 1 [1, 2] fx_db_reopened = Inr (d', n) \<and>
     map_of (users d') 1 = Some ((fx_user ''A'' Student)\<lparr>u_points := 20\<rparr>)"
proof -
  have u: "unique_registrations fx_db_reopened"
    by (simp add: fixture_defs unique_registrations_def)
  obtain d' where h: "completeActivity fx_admin 1 [1, 2] fx_db_reopened = Inr (d', 1)"
    by (simp add: fixture_defs completeActivity_def eligible_def)
  have r: "fx_row 1 0 RCompleted 10 \<in> set (user_activities fx_db_reopened)"
    by (simp add: fx_db_reopened_def)
  have "map_of (users d') 1 = Some ((fx_user ''A'' Student)\<lparr>u_points := 20\<rparr>)"
    using completeActivity_recredits [OF u h r] by (simp add: fixture_defs)
  with h show ?thesis by blast
qed

section \<open>Invariants kept by settlement\<close>

lemma wf_db_settle:
  "wf_db d \<Longrightarrow> wf_db (d\<lparr>user_activities := settle_rows pts a ids (user_activities d)\<rparr>)"
  by (auto simp: wf_db_def list_all_iff settle_rows_set)

lemma wf_db_credit_points:
  "wf_db d \<Longrightarrow> wf_db (credit_points a ids d)"
  by (simp add: wf_db_def list_all_iff map_of_credit_points)

lemma wf_db_set_activity_status:
  "wf_db d \<Longrightarrow> wf_db (set_activity_status a s d)"
  by (fastforce simp: wf_db_def list_all_iff)

lemma completeActivity_wf_db:
  "wf_db d \<Longrightarrow> completeActivity u a ids d = Inr (d', n) \<Longrightarrow> wf_db d'"
  by (elim completeActivity_InrE) (simp add: wf_db_set_activity_status wf_db_credit_points wf_db_settle)

lemma capacity_ok_set_activity_status:
  "wf_db d \<Longrightarrow> capacity_ok d \<Longrightarrow> capacity_ok (set_activity_status a s d)"
  unfolding capacity_ok_iff
proof (intro allI impI)
  fix b act'
  assume wf: "wf_db d" and cap: "\<forall>b act. (b, act) \<in> set (activities d) \<longrightarrow> participants d b \<le> nat (a_max act)"
    and b: "(b, act') \<in> set (activities (set_activity_status a s d))"
  have "distinct (keys_of (activities (set_activity_status a s d)))"
    using wf by (simp add: wf_db_def)
  from map_of_is_SomeI [OF this [unfolded keys_of_def] b]
  have "map_of (activities (set_activity_status a s d)) b = Some act'" .
  then obtain act where "map_of (activities d) b = Some act" and "a_max act' = a_max act"
    by (auto split: if_splits)
  then show "participants (set_activity_status a s d) b \<le> nat (a_max act')"
    using cap by (auto dest: map_of_SomeD)
qed

lemma completeActivity_capacity_ok:
  "wf_db d \<Longrightarrow> capacity_ok d \<Longrightarrow> completeActivity u a ids d = Inr (d', n) \<Longrightarrow> capacity_ok d'"
proof (elim completeActivity_InrE)
  fix act club
  assume wf: "wf_db d" and cap: "capacity_ok d" and d': "d' = set_activity_status a Completed
            (credit_points a ids (d\<lparr>user_activities := settle_rows (a_points act) a ids (user_activities d)\<rparr>))"
  let ?d1 = "credit_points a ids (d\<lparr>user_activities := settle_rows (a_points act) a ids (user_activities d)\<rparr>)"
  have "capacity_ok ?d1"
    using cap by (simp add: capacity_ok_def)
  moreover have "wf_db ?d1"
    using wf by (simp add: wf_db_credit_points wf_db_settle)
  ultimately show "capacity_ok d'"
    by (simp add: d' capacity_ok_set_activity_status)
qed

lemma completeActivity_unique:
  "unique_registrations d \<Longrightarrow> completeActivity u a ids d = Inr (d', n) \<Longrightarrow> unique_registrations d'"
  by (elim completeActivity_InrE) (simp add: unique_registrations_def)

lemma completeActivity_settled_consistent:
  assumes "settled_consistent d" and "completeActivity u a ids d = Inr (d', n)"
  shows "settled_consistent d'"
proof -
  from assms(2) obtain act club where "ids \<noteq> []" and act: "map_of (activities d) a = Some act"
    "a_status act = Approved" "map_of (clubs d) (a_club act) = Some club"
    "p_role u = Admin \<or> c_admin club = p_id u" "n = count_rows (eligible a ids) (user_activities d)"
    "0 < n" and d': "d' = set_activity_status a Completed
            (credit_points a ids (d\<lparr>user_activities := settle_rows (a_points act) a ids (user_activities d)\<rparr>))"
    by (rule completeActivity_InrE)
  have "ua_status s = RCompleted \<Longrightarrow>
        (case map_of (activities d') (ua_activity s) of Some act \<Rightarrow> a_status act = Completed | None \<Rightarrow> False)"
    if s: "s \<in> set (settle_rows (a_points act) a ids (user_activities d))" for s
  proof -
    assume c: "ua_status s = RCompleted"
    from s obtain r where r: "r \<in> set (user_activities d)"
      and sr: "s = (if eligible a ids r then r\<lparr>ua_status := RCompleted, ua_earned := a_points act\<rparr> else r)"
      by (auto simp: settle_rows_set)
    show ?thesis
    proof (cases "ua_activity s = a")
      case True
      with act show ?thesis by (simp add: d')
    next
      case False
      with sr c r assms(1) show ?thesis
        by (auto simp: d' settled_consistent_def list_all_iff eligible_def split: if_splits)
    qed
  qed
  then show ?thesis
    by (auto simp: settled_consistent_def list_all_iff d')
qed

lemma joinActivity_settled_consistent:
  "settled_consistent d \<Longrightarrow> joinActivity now u a d = Inr d' \<Longrightarrow> settled_consistent d'"
  by (auto dest!: joinActivity_Inr simp: settled_consistent_def insert_registration_Inr)

lemma leaveActivity_settled_consistent:
  "settled_consistent d \<Longrightarrow> leaveActivity now u a d = Inr d' \<Longrightarrow> settled_consistent d'"
  by (auto simp: leaveActivity_Inr settled_consistent_def delete_registration_def list_all_iff)

end
