(* ===== verification/Lifecycle.thy ===== *)
theory Lifecycle
  imports Settlement
begin

text \<open>
  The activity review and lifecycle controller of
  src/liantuanfen/server/controllers/activityController.js: \<open>createActivity\<close>,
  \<open>updateActivity\<close>, \<open>reviewActivity\<close>, \<open>deleteActivity\<close> with its helper
  \<open>deleteActivityRecord\<close>, and \<open>getPendingActivities\<close>. A request body is a
  record of optional fields (\<open>None\<close> for a field that is missing); an uploaded image
  is the optional file name multer chose. The theory proves each handler's
  authorization and effect, that every one keeps the table invariants, and the
  transitions of the stored status the handlers allow.
\<close>

section \<open>Request bodies\<close>

text \<open>
  The fields of \<open>req.body\<close> that \<open>createActivity\<close> and \<open>updateActivity\<close> read.
  \<open>start_time\<close> and \<open>end_time\<close> are date strings that MySQL converts; the model
  holds the converted instant, \<open>None\<close> for a missing or empty string.
\<close>

record activity_input =
  in_title :: "string option"
  in_description :: "string option"
  in_club :: "cid option"
  in_location :: "string option"
  in_start :: "time option"
  in_end :: "time option"
  in_points :: "int option"
  in_max :: "int option"

text \<open>\<open>'/uploads/activities/' + req.file.filename\<close>.\<close>

definition image_path :: "string option \<Rightarrow> string option" where
  "image_path f = map_option (\<lambda>n. ''/uploads/activities/'' @ n) f"

section \<open>createActivity\<close>

text \<open>
  Lines 84--150. The required fields are tested for truthiness; the club must exist;
  the caller must be a system admin or a club admin, and a club admin must be the
  club's \<open>admin_id\<close>. Points default to 0 and the maximum to 100 when falsy; an
  admin's activity is stored \<open>approved\<close>, any other \<open>pending\<close>. The result is the
  new database, the new id and the stored status.
\<close>

definition createActivity ::
  "time \<Rightarrow> principal \<Rightarrow> activity_input option \<Rightarrow> string option \<Rightarrow> db \<Rightarrow>
   api_error + db \<times> aid \<times> stored_status" where
  "createActivity now u body file d =
     (case body of
        None \<Rightarrow> Inl EmptyBody
      | Some b \<Rightarrow>
          (case (in_title b, in_description b, in_club b, in_location b, in_start b, in_end b) of
             (Some t, Some ds, Some c, Some l, Some st, Some et) \<Rightarrow>
               if t = [] \<or> ds = [] \<or> c = 0 \<or> l = [] then Inl MissingActivityFields
               else
                 (case map_of (clubs d) c of
                    None \<Rightarrow> Inl ClubNotFound
                  | Some club \<Rightarrow>
                      if p_role u \<noteq> Admin \<and> p_role u \<noteq> ClubAdmin then Inl CreateForbidden
                      else if p_role u = ClubAdmin \<and> c_admin club \<noteq> p_id u then Inl NotClubAdminOfClub
                      else
                        (let status = (if p_role u = Admin then Approved else Pending);
                             row = \<lparr>a_title = t, a_description = ds, a_club = c, a_location = l,
                                    a_start = st, a_end = et, a_points = js_or_int (in_points b) 0,
                                    a_max = js_or_int (in_max b) 100, a_status = status,
                                    a_image = image_path file, a_feedback = None, a_created = now\<rparr>;
                             k = next_aid d
                         in Inr (d\<lparr>activities := activities d @ [(k, row)], next_aid := Suc k\<rparr>, k, status)))
           | _ \<Rightarrow> Inl MissingActivityFields))"

section \<open>updateActivity\<close>

text \<open>
  Lines 302--442. Each field is written when present (strings when truthy, points
  and maximum whenever not \<open>undefined\<close>, the image when a file came); a request
  that writes nothing is refused; a caller who is not a system admin also resets the
  stored status to \<open>pending\<close>, whatever it was. A new \<open>club_id\<close> must name a club
  (the foreign key of \<open>activities.club_id\<close>), else the \<open>UPDATE\<close> fails with 500.
\<close>

definition patch_fields :: "activity_input \<Rightarrow> string option \<Rightarrow> bool" where
  "patch_fields b file =
     (js_truthy_str (in_title b) \<or> js_truthy_str (in_description b) \<or>
      (case in_club b of Some c \<Rightarrow> c \<noteq> 0 | None \<Rightarrow> False) \<or> js_truthy_str (in_location b) \<or>
      in_start b \<noteq> None \<or> in_end b \<noteq> None \<or> in_points b \<noteq> None \<or> in_max b \<noteq> None \<or>
      file \<noteq> None)"

definition patch_str :: "string option \<Rightarrow> string \<Rightarrow> string" where
  "patch_str v old = (case v of Some s \<Rightarrow> if s \<noteq> [] then s else old | None \<Rightarrow> old)"

definition patch_activity :: "activity_input \<Rightarrow> string option \<Rightarrow> activity_row \<Rightarrow> activity_row" where
  "patch_activity b file act =
     act\<lparr>a_title := patch_str (in_title b) (a_title act),
         a_description := patch_str (in_description b) (a_description act),
         a_club := (case in_club b of Some c \<Rightarrow> if c \<noteq> 0 then c else a_club act | None \<Rightarrow> a_club act),
         a_location := patch_str (in_location b) (a_location act),
         a_start := (case in_start b of Some t \<Rightarrow> t | None \<Rightarrow> a_start act),
         a_end := (case in_end b of Some t \<Rightarrow> t | None \<Rightarrow> a_end act),
         a_points := (case in_points b of Some n \<Rightarrow> n | None \<Rightarrow> a_points act),
         a_max := (case in_max b of Some n \<Rightarrow> n | None \<Rightarrow> a_max act),
         a_image := (case image_path file of Some p \<Rightarrow> Some p | None \<Rightarrow> a_image act)\<rparr>"

definition updateActivity ::
  "principal \<Rightarrow> aid \<Rightarrow> activity_input option \<Rightarrow> string option \<Rightarrow> db \<Rightarrow> api_error + db" where
  "updateActivity u a body file d =
     (case body of
        None \<Rightarrow> Inl EmptyBody
      | Some b \<Rightarrow>
          (case map_of (activities d) a of
             None \<Rightarrow> Inl ActivityNotFound
           | Some act \<Rightarrow>
               (case map_of (clubs d) (a_club act) of
                  None \<Rightarrow> Inl ActivityNotFound
                | Some club \<Rightarrow>
                    if p_role u \<noteq> Admin \<and> (p_role u \<noteq> ClubAdmin \<or> c_admin club \<noteq> p_id u)
                    then Inl UpdateForbidden
                    else if \<not> patch_fields b file then Inl NoFieldsToUpdate
                    else
                      (let act' = patch_activity b file act;
                           act'' = (if p_role u \<noteq> Admin then act'\<lparr>a_status := Pending\<rparr> else act')
                       in if map_of (clubs d) (a_club act'') = None then Inl DbError
                          else Inr (d\<lparr>activities := update_rows a (\<lambda>_. act'') (activities d)\<rparr>)))))"

section \<open>reviewActivity\<close>

text \<open>
  Lines 445--472 (the route admits system admins only). The decision must be the
  string \<open>approved\<close> or \<open>rejected\<close>; the \<open>UPDATE\<close> does not look at the stored
  status; no matched row is a 404. A falsy feedback is stored as \<open>NULL\<close>.
\<close>

definition reviewActivity :: "aid \<Rightarrow> string option \<Rightarrow> string option \<Rightarrow> db \<Rightarrow> api_error + db" where
  "reviewActivity a decision feedback d =
     (case decision of
        None \<Rightarrow> Inl InvalidReviewStatus
      | Some s \<Rightarrow>
          if s \<noteq> ''approved'' \<and> s \<noteq> ''rejected'' then Inl InvalidReviewStatus
          else
            (let st = (if s = ''approved'' then Approved else Rejected);
                 fb = (if js_truthy_str feedback then feedback else None)
             in if map_of (activities d) a = None then Inl ActivityNotFound
                else Inr (d\<lparr>activities := update_rows a (\<lambda>act. act\<lparr>a_status := st, a_feedback := fb\<rparr>)
                                              (activities d)\<rparr>)))"

section \<open>deleteActivity\<close>

text \<open>\<open>deleteActivityRecord\<close>, lines 752--767: \<open>DELETE FROM activities WHERE id = ?\<close>.\<close>

definition deleteActivityRecord :: "aid \<Rightarrow> db \<Rightarrow> db" where
  "deleteActivityRecord a d = d\<lparr>activities := AList.delete a (activities d)\<rparr>"

text \<open>
  Lines 684--749: the activity joined with its club, the caller a system admin or the
  club's \<open>admin_id\<close>, then the registrations of the activity deleted when there are
  any, then the activity. The result carries \<open>deleted_participants\<close>.
\<close>

definition deleteActivity :: "principal \<Rightarrow> aid \<Rightarrow> db \<Rightarrow> api_error + db \<times> nat" where
  "deleteActivity u a d =
     (case map_of (activities d) a of
        None \<Rightarrow> Inl ActivityNotFound
      | Some act \<Rightarrow>
          (case map_of (clubs d) (a_club act) of
             None \<Rightarrow> Inl ActivityNotFound
           | Some club \<Rightarrow>
               if p_role u \<noteq> Admin \<and> c_admin club \<noteq> p_id u then Inl DeleteForbidden
               else
                 (let n = participants d a in
                  if n > 0 then
                    Inr (deleteActivityRecord a
                           (d\<lparr>user_activities := filter (\<lambda>r. ua_activity r \<noteq> a) (user_activities d)\<rparr>), n)
                  else Inr (deleteActivityRecord a d, 0))))"

section \<open>getPendingActivities\<close>

text \<open>
  Lines 663--681: the activities stored \<open>pending\<close> whose club exists, oldest first,
  each with its \<open>current_participants\<close>. Rows with equal \<open>created_at\<close> keep the
  table order (MySQL leaves their order open).
\<close>

definition getPendingActivities :: "db \<Rightarrow> (aid \<times> activity_row \<times> nat) list" where
  "getPendingActivities d =
     map (\<lambda>(k, act). (k, act, participants d k))
       (sort_key (\<lambda>(k, act). a_created act)
          (filter (\<lambda>(k, act). a_status act = Pending \<and> map_of (clubs d) (a_club act) \<noteq> None)
             (activities d)))"

text \<open>Request bodies used by the witnesses: a complete new activity, and an edit of the maximum alone.\<close>

definition fx_max_body :: activity_input where
  "fx_max_body = \<lparr>in_title = None, in_description = None, in_club = None, in_location = None,
                  in_start = None, in_end = None, in_points = None, in_max = Some 1\<rparr>"

definition fx_body :: activity_input where
  "fx_body = \<lparr>in_title = Some ''t2'', in_description = Some ''d'', in_club = Some 1,
              in_location = Some ''room'', in_start = Some 100, in_end = Some 200,
              in_points = None, in_max = None\<rparr>"

declare createActivity_def [handler_defs] updateActivity_def [handler_defs]
  reviewActivity_def [handler_defs] deleteActivity_def [handler_defs]

section \<open>Behaviour of the handlers\<close>

lemma wf_db_fresh_activity:
  "wf_db d \<Longrightarrow> map_of (activities d) (next_aid d) = None"
  by (auto simp: wf_db_def keys_of_def list_all_iff map_of_eq_None_iff)

lemma createActivity_Inr:
  assumes "createActivity now u body file d = Inr (d', k, s)"
  shows "\<exists>b t ds c l st et club. body = Some b \<and> in_title b = Some t \<and> in_description b = Some ds \<and>
     in_club b = Some c \<and> in_location b = Some l \<and> in_start b = Some st \<and> in_end b = Some et \<and>
     t \<noteq> [] \<and> ds \<noteq> [] \<and> c \<noteq> 0 \<and> l \<noteq> [] \<and> map_of (clubs d) c = Some club \<and>
     (p_role u = Admin \<or> (p_role u = ClubAdmin \<and> c_admin club = p_id u)) \<and>
     k = next_aid d \<and> s = (if p_role u = Admin then Approved else Pending) \<and>
     d' = d\<lparr>activities := activities d @
            [(k, \<lparr>a_title = t, a_description = ds, a_club = c, a_location = l,
                  a_start = st, a_end = et, a_points = js_or_int (in_points b) 0,
                  a_max = js_or_int (in_max b) 100, a_status = s,
                  a_image = image_path file, a_feedback = None, a_created = now\<rparr>)],
            next_aid := Suc k\<rparr>"
  using assms
  by (auto simp: createActivity_def Let_def split: option.splits if_splits)


lemma createActivity_InrE:
  assumes "createActivity now u body file d = Inr (d', k, s)"
  obtains b row club where "body = Some b" "k = next_aid d" "a_status row = s"
    "s = (if p_role u = Admin then Approved else Pending)"
    "map_of (clubs d) (a_club row) = Some club"
    "p_role u = Admin \<or> (p_role u = ClubAdmin \<and> c_admin club = p_id u)"
    "d' = d\<lparr>activities := activities d @ [(k, row)], next_aid := Suc k\<rparr>"
proof -
  from createActivity_Inr [OF assms] obtain b t ds c l st et club where
    H: "body = Some b" "k = next_aid d" "s = (if p_role u = Admin then Approved else Pending)"
       "map_of (clubs d) c = Some club" "p_role u = Admin \<or> (p_role u = ClubAdmin \<and> c_admin club = p_id u)"
       "d' = d\<lparr>activities := activities d @
            [(k, \<lparr>a_title = t, a_description = ds, a_club = c, a_location = l,
                  a_start = st, a_end = et, a_points = js_or_int (in_points b) 0,
                  a_max = js_or_int (in_max b) 100, a_status = s,
                  a_image = image_path file, a_feedback = None, a_created = now\<rparr>)],
            next_aid := Suc k\<rparr>"
    by blast
  show ?thesis
    by (rule that [OF H(1,2) _ H(3) _ H(5,6)]) (simp_all add: H(4))
qed

lemma createActivity_wf_db:
  assumes "wf_db d" and "createActivity now u body file d = Inr (d', k, s)"
  shows "wf_db d'"
proof -
  from assms(2) obtain b row where k: "k = next_aid d" and
    d': "d' = d\<lparr>activities := activities d @ [(k, row)], next_aid := Suc k\<rparr>"
    by (elim createActivity_InrE) simp
  have fresh: "k \<notin> set (keys_of (activities d))"
    using assms(1) k by (auto simp: wf_db_def list_all_iff)
  show ?thesis
    using assms(1) fresh unfolding d' k
    by (auto simp: wf_db_def keys_of_def list_all_iff map_of_append split: option.splits)
qed

lemma createActivity_tables:
  "createActivity now u body file d = Inr (d', k, s) \<Longrightarrow>
     user_activities d' = user_activities d \<and> users d' = users d \<and> clubs d' = clubs d"
  by (elim createActivity_InrE) simp

lemma map_of_append_fresh:
  "map_of xs j = Some v \<Longrightarrow> map_of (xs @ ys) j = Some v"
  by (simp add: map_of_append)

lemma createActivity_capacity_ok:
  assumes "wf_db d" and "capacity_ok d" and "createActivity now u body file d = Inr (d', k, s)"
  shows "capacity_ok d'"
proof -
  from assms(3) obtain b row where k: "k = next_aid d" and
    d': "d' = d\<lparr>activities := activities d @ [(k, row)], next_aid := Suc k\<rparr>"
    by (elim createActivity_InrE) simp
  have "participants d k = 0"
    using assms(1) k wf_db_fresh_activity [OF assms(1)]
    by (auto simp: participants_def wf_db_def list_all_iff count_rows_zero_iff)
  with assms(2) show ?thesis
    by (simp add: d' capacity_ok_def participants_def)
qed

lemma createActivity_unique:
  "unique_registrations d \<Longrightarrow> createActivity now u body file d = Inr (d', k, s) \<Longrightarrow> unique_registrations d'"
  by (simp add: unique_registrations_def createActivity_tables)

lemma createActivity_settled_consistent:
  assumes "settled_consistent d" and "createActivity now u body file d = Inr (d', k, s)"
  shows "settled_consistent d'"
proof -
  from assms(2) obtain b row where
    d': "d' = d\<lparr>activities := activities d @ [(k, row)], next_aid := Suc k\<rparr>"
    by (elim createActivity_InrE) simp
  show ?thesis
    using assms(1) by (auto simp: d' settled_consistent_def list_all_iff map_of_append split: option.splits)
qed


lemma updateActivity_Inr:
  assumes "updateActivity u a body file d = Inr d'"
  shows "\<exists>b act club. body = Some b \<and> map_of (activities d) a = Some act \<and>
     map_of (clubs d) (a_club act) = Some club \<and>
     (p_role u = Admin \<or> (p_role u = ClubAdmin \<and> c_admin club = p_id u)) \<and> patch_fields b file \<and>
     map_of (clubs d) (a_club (patch_activity b file act)) \<noteq> None \<and>
     d' = d\<lparr>activities := update_rows a (\<lambda>_. if p_role u \<noteq> Admin
                                              then (patch_activity b file act)\<lparr>a_status := Pending\<rparr>
                                              else patch_activity b file act) (activities d)\<rparr>"
  using assms
  by (auto simp: updateActivity_def Let_def split: option.splits if_splits)


lemma wf_db_update_rows:
  "wf_db d \<Longrightarrow> wf_db (d\<lparr>activities := update_rows a f (activities d)\<rparr>)"
  unfolding wf_db_def list_all_iff
  by (simp add: map_option_is_None) blast

lemma updateActivity_InrE:
  assumes "updateActivity u a body file d = Inr d'"
  obtains b act club where "body = Some b" "map_of (activities d) a = Some act"
    "map_of (clubs d) (a_club act) = Some club"
    "p_role u = Admin \<or> (p_role u = ClubAdmin \<and> c_admin club = p_id u)" "patch_fields b file"
    "map_of (clubs d) (a_club (patch_activity b file act)) \<noteq> None"
    "d' = d\<lparr>activities := update_rows a (\<lambda>_. if p_role u \<noteq> Admin
                                            then (patch_activity b file act)\<lparr>a_status := Pending\<rparr>
                                            else patch_activity b file act) (activities d)\<rparr>"
  using updateActivity_Inr [OF assms] by blast

lemma updateActivity_tables:
  "updateActivity u a body file d = Inr d' \<Longrightarrow>
     user_activities d' = user_activities d \<and> users d' = users d \<and> clubs d' = clubs d"
  by (elim updateActivity_InrE) simp

lemma updateActivity_wf_db:
  "wf_db d \<Longrightarrow> updateActivity u a body file d = Inr d' \<Longrightarrow> wf_db d'"
  by (elim updateActivity_InrE) (simp add: wf_db_update_rows)


lemma updateActivity_unique:
  "unique_registrations d \<Longrightarrow> updateActivity u a body file d = Inr d' \<Longrightarrow> unique_registrations d'"
  by (simp add: unique_registrations_def updateActivity_tables)

lemma reviewActivity_Inr:
  "reviewActivity a decision feedback d = Inr d' \<longleftrightarrow>
     (\<exists>s. decision = Some s \<and> (s = ''approved'' \<or> s = ''rejected'') \<and> map_of (activities d) a \<noteq> None \<and>
        d' = d\<lparr>activities := update_rows a (\<lambda>act. act\<lparr>a_status := (if s = ''approved'' then Approved else Rejected),
                    a_feedback := (if js_truthy_str feedback then feedback else None)\<rparr>) (activities d)\<rparr>)"
proof (cases decision)
  case None
  then show ?thesis by (simp add: reviewActivity_def)
next
  case (Some s)
  then show ?thesis
    by (simp add: reviewActivity_def Let_def) blast
qed

lemma reviewActivity_wf_db:
  "wf_db d \<Longrightarrow> reviewActivity a decision feedback d = Inr d' \<Longrightarrow> wf_db d'"
  by (auto simp: reviewActivity_Inr wf_db_update_rows)

lemma reviewActivity_unique:
  "unique_registrations d \<Longrightarrow> reviewActivity a decision feedback d = Inr d' \<Longrightarrow> unique_registrations d'"
  by (auto simp: reviewActivity_Inr unique_registrations_def)

lemma capacity_ok_update_rows_same_max:
  assumes "wf_db d" and "capacity_ok d" and "\<And>act. a_max (f act) = a_max act"
  shows "capacity_ok (d\<lparr>activities := update_rows a f (activities d)\<rparr>)"
  unfolding capacity_ok_iff
proof (intro allI impI)
  fix b act'
  let ?d' = "d\<lparr>activities := update_rows a f (activities d)\<rparr>"
  assume b: "(b, act') \<in> set (activities ?d')"
  have "distinct (keys_of (activities ?d'))"
    using assms(1) by (simp add: wf_db_def)
  from map_of_is_SomeI [OF this [unfolded keys_of_def] b]
  have "map_of (activities ?d') b = Some act'" .
  then obtain act where "map_of (activities d) b = Some act" and "a_max act' = a_max act"
    using assms(3) by (auto split: if_splits)
  then show "participants ?d' b \<le> nat (a_max act')"
    using assms(2) by (auto simp: capacity_ok_iff participants_def dest: map_of_SomeD)
qed

lemma reviewActivity_capacity_ok:
  "wf_db d \<Longrightarrow> capacity_ok d \<Longrightarrow> reviewActivity a decision feedback d = Inr d' \<Longrightarrow> capacity_ok d'"
  by (auto simp: reviewActivity_Inr intro: capacity_ok_update_rows_same_max)


lemma deleteActivity_Inr:
  assumes "deleteActivity u a d = Inr (d', n)"
  shows "\<exists>act club. map_of (activities d) a = Some act \<and> map_of (clubs d) (a_club act) = Some club \<and>
     (p_role u = Admin \<or> c_admin club = p_id u) \<and> n = participants d a \<and>
     d' = deleteActivityRecord a (d\<lparr>user_activities := filter (\<lambda>r. ua_activity r \<noteq> a) (user_activities d)\<rparr>)"
proof -
  obtain act club where act: "map_of (activities d) a = Some act" and
    club: "map_of (clubs d) (a_club act) = Some club" and
    auth: "p_role u = Admin \<or> c_admin club = p_id u" and
    res: "(if participants d a > 0 then
             Inr (deleteActivityRecord a
                    (d\<lparr>user_activities := filter (\<lambda>r. ua_activity r \<noteq> a) (user_activities d)\<rparr>), participants d a)
           else Inr (deleteActivityRecord a d, 0)) = (Inr (d', n) :: api_error + db \<times> nat)"
    using assms by (auto simp: deleteActivity_def Let_def split: option.splits if_splits)
  show ?thesis
  proof (cases "participants d a > 0")
    case True
    with act club auth res show ?thesis by auto
  next
    case False
    then have "filter (\<lambda>r. ua_activity r \<noteq> a) (user_activities d) = user_activities d"
      by (auto simp: participants_def count_rows_zero_iff filter_id_conv)
    with False act club auth res show ?thesis by auto
  qed
qed

lemma deleteActivity_tables:
  "deleteActivity u a d = Inr (d', n) \<Longrightarrow>
     user_activities d' = filter (\<lambda>r. ua_activity r \<noteq> a) (user_activities d) \<and>
     activities d' = AList.delete a (activities d) \<and> users d' = users d \<and> clubs d' = clubs d \<and>
     next_aid d' = next_aid d \<and> next_ua d' = next_ua d"
  by (auto dest!: deleteActivity_Inr simp: deleteActivityRecord_def)

lemma deleteActivity_wf_db:
  assumes "wf_db d" and "deleteActivity u a d = Inr (d', n)"
  shows "wf_db d'"
proof -
  note t = deleteActivity_tables [OF assms(2)]
  have "set (keys_of (AList.delete a (activities d))) \<subseteq> set (keys_of (activities d))"
    by (auto simp: keys_of_def AList.delete_eq)
  with assms(1) t show ?thesis
    by (auto simp: wf_db_def list_all_iff)
qed

lemma deleteActivity_unique:
  "unique_registrations d \<Longrightarrow> deleteActivity u a d = Inr (d', n) \<Longrightarrow> unique_registrations d'"
  by (auto dest!: deleteActivity_tables simp: unique_registrations_def distinct_map_filter)

lemma deleteActivity_capacity_ok:
  assumes "capacity_ok d" and "deleteActivity u a d = Inr (d', n)"
  shows "capacity_ok d'"
proof -
  note t = deleteActivity_tables [OF assms(2)]
  have "participants d' b \<le> participants d b" for b
    using t by (simp add: participants_def count_rows_filter_le)
  with assms(1) t show ?thesis
    by (auto simp: capacity_ok_iff AList.delete_eq intro: order_trans)
qed

lemma deleteActivity_settled_consistent:
  assumes "settled_consistent d" and "deleteActivity u a d = Inr (d', n)"
  shows "settled_consistent d'"
  using assms(1) deleteActivity_tables [OF assms(2)]
  by (auto simp: settled_consistent_def list_all_iff)


text \<open>
  C11: a successful \<open>createActivity\<close> stores the new row under the next
  \<open>AUTO_INCREMENT\<close> id with status \<open>approved\<close> for a system admin and
  \<open>pending\<close> for anyone else, and only a system admin or the club admin of an
  existing club gets that far.
\<close>

theorem createActivity_status_by_role:
  assumes "wf_db d" and "createActivity now u body file d = Inr (d', k, s)"
  shows "k = next_aid d \<and> s = (if p_role u = Admin then Approved else Pending) \<and>
         (\<exists>row club. map_of (activities d') k = Some row \<and> a_status row = s \<and>
            map_of (clubs d) (a_club row) = Some club \<and>
            (p_role u = Admin \<or> (p_role u = ClubAdmin \<and> c_admin club = p_id u)))"
proof -
  from assms(2) obtain b row club where H: "k = next_aid d" "a_status row = s"
    "s = (if p_role u = Admin then Approved else Pending)"
    "map_of (clubs d) (a_club row) = Some club"
    "p_role u = Admin \<or> (p_role u = ClubAdmin \<and> c_admin club = p_id u)"
    "d' = d\<lparr>activities := activities d @ [(k, row)], next_aid := Suc k\<rparr>"
    by (elim createActivity_InrE) blast
  show ?thesis
    using H wf_db_fresh_activity [OF assms(1)] by (auto simp: map_of_append map_add_def)
qed


lemma a_status_patch_activity [simp]: "a_status (patch_activity b file act) = a_status act"
  by (simp add: patch_activity_def)

text \<open>
  C12: an edit that succeeds sends the activity back to review when the caller is
  not a system admin (stored status \<open>pending\<close>, whatever it was) and leaves the
  stored status alone for a system admin.
\<close>

theorem updateActivity_rereview:
  assumes "updateActivity u a body file d = Inr d'" and "map_of (activities d) a = Some act"
  shows "\<exists>act'. map_of (activities d') a = Some act' \<and>
           a_status act' = (if p_role u = Admin then a_status act else Pending)"
  using assms(1)
proof (elim updateActivity_InrE)
  fix b act0 club
  assume "map_of (activities d) a = Some act0"
    and d': "d' = d\<lparr>activities := update_rows a (\<lambda>_. if p_role u \<noteq> Admin
                                            then (patch_activity b file act0)\<lparr>a_status := Pending\<rparr>
                                            else patch_activity b file act0) (activities d)\<rparr>"
  with assms(2) have "act0 = act" by simp
  with d' assms(2) show ?thesis by simp
qed

text \<open>
  C13: \<open>updateActivity\<close> does not keep the capacity bound: an admin may lower
  \<open>max_participants\<close> below the number of registrations already stored.
\<close>

theorem updateActivity_breaks_capacity:
  "capacity_ok fx_db_AB \<and>
   (\<exists>d'. updateActivity fx_admin 1 (Some fx_max_body) None fx_db_AB = Inr d' \<and> \<not> capacity_ok d')"
proof
  show "capacity_ok fx_db_AB"
    by (simp add: capacity_ok_def fixture_defs participants_def)
  show "\<exists>d'. updateActivity fx_admin 1 (Some fx_max_body) None fx_db_AB = Inr d' \<and> \<not> capacity_ok d'"
    by (simp add: updateActivity_def fixture_defs fx_max_body_def patch_fields_def patch_activity_def
        patch_str_def image_path_def update_rows_def capacity_ok_def participants_def)
qed

text \<open>
  C14: a review approves an existing activity whatever its stored status, so
  \<open>completed\<close> and \<open>rejected\<close> activities can be moved back to \<open>approved\<close>
  (the specification allows review of pending activities only).
\<close>

theorem reviewActivity_any_status:
  assumes "map_of (activities d) a = Some act"
  shows "\<exists>d'. reviewActivity a (Some ''approved'') fb d = Inr d' \<and>
           map_of (activities d') a = Some (act\<lparr>a_status := Approved,
             a_feedback := (if js_truthy_str fb then fb else None)\<rparr>)"
  using assms by (simp add: reviewActivity_def)

text \<open>
  C15: a successful delete removes exactly the activity's registrations and the
  activity itself, reports how many registrations it removed, leaves the counts of
  all other activities unchanged, and was requested by a system admin or the
  club's admin.
\<close>

theorem deleteActivity_cascade:
  assumes "deleteActivity u a d = Inr (d', n)"
  shows "n = participants d a \<and> participants d' a = 0 \<and> map_of (activities d') a = None \<and>
         user_activities d' = filter (\<lambda>r. ua_activity r \<noteq> a) (user_activities d) \<and>
         (\<forall>b. b \<noteq> a \<longrightarrow> participants d' b = participants d b) \<and>
         (\<exists>act club. map_of (activities d) a = Some act \<and> map_of (clubs d) (a_club act) = Some club \<and>
            (p_role u = Admin \<or> c_admin club = p_id u))"
proof -
  from deleteActivity_Inr [OF assms] obtain act club where
    H: "map_of (activities d) a = Some act" "map_of (clubs d) (a_club act) = Some club"
       "p_role u = Admin \<or> c_admin club = p_id u" "n = participants d a"
    by blast
  note t = deleteActivity_tables [OF assms]
  have "participants d' a = 0"
    using t by (simp add: participants_def count_rows_zero_iff)
  moreover have "participants d' b = participants d b" if "b \<noteq> a" for b
    using t that by (simp add: participants_def count_rows_filter) (metis (mono_tags, lifting))
  ultimately show ?thesis
    using H t by auto
qed

section \<open>Witnesses\<close>

lemma createActivity_status_by_role_witness:
  "\<exists>d'. createActivity 0 fx_club_admin (Some fx_body) None fx_db = Inr (d', 2, Pending) \<and>
     map_of (activities d') 2 \<noteq> None"
proof -
  have wf: "wf_db fx_db" by (simp add: wf_db_def fixture_defs keys_of_def)
  obtain d' where c: "createActivity 0 fx_club_admin (Some fx_body) None fx_db = Inr (d', 2, Pending)"
    by (simp add: createActivity_def fixture_defs fx_body_def)
  from createActivity_status_by_role [OF wf c] c show ?thesis by auto
qed

lemma updateActivity_rereview_witness:
  "\<exists>d' act'. updateActivity fx_club_admin 1 (Some fx_max_body) None fx_db = Inr d' \<and>
     map_of (activities d') 1 = Some act' \<and> a_status act' = Pending"
proof -
  obtain d' where c: "updateActivity fx_club_admin 1 (Some fx_max_body) None fx_db = Inr d'"
    by (simp add: updateActivity_def fixture_defs fx_max_body_def patch_fields_def patch_activity_def
        patch_str_def image_path_def)
  have act: "map_of (activities fx_db) 1 = Some fx_activity" by (simp add: fixture_defs)
  from updateActivity_rereview [OF c act] c show ?thesis by (auto simp: fixture_defs)
qed

lemma reviewActivity_any_status_witness:
  "\<exists>d'. reviewActivity 1 (Some ''approved'') None
           (fx_db\<lparr>activities := [(1, fx_activity\<lparr>a_status := Completed\<rparr>)]\<rparr>) = Inr d' \<and>
         map_of (activities d') 1 = Some (fx_activity\<lparr>a_status := Approved, a_feedback := None\<rparr>)"
proof -
  have "map_of (activities (fx_db\<lparr>activities := [(1, fx_activity\<lparr>a_status := Completed\<rparr>)]\<rparr>)) 1 =
        Some (fx_activity\<lparr>a_status := Completed\<rparr>)" by simp
  from reviewActivity_any_status [OF this, of None] show ?thesis by simp
qed

lemma deleteActivity_cascade_witness:
  "\<exists>d'. deleteActivity fx_club_admin 1 fx_db_AB = Inr (d', 2) \<and> user_activities d' = [] \<and>
     map_of (activities d') 1 = None"
proof -
  obtain d' where c: "deleteActivity fx_club_admin 1 fx_db_AB = Inr (d', 2)"
    by (simp add: deleteActivity_def fixture_defs participants_def deleteActivityRecord_def)
  from deleteActivity_cascade [OF c] c show ?thesis
    by (auto simp: fixture_defs)
qed

end
