(* ===== verification/Auth.thy ===== *)
theory Auth
  imports Db
begin

text \<open>
  The middleware of src/liantuanfen/server/middleware/auth.js. \<open>authenticateToken\<close>
  (alias \<open>verifyToken\<close>) decodes the request's JWT into \<open>req.user\<close> or answers
  401; the signature check is a library call, so a request carries the decoded
  \<open>principal\<close> or \<open>None\<close>. The role guards read the role stored in the
  token, which is the user's role at login, not the current row of \<open>users\<close>.
\<close>

text \<open>\<open>String.prototype.split\<close> on one separator character: the pieces between separators.\<close>

fun split_on :: "char \<Rightarrow> string \<Rightarrow> string list" where
  "split_on c [] = [[]]"
| "split_on c (x # xs) = (let ws = split_on c xs in if x = c then [] # ws else (x # hd ws) # tl ws)"

text \<open>
  \<open>const token = authHeader && authHeader.split(' ')[1]\<close>: the second piece of the
  \<open>Authorization\<close> header, if the header is truthy and has one.
\<close>

definition bearer_token :: "string option \<Rightarrow> string option" where
  "bearer_token h =
     (case h of None \<Rightarrow> None
      | Some s \<Rightarrow> if s = [] then None else (case split_on CHR '' '' s of _ # t # _ \<Rightarrow> Some t | _ \<Rightarrow> None))"

text \<open>
  \<open>authenticateToken\<close>, lines 6--22: no truthy token is a 401, and so is a token
  \<open>jwt.verify\<close> rejects (both answer \<open>Unauthorized\<close> here; only the message
  differs). \<open>verify\<close> is the library's check of signature and expiry, a parameter.
\<close>

definition authenticateToken :: "(string \<Rightarrow> principal option) \<Rightarrow> string option \<Rightarrow> api_error + principal" where
  "authenticateToken verify h =
     (case bearer_token h of
        None \<Rightarrow> Inl Unauthorized
      | Some t \<Rightarrow> if t = [] then Inl Unauthorized
                  else (case verify t of None \<Rightarrow> Inl Unauthorized | Some p \<Rightarrow> Inr p))"

text \<open>\<open>isAdmin\<close>, auth.js lines 28--34.\<close>

definition isAdmin :: "principal \<Rightarrow> bool" where
  "isAdmin u = (p_role u = Admin)"

text \<open>\<open>isClubAdminOrAdmin\<close>, auth.js lines 46--52.\<close>

definition isClubAdminOrAdmin :: "principal \<Rightarrow> bool" where
  "isClubAdminOrAdmin u = (p_role u = ClubAdmin \<or> p_role u = Admin)"

end
