(* ===== verification/Clubs.thy ===== *)
theory Clubs
  imports Lifecycle Auth "HOL-Library.List_Lexorder" "HOL-Library.Char_ord" "HOL-Library.Product_Lexorder"
begin

text \<open>
  Club management, src/liantuanfen/server/controllers/clubController.js: creating,
  listing, editing, joining, leaving and deleting clubs, and changing a member's
  role. The club's \<open>admin_id\<close> is what authorizes the creation, editing,
  settlement and deletion of its activities, so these handlers decide who controls
  the activity engine. Each handler is a function to an error response or the new
  database, its callbacks' guards in the code's order; the invariants are the
  schema's constraints on clubs and memberships and the one-president rule the
  handlers are written to keep.
\<close>

section \<open>Helpers\<close>

text \<open>\<open>UPDATE users SET role = ? WHERE id = ?\<close>.\<close>

definition set_user_role :: "uid \<Rightarrow> role \<Rightarrow> db \<Rightarrow> db" where
  "set_user_role v r d = d\<lparr>users := update_rows v (\<lambda>row. row\<lparr>u_role := r\<rparr>) (users d)\<rparr>"

text \<open>\<open>'/uploads/' + req.file.filename\<close>, the stored logo path.\<close>

definition logo_path :: "string option \<Rightarrow> string option" where
  "logo_path f = map_option (\<lambda>n. ''/uploads/'' @ n) f"

text \<open>
  \<open>clubs.name\<close> is \<open>UNIQUE\<close>: writing a name that another club row holds fails
  with \<open>ER_DUP_ENTRY\<close>. \<open>self\<close> is the row being updated, if any.
\<close>

definition club_name_taken :: "db \<Rightarrow> string \<Rightarrow> cid option \<Rightarrow> bool" where
  "club_name_taken d n self = list_ex (\<lambda>(k, c). c_name c = n \<and> Some k \<noteq> self) (clubs d)"

text \<open>\<open>SELECT * FROM club_members WHERE club_id = ? AND user_id = ?\<close> is non-empty.\<close>

definition is_member :: "db \<Rightarrow> uid \<Rightarrow> cid \<Rightarrow> bool" where
  "is_member d v c = list_ex (\<lambda>m. m_club m = c \<and> m_user m = v) (club_members d)"

text \<open>\<open>SELECT COUNT(*) FROM club_members WHERE club_id = c.id\<close>.\<close>

definition member_count :: "db \<Rightarrow> cid \<Rightarrow> nat" where
  "member_count d c = count_rows (\<lambda>m. m_club m = c) (club_members d)"

section \<open>createClub (lines 12--75)\<close>

text \<open>
  Name and description must be truthy. The \<open>INSERT\<close> into \<open>clubs\<close> fails on a
  duplicate name (400) or on the foreign key of \<open>admin_id\<close> (500); then the caller
  becomes the club's \<open>president\<close>, and a caller who is not a system admin gets the
  stored role \<open>club_admin\<close> (an error of that last statement is only logged; it
  cannot occur once the caller's row exists). The principal's own role, carried by
  its token, is not changed.
\<close>

definition createClub ::
  "time \<Rightarrow> principal \<Rightarrow> string option \<Rightarrow> string option \<Rightarrow> string option \<Rightarrow> db \<Rightarrow> api_error + db \<times> cid" where
  "createClub now u name descr file d =
     (case (name, descr) of
        (Some n, Some ds) \<Rightarrow>
          if n = [] \<or> ds = [] then Inl MissingClubFields
          else if club_name_taken d n None then Inl ClubNameExists
          else if map_of (users d) (p_id u) = None then Inl DbError
          else
            (let k = next_cid d;
                 d1 = d\<lparr>clubs := clubs d @ [(k, \<lparr>c_name = n, c_description = ds,
                                                c_logo = logo_path file, c_admin = p_id u\<rparr>)],
                        next_cid := Suc k\<rparr>;
                 d2 = d1\<lparr>club_members := club_members d1 @
                           [\<lparr>m_user = p_id u, m_club = k, m_role = President, m_joined = now\<rparr>]\<rparr>
             in Inr (if p_role u \<noteq> Admin then set_user_role (p_id u) ClubAdmin d2 else d2, k))
      | _ \<Rightarrow> Inl MissingClubFields)"

section \<open>Queries: getAllClubs (lines 78--126), getClubById (lines 129--187)\<close>

text \<open>
  Clubs by name, each with its member count and, for a signed-in caller, whether
  the caller is a member. The model orders names by code points; MySQL orders them
  by the column's collation.
\<close>

definition getAllClubs :: "principal option \<Rightarrow> db \<Rightarrow> (cid \<times> club_row \<times> nat \<times> bool) list" where
  "getAllClubs pu d =
     map (\<lambda>(k, c). (k, c, member_count d k,
                     (case pu of Some u \<Rightarrow> is_member d (p_id u) k | None \<Rightarrow> False)))
       (sort_key (\<lambda>(k, c). c_name c) (clubs d))"

text \<open>The order of the member list: president, officer, member, then newest first.\<close>

primrec role_rank :: "member_role \<Rightarrow> nat" where
  "role_rank President = 1"
| "role_rank Officer = 2"
| "role_rank Member = 3"

text \<open>
  The club with its member count, its members joined with their user rows, and
  whether the caller is among them; 404 for an unknown id.
\<close>

definition getClubById ::
  "principal option \<Rightarrow> cid \<Rightarrow> db \<Rightarrow>
   api_error + (club_row \<times> nat \<times> (uid \<times> string \<times> member_role) list \<times> bool)" where
  "getClubById pu c d =
     (case map_of (clubs d) c of
        None \<Rightarrow> Inl ClubNotFound
      | Some club \<Rightarrow>
          (let ms = map (\<lambda>m. (m_user m, case map_of (users d) (m_user m) of
                                            Some row \<Rightarrow> u_name row | None \<Rightarrow> [], m_role m))
                     (sort_key (\<lambda>m. (role_rank (m_role m), - m_joined m))
                        (filter (\<lambda>m. m_club m = c \<and> map_of (users d) (m_user m) \<noteq> None) (club_members d)))
           in Inr (club, member_count d c, ms,
                   (case pu of Some u \<Rightarrow> list_ex (\<lambda>(v, _, _). v = p_id u) ms | None \<Rightarrow> False))))"

section \<open>updateClub (lines 190--259)\<close>

text \<open>
  The club must exist and the caller be its \<open>admin_id\<close> or a system admin; truthy
  name and description and an uploaded logo are written; nothing to write is a
  400; a name another club holds is a 400.
\<close>

text \<open>The \<open>SET\<close> list of lines 217--233: truthy name and description, an uploaded logo.\<close>

definition patch_club :: "string option \<Rightarrow> string option \<Rightarrow> string option \<Rightarrow> club_row \<Rightarrow> club_row" where
  "patch_club name descr file club =
     club\<lparr>c_name := patch_str name (c_name club),
          c_description := patch_str descr (c_description club),
          c_logo := (case logo_path file of Some p \<Rightarrow> Some p | None \<Rightarrow> c_logo club)\<rparr>"

definition updateClub ::
  "principal \<Rightarrow> cid \<Rightarrow> string option \<Rightarrow> string option \<Rightarrow> string option \<Rightarrow> db \<Rightarrow> api_error + db" where
  "updateClub u c name descr file d =
     (case map_of (clubs d) c of
        None \<Rightarrow> Inl ClubNotFound
      | Some club \<Rightarrow>
          if c_admin club \<noteq> p_id u \<and> p_role u \<noteq> Admin then Inl ClubUpdateForbidden
          else if \<not> js_truthy_str name \<and> \<not> js_truthy_str descr \<and> logo_path file = None
          then Inl NoFieldsToUpdate
          else
            (let club' = patch_club name descr file club
             in if js_truthy_str name \<and> club_name_taken d (c_name club') (Some c) then Inl ClubNameExists
                else Inr (d\<lparr>clubs := update_rows c (\<lambda>_. club') (clubs d)\<rparr>)))"

section \<open>joinClub (lines 262--351) and leaveClub (lines 354--435)\<close>

text \<open>
  Already a member is a 400, an unknown club a 404; the new row has role
  \<open>member\<close> (its foreign key on \<open>user_id\<close> fails with 500 for a deleted user).
  The club and member list sent back are read-only.
\<close>

definition joinClub :: "time \<Rightarrow> principal \<Rightarrow> cid \<Rightarrow> db \<Rightarrow> api_error + db" where
  "joinClub now u c d =
     (if is_member d (p_id u) c then Inl AlreadyMember
      else if map_of (clubs d) c = None then Inl ClubNotFound
      else if map_of (users d) (p_id u) = None then Inl DbError
      else Inr (d\<lparr>club_members := club_members d @
                   [\<lparr>m_user = p_id u, m_club = c, m_role = Member, m_joined = now\<rparr>]\<rparr>))"

text \<open>
  The caller's membership rows joined with the club; none is a 400; the role of the
  first (table order, as the query has no \<open>ORDER BY\<close>) being \<open>president\<close> is a
  400; otherwise every row of the pair is deleted.
\<close>

definition leaveClub :: "principal \<Rightarrow> cid \<Rightarrow> db \<Rightarrow> api_error + db" where
  "leaveClub u c d =
     (case find (\<lambda>m. m_club m = c \<and> m_user m = p_id u) (club_members d) of
        None \<Rightarrow> Inl NotMember
      | Some m \<Rightarrow>
          if map_of (clubs d) c = None then Inl NotMember
          else if m_role m = President then Inl PresidentCannotLeave
          else Inr (d\<lparr>club_members := filter (\<lambda>m. \<not> (m_club m = c \<and> m_user m = p_id u)) (club_members d)\<rparr>))"

section \<open>updateMemberRole (lines 438--533)\<close>

text \<open>The role string of the request body: one of the three \<open>ENUM\<close> values.\<close>

definition parse_member_role :: "string \<Rightarrow> member_role option" where
  "parse_member_role s =
     (if s = ''member'' then Some Member else if s = ''officer'' then Some Officer
      else if s = ''president'' then Some President else None)"

text \<open>\<open>UPDATE club_members SET role = ? WHERE user_id = ? AND club_id = ?\<close>.\<close>

definition set_member_role :: "uid \<Rightarrow> cid \<Rightarrow> member_role \<Rightarrow> member_row list \<Rightarrow> member_row list" where
  "set_member_role v c r ms = map (\<lambda>m. if m_user m = v \<and> m_club m = c then m\<lparr>m_role := r\<rparr> else m) ms"

text \<open>
  The statements of a transfer of the presidency to \<open>t\<close>, after the role update:
  \<open>UPDATE clubs SET admin_id = t\<close> (its foreign key fails when \<open>t\<close> has no user
  row, and then nothing more is done); the caller's own membership row of the club
  becomes \<open>officer\<close> unless the caller is \<open>t\<close>; a \<open>student\<close> \<open>t\<close> gets the
  stored role \<open>club_admin\<close>. Errors of these statements do not change the
  response, which the handler has already sent.
\<close>

definition transfer_presidency :: "principal \<Rightarrow> cid \<Rightarrow> uid \<Rightarrow> db \<Rightarrow> db" where
  "transfer_presidency u c t d =
     (case map_of (users d) t of
        None \<Rightarrow> d
      | Some trow \<Rightarrow>
          (let d1 = d\<lparr>clubs := update_rows c (\<lambda>cl. cl\<lparr>c_admin := t\<rparr>) (clubs d)\<rparr>;
               d2 = d1\<lparr>club_members := map (\<lambda>m. if m_club m = c \<and> m_user m = p_id u \<and> p_id u \<noteq> t
                                                 then m\<lparr>m_role := Officer\<rparr> else m) (club_members d1)\<rparr>
           in if u_role trow = Student then set_user_role t ClubAdmin d2 else d2))"

text \<open>
  The target id must be truthy and the role one of the three values (400). The
  club, left-joined with the caller's membership, must exist (404); the caller must
  be a president of the club (its first membership row), its \<open>admin_id\<close>, or a
  system admin (403); the role update must match a row (404; \<open>affectedRows\<close>
  counts matched rows under the driver's default \<open>FOUND_ROWS\<close> flag). A new
  president then takes over the club.
\<close>

definition updateMemberRole ::
  "principal \<Rightarrow> cid \<Rightarrow> uid option \<Rightarrow> string option \<Rightarrow> db \<Rightarrow> api_error + db" where
  "updateMemberRole u c target role d =
     (case (target, role) of
        (Some t, Some rs) \<Rightarrow>
          (case parse_member_role rs of
             None \<Rightarrow> Inl InvalidMemberRole
           | Some r \<Rightarrow>
               if t = 0 then Inl InvalidMemberRole
               else
                 (case map_of (clubs d) c of
                    None \<Rightarrow> Inl ClubNotFound
                  | Some club \<Rightarrow>
                      (let caller = find (\<lambda>m. m_club m = c \<and> m_user m = p_id u) (club_members d)
                       in if map_option m_role caller \<noteq> Some President \<and> p_id u \<noteq> c_admin club \<and>
                             p_role u \<noteq> Admin
                          then Inl MemberRoleForbidden
                          else if \<not> is_member d t c then Inl MemberNotFound
                          else
                            (let d1 = d\<lparr>club_members := set_member_role t c r (club_members d)\<rparr>
                             in Inr (if r = President then transfer_presidency u c t d1 else d1)))))
      | _ \<Rightarrow> Inl InvalidMemberRole)"

section \<open>deleteClub (lines 536--610)\<close>

text \<open>
  The club must exist and the caller be its \<open>admin_id\<close> or a system admin; a club
  with activities is refused (400); otherwise its memberships, then the club, are
  deleted, and the response reports the member count read before.
\<close>

definition deleteClub :: "principal \<Rightarrow> cid \<Rightarrow> db \<Rightarrow> api_error + db \<times> nat" where
  "deleteClub u c d =
     (case map_of (clubs d) c of
        None \<Rightarrow> Inl ClubNotFound
      | Some club \<Rightarrow>
          if c_admin club \<noteq> p_id u \<and> p_role u \<noteq> Admin then Inl ClubDeleteForbidden
          else if list_ex (\<lambda>(k, act). a_club act = c) (activities d) then Inl ClubHasActivities
          else Inr (d\<lparr>club_members := filter (\<lambda>m. m_club m \<noteq> c) (club_members d),
                      clubs := AList.delete c (clubs d)\<rparr>, member_count d c))"

declare createClub_def [handler_defs] updateClub_def [handler_defs] joinClub_def [handler_defs]
  leaveClub_def [handler_defs] updateMemberRole_def [handler_defs] deleteClub_def [handler_defs]

section \<open>Invariants\<close>

text \<open>
  The schema's constraints on clubs and memberships: distinct club names
  (\<open>UNIQUE\<close>), an existing user as each club's \<open>admin_id\<close>, existing user and
  club for each membership row, an existing club for each activity (the foreign
  keys), and a fresh \<open>AUTO_INCREMENT\<close> counter for clubs.
\<close>

definition wf_clubs :: "db \<Rightarrow> bool" where
  "wf_clubs d =
     (distinct (map (\<lambda>(k, c). c_name c) (clubs d)) \<and>
      list_all (\<lambda>k. k < next_cid d) (keys_of (clubs d)) \<and>
      list_all (\<lambda>(k, c). map_of (users d) (c_admin c) \<noteq> None) (clubs d) \<and>
      list_all (\<lambda>m. map_of (users d) (m_user m) \<noteq> None \<and> map_of (clubs d) (m_club m) \<noteq> None)
        (club_members d) \<and>
      list_all (\<lambda>(k, act). map_of (clubs d) (a_club act) \<noteq> None) (activities d))"

text \<open>At most one membership row per (user, club) pair, which \<open>joinClub\<close> checks.\<close>

definition unique_members :: "db \<Rightarrow> bool" where
  "unique_members d = distinct (map (\<lambda>m. (m_user m, m_club m)) (club_members d))"

text \<open>
  The presidency rule the handlers are written for: every club has exactly one
  \<open>president\<close> row, and it is the row of the club's \<open>admin_id\<close>.
\<close>

definition president_ok :: "db \<Rightarrow> bool" where
  "president_ok d =
     list_all (\<lambda>(k, c). count_rows (\<lambda>m. m_club m = k \<and> m_role m = President) (club_members d) = 1 \<and>
                        list_all (\<lambda>m. m_club m = k \<and> m_role m = President \<longrightarrow> m_user m = c_admin c)
                          (club_members d))
       (clubs d)"

section \<open>Routes\<close>

text \<open>The state-changing routes of routes/clubRoutes.js with their arguments.\<close>

datatype club_request =
    CreateClub time "principal option" "string option" "string option" "string option"
  | UpdateClub "principal option" cid "string option" "string option" "string option"
  | JoinClub time "principal option" cid
  | LeaveClub "principal option" cid
  | UpdateMemberRole "principal option" cid "uid option" "string option"
  | DeleteClub "principal option" cid

text \<open>
  Lines 31--52: \<open>verifyToken\<close> on every state-changing route (401 without a
  principal); only the delete route adds \<open>isClubAdminOrAdmin\<close>. Creating a club
  needs no role at all.
\<close>

fun club_route :: "club_request \<Rightarrow> db \<Rightarrow> api_error + db" where
  "club_route (CreateClub now pu n ds file) d =
     (case pu of None \<Rightarrow> Inl Unauthorized | Some u \<Rightarrow> map_sum id fst (createClub now u n ds file d))"
| "club_route (UpdateClub pu c n ds file) d =
     (case pu of None \<Rightarrow> Inl Unauthorized | Some u \<Rightarrow> updateClub u c n ds file d)"
| "club_route (JoinClub now pu c) d =
     (case pu of None \<Rightarrow> Inl Unauthorized | Some u \<Rightarrow> joinClub now u c d)"
| "club_route (LeaveClub pu c) d =
     (case pu of None \<Rightarrow> Inl Unauthorized | Some u \<Rightarrow> leaveClub u c d)"
| "club_route (UpdateMemberRole pu c t r) d =
     (case pu of None \<Rightarrow> Inl Unauthorized | Some u \<Rightarrow> updateMemberRole u c t r d)"
| "club_route (DeleteClub pu c) d =
     (case pu of None \<Rightarrow> Inl Unauthorized
      | Some u \<Rightarrow> if \<not> isClubAdminOrAdmin u then Inl ClubAdminRequired
                  else map_sum id fst (deleteClub u c d))"

definition is_role_change :: "club_request \<Rightarrow> bool" where
  "is_role_change r = (case r of UpdateMemberRole _ _ _ _ \<Rightarrow> True | _ \<Rightarrow> False)"

text \<open>
  Club 1 of the activity fixture with its memberships: user 9, its admin, is the
  president; student 1 is a member.
\<close>

definition fx_club_db :: db where
  "fx_club_db = fx_db\<lparr>club_members := [\<lparr>m_user = 9, m_club = 1, m_role = President, m_joined = 0\<rparr>,
                                        \<lparr>m_user = 1, m_club = 1, m_role = Member, m_joined = 1\<rparr>]\<rparr>"

section \<open>Behaviour of the club handlers\<close>

lemma set_user_role_tables [simp]:
  "clubs (set_user_role v r d) = clubs d"
  "club_members (set_user_role v r d) = club_members d"
  "activities (set_user_role v r d) = activities d"
  "user_activities (set_user_role v r d) = user_activities d"
  "keys_of (users (set_user_role v r d)) = keys_of (users d)"
  "next_cid (set_user_role v r d) = next_cid d"
  "next_aid (set_user_role v r d) = next_aid d"
  "next_ua (set_user_role v r d) = next_ua d"
  by (simp_all add: set_user_role_def)

lemma map_of_set_user_role:
  "map_of (users (set_user_role v r d)) j =
     (if j = v then map_option (\<lambda>row. row\<lparr>u_role := r\<rparr>) (map_of (users d) j) else map_of (users d) j)"
  by (simp add: set_user_role_def)

lemma map_of_set_user_role_None [simp]:
  "map_of (users (set_user_role v r d)) j = None \<longleftrightarrow> map_of (users d) j = None"
  by (simp add: map_of_set_user_role)

lemma set_user_role_invariants [simp]:
  "wf_db (set_user_role v r d) = wf_db d"
  "wf_clubs (set_user_role v r d) = wf_clubs d"
  "unique_members (set_user_role v r d) = unique_members d"
  "president_ok (set_user_role v r d) = president_ok d"
  "capacity_ok (set_user_role v r d) = capacity_ok d"
  "unique_registrations (set_user_role v r d) = unique_registrations d"
  "settled_consistent (set_user_role v r d) = settled_consistent d"
  by (simp_all add: wf_db_def wf_clubs_def unique_members_def president_ok_def capacity_ok_def
      participants_def unique_registrations_def settled_consistent_def)

lemma createClub_Inr:
  assumes "createClub now u name descr file d = Inr (d', k)"
  obtains n ds d2 where "name = Some n" "descr = Some ds" "n \<noteq> []" "ds \<noteq> []"
    "\<not> club_name_taken d n None" "map_of (users d) (p_id u) \<noteq> None" "k = next_cid d"
    "d2 = d\<lparr>clubs := clubs d @ [(k, \<lparr>c_name = n, c_description = ds,
                                   c_logo = logo_path file, c_admin = p_id u\<rparr>)],
           next_cid := Suc k,
           club_members := club_members d @ [\<lparr>m_user = p_id u, m_club = k, m_role = President, m_joined = now\<rparr>]\<rparr>"
    "d' = (if p_role u \<noteq> Admin then set_user_role (p_id u) ClubAdmin d2 else d2)"
  using assms by (cases name; cases descr) (auto simp: createClub_def Let_def split: if_splits)

lemma fresh_club_key:
  "wf_clubs d \<Longrightarrow> map_of (clubs d) (next_cid d) = None"
  by (auto simp: wf_clubs_def keys_of_def list_all_iff map_of_eq_None_iff)

lemma wf_clubs_member:
  "wf_clubs d \<Longrightarrow> m \<in> set (club_members d) \<Longrightarrow>
     map_of (users d) (m_user m) \<noteq> None \<and> map_of (clubs d) (m_club m) \<noteq> None"
  by (simp add: wf_clubs_def list_all_iff)

lemma member_club_not_fresh:
  "wf_clubs d \<Longrightarrow> m \<in> set (club_members d) \<Longrightarrow> m_club m \<noteq> next_cid d"
  by (metis fresh_club_key wf_clubs_member)

lemma club_key_not_fresh:
  "wf_clubs d \<Longrightarrow> (j, c) \<in> set (clubs d) \<Longrightarrow> j \<noteq> next_cid d"
  by (auto simp: wf_clubs_def list_all_iff keys_of_def)

lemma president_ok_iff:
  "president_ok d \<longleftrightarrow>
     (\<forall>k c. (k, c) \<in> set (clubs d) \<longrightarrow>
        count_rows (\<lambda>m. m_club m = k \<and> m_role m = President) (club_members d) = 1 \<and>
        (\<forall>m \<in> set (club_members d). m_club m = k \<and> m_role m = President \<longrightarrow> m_user m = c_admin c))"
  by (auto simp: president_ok_def list_all_iff)

lemma wf_db_club_key:
  "wf_db d \<Longrightarrow> (c, club) \<in> set (clubs d) \<Longrightarrow> map_of (clubs d) c = Some club"
  by (simp add: wf_db_def keys_of_def)

lemma president_ok_add_club:
  assumes "president_ok d" and "\<forall>m \<in> set (club_members d). m_club m \<noteq> k"
    and "\<forall>(j, c) \<in> set (clubs d). j \<noteq> k"
  shows "president_ok (d\<lparr>clubs := clubs d @ [(k, c)], next_cid := n,
            club_members := club_members d @ [\<lparr>m_user = c_admin c, m_club = k, m_role = President, m_joined = t\<rparr>]\<rparr>)"
proof -
  let ?m = "\<lparr>m_user = c_admin c, m_club = k, m_role = President, m_joined = t\<rparr>"
  have old: "list_all (\<lambda>(j, c'). count_rows (\<lambda>m. m_club m = j \<and> m_role m = President) (club_members d @ [?m]) = 1 \<and>
               list_all (\<lambda>m. m_club m = j \<and> m_role m = President \<longrightarrow> m_user m = c_admin c')
                 (club_members d @ [?m])) (clubs d)"
    using assms(1,3) by (fastforce simp: president_ok_def list_all_iff)
  have new: "count_rows (\<lambda>m. m_club m = k \<and> m_role m = President) (club_members d) = 0"
    using assms(2) by (auto simp: count_rows_zero_iff)
  show ?thesis
    using old new assms(2) by (auto simp: president_ok_def list_all_iff)
qed

lemma wf_clubs_iff:
  "wf_clubs d \<longleftrightarrow>
     distinct (map (\<lambda>(k, c). c_name c) (clubs d)) \<and>
     (\<forall>k \<in> set (keys_of (clubs d)). k < next_cid d) \<and>
     (\<forall>k c. (k, c) \<in> set (clubs d) \<longrightarrow> map_of (users d) (c_admin c) \<noteq> None) \<and>
     (\<forall>m \<in> set (club_members d). map_of (users d) (m_user m) \<noteq> None \<and> map_of (clubs d) (m_club m) \<noteq> None) \<and>
     (\<forall>k act. (k, act) \<in> set (activities d) \<longrightarrow> map_of (clubs d) (a_club act) \<noteq> None)"
  by (auto simp: wf_clubs_def list_all_iff)

lemma createClub_invariants:
  assumes "wf_db d" "wf_clubs d" "unique_members d" "president_ok d"
    and "createClub now u name descr file d = Inr (d', k)"
  shows "wf_db d' \<and> wf_clubs d' \<and> unique_members d' \<and> president_ok d'"
proof -
  obtain n ds d2 where H: "\<not> club_name_taken d n None" "map_of (users d) (p_id u) \<noteq> None" "k = next_cid d"
    and d2: "d2 = d\<lparr>clubs := clubs d @ [(k, \<lparr>c_name = n, c_description = ds,
                                   c_logo = logo_path file, c_admin = p_id u\<rparr>)],
           next_cid := Suc k,
           club_members := club_members d @ [\<lparr>m_user = p_id u, m_club = k, m_role = President, m_joined = now\<rparr>]\<rparr>"
    and d': "d' = (if p_role u \<noteq> Admin then set_user_role (p_id u) ClubAdmin d2 else d2)"
    using assms(5) by (rule createClub_Inr)
  note fresh = fresh_club_key [OF assms(2)] member_club_not_fresh [OF assms(2)] club_key_not_fresh [OF assms(2)]
  have "wf_db d2"
    using assms(1) fresh(1) H(3) by (auto simp: d2 wf_db_def keys_of_def map_of_eq_None_iff)
  moreover have "wf_clubs d2"
    using assms(2) H(1,2,3) unfolding wf_clubs_iff
    by (auto simp: d2 keys_of_def club_name_taken_def list_ex_iff map_of_append_not_None)
  moreover have "unique_members d2"
    using assms(3) H(3) fresh(2) by (fastforce simp: d2 unique_members_def)
  moreover have "president_ok d2"
  proof -
    have m: "\<forall>m \<in> set (club_members d). m_club m \<noteq> k" and c: "\<forall>(j, c) \<in> set (clubs d). j \<noteq> k"
      using fresh(2,3) H(3) by auto
    show ?thesis
      using president_ok_add_club [OF assms(4) m c, where c = "\<lparr>c_name = n, c_description = ds,
                                   c_logo = logo_path file, c_admin = p_id u\<rparr>" and t = now and n = "Suc k"]
      by (simp add: d2)
  qed
  ultimately show ?thesis by (simp add: d')
qed

lemma c_admin_patch_club [simp]: "c_admin (patch_club name descr file club) = c_admin club"
  by (simp add: patch_club_def)

lemma updateClub_Inr:
  assumes "updateClub u c name descr file d = Inr d'"
  obtains club where "map_of (clubs d) c = Some club" "c_admin club = p_id u \<or> p_role u = Admin"
    "\<not> (js_truthy_str name \<and> club_name_taken d (c_name (patch_club name descr file club)) (Some c))"
    "d' = d\<lparr>clubs := update_rows c (\<lambda>_. patch_club name descr file club) (clubs d)\<rparr>"
  using assms by (auto simp: updateClub_def Let_def split: option.splits if_splits)

lemma wf_clubs_name_other:
  assumes "wf_clubs d" "wf_db d" "map_of (clubs d) c = Some club" "(j, v) \<in> set (clubs d)" "j \<noteq> c"
  shows "c_name v \<noteq> c_name club"
proof -
  have "(c, club) \<in> set (clubs d)" using assms(3) by (rule map_of_SomeD)
  with assms show ?thesis
    by (auto simp: wf_clubs_def wf_db_def keys_of_def distinct_map inj_on_def)
qed

lemma updateClub_invariants:
  assumes "wf_db d" "wf_clubs d" "unique_members d" "president_ok d"
    and "updateClub u c name descr file d = Inr d'"
  shows "wf_db d' \<and> wf_clubs d' \<and> unique_members d' \<and> president_ok d'"
proof -
  obtain club where c: "map_of (clubs d) c = Some club"
    and fresh: "\<not> (js_truthy_str name \<and> club_name_taken d (c_name (patch_club name descr file club)) (Some c))"
    and d': "d' = d\<lparr>clubs := update_rows c (\<lambda>_. patch_club name descr file club) (clubs d)\<rparr>"
    using assms(5) by (rule updateClub_Inr)
  have other: "\<forall>(j, v) \<in> set (clubs d). j \<noteq> c \<longrightarrow> c_name v \<noteq> c_name (patch_club name descr file club)"
  proof (cases "js_truthy_str name")
    case True
    with fresh show ?thesis by (auto simp: club_name_taken_def list_ex_iff)
  next
    case False
    then have "c_name (patch_club name descr file club) = c_name club"
      by (cases name) (auto simp: patch_club_def patch_str_def)
    then show ?thesis using wf_clubs_name_other [OF assms(2,1) c] by auto
  qed
  have names: "distinct (map (\<lambda>(k, c). c_name c) (clubs d'))"
    using distinct_column_update_rows [OF _ _ other] assms(1,2)
    by (simp add: d' wf_clubs_def wf_db_def)
  have "wf_db d'" using assms(1) by (simp add: d' wf_db_def)
  moreover have "wf_clubs d'"
    using assms(2) names map_of_SomeD [OF c] unfolding wf_clubs_iff
    by (auto simp: d' in_set_update_rows)
  moreover have "unique_members d'" using assms(3) by (simp add: d' unique_members_def)
  moreover have "president_ok d'"
    using assms(4) c wf_db_club_key [OF assms(1)] unfolding president_ok_iff
    by (auto simp: d' in_set_update_rows)
  ultimately show ?thesis by blast
qed

lemma joinClub_Inr:
  "joinClub now u c d = Inr d' \<longleftrightarrow>
     \<not> is_member d (p_id u) c \<and> map_of (clubs d) c \<noteq> None \<and> map_of (users d) (p_id u) \<noteq> None \<and>
     d' = d\<lparr>club_members := club_members d @ [\<lparr>m_user = p_id u, m_club = c, m_role = Member, m_joined = now\<rparr>]\<rparr>"
  by (auto simp: joinClub_def)

lemma joinClub_invariants:
  assumes "wf_db d" "wf_clubs d" "unique_members d" "president_ok d"
    and "joinClub now u c d = Inr d'"
  shows "wf_db d' \<and> wf_clubs d' \<and> unique_members d' \<and> president_ok d'"
proof -
  have H: "\<not> is_member d (p_id u) c" "map_of (clubs d) c \<noteq> None" "map_of (users d) (p_id u) \<noteq> None"
    and d': "d' = d\<lparr>club_members := club_members d @ [\<lparr>m_user = p_id u, m_club = c, m_role = Member, m_joined = now\<rparr>]\<rparr>"
    using assms(5) by (simp_all add: joinClub_Inr)
  have "wf_db d'" using assms(1) by (simp add: d' wf_db_def)
  moreover have "wf_clubs d'" using assms(2) H(2,3) unfolding wf_clubs_iff by (auto simp: d')
  moreover have "unique_members d'"
    using assms(3) H(1) by (auto simp: d' unique_members_def is_member_def list_ex_iff)
  moreover have "president_ok d'" using assms(4) unfolding president_ok_iff by (auto simp: d')
  ultimately show ?thesis by blast
qed

lemma leaveClub_Inr:
  assumes "leaveClub u c d = Inr d'"
  obtains m where "find (\<lambda>m. m_club m = c \<and> m_user m = p_id u) (club_members d) = Some m"
    "map_of (clubs d) c \<noteq> None" "m_role m \<noteq> President"
    "d' = d\<lparr>club_members := filter (\<lambda>m. \<not> (m_club m = c \<and> m_user m = p_id u)) (club_members d)\<rparr>"
  using assms by (auto simp: leaveClub_def split: option.splits if_splits)

text \<open>With one row per pair, the first row of the caller is its only row.\<close>

lemma unique_members_row:
  assumes "unique_members d" "find (\<lambda>m. m_club m = c \<and> m_user m = v) (club_members d) = Some m"
    and "m' \<in> set (club_members d)" "m_club m' = c" "m_user m' = v"
  shows "m' = m"
proof -
  have "m \<in> set (club_members d)" "m_club m = c" "m_user m = v"
    using assms(2) by (auto simp: find_Some_iff nth_mem)
  with assms(1,3,4,5) show ?thesis
    by (auto simp: unique_members_def distinct_map inj_on_def)
qed

lemma leaveClub_invariants:
  assumes "wf_db d" "wf_clubs d" "unique_members d" "president_ok d"
    and "leaveClub u c d = Inr d'"
  shows "wf_db d' \<and> wf_clubs d' \<and> unique_members d' \<and> president_ok d'"
proof -
  obtain m where m: "find (\<lambda>m. m_club m = c \<and> m_user m = p_id u) (club_members d) = Some m"
    and np: "m_role m \<noteq> President"
    and d': "d' = d\<lparr>club_members := filter (\<lambda>m. \<not> (m_club m = c \<and> m_user m = p_id u)) (club_members d)\<rparr>"
    using assms(5) by (rule leaveClub_Inr)
  have removed: "\<not> m_role m' = President"
    if "m' \<in> set (club_members d)" "m_club m' = c" "m_user m' = p_id u" for m'
    using unique_members_row [OF assms(3) m that] np by simp
  have cnt: "count_rows (\<lambda>m. m_club m = k \<and> m_role m = President) (club_members d') =
               count_rows (\<lambda>m. m_club m = k \<and> m_role m = President) (club_members d)" for k
    unfolding d' using removed
    by (auto simp: count_rows_filter intro!: count_rows_cong)
  have "wf_db d'" using assms(1) by (simp add: d' wf_db_def)
  moreover have "wf_clubs d'" using assms(2) unfolding wf_clubs_iff by (auto simp: d')
  moreover have "unique_members d'"
    using assms(3) by (simp add: d' unique_members_def distinct_map_filter)
  moreover have "president_ok d'" using assms(4) cnt unfolding president_ok_iff by (auto simp: d')
  ultimately show ?thesis by blast
qed

lemma deleteClub_Inr:
  "deleteClub u c d = Inr (d', n) \<longleftrightarrow>
     (\<exists>club. map_of (clubs d) c = Some club \<and> (c_admin club = p_id u \<or> p_role u = Admin) \<and>
        (\<forall>k act. (k, act) \<in> set (activities d) \<longrightarrow> a_club act \<noteq> c) \<and> n = member_count d c \<and>
        d' = d\<lparr>club_members := filter (\<lambda>m. m_club m \<noteq> c) (club_members d),
               clubs := AList.delete c (clubs d)\<rparr>)"
  by (auto simp: deleteClub_def list_ex_iff split: option.splits)

lemma deleteClub_invariants:
  assumes "wf_db d" "wf_clubs d" "unique_members d" "president_ok d"
    and "deleteClub u c d = Inr (d', n)"
  shows "wf_db d' \<and> wf_clubs d' \<and> unique_members d' \<and> president_ok d'"
proof -
  obtain club where noact: "\<forall>k act. (k, act) \<in> set (activities d) \<longrightarrow> a_club act \<noteq> c"
    and d': "d' = d\<lparr>club_members := filter (\<lambda>m. m_club m \<noteq> c) (club_members d),
                    clubs := AList.delete c (clubs d)\<rparr>"
    using assms(5) by (auto simp: deleteClub_Inr)
  have del: "AList.delete c (clubs d) = filter (\<lambda>(k, v). k \<noteq> c) (clubs d)"
    by (simp add: AList.delete_eq) (metis (mono_tags, lifting))
  have "wf_db d'" using assms(1) by (simp add: d' wf_db_def)
  moreover have "wf_clubs d'"
  proof -
    have "distinct (map (\<lambda>(k, c). c_name c) (AList.delete c (clubs d)))"
         "\<forall>k \<in> set (keys_of (AList.delete c (clubs d))). k < next_cid d"
         "\<forall>k v. (k, v) \<in> set (AList.delete c (clubs d)) \<longrightarrow> (k, v) \<in> set (clubs d)"
      using assms(2) by (auto simp: del wf_clubs_iff keys_of_def distinct_map_filter)
    then show ?thesis
      using assms(2) noact unfolding wf_clubs_iff by (auto simp: d' delete_conv') blast
  qed
  moreover have "unique_members d'"
    using assms(3) by (simp add: d' unique_members_def distinct_map_filter)
  moreover have "president_ok d'"
  proof -
    have cnt: "count_rows (\<lambda>r. m_club r \<noteq> c \<and> m_club r = k \<and> m_role r = President) ms =
                 count_rows (\<lambda>r. m_club r = k \<and> m_role r = President) ms" if "k \<noteq> c" for k ms
      using that by (intro count_rows_cong) auto
    show ?thesis
      using assms(4) unfolding president_ok_iff by (auto simp: d' del count_rows_filter cnt)
  qed
  ultimately show ?thesis by blast
qed

section \<open>Changing a member's role\<close>

lemma updateMemberRole_Inr:
  assumes "updateMemberRole u c target role d = Inr d'"
  obtains t rs r club where "target = Some t" "role = Some rs" "parse_member_role rs = Some r" "t \<noteq> 0"
    "map_of (clubs d) c = Some club"
    "map_option m_role (find (\<lambda>m. m_club m = c \<and> m_user m = p_id u) (club_members d)) = Some President \<or>
     p_id u = c_admin club \<or> p_role u = Admin"
    "is_member d t c"
    "d' = (if r = President then transfer_presidency u c t (d\<lparr>club_members := set_member_role t c r (club_members d)\<rparr>)
           else d\<lparr>club_members := set_member_role t c r (club_members d)\<rparr>)"
  using assms
  by (cases target; cases role) (auto simp: updateMemberRole_def Let_def split: option.splits if_splits)

lemma parse_member_role_president [simp]: "parse_member_role s = Some President \<longleftrightarrow> s = ''president''"
  by (auto simp: parse_member_role_def)

lemma count_rows_set_member_role:
  "count_rows P (set_member_role v c r ms) =
     count_rows (\<lambda>m. if m_user m = v \<and> m_club m = c then P (m\<lparr>m_role := r\<rparr>) else P m) ms"
  by (induction ms) (auto simp: set_member_role_def)


lemma member_rows_one:
  assumes "unique_members d" and "is_member d v c"
  shows "count_rows (\<lambda>m. m_club m = c \<and> m_user m = v) (club_members d) = 1"
proof -
  have "count_rows (\<lambda>m. (m_user m, m_club m) = (v, c)) (club_members d) \<le> 1"
    using assms(1) by (intro count_rows_key_le1) (simp add: unique_members_def)
  moreover have "0 < count_rows (\<lambda>m. m_club m = c \<and> m_user m = v) (club_members d)"
    using assms(2) by (auto simp: is_member_def list_ex_iff count_rows_pos_iff)
  ultimately show ?thesis
    by (simp add: conj_commute)
qed


lemma transfer_presidency_db:
  assumes "map_of (users d) t = Some trow"
  shows "transfer_presidency u c t d =
     (if u_role trow = Student then set_user_role t ClubAdmin else id)
       (d\<lparr>clubs := update_rows c (\<lambda>cl. cl\<lparr>c_admin := t\<rparr>) (clubs d),
          club_members := map (\<lambda>m. if m_club m = c \<and> m_user m = p_id u \<and> p_id u \<noteq> t
                                   then m\<lparr>m_role := Officer\<rparr> else m) (club_members d)\<rparr>)"
  using assms by (simp add: transfer_presidency_def Let_def)

lemma club_names_update_admin [simp]:
  "map (\<lambda>(k, c). c_name c) (update_rows j (\<lambda>cl. cl\<lparr>c_admin := t\<rparr>) cs) = map (\<lambda>(k, c). c_name c) cs"
  by (induction cs) (auto simp: update_rows_def)

text \<open>
  The presidency rule after a transfer from the club's admin \<open>v\<close>, itself the
  president, to another member \<open>t\<close>: the president rows of \<open>c\<close> become the rows of
  \<open>t\<close>, and the other clubs' rows are untouched.
\<close>

lemma president_ok_transfer:
  assumes "wf_db d" "unique_members d" "president_ok d"
    and "map_of (clubs d) c = Some club" "c_admin club = v" "t \<noteq> v" "is_member d t c"
  shows "president_ok (d\<lparr>clubs := update_rows c (\<lambda>cl. cl\<lparr>c_admin := t\<rparr>) (clubs d),
            club_members := map (\<lambda>m. if m_club m = c \<and> m_user m = v then m\<lparr>m_role := Officer\<rparr>
                                     else if m_club m = c \<and> m_user m = t then m\<lparr>m_role := President\<rparr> else m)
                              (club_members d)\<rparr>)"
    (is "president_ok ?d")
proof -
  define g :: "member_row \<Rightarrow> member_row" where "g = (\<lambda>m. if m_club m = c \<and> m_user m = v then m\<lparr>m_role := Officer\<rparr>
               else if m_club m = c \<and> m_user m = t then m\<lparr>m_role := President\<rparr> else m)"
  have g [simp]: "m_club (g m) = m_club m" "m_user (g m) = m_user m"
    "m_role (g m) = (if m_club m = c \<and> m_user m = v then Officer
                     else if m_club m = c \<and> m_user m = t then President else m_role m)" for m
    by (simp_all add: g_def)
  have members: "club_members ?d = map g (club_members d)"
    by (simp add: g_def)
  have old: "m_user m = v" if "m \<in> set (club_members d)" "m_club m = c" "m_role m = President" for m
    using assms(3,4,5) that map_of_SomeD [OF assms(4)] unfolding president_ok_iff by blast
  have cnt_c: "count_rows (\<lambda>m. m_club m = c \<and> m_role m = President) (club_members ?d) = 1"
  proof -
    have "count_rows (\<lambda>m. m_club m = c \<and> m_role m = President) (club_members ?d) =
          count_rows (\<lambda>m. m_club m = c \<and> m_user m = t) (club_members d)"
      unfolding members count_rows_map using old assms(6) by (intro count_rows_cong) auto
    with member_rows_one [OF assms(2,7)] show ?thesis by simp
  qed
  have cnt_k: "count_rows (\<lambda>m. m_club m = k \<and> m_role m = President) (club_members ?d) =
               count_rows (\<lambda>m. m_club m = k \<and> m_role m = President) (club_members d)" if "k \<noteq> c" for k
    unfolding members count_rows_map using that by (intro count_rows_cong) auto
  have rows: "m \<in> set (club_members ?d) \<longleftrightarrow> (\<exists>m0 \<in> set (club_members d). m = g m0)" for m
    unfolding members by auto
  show ?thesis
    unfolding president_ok_iff
  proof (intro allI impI)
    fix k cl
    assume kc: "(k, cl) \<in> set (clubs ?d)"
    then obtain cl0 where cl0: "(k, cl0) \<in> set (clubs d)" "cl = (if k = c then cl0\<lparr>c_admin := t\<rparr> else cl0)"
      by (auto simp: in_set_update_rows)
    show "count_rows (\<lambda>m. m_club m = k \<and> m_role m = President) (club_members ?d) = 1 \<and>
          (\<forall>m\<in>set (club_members ?d). m_club m = k \<and> m_role m = President \<longrightarrow> m_user m = c_admin cl)"
    proof (cases "k = c")
      case True
      have pres: "m_user m = t" if "m \<in> set (club_members ?d)" "m_club m = c" "m_role m = President" for m
      proof -
        from that(1) obtain m0 where m0: "m0 \<in> set (club_members d)" "m = g m0"
          unfolding rows by blast
        show ?thesis
          using m0 that(2,3) old [OF m0(1)] assms(6) by (simp split: if_splits)
      qed
      have adm: "c_admin cl = t" using True cl0(2) by simp
      show ?thesis
        unfolding True adm using cnt_c pres by blast
    next
      case False
      have pres: "m_user m = c_admin cl0" if "m \<in> set (club_members ?d)" "m_club m = k" "m_role m = President" for m
      proof -
        from that(1) obtain m0 where m0: "m0 \<in> set (club_members d)" "m = g m0"
          unfolding rows by blast
        have "m_club m0 = k" "m_role m0 = President"
          using m0(2) that(2,3) False by (simp_all split: if_splits)
        then show ?thesis
          using m0 assms(3) cl0(1) unfolding president_ok_iff by auto
      qed
      have "count_rows (\<lambda>m. m_club m = k \<and> m_role m = President) (club_members d) = 1"
        using assms(3) cl0(1) unfolding president_ok_iff by blast
      then have cnt: "count_rows (\<lambda>m. m_club m = k \<and> m_role m = President) (club_members ?d) = 1"
        using cnt_k [OF False] by simp
      have adm: "cl = cl0" using False cl0(2) by simp
      show ?thesis
        unfolding adm using cnt pres by blast
    qed
  qed
qed

lemma unique_members_map:
  assumes "\<And>m. m_user (f m) = m_user m" and "\<And>m. m_club (f m) = m_club m"
  shows "unique_members (d\<lparr>club_members := map f ms\<rparr>) = distinct (map (\<lambda>m. (m_user m, m_club m)) ms)"
  by (simp add: unique_members_def comp_def assms)

lemma set_member_role_then_demote:
  assumes "v \<noteq> t"
  shows "map (\<lambda>m. if m_club m = c \<and> m_user m = v then m\<lparr>m_role := Officer\<rparr> else m)
           (set_member_role t c President ms) =
         map (\<lambda>m. if m_club m = c \<and> m_user m = v then m\<lparr>m_role := Officer\<rparr>
                  else if m_club m = c \<and> m_user m = t then m\<lparr>m_role := President\<rparr> else m) ms"
  using assms by (auto simp: set_member_role_def)

text \<open>
  C22: a club's president, who is its \<open>admin_id\<close>, handing the presidency to another
  member keeps every club invariant: the target becomes the single president and
  the club's admin, and the caller becomes an officer.
\<close>

theorem updateMemberRole_president_transfer:
  assumes "wf_db d" "wf_clubs d" "unique_members d" "president_ok d"
    and "map_of (clubs d) c = Some club" "c_admin club = p_id u" "t \<noteq> p_id u"
    and "updateMemberRole u c (Some t) (Some ''president'') d = Inr d'"
  shows "wf_db d' \<and> wf_clubs d' \<and> unique_members d' \<and> president_ok d' \<and>
         map_option c_admin (map_of (clubs d') c) = Some t"
proof -
  have mem: "is_member d t c"
    and d': "d' = transfer_presidency u c t (d\<lparr>club_members := set_member_role t c President (club_members d)\<rparr>)"
    using assms(8) by (auto simp: parse_member_role_def elim!: updateMemberRole_Inr)
  obtain m0 where "m0 \<in> set (club_members d)" "m_club m0 = c" "m_user m0 = t"
    using mem by (auto simp: is_member_def list_ex_iff)
  then obtain trow where trow: "map_of (users d) t = Some trow"
    using wf_clubs_member [OF assms(2)] by fastforce
  let ?d2 = "d\<lparr>clubs := update_rows c (\<lambda>cl. cl\<lparr>c_admin := t\<rparr>) (clubs d),
                club_members := map (\<lambda>m. if m_club m = c \<and> m_user m = p_id u then m\<lparr>m_role := Officer\<rparr>
                                         else if m_club m = c \<and> m_user m = t then m\<lparr>m_role := President\<rparr> else m)
                                  (club_members d)\<rparr>"
  have d2: "d' = (if u_role trow = Student then set_user_role t ClubAdmin else id) ?d2"
    using trow assms(7) by (simp add: d' transfer_presidency_db set_member_role_then_demote)
  have "wf_db ?d2" using assms(1) by (simp add: wf_db_def)
  moreover have "wf_clubs ?d2"
    using assms(2) trow unfolding wf_clubs_iff by (auto simp: in_set_update_rows)
  moreover have "unique_members ?d2"
    using assms(3) by (subst unique_members_map) (simp_all add: unique_members_def)
  moreover have "president_ok ?d2"
    using president_ok_transfer [OF assms(1,3,4,5,6,7) mem] .
  moreover have "map_option c_admin (map_of (clubs ?d2) c) = Some t"
    using assms(5) by simp
  ultimately show ?thesis
    by (simp add: d2)
qed

lemma president_rows_admin:
  assumes "president_ok d" "map_of (clubs d) c = Some club"
    and "m \<in> set (club_members d)" "m_club m = c" "m_role m = President"
  shows "m_user m = c_admin club"
  using assms map_of_SomeD [OF assms(2)] unfolding president_ok_iff by blast

lemma is_member_map:
  assumes "\<And>m. m_user (f m) = m_user m" and "\<And>m. m_club (f m) = m_club m"
  shows "is_member (d\<lparr>club_members := map f ms\<rparr>) v c = list_ex (\<lambda>m. m_club m = c \<and> m_user m = v) ms"
  by (simp add: is_member_def list_ex_iff assms)

lemma transfer_members_no_caller:
  assumes "\<not> is_member d (p_id u) c"
  shows "club_members (transfer_presidency u c t d) = club_members d"
proof -
  have "map (\<lambda>m. if m_club m = c \<and> m_user m = p_id u \<and> p_id u \<noteq> t then m\<lparr>m_role := Officer\<rparr> else m)
          (club_members d) = club_members d"
    by (rule map_idI) (use assms in \<open>auto simp: is_member_def list_ex_iff\<close>)
  then show ?thesis
    by (auto simp: transfer_presidency_def Let_def split: option.split)
qed


text \<open>
  C23: a system admin who is not a member of the club promoting a member to
  president leaves the club with two presidents: the demotion of lines 496--506
  only touches the caller's own row, not the old president's.
\<close>

theorem updateMemberRole_admin_two_presidents:
  assumes "unique_members d" "president_ok d" "map_of (clubs d) c = Some club"
    and "\<not> is_member d (p_id u) c" "t \<noteq> c_admin club"
    and "updateMemberRole u c (Some t) (Some ''president'') d = Inr d'"
  shows "count_rows (\<lambda>m. m_club m = c \<and> m_role m = President) (club_members d') = 2"
proof -
  have mem: "is_member d t c"
    and d': "d' = transfer_presidency u c t (d\<lparr>club_members := set_member_role t c President (club_members d)\<rparr>)"
    using assms(6) by (auto simp: parse_member_role_def elim!: updateMemberRole_Inr)
  have nm: "\<not> is_member (d\<lparr>club_members := set_member_role t c President (club_members d)\<rparr>) (p_id u) c"
    using assms(4) unfolding set_member_role_def by (subst is_member_map) (simp_all add: is_member_def)
  have "count_rows (\<lambda>m. m_club m = c \<and> m_role m = President) (club_members d') =
        count_rows (\<lambda>m. (m_club m = c \<and> m_user m = t) \<or> (m_club m = c \<and> m_role m = President \<and> m_user m \<noteq> t))
          (club_members d)"
    unfolding d' transfer_members_no_caller [OF nm]
    by (auto simp: count_rows_set_member_role intro!: count_rows_cong)
  also have "\<dots> = count_rows (\<lambda>m. m_club m = c \<and> m_user m = t) (club_members d) +
                   count_rows (\<lambda>m. m_club m = c \<and> m_role m = President \<and> m_user m \<noteq> t) (club_members d)"
    by (rule count_rows_disj) blast
  also have "count_rows (\<lambda>m. m_club m = c \<and> m_role m = President \<and> m_user m \<noteq> t) (club_members d) =
             count_rows (\<lambda>m. m_club m = c \<and> m_role m = President) (club_members d)"
    using president_rows_admin [OF assms(2,3)] assms(5) by (intro count_rows_cong) auto
  also have "\<dots> = 1"
    using assms(2) map_of_SomeD [OF assms(3)] unfolding president_ok_iff by blast
  finally show ?thesis
    using member_rows_one [OF assms(1) mem] by simp
qed

text \<open>
  C24: setting the president's own role to member or officer is accepted and leaves
  the club without a president while its \<open>admin_id\<close> still names the demoted user.
\<close>

theorem updateMemberRole_demote_president:
  assumes "president_ok d" "map_of (clubs d) c = Some club" "rs = ''member'' \<or> rs = ''officer''"
    and "updateMemberRole u c (Some (c_admin club)) (Some rs) d = Inr d'"
  shows "count_rows (\<lambda>m. m_club m = c \<and> m_role m = President) (club_members d') = 0 \<and>
         map_of (clubs d') c = Some club"
proof -
  have "\<exists>r. r \<noteq> President \<and> d' = d\<lparr>club_members := set_member_role (c_admin club) c r (club_members d)\<rparr>"
    using assms(3,4) by (auto simp: parse_member_role_def elim!: updateMemberRole_Inr)
  then obtain r where r: "r \<noteq> President"
    and d': "d' = d\<lparr>club_members := set_member_role (c_admin club) c r (club_members d)\<rparr>"
    by blast
  have "count_rows (\<lambda>m. m_club m = c \<and> m_role m = President) (club_members d') = 0"
    using president_rows_admin [OF assms(1,2)] r
    by (auto simp: d' count_rows_set_member_role count_rows_zero_iff)
  then show ?thesis using assms(2) by (simp add: d')
qed

text \<open>
  C25: while the invariants hold, the club's president cannot leave it: the request is
  refused with 400 whatever else holds.
\<close>

theorem leaveClub_president_refused:
  assumes "unique_members d" "president_ok d" "map_of (clubs d) c = Some club" "p_id u = c_admin club"
  shows "leaveClub u c d = Inl PresidentCannotLeave"
proof -
  have "count_rows (\<lambda>m. m_club m = c \<and> m_role m = President) (club_members d) = 1"
    using assms(2) map_of_SomeD [OF assms(3)] unfolding president_ok_iff by blast
  then obtain m where m: "m \<in> set (club_members d)" "m_club m = c" "m_role m = President"
    using count_rows_pos_iff [of "\<lambda>m. m_club m = c \<and> m_role m = President" "club_members d"] by auto
  have mu: "m_user m = p_id u"
    using president_rows_admin [OF assms(2,3) m] assms(4) by simp
  obtain m' where m': "find (\<lambda>m. m_club m = c \<and> m_user m = p_id u) (club_members d) = Some m'"
    using m mu by (cases "find (\<lambda>m. m_club m = c \<and> m_user m = p_id u) (club_members d)")
      (auto simp: find_None_iff)
  have "m = m'"
    using unique_members_row [OF assms(1) m' m(1,2) mu] .
  then show ?thesis
    using m' m(3) assms(3) by (simp add: leaveClub_def)
qed

text \<open>
  C26: a successful club deletion happened to a club without activities; it removes
  the club and exactly its memberships, reports their number, and leaves every
  other club and its member count unchanged.
\<close>

theorem deleteClub_result:
  assumes "deleteClub u c d = Inr (d', n)"
  shows "n = member_count d c \<and> member_count d' c = 0 \<and> map_of (clubs d') c = None \<and>
         activities d' = activities d \<and> list_all (\<lambda>(k, act). a_club act \<noteq> c) (activities d) \<and>
         (\<forall>k. k \<noteq> c \<longrightarrow> member_count d' k = member_count d k \<and> map_of (clubs d') k = map_of (clubs d) k)"
proof -
  obtain club where "map_of (clubs d) c = Some club"
    and noact: "\<forall>k act. (k, act) \<in> set (activities d) \<longrightarrow> a_club act \<noteq> c" and n: "n = member_count d c"
    and d': "d' = d\<lparr>club_members := filter (\<lambda>m. m_club m \<noteq> c) (club_members d),
                    clubs := AList.delete c (clubs d)\<rparr>"
    using assms by (auto simp: deleteClub_Inr)
  have "member_count d' c = 0"
    unfolding d' member_count_def by (simp add: count_rows_filter count_rows_zero_iff)
  moreover have "member_count d' k = member_count d k" if "k \<noteq> c" for k
    using that by (simp add: d' member_count_def count_rows_filter) (intro count_rows_cong; auto)
  ultimately show ?thesis
    using noact n by (auto simp: d' delete_conv' list_all_iff)
qed

section \<open>The club routes\<close>

text \<open>
  C21: every state-changing club route other than a role change (create, edit,
  join, leave, delete) keeps the club invariants: distinct club names, existing
  admins and members, activities of existing clubs, one membership row per pair,
  and exactly one president per club, who is its \<open>admin_id\<close>.
\<close>

theorem club_route_invariants:
  assumes "\<not> is_role_change r" "wf_db d" "wf_clubs d" "unique_members d" "president_ok d"
    and "club_route r d = Inr d'"
  shows "wf_db d' \<and> wf_clubs d' \<and> unique_members d' \<and> president_ok d'"
  using assms
proof (cases r)
  case (CreateClub now pu n ds img)
  then show ?thesis using assms
    by (auto simp: map_sum_fst_Inr split: option.splits) (blast dest: createClub_invariants)+
next
  case (UpdateClub pu c n ds img)
  then show ?thesis using assms
    by (auto split: option.splits) (blast dest: updateClub_invariants)+
next
  case (JoinClub now pu c)
  then show ?thesis using assms
    by (auto split: option.splits) (blast dest: joinClub_invariants)+
next
  case (LeaveClub pu c)
  then show ?thesis using assms
    by (auto split: option.splits) (blast dest: leaveClub_invariants)+
next
  case (UpdateMemberRole pu c t rs)
  then show ?thesis using assms(1) by (simp add: is_role_change_def)
next
  case (DeleteClub pu c)
  then show ?thesis using assms
    by (auto simp: map_sum_fst_Inr split: option.splits if_splits) (blast dest: deleteClub_invariants)+
qed

section \<open>Witnesses\<close>

lemma fx_club_db_invariants:
  "wf_db fx_club_db \<and> wf_clubs fx_club_db \<and> unique_members fx_club_db \<and> president_ok fx_club_db"
  by (simp add: fx_club_db_def fixture_defs wf_db_def wf_clubs_def unique_members_def president_ok_def keys_of_def)

lemma club_route_invariants_witness:
  "\<exists>d'. club_route (CreateClub 5 (Some (fx_student 2)) (Some ''chess'') (Some ''d'') None) fx_club_db = Inr d' \<and>
     president_ok d' \<and> wf_clubs d' \<and> map_of (clubs d') 2 \<noteq> None"
proof -
  obtain d' where h: "club_route (CreateClub 5 (Some (fx_student 2)) (Some ''chess'') (Some ''d'') None) fx_club_db = Inr d'"
    and k: "map_of (clubs d') 2 \<noteq> None"
    by (simp add: createClub_def fx_club_db_def fixture_defs club_name_taken_def set_user_role_def)
  have "president_ok d' \<and> wf_clubs d'"
    using club_route_invariants [OF _ _ _ _ _ h] fx_club_db_invariants by (simp add: is_role_change_def)
  with h k show ?thesis by blast
qed

lemmas club_fixture_defs = fx_club_db_def fixture_defs updateMemberRole_def parse_member_role_def
  is_member_def set_member_role_def transfer_presidency_def set_user_role_def

lemma fx_club_row:
  "map_of (clubs fx_club_db) 1 = Some \<lparr>c_name = ''club'', c_description = ''d'', c_logo = None, c_admin = 9\<rparr>"
  by (simp add: fx_club_db_def fixture_defs)

lemma updateMemberRole_president_transfer_witness:
  "\<exists>d'. updateMemberRole fx_club_admin 1 (Some 1) (Some ''president'') fx_club_db = Inr d' \<and>
     president_ok d' \<and> map_option c_admin (map_of (clubs d') 1) = Some 1"
proof -
  obtain d' where h: "updateMemberRole fx_club_admin 1 (Some 1) (Some ''president'') fx_club_db = Inr d'"
    by (simp add: club_fixture_defs)
  have "president_ok d' \<and> map_option c_admin (map_of (clubs d') 1) = Some 1"
    using updateMemberRole_president_transfer [OF _ _ _ _ fx_club_row _ _ h] fx_club_db_invariants
    by (simp add: fixture_defs)
  with h show ?thesis by blast
qed

lemma updateMemberRole_admin_two_presidents_witness:
  "\<exists>d'. updateMemberRole fx_admin 1 (Some 1) (Some ''president'') fx_club_db = Inr d' \<and>
     count_rows (\<lambda>m. m_club m = 1 \<and> m_role m = President) (club_members d') = 2"
proof -
  obtain d' where h: "updateMemberRole fx_admin 1 (Some 1) (Some ''president'') fx_club_db = Inr d'"
    by (simp add: club_fixture_defs)
  have nm: "\<not> is_member fx_club_db (p_id fx_admin) 1"
    by (simp add: club_fixture_defs)
  have "count_rows (\<lambda>m. m_club m = 1 \<and> m_role m = President) (club_members d') = 2"
    using updateMemberRole_admin_two_presidents [OF _ _ fx_club_row nm _ h] fx_club_db_invariants by simp
  with h show ?thesis by blast
qed

lemma updateMemberRole_demote_president_witness:
  "\<exists>d'. updateMemberRole fx_admin 1 (Some 9) (Some ''member'') fx_club_db = Inr d' \<and>
     count_rows (\<lambda>m. m_club m = 1 \<and> m_role m = President) (club_members d') = 0"
proof -
  obtain d' where h: "updateMemberRole fx_admin 1 (Some 9) (Some ''member'') fx_club_db = Inr d'"
    by (simp add: club_fixture_defs)
  have "count_rows (\<lambda>m. m_club m = 1 \<and> m_role m = President) (club_members d') = 0"
    using updateMemberRole_demote_president [OF _ fx_club_row, of "''member''" fx_admin d'] h fx_club_db_invariants
    by simp
  with h show ?thesis by blast
qed

lemma leaveClub_president_refused_witness:
  "leaveClub fx_club_admin 1 fx_club_db = Inl PresidentCannotLeave"
  using leaveClub_president_refused [OF _ _ fx_club_row] fx_club_db_invariants by (simp add: fixture_defs)

lemma deleteClub_result_witness:
  "\<exists>d'. deleteClub fx_club_admin 1 (fx_club_db\<lparr>activities := []\<rparr>) = Inr (d', 2) \<and> map_of (clubs d') 1 = None"
proof -
  obtain d' where h: "deleteClub fx_club_admin 1 (fx_club_db\<lparr>activities := []\<rparr>) = Inr (d', 2)"
    by (simp add: deleteClub_def member_count_def club_fixture_defs)
  then show ?thesis using deleteClub_result [OF h] by blast
qed

end
