(* ===== verification/Engine.thy ===== *)
theory Engine
  imports Clubs
begin

text \<open>
  The activity engine as the routes expose it: src/liantuanfen/server/routes/activityRoutes.js
  puts the middleware of src/liantuanfen/server/middleware/auth.js in front of each
  handler. A request is a value of \<open>request\<close>; its principal is \<open>None\<close> when
  \<open>authenticateToken\<close> finds no valid token (the JWT verification itself is a
  library call and not modelled). \<open>activity_route\<close> is the dispatcher; \<open>run\<close>
  serves a list of requests one after the other, an error response leaving the
  database as it was, and records every response. The theory proves the table
  invariants of every run and relates the stored-status changes to the
  specification's lifecycle.
\<close>

section \<open>Middleware and routes\<close>

text \<open>The state-changing routes of activityRoutes.js with their arguments.\<close>

datatype request =
    Create time "principal option" "activity_input option" "string option"
  | Update "principal option" aid "activity_input option" "string option"
  | Review "principal option" aid "string option" "string option"
  | Join time "principal option" aid
  | Leave time "principal option" aid
  | Complete "principal option" aid "uid list"
  | Delete "principal option" aid

text \<open>
  Lines 60--93: \<open>verifyToken\<close> first (401 without a principal), then the role
  middleware of the route, then the controller. The handler's extra results
  (new id, affected rows) are dropped; the response is the error or success.
\<close>

fun activity_route :: "request \<Rightarrow> db \<Rightarrow> api_error + db" where
  "activity_route (Create now pu body file) d =
     (case pu of None \<Rightarrow> Inl Unauthorized
      | Some u \<Rightarrow> if \<not> isClubAdminOrAdmin u then Inl ClubAdminRequired
                  else map_sum id fst (createActivity now u body file d))"
| "activity_route (Update pu a body file) d =
     (case pu of None \<Rightarrow> Inl Unauthorized | Some u \<Rightarrow> updateActivity u a body file d)"
| "activity_route (Review pu a dec fb) d =
     (case pu of None \<Rightarrow> Inl Unauthorized
      | Some u \<Rightarrow> if \<not> isAdmin u then Inl AdminRequired else reviewActivity a dec fb d)"
| "activity_route (Join now pu a) d =
     (case pu of None \<Rightarrow> Inl Unauthorized | Some u \<Rightarrow> joinActivity now u a d)"
| "activity_route (Leave now pu a) d =
     (case pu of None \<Rightarrow> Inl Unauthorized | Some u \<Rightarrow> leaveActivity now u a d)"
| "activity_route (Complete pu a ids) d =
     (case pu of None \<Rightarrow> Inl Unauthorized
      | Some u \<Rightarrow> if \<not> isClubAdminOrAdmin u then Inl ClubAdminRequired
                  else map_sum id fst (completeActivity u a ids d))"
| "activity_route (Delete pu a) d =
     (case pu of None \<Rightarrow> Inl Unauthorized
      | Some u \<Rightarrow> if \<not> isClubAdminOrAdmin u then Inl ClubAdminRequired
                  else map_sum id fst (deleteActivity u a d))"

text \<open>Requests served one after the other; each response is recorded.\<close>

fun run :: "request list \<Rightarrow> db \<Rightarrow> (api_error + unit) list \<times> db" where
  "run [] d = ([], d)"
| "run (r # rs) d =
     (case activity_route r d of
        Inl e \<Rightarrow> (let (out, d') = run rs d in (Inl e # out, d'))
      | Inr d1 \<Rightarrow> (let (out, d') = run rs d1 in (Inr () # out, d')))"

definition is_update :: "request \<Rightarrow> bool" where
  "is_update r = (case r of Update _ _ _ _ \<Rightarrow> True | _ \<Rightarrow> False)"

text \<open>
  The specification's scenario (section 8) as requests: joins an hour before the
  start, a leave an hour after it, two settlements by the club admin.
\<close>

definition spec_scenario :: "request list" where
  "spec_scenario =
     [Join (fx_T - 3600000) (Some (fx_student 1)) 1,
      Join (fx_T - 3600000) (Some (fx_student 2)) 1,
      Join (fx_T - 3600000) (Some (fx_student 3)) 1,
      Leave (fx_T + 3600000) (Some (fx_student 1)) 1,
      Complete (Some fx_club_admin) 1 [1, 2],
      Complete (Some fx_club_admin) 1 [1, 2]]"

text \<open>A settlement for A, a review that approves the activity again, B joins, a second settlement.\<close>

definition reopen_scenario :: "request list" where
  "reopen_scenario =
     [Join (fx_T - 3600000) (Some (fx_student 1)) 1,
      Complete (Some fx_club_admin) 1 [1],
      Review (Some fx_admin) 1 (Some ''approved'') None,
      Join (fx_T - 1800000) (Some (fx_student 2)) 1,
      Complete (Some fx_club_admin) 1 [1, 2]]"

section \<open>The stored-status lifecycle\<close>

text \<open>
  The specification's lifecycle (section 4.4): review of a pending activity,
  settlement of an approved one, and the return to review of an approved activity
  edited by a club admin.
\<close>

inductive spec_lifecycle :: "stored_status \<Rightarrow> stored_status \<Rightarrow> bool" where
  approve: "spec_lifecycle Pending Approved"
| reject: "spec_lifecycle Pending Rejected"
| settle: "spec_lifecycle Approved Completed"
| reedit: "spec_lifecycle Approved Pending"

text \<open>
  The transitions the handlers can make: a review sets approved or rejected from any
  status, a non-admin edit sets pending from any status, settlement completes an
  approved activity.
\<close>

inductive code_lifecycle :: "stored_status \<Rightarrow> stored_status \<Rightarrow> bool" where
  review_approve: "code_lifecycle s Approved"
| review_reject: "code_lifecycle s Rejected"
| reedit: "code_lifecycle s Pending"
| settle: "code_lifecycle Approved Completed"

code_pred spec_lifecycle .
code_pred code_lifecycle .

inductive_cases spec_lifecycle_fromE: "spec_lifecycle s s'"

section \<open>Runs and their invariants\<close>

lemma activity_route_cases:
  assumes "activity_route r d = Inr d'"
  obtains (create) now u body img k s where "r = Create now (Some u) body img" "createActivity now u body img d = Inr (d', k, s)"
  | (update) u a body img where "r = Update (Some u) a body img" "updateActivity u a body img d = Inr d'"
  | (review) u a dec fb where "r = Review (Some u) a dec fb" "reviewActivity a dec fb d = Inr d'"
  | (join) now u a where "r = Join now (Some u) a" "joinActivity now u a d = Inr d'"
  | (leave) now u a where "r = Leave now (Some u) a" "leaveActivity now u a d = Inr d'"
  | (complete) u a ids n where "r = Complete (Some u) a ids" "completeActivity u a ids d = Inr (d', n)"
  | (delete) u a n where "r = Delete (Some u) a" "deleteActivity u a d = Inr (d', n)"
  using assms
  by (cases r) (auto split: option.splits if_splits simp: map_sum_fst_Inr)

lemma activity_route_wf_db:
  "wf_db d \<Longrightarrow> activity_route r d = Inr d' \<Longrightarrow> wf_db d'"
  by (erule activity_route_cases)
     (auto intro: createActivity_wf_db updateActivity_wf_db reviewActivity_wf_db joinActivity_wf_db
        leaveActivity_wf_db completeActivity_wf_db deleteActivity_wf_db)

lemma activity_route_unique:
  "unique_registrations d \<Longrightarrow> activity_route r d = Inr d' \<Longrightarrow> unique_registrations d'"
  by (erule activity_route_cases)
     (auto intro: createActivity_unique updateActivity_unique reviewActivity_unique joinActivity_unique
        leaveActivity_unique completeActivity_unique deleteActivity_unique)

lemma activity_route_capacity_ok:
  "wf_db d \<Longrightarrow> capacity_ok d \<Longrightarrow> \<not> is_update r \<Longrightarrow> activity_route r d = Inr d' \<Longrightarrow> capacity_ok d'"
  by (erule activity_route_cases)
     (auto simp: is_update_def intro: createActivity_capacity_ok reviewActivity_capacity_ok joinActivity_capacity_ok
        leaveActivity_capacity_ok completeActivity_capacity_ok deleteActivity_capacity_ok)

lemma run_Cons_final: "snd (run (r # rs) d) = snd (run rs (case activity_route r d of Inl e \<Rightarrow> d | Inr d1 \<Rightarrow> d1))"
  by (simp split: sum.split prod.split)

text \<open>
  C16: every run of requests from a well-formed database with at most one
  registration per (user, activity) pair ends in such a database: primary keys stay
  distinct, the counters fresh, the foreign keys of registrations intact, and no pair
  is registered twice.
\<close>

theorem run_wf_unique:
  "wf_db d \<Longrightarrow> unique_registrations d \<Longrightarrow>
     wf_db (snd (run rs d)) \<and> unique_registrations (snd (run rs d))"
proof (induction rs arbitrary: d)
  case Nil
  then show ?case by simp
next
  case (Cons r rs)
  show ?case
  proof (cases "activity_route r d")
    case (Inl e)
    with Cons show ?thesis by (simp add: run_Cons_final del: run.simps(2))
  next
    case (Inr d1)
    with Cons.prems have "wf_db d1" "unique_registrations d1"
      by (auto intro: activity_route_wf_db activity_route_unique)
    with Inr Cons.IH show ?thesis by (simp add: run_Cons_final del: run.simps(2))
  qed
qed


text \<open>
  C17: every run of requests without an \<open>updateActivity\<close> keeps every activity's
  registrations within its \<open>max_participants\<close>.
\<close>

theorem run_capacity_without_update:
  "wf_db d \<Longrightarrow> capacity_ok d \<Longrightarrow> list_all (\<lambda>r. \<not> is_update r) rs \<Longrightarrow>
     capacity_ok (snd (run rs d))"
proof (induction rs arbitrary: d)
  case Nil
  then show ?case by simp
next
  case (Cons r rs)
  show ?case
  proof (cases "activity_route r d")
    case (Inl e)
    with Cons show ?thesis by (simp add: run_Cons_final del: run.simps(2))
  next
    case (Inr d1)
    with Cons.prems have "wf_db d1" "capacity_ok d1"
      by (auto intro: activity_route_wf_db activity_route_capacity_ok)
    with Inr Cons.IH Cons.prems(3) show ?thesis by (simp add: run_Cons_final del: run.simps(2))
  qed
qed

text \<open>
  The specification's scenario (section 8) as the code runs it: A and B join,
  C is refused for capacity, A's leave after the start is refused, settlement
  credits ten points to A and B and completes the activity; the repeated settlement
  is refused with 404 (activity not approved), not with \<open>NoEligibleParticipants\<close>.
\<close>

theorem spec_scenario_run:
  "fst (run spec_scenario fx_db) =
     [Inr (), Inr (), Inl ActivityFull, Inl LeaveAfterStart, Inr (), Inl NotFoundOrNotApproved] \<and>
   map (\<lambda>(k, usr). u_points usr) (users (snd (run spec_scenario fx_db))) = [10, 10, 0, 0, 0] \<and>
   map ua_status (user_activities (snd (run spec_scenario fx_db))) = [RCompleted, RCompleted] \<and>
   map (\<lambda>(k, act). a_status act) (activities (snd (run spec_scenario fx_db))) = [Completed]"
  by (simp add: spec_scenario_def fixture_defs joinActivity_def leaveActivity_def completeActivity_def
      insert_registration_def participants_def is_registered_def eligible_def settle_rows_def
      credit_points_def credited_def set_activity_status_def update_rows_def hour_ms_def
      isClubAdminOrAdmin_def)


text \<open>
  C19: a run in which the settled activity is approved again by a review and settled
  a second time credits user A twice: A ends with 20 points for one activity worth 10.
\<close>

theorem reopen_scenario_double_credit:
  "fst (run reopen_scenario fx_db) = [Inr (), Inr (), Inr (), Inr (), Inr ()] \<and>
   map (\<lambda>(k, usr). u_points usr) (users (snd (run reopen_scenario fx_db))) = [20, 10, 0, 0, 0]"
  by (simp add: reopen_scenario_def fixture_defs joinActivity_def completeActivity_def reviewActivity_def
      insert_registration_def participants_def is_registered_def eligible_def settle_rows_def
      credit_points_def credited_def set_activity_status_def update_rows_def hour_ms_def
      isClubAdminOrAdmin_def isAdmin_def)

lemma map_of_append_Some:
  "map_of xs a = Some v \<Longrightarrow> map_of (xs @ ys) a = Some v"
  by (simp add: map_of_append map_add_def)

lemmas code_lifecycle_simps [simp] =
  code_lifecycle.review_approve code_lifecycle.review_reject code_lifecycle.reedit code_lifecycle.settle

text \<open>
  C20: every request changes the stored status of an activity only along
  \<open>code_lifecycle\<close>: only settlement enters \<open>completed\<close>, and only from
  \<open>approved\<close>; reviews and non-admin edits may leave any status, which the
  specification's lifecycle does not allow.
\<close>

theorem activity_route_lifecycle:
  assumes "activity_route r d = Inr d'" and "map_of (activities d) a = Some act"
    and "map_of (activities d') a = Some act'"
  shows "a_status act' = a_status act \<or> code_lifecycle (a_status act) (a_status act')"
  using assms(1)
proof (cases rule: activity_route_cases)
  case (create now u body img k s)
  then obtain b row club where "d' = d\<lparr>activities := activities d @ [(k, row)], next_aid := Suc k\<rparr>"
    by (elim createActivity_InrE) simp
  with assms(2,3) show ?thesis by (simp add: map_of_append_Some)
next
  case (update u b body img)
  then show ?thesis
    using assms(2,3) by (elim updateActivity_InrE) (auto split: if_splits intro: code_lifecycle.intros)
next
  case (review u b dec fb)
  then show ?thesis
    using assms(2,3) by (auto simp: reviewActivity_Inr split: if_splits intro: code_lifecycle.intros)
next
  case (join now u b)
  then show ?thesis
    using assms(2,3) by (auto dest!: joinActivity_frame)
next
  case (leave now u b)
  then show ?thesis
    using assms(2,3) by (auto simp: leaveActivity_Inr)
next
  case (complete u b ids n)
  then show ?thesis
    using assms(2,3) by (elim completeActivity_InrE) (auto split: if_splits intro: code_lifecycle.intros)
next
  case (delete u b n)
  then show ?thesis
    using assms(2,3) by (auto dest!: deleteActivity_tables simp: delete_conv' split: if_splits)
qed

lemma spec_lifecycle_code: "spec_lifecycle s s' \<Longrightarrow> code_lifecycle s s'"
  by (induction rule: spec_lifecycle.induct) (auto intro: code_lifecycle.intros)


lemma fx_db_invariants:
  "wf_db fx_db" "unique_registrations fx_db" "capacity_ok fx_db"
  by (simp_all add: wf_db_def unique_registrations_def capacity_ok_def fixture_defs keys_of_def participants_def)

lemma run_wf_unique_witness:
  "wf_db (snd (run spec_scenario fx_db)) \<and> unique_registrations (snd (run spec_scenario fx_db))"
  by (rule run_wf_unique [OF fx_db_invariants(1,2)])

lemma run_capacity_without_update_witness:
  "capacity_ok (snd (run spec_scenario fx_db))"
proof (rule run_capacity_without_update [OF fx_db_invariants(1,3)])
  show "list_all (\<lambda>r. \<not> is_update r) spec_scenario"
    by (simp add: spec_scenario_def is_update_def)
qed

lemma activity_route_lifecycle_witness:
  "\<exists>d'. activity_route (Review (Some fx_admin) 1 (Some ''approved'') None)
           (fx_db\<lparr>activities := [(1, fx_activity\<lparr>a_status := Completed\<rparr>)]\<rparr>) = Inr d' \<and>
         code_lifecycle Completed Approved \<and> \<not> spec_lifecycle Completed Approved"
proof -
  let ?d = "fx_db\<lparr>activities := [(1, fx_activity\<lparr>a_status := Completed\<rparr>)]\<rparr>"
  obtain d' where r: "activity_route (Review (Some fx_admin) 1 (Some ''approved'') None) ?d = Inr d'"
    by (simp add: isAdmin_def fixture_defs reviewActivity_def)
  have a: "map_of (activities ?d) 1 = Some (fx_activity\<lparr>a_status := Completed\<rparr>)" by simp
  have a': "map_of (activities d') 1 = Some (fx_activity\<lparr>a_status := Approved, a_feedback := None\<rparr>)"
    using r by (auto simp: isAdmin_def fixture_defs reviewActivity_def update_rows_def)
  have "code_lifecycle Completed Approved"
    using activity_route_lifecycle [OF r a a'] by simp
  moreover have "\<not> spec_lifecycle Completed Approved"
    by (auto elim: spec_lifecycle.cases)
  ultimately show ?thesis using r by blast
qed

end
