(* ===== verification/Schema.thy ===== *)
theory Schema
  imports Lifecycle
begin

text \<open>
  The SQL schema the server creates and the columns its statements name. The
  tables are created by src/liantuanfen/server/index.js (lines 45--115) and two
  columns of \<open>activities\<close> are added by \<open>checkAndAddColumns\<close>
  (activityController.js lines 14--79) when the controller is loaded. A
  statement naming a column the table lacks fails (\<open>ER_BAD_FIELD_ERROR\<close>), which
  the handlers answer with a 500. The other theories model the rows with every
  column the statements use; this theory checks which of those columns exist.
\<close>

section \<open>Tables and migrations\<close>

text \<open>A schema: each table's name with its column names, in order.\<close>

type_synonym schema = "(string \<times> string list) list"

definition startup_schema :: schema where
  "startup_schema =
     [(''users'', [''id'', ''username'', ''password'', ''avatar'', ''student_id'', ''bio'', ''email'', ''role'',
                   ''points'', ''created_at'']),
      (''clubs'', [''id'', ''name'', ''description'', ''logo'', ''admin_id'', ''created_at'']),
      (''activities'', [''id'', ''title'', ''description'', ''club_id'', ''location'', ''start_time'', ''end_time'',
                        ''points'', ''status'', ''created_at'']),
      (''user_activities'', [''id'', ''user_id'', ''activity_id'', ''status'', ''earned_points'', ''created_at'']),
      (''club_members'', [''id'', ''user_id'', ''club_id'', ''role'', ''joined_at''])]"

definition has_column :: "schema \<Rightarrow> string \<Rightarrow> string \<Rightarrow> bool" where
  "has_column s t c = list_ex (\<lambda>(n, cs). n = t \<and> c \<in> set cs) s"

fun insert_after :: "string \<Rightarrow> string \<Rightarrow> string list \<Rightarrow> string list" where
  "insert_after p c [] = []"
| "insert_after p c (x # xs) = (if x = p then x # c # xs else x # insert_after p c xs)"

text \<open>\<open>ALTER TABLE t ADD COLUMN c ... AFTER p\<close>: fails, changing nothing, when \<open>p\<close> is not a column of \<open>t\<close>.\<close>

definition add_column_after :: "string \<Rightarrow> string \<Rightarrow> string \<Rightarrow> schema \<Rightarrow> schema" where
  "add_column_after t c p s = map (\<lambda>(n, cs). if n = t \<and> p \<in> set cs then (n, insert_after p c cs) else (n, cs)) s"

text \<open>
  Both \<open>INFORMATION_SCHEMA\<close> queries are sent before either \<open>ALTER\<close>, so both
  tests read the schema as it was; the \<open>ALTER\<close>s then run in that order.
\<close>

definition checkAndAddColumns :: "schema \<Rightarrow> schema" where
  "checkAndAddColumns s =
     (let s1 = (if has_column s ''activities'' ''max_participants'' then s
                else add_column_after ''activities'' ''max_participants'' ''points'' s)
      in if has_column s ''activities'' ''image_url'' then s1
         else add_column_after ''activities'' ''image_url'' ''max_participants'' s1)"

definition migrated_schema :: schema where
  "migrated_schema = checkAndAddColumns startup_schema"

section \<open>The columns of the statements that write\<close>

text \<open>A statement's table and the columns it names (set, inserted or tested).\<close>

record sql_stmt =
  st_table :: string
  st_columns :: "string list"

definition stmt_fits :: "schema \<Rightarrow> sql_stmt \<Rightarrow> bool" where
  "stmt_fits s q = list_all (has_column s (st_table q)) (st_columns q)"

definition sql_createActivity :: sql_stmt where
  "sql_createActivity = \<lparr>st_table = ''activities'', st_columns = [''title'', ''description'', ''club_id'', ''location'',
     ''start_time'', ''end_time'', ''points'', ''max_participants'', ''status'', ''image_url'']\<rparr>"

definition sql_updateActivity :: sql_stmt where
  "sql_updateActivity = \<lparr>st_table = ''activities'', st_columns = [''title'', ''description'', ''club_id'', ''location'',
     ''start_time'', ''end_time'', ''points'', ''max_participants'', ''image_url'', ''status'', ''id'']\<rparr>"

definition sql_reviewActivity :: sql_stmt where
  "sql_reviewActivity = \<lparr>st_table = ''activities'', st_columns = [''status'', ''feedback'', ''id'']\<rparr>"

definition sql_joinActivity :: sql_stmt where
  "sql_joinActivity = \<lparr>st_table = ''user_activities'', st_columns = [''user_id'', ''activity_id'', ''status'']\<rparr>"

definition sql_complete_rows :: sql_stmt where
  "sql_complete_rows = \<lparr>st_table = ''user_activities'', st_columns = [''status'', ''earned_points'', ''activity_id'', ''user_id'']\<rparr>"

definition sql_complete_credit :: sql_stmt where
  "sql_complete_credit = \<lparr>st_table = ''users'', st_columns = [''points'', ''id'']\<rparr>"

definition sql_complete_status :: sql_stmt where
  "sql_complete_status = \<lparr>st_table = ''activities'', st_columns = [''status'', ''id'']\<rparr>"

definition sql_delete_participants :: sql_stmt where
  "sql_delete_participants = \<lparr>st_table = ''user_activities'', st_columns = [''activity_id'']\<rparr>"

definition sql_leaveActivity :: sql_stmt where
  "sql_leaveActivity = \<lparr>st_table = ''user_activities'', st_columns = [''user_id'', ''activity_id'']\<rparr>"

definition sql_createClub :: sql_stmt where
  "sql_createClub = \<lparr>st_table = ''clubs'', st_columns = [''name'', ''description'', ''logo'', ''admin_id'']\<rparr>"

definition sql_add_president :: sql_stmt where
  "sql_add_president = \<lparr>st_table = ''club_members'', st_columns = [''user_id'', ''club_id'', ''role'']\<rparr>"

definition sql_updateClub :: sql_stmt where
  "sql_updateClub = \<lparr>st_table = ''clubs'', st_columns = [''name'', ''description'', ''logo'', ''id'']\<rparr>"

definition sql_joinClub :: sql_stmt where
  "sql_joinClub = \<lparr>st_table = ''club_members'', st_columns = [''club_id'', ''user_id'', ''role'', ''joined_at'']\<rparr>"

definition sql_member_role :: sql_stmt where
  "sql_member_role = \<lparr>st_table = ''club_members'', st_columns = [''role'', ''user_id'', ''club_id'']\<rparr>"

definition sql_club_admin :: sql_stmt where
  "sql_club_admin = \<lparr>st_table = ''clubs'', st_columns = [''admin_id'', ''id'']\<rparr>"

definition sql_user_role :: sql_stmt where
  "sql_user_role = \<lparr>st_table = ''users'', st_columns = [''role'', ''id'']\<rparr>"

definition sql_register :: sql_stmt where
  "sql_register = \<lparr>st_table = ''users'', st_columns = [''username'', ''password'', ''avatar'', ''student_id'', ''bio'',
     ''email'', ''role'']\<rparr>"

definition sql_updateUser :: sql_stmt where
  "sql_updateUser = \<lparr>st_table = ''users'', st_columns = [''email'', ''username'', ''student_id'', ''bio'', ''avatar'',
     ''role'', ''points'', ''id'']\<rparr>"

text \<open>Every statement that writes, under the handler that sends it.\<close>

definition server_statements :: "(string \<times> sql_stmt) list" where
  "server_statements =
     [(''createActivity'', sql_createActivity), (''updateActivity'', sql_updateActivity),
      (''reviewActivity'', sql_reviewActivity), (''joinActivity'', sql_joinActivity),
      (''completeActivity'', sql_complete_rows), (''completeActivity'', sql_complete_credit),
      (''completeActivity'', sql_complete_status), (''deleteActivity'', sql_delete_participants),
      (''leaveActivity'', sql_leaveActivity), (''createClub'', sql_createClub), (''createClub'', sql_add_president),
      (''createClub'', sql_user_role), (''updateClub'', sql_updateClub), (''joinClub'', sql_joinClub),
      (''updateMemberRole'', sql_member_role), (''updateMemberRole'', sql_club_admin),
      (''updateMemberRole'', sql_user_role), (''register'', sql_register), (''createUser'', sql_register),
      (''updateUser'', sql_updateUser), (''changeUserRole'', sql_user_role)]"

section \<open>reviewActivity on a schema\<close>

text \<open>
  \<open>reviewActivity\<close> (activityController.js lines 445--472) on a database with
  schema \<open>s\<close>: the decision is checked first; then the \<open>UPDATE\<close> fails with a 500
  when a column it names is missing.
\<close>

definition reviewActivity_on :: "schema \<Rightarrow> aid \<Rightarrow> string option \<Rightarrow> string option \<Rightarrow> db \<Rightarrow> api_error + db" where
  "reviewActivity_on s a decision feedback d =
     (if decision \<noteq> Some ''approved'' \<and> decision \<noteq> Some ''rejected'' then Inl InvalidReviewStatus
      else if \<not> stmt_fits s sql_reviewActivity then Inl DbError
      else reviewActivity a decision feedback d)"

section \<open>Properties of the schema\<close>

lemma migrated_activities:
  "map_of migrated_schema ''activities'' =
     Some [''id'', ''title'', ''description'', ''club_id'', ''location'', ''start_time'', ''end_time'', ''points'',
           ''max_participants'', ''image_url'', ''status'', ''created_at'']"
  by (simp add: migrated_schema_def checkAndAddColumns_def startup_schema_def has_column_def add_column_after_def)

lemma checkAndAddColumns_restart: "checkAndAddColumns migrated_schema = migrated_schema"
  by (simp add: migrated_schema_def checkAndAddColumns_def startup_schema_def has_column_def add_column_after_def)

lemma statements_missing_columns:
  "filter (\<lambda>(h, q). \<not> stmt_fits migrated_schema q) server_statements = [(''reviewActivity'', sql_reviewActivity)]"
  by (simp add: server_statements_def stmt_fits_def migrated_schema_def checkAndAddColumns_def startup_schema_def
                has_column_def add_column_after_def sql_createActivity_def sql_updateActivity_def sql_reviewActivity_def
                sql_joinActivity_def sql_complete_rows_def sql_complete_credit_def sql_complete_status_def
                sql_delete_participants_def sql_leaveActivity_def sql_createClub_def sql_add_president_def
                sql_updateClub_def sql_joinClub_def sql_member_role_def sql_club_admin_def sql_user_role_def
                sql_register_def sql_updateUser_def)

lemma feedback_missing: "\<not> stmt_fits migrated_schema sql_reviewActivity"
  by (simp add: stmt_fits_def sql_reviewActivity_def migrated_schema_def checkAndAddColumns_def
                startup_schema_def has_column_def add_column_after_def)

lemma reviewActivity_on_fits:
  "stmt_fits s sql_reviewActivity \<Longrightarrow> reviewActivity_on s a decision feedback d = reviewActivity a decision feedback d"
  by (cases decision) (auto simp: reviewActivity_on_def reviewActivity_def)

text \<open>
  C10: no table the server creates has a \<open>feedback\<close> column: neither index.js
  nor \<open>checkAndAddColumns\<close> adds one. Of all the statements that write, only
  the review's \<open>UPDATE activities SET status = ?, feedback = ?\<close> names a missing
  column, so on a database the server built every valid review, approval or
  rejection, fails with a 500 and changes nothing.
\<close>

theorem review_fails_on_created_schema:
  "filter (\<lambda>(h, q). \<not> stmt_fits migrated_schema q) server_statements = [(''reviewActivity'', sql_reviewActivity)] \<and>
   reviewActivity_on migrated_schema a (Some ''approved'') fb d = Inl DbError \<and>
   reviewActivity_on migrated_schema a (Some ''rejected'') fb d = Inl DbError"
  using statements_missing_columns feedback_missing by (simp add: reviewActivity_on_def)

end
