(* ===== verification/Js_Text.thy ===== *)
theory Js_Text
  imports Prelude
begin

text \<open>
  The text functions the user handlers rely on, from JavaScript and from MySQL:
  the two regular expressions of \<open>updateUser\<close>
  (src/liantuanfen/server/controllers/userController.js), \<open>parseInt\<close> of the
  points field and \<open>String(n)\<close> of a JSON number, the case-insensitive comparison
  of MySQL's default collation \<open>utf8mb4_0900_ai_ci\<close> (on ASCII letters; characters
  are bytes here, so accents are not modelled), and the \<open>LIKE\<close> patterns of
  \<open>getPointsRanking\<close>. All are executable; strings are lists of characters.
\<close>

section \<open>Characters\<close>

text \<open>JavaScript's \<open>\s\<close> on single-byte characters: tab, line feed, vertical tab, form feed, carriage return, space, no-break space.\<close>

definition js_space :: "char \<Rightarrow> bool" where
  "js_space c = (of_char c \<in> {9, 10, 11, 12, 13, 32, 160 :: nat})"

definition is_digit :: "char \<Rightarrow> bool" where
  "is_digit c = (48 \<le> (of_char c :: nat) \<and> (of_char c :: nat) \<le> 57)"

definition is_hex_digit :: "char \<Rightarrow> bool" where
  "is_hex_digit c =
     (is_digit c \<or> (97 \<le> (of_char c :: nat) \<and> (of_char c :: nat) \<le> 102) \<or>
      (65 \<le> (of_char c :: nat) \<and> (of_char c :: nat) \<le> 70))"

definition digit_val :: "char \<Rightarrow> nat" where
  "digit_val c =
     (let n = (of_char c :: nat) in
      if n \<le> 57 then n - 48 else if n \<le> 70 then n - 55 else n - 87)"

text \<open>The collation folds ASCII upper case onto lower case.\<close>

definition lower_ascii :: "char \<Rightarrow> char" where
  "lower_ascii c =
     (case find (\<lambda>(u, l). u = c) (zip ''ABCDEFGHIJKLMNOPQRSTUVWXYZ'' ''abcdefghijklmnopqrstuvwxyz'') of
        Some (u, l) \<Rightarrow> l
      | None \<Rightarrow> c)"

definition ci_eq :: "string \<Rightarrow> string \<Rightarrow> bool" where
  "ci_eq a b = (map lower_ascii a = map lower_ascii b)"

section \<open>The regular expressions of updateUser (lines 198--221)\<close>

text \<open>\<open>/^[^\s@]+@[^\s@]+\.[^\s@]+$/\<close>: one \<open>@\<close> with a non-empty part before it, and after it a dot with characters on both sides; no blanks anywhere.\<close>

definition email_char :: "char \<Rightarrow> bool" where
  "email_char c = (\<not> js_space c \<and> c \<noteq> CHR ''@'')"

definition valid_email :: "string \<Rightarrow> bool" where
  "valid_email s =
     (let a = takeWhile (\<lambda>c. c \<noteq> CHR ''@'') s; b = drop (Suc (length a)) s
      in length a < length s \<and> a \<noteq> [] \<and> list_all email_char a \<and> list_all email_char b \<and>
         list_ex (\<lambda>i. b ! i = CHR ''.'') [1..<length b - 1])"

text \<open>\<open>/^\d{8,12}$/\<close>.\<close>

definition valid_student_id :: "string \<Rightarrow> bool" where
  "valid_student_id s = (8 \<le> length s \<and> length s \<le> 12 \<and> list_all is_digit s)"

section \<open>Numbers\<close>

text \<open>The value of a digit string in a base, most significant digit first.\<close>

definition digits_val :: "nat \<Rightarrow> string \<Rightarrow> nat" where
  "digits_val base ds = foldl (\<lambda>n c. n * base + digit_val c) 0 ds"

text \<open>
  \<open>parseInt(s)\<close> without a radix: leading blanks skipped, an optional sign, a
  \<open>0x\<close> prefix selects base 16, then the longest digit prefix; no digit is
  \<open>NaN\<close> (\<open>None\<close>).
\<close>

definition js_parseInt :: "string \<Rightarrow> int option" where
  "js_parseInt s =
     (let t = dropWhile js_space s;
          neg = (case t of c # _ \<Rightarrow> c = CHR ''-'' | [] \<Rightarrow> False);
          r = (case t of c # r \<Rightarrow> if c = CHR ''-'' \<or> c = CHR ''+'' then r else t | [] \<Rightarrow> []);
          hex = (take 2 r = ''0x'' \<or> take 2 r = ''0X'');
          ds = (if hex then takeWhile is_hex_digit (drop 2 r) else takeWhile is_digit r)
      in if ds = [] then None
         else Some ((if neg then -1 else 1) * int (digits_val (if hex then 16 else 10) ds)))"

text \<open>The decimal digits of a natural number.\<close>

definition digit_char :: "nat \<Rightarrow> char" where
  "digit_char d = ''0123456789'' ! d"

fun nat_str :: "nat \<Rightarrow> string" where
  "nat_str n = (if n < 10 then [digit_char n] else nat_str (n div 10) @ [digit_char (n mod 10)])"

text \<open>
  \<open>String(n)\<close> of an integer-valued JSON number below \<open>10^21\<close> in magnitude (larger
  ones are printed with an exponent, outside every \<open>INT\<close> column).
\<close>

definition js_string_of_int :: "int \<Rightarrow> string" where
  "js_string_of_int n = (if n < 0 then CHR ''-'' # nat_str (nat (- n)) else nat_str (nat n))"

text \<open>The range of a signed MySQL \<open>INT\<close> column; a value outside it makes the statement fail in strict mode.\<close>

definition int32_ok :: "int \<Rightarrow> bool" where
  "int32_ok n = (- 2147483648 \<le> n \<and> n \<le> 2147483647)"

section \<open>LIKE\<close>

text \<open>
  MySQL's \<open>LIKE\<close>: \<open>%\<close> matches any sequence, \<open>_\<close> any one character, a
  backslash makes the next character literal; other characters compare under the
  collation.
\<close>

fun like :: "string \<Rightarrow> string \<Rightarrow> bool" where
  "like [] s = (s = [])"
| "like (c # p) [] = (c = CHR ''%'' \<and> like p [])"
| "like (c # p) (x # s) =
     (if c = CHR ''%'' then like p (x # s) \<or> like (c # p) s
      else if c = CHR ''_'' then like p s
      else if c = CHR 0x5C \<and> p \<noteq> [] then lower_ascii (hd p) = lower_ascii x \<and> like (tl p) s
      else lower_ascii c = lower_ascii x \<and> like p s)"

text \<open>The reference meaning of \<open>LIKE '%q%'\<close> for a plain \<open>q\<close>: \<open>q\<close> occurs in \<open>s\<close> under the collation.\<close>

definition ci_contains :: "string \<Rightarrow> string \<Rightarrow> bool" where
  "ci_contains q s = list_ex (\<lambda>i. ci_eq q (take (length q) (drop i s))) [0..<Suc (length s)]"

definition plain :: "string \<Rightarrow> bool" where
  "plain q = list_all (\<lambda>c. c \<noteq> CHR ''%'' \<and> c \<noteq> CHR ''_'' \<and> c \<noteq> CHR 0x5C) q"

section \<open>String methods of the client\<close>

text \<open>\<open>toLowerCase\<close>, \<open>trim\<close> and \<open>includes\<close> on ASCII text.\<close>

definition js_lower :: "string \<Rightarrow> string" where
  "js_lower s = map lower_ascii s"

definition js_trim :: "string \<Rightarrow> string" where
  "js_trim s = rev (dropWhile js_space (rev (dropWhile js_space s)))"

definition js_includes :: "string \<Rightarrow> string \<Rightarrow> bool" where
  "js_includes s t = list_ex (\<lambda>i. take (length t) (drop i s) = t) [0..<Suc (length s)]"

text \<open>The equation of \<open>nat_str\<close> unfolds forever on a variable; proofs use it explicitly.\<close>

declare nat_str.simps [simp del]

section \<open>Properties\<close>


lemma digit_char_props:
  assumes "d < 10"
  shows "is_digit (digit_char d) \<and> digit_val (digit_char d) = d"
proof -
  have "d \<in> {0, 1, 2, 3, 4, 5, 6, 7, 8, 9}" using assms by auto
  then show ?thesis
    by (auto simp: digit_char_def is_digit_def digit_val_def)
qed

lemma digits_val_snoc:
  "digits_val b (xs @ [c]) = digits_val b xs * b + digit_val c"
  by (simp add: digits_val_def)

lemma nat_str_props:
  "nat_str n \<noteq> [] \<and> list_all is_digit (nat_str n) \<and> digits_val 10 (nat_str n) = n"
proof (induction n rule: nat_str.induct)
  case (1 n)
  show ?case
  proof (cases "n < 10")
    case True
    then show ?thesis
      using digit_char_props [OF True] by (simp add: nat_str.simps digits_val_def)
  next
    case False
    have m: "n mod 10 < 10" by simp
    have "n div 10 * 10 + n mod 10 = n" by simp
    then show ?thesis
      using 1 [OF False] digit_char_props [OF m] False
      by (simp add: nat_str.simps [of n] digits_val_snoc)
  qed
qed

lemma digit_not_space: "is_digit c \<Longrightarrow> \<not> js_space c \<and> c \<noteq> CHR ''-'' \<and> c \<noteq> CHR ''+'' \<and> c \<noteq> CHR ''x'' \<and> c \<noteq> CHR ''X''"
  by (auto simp: is_digit_def js_space_def)

lemma js_parseInt_digits:
  assumes "ds \<noteq> []" and "list_all is_digit ds"
  shows "js_parseInt ds = Some (int (digits_val 10 ds))"
    and "js_parseInt (CHR ''-'' # ds) = Some (- int (digits_val 10 ds))"
proof -
  obtain c cs where ds: "ds = c # cs" using assms(1) by (cases ds) auto
  have c: "is_digit c" "list_all is_digit cs" using assms(2) ds by auto
  have nohex: "\<not> (take 2 ds = ''0x'' \<or> take 2 ds = ''0X'')"
    using c digit_not_space [of "hd cs"] by (cases cs) (auto simp: ds)
  have tw: "takeWhile is_digit ds = ds"
    using assms(2) by (simp add: takeWhile_eq_all_conv list_all_iff)
  show "js_parseInt ds = Some (int (digits_val 10 ds))"
    using digit_not_space [OF c(1)] nohex tw assms(1) by (auto simp: js_parseInt_def Let_def ds)
  show "js_parseInt (CHR ''-'' # ds) = Some (- int (digits_val 10 ds))"
    using nohex tw assms(1) by (auto simp: js_parseInt_def Let_def js_space_def ds)
qed

text \<open>
  \<open>parseInt\<close> reads back the plain decimal printing of every integer. This is
  \<open>String\<close> only below \<open>10^21\<close> in magnitude (above it JavaScript prints an
  exponent); every value of an \<open>INT\<close> column is far below.
\<close>

theorem js_parseInt_string_of_int: "js_parseInt (js_string_of_int n) = Some n"
  using nat_str_props [of "nat n"] nat_str_props [of "nat (- n)"]
    js_parseInt_digits [of "nat_str (nat n)"] js_parseInt_digits [of "nat_str (nat (- n))"]
  by (simp add: js_string_of_int_def)

lemma ci_eq_length: "ci_eq a b \<Longrightarrow> length a = length b"
  unfolding ci_eq_def by (metis length_map)

lemma like_plain_prefix:
  "plain q \<Longrightarrow>
     like (q @ p) s = (length q \<le> length s \<and> ci_eq q (take (length q) s) \<and> like p (drop (length q) s))"
proof (induction q arbitrary: s)
  case Nil
  then show ?case by (simp add: ci_eq_def)
next
  case (Cons c q)
  have c: "c \<noteq> CHR ''%''" "c \<noteq> CHR ''_''" "c \<noteq> CHR 0x5C" and pq: "plain q"
    using Cons.prems by (simp_all add: plain_def)
  show ?case
  proof (cases s)
    case Nil
    then show ?thesis using c by simp
  next
    case (Cons x s')
    then show ?thesis
      using c Cons.IH [OF pq, of s'] by (auto simp: ci_eq_def)
  qed
qed

lemma like_percent:
  "like (CHR ''%'' # p) s = (\<exists>i \<le> length s. like p (drop i s))"
proof (induction s)
  case Nil
  then show ?case by simp
next
  case (Cons x s)
  have "(\<exists>i \<le> length (x # s). like p (drop i (x # s))) =
        (like p (x # s) \<or> (\<exists>i \<le> length s. like p (drop i s)))"
  proof
    assume "\<exists>i \<le> length (x # s). like p (drop i (x # s))"
    then obtain i where "i \<le> Suc (length s)" "like p (drop i (x # s))" by auto
    then show "like p (x # s) \<or> (\<exists>i \<le> length s. like p (drop i s))"
      by (cases i) auto
  next
    assume "like p (x # s) \<or> (\<exists>i \<le> length s. like p (drop i s))"
    then show "\<exists>i \<le> length (x # s). like p (drop i (x # s))"
    proof
      assume "like p (x # s)"
      then show ?thesis by (intro exI [of _ 0]) simp
    next
      assume "\<exists>i \<le> length s. like p (drop i s)"
      then obtain i where "i \<le> length s" "like p (drop i s)" by blast
      then show ?thesis by (intro exI [of _ "Suc i"]) simp
    qed
  qed
  with Cons show ?case by simp
qed

text \<open>
  For a search text without wildcard or escape characters, the pattern
  \<open>'%' + search + '%'\<close> matches exactly the strings that contain the search text,
  ignoring ASCII case.
\<close>

lemma like_contains_plain:
  "plain q \<Longrightarrow> like (CHR ''%'' # q @ ''%'') s = ci_contains q s"
proof -
  assume pq: "plain q"
  have tail: "\<exists>ia \<le> a - b. a \<le> ia + (b :: nat)" for a b
    by (intro exI [of _ "a - b"]) simp
  have "like (CHR ''%'' # q @ ''%'') s =
        (\<exists>i \<le> length s. length q \<le> length (drop i s) \<and> ci_eq q (take (length q) (drop i s)))"
    using like_plain_prefix [OF pq] by (simp add: like_percent tail)
  also have "\<dots> = (\<exists>i < Suc (length s). ci_eq q (take (length q) (drop i s)))"
  proof -
    have "length q \<le> length s - i" if "ci_eq q (take (length q) (drop i s))" for i
      using ci_eq_length [OF that] by (simp add: min_def split: if_splits)
    then show ?thesis by (auto simp: less_Suc_eq_le)
  qed
  finally show ?thesis
    by (auto simp: ci_contains_def list_ex_iff simp del: upt_Suc)
qed



lemma ci_eq_sym: "ci_eq a b \<longleftrightarrow> ci_eq b a"
  by (auto simp: ci_eq_def)

lemma like_percent_empty:
  "like p [] \<Longrightarrow> like (CHR ''%'' # p) s"
  by (auto simp: like_percent intro: exI [of _ "length s"])

end
