(* ===== verification/Users.thy ===== *)
theory Users
  imports Clubs Js_Text
begin

text \<open>
  User management, src/liantuanfen/server/controllers/userController.js:
  registration, login, profile edits, role changes, deletion, the points ranking
  and the admin's \<open>createUser\<close>. bcrypt is a library call: \<open>hash\<close> and \<open>cmp\<close> are
  parameters of the handlers that use it (\<open>bcrypt.hash\<close>, \<open>bcrypt.compare\<close>), and
  the properties that need its contract assume it. A token is the principal it
  encodes (\<open>jwt.sign\<close> of \<open>{id, username, role}\<close>). Columns compare under the
  collation (\<open>ci_eq\<close>), as the \<open>UNIQUE\<close> keys and \<open>WHERE username = ?\<close> do.
\<close>

section \<open>Request bodies and column helpers\<close>

text \<open>The fields of \<open>req.body\<close> the handlers read; \<open>None\<close> is \<open>undefined\<close>.\<close>

record user_input =
  ui_username :: "string option"
  ui_password :: "string option"
  ui_student_id :: "string option"
  ui_email :: "string option"
  ui_bio :: "string option"
  ui_role :: "string option"
  ui_points :: "string option"

text \<open>A \<open>UNIQUE\<close> column holding a value (under the collation) in a row other than \<open>self\<close>; \<open>NULL\<close> holds nothing.\<close>

definition column_taken :: "db \<Rightarrow> (user_row \<Rightarrow> string option) \<Rightarrow> string \<Rightarrow> uid option \<Rightarrow> bool" where
  "column_taken d col v self =
     list_ex (\<lambda>(k, r). (case col r of Some w \<Rightarrow> ci_eq w v | None \<Rightarrow> False) \<and> Some k \<noteq> self) (users d)"

definition name_taken :: "db \<Rightarrow> string \<Rightarrow> uid option \<Rightarrow> bool" where
  "name_taken d n self = column_taken d (\<lambda>r. Some (u_name r)) n self"

text \<open>The \<open>ENUM('admin', 'student', 'club_admin')\<close> values.\<close>

definition parse_role :: "string \<Rightarrow> role option" where
  "parse_role s =
     (if s = ''admin'' then Some Admin else if s = ''student'' then Some Student
      else if s = ''club_admin'' then Some ClubAdmin else None)"

text \<open>A truthy string satisfying a test.\<close>

definition truthy_and :: "(string \<Rightarrow> bool) \<Rightarrow> string option \<Rightarrow> bool" where
  "truthy_and P v = (case v of Some s \<Rightarrow> s \<noteq> [] \<and> P s | None \<Rightarrow> False)"

text \<open>
  The row's values fit the column types of the \<open>users\<close> table (server/index.js
  lines 45--56): \<open>VARCHAR(50)\<close> username, \<open>VARCHAR(20)\<close> student id,
  \<open>VARCHAR(100)\<close> email, \<open>INT\<close> points. In strict mode a value that does not fit
  makes the statement fail before any key is checked (the 500 branch).
\<close>

definition fits_columns :: "user_row \<Rightarrow> bool" where
  "fits_columns r =
     (length (u_name r) \<le> 50 \<and> (case u_student_id r of Some s \<Rightarrow> length s \<le> 20 | None \<Rightarrow> True) \<and>
      (case u_email r of Some e \<Rightarrow> length e \<le> 100 | None \<Rightarrow> True) \<and> int32_ok (u_points r))"

section \<open>register (lines 15--103)\<close>

text \<open>
  The four required fields must be truthy; the avatar defaults to the stock image
  and the bio to the empty string. No length or format is checked, so a value too
  long for its column makes the \<open>INSERT\<close> fail (500). The \<open>INSERT\<close> fails on the
  first \<open>UNIQUE\<close> key violated, in the order the schema creates them (username, student id, email),
  and each has its own message. The new user is a student and gets a token.
\<close>

definition register ::
  "(string \<Rightarrow> string) \<Rightarrow> user_input option \<Rightarrow> string option \<Rightarrow> db \<Rightarrow> api_error + db \<times> uid \<times> principal" where
  "register hash body file d =
     (case body of
        None \<Rightarrow> Inl EmptyBody
      | Some b \<Rightarrow>
          (case (ui_username b, ui_password b, ui_student_id b, ui_email b) of
             (Some n, Some pw, Some sid, Some em) \<Rightarrow>
               if n = [] \<or> pw = [] \<or> sid = [] \<or> em = [] then Inl MissingUserFields
               else
                 (let k = next_uid d;
                      row = \<lparr>u_name = n, u_password = hash pw,
                             u_avatar = Some (case file of Some f \<Rightarrow> ''/uploads/'' @ f
                                                         | None \<Rightarrow> ''/uploads/default-avatar.png''),
                             u_student_id = Some sid,
                             u_bio = Some (case ui_bio b of Some x \<Rightarrow> x | None \<Rightarrow> []),
                             u_email = Some em, u_role = Student, u_points = 0\<rparr>
                  in if \<not> fits_columns row then Inl DbError
                     else if name_taken d n None then Inl UsernameExists
                     else if column_taken d u_student_id sid None then Inl StudentIdExists
                     else if column_taken d u_email em None then Inl EmailExists
                     else Inr (d\<lparr>users := users d @ [(k, row)], next_uid := Suc k\<rparr>, k,
                               \<lparr>p_id = k, p_role = Student\<rparr>))
           | _ \<Rightarrow> Inl MissingUserFields))"

section \<open>login (lines 106--166) and getCurrentUser (lines 169--183)\<close>

text \<open>
  The first row whose username matches (the key is unique) and whose stored hash
  the password matches; either failure is the same 401. The token carries the
  stored role at this moment.
\<close>

definition login :: "(string \<Rightarrow> string \<Rightarrow> bool) \<Rightarrow> user_input option \<Rightarrow> db \<Rightarrow> api_error + principal" where
  "login cmp body d =
     (case body of
        None \<Rightarrow> Inl EmptyBody
      | Some b \<Rightarrow>
          (case (ui_username b, ui_password b) of
             (Some n, Some pw) \<Rightarrow>
               if n = [] \<or> pw = [] then Inl MissingCredentials
               else
                 (case find (\<lambda>(k, r). ci_eq (u_name r) n) (users d) of
                    None \<Rightarrow> Inl InvalidCredentials
                  | Some (k, r) \<Rightarrow>
                      if cmp pw (u_password r) then Inr \<lparr>p_id = k, p_role = u_role r\<rparr>
                      else Inl InvalidCredentials)
           | _ \<Rightarrow> Inl MissingCredentials))"

definition getCurrentUser :: "principal \<Rightarrow> db \<Rightarrow> api_error + user_row" where
  "getCurrentUser u d = (case map_of (users d) (p_id u) of None \<Rightarrow> Inl UserNotFound | Some r \<Rightarrow> Inr r)"

section \<open>updateUser (lines 186--297)\<close>

text \<open>
  The \<open>SET\<close> list of lines 195--244: a truthy email, username and student id, a
  bio that is not \<open>undefined\<close>, an uploaded avatar, and, for a system admin only,
  a valid role and the parsed points.
\<close>

definition patch_user :: "principal \<Rightarrow> user_input \<Rightarrow> string option \<Rightarrow> user_row \<Rightarrow> user_row" where
  "patch_user u b file r =
     r\<lparr>u_email := (if js_truthy_str (ui_email b) then ui_email b else u_email r),
       u_name := patch_str (ui_username b) (u_name r),
       u_student_id := (if js_truthy_str (ui_student_id b) then ui_student_id b else u_student_id r),
       u_bio := (case ui_bio b of Some x \<Rightarrow> Some x | None \<Rightarrow> u_bio r),
       u_avatar := (case file of Some f \<Rightarrow> Some (''/uploads/'' @ f) | None \<Rightarrow> u_avatar r),
       u_role := (if p_role u = Admin then (case (Option.bind (ui_role b) parse_role) of Some ro \<Rightarrow> ro | None \<Rightarrow> u_role r)
                  else u_role r),
       u_points := (if p_role u = Admin then (case (Option.bind (ui_points b) js_parseInt) of Some n \<Rightarrow> n | None \<Rightarrow> u_points r)
                    else u_points r)\<rparr>"

text \<open>Whether the request writes any column at all (\<open>updateFields.length\<close>).\<close>

definition user_fields :: "principal \<Rightarrow> user_input \<Rightarrow> string option \<Rightarrow> bool" where
  "user_fields u b file =
     (js_truthy_str (ui_email b) \<or> js_truthy_str (ui_username b) \<or> js_truthy_str (ui_student_id b) \<or>
      ui_bio b \<noteq> None \<or> file \<noteq> None \<or>
      (p_role u = Admin \<and> ((Option.bind (ui_role b) parse_role) \<noteq> None \<or> ui_points b \<noteq> None)))"

text \<open>
  The caller must be the user or a system admin. The validations come in the
  code's order; then a truthy email held by another user is refused; then the
  \<open>UPDATE\<close>: no row with the id is a 404, values that do not fit their columns
  (points outside the \<open>INT\<close> range, an email longer than 100) make the statement
  fail (500), a username or student id held by another row is a 400.
\<close>

definition updateUser ::
  "principal \<Rightarrow> uid \<Rightarrow> user_input \<Rightarrow> string option \<Rightarrow> db \<Rightarrow> api_error + db" where
  "updateUser u v b file d =
     (if p_id u \<noteq> v \<and> p_role u \<noteq> Admin then Inl UpdateUserForbidden
      else if truthy_and (\<lambda>s. \<not> valid_email s) (ui_email b) then Inl InvalidEmail
      else if truthy_and (\<lambda>s. length s < 2 \<or> 50 < length s) (ui_username b) then Inl InvalidUsername
      else if truthy_and (\<lambda>s. \<not> valid_student_id s) (ui_student_id b) then Inl InvalidStudentId
      else if p_role u = Admin \<and> ui_points b \<noteq> None \<and> (Option.bind (ui_points b) js_parseInt) = None
      then Inl PointsNotNumber
      else if \<not> user_fields u b file then Inl NoFieldsToUpdate
      else if truthy_and (\<lambda>em. column_taken d u_email em (Some v)) (ui_email b) then Inl EmailTaken
      else
        (case map_of (users d) v of
           None \<Rightarrow> Inl UserNotFound
         | Some r \<Rightarrow>
             (let r' = patch_user u b file r
              in if \<not> fits_columns r' then Inl DbError
                 else if name_taken d (u_name r') (Some v) \<or>
                         (case u_student_id r' of Some sid \<Rightarrow> column_taken d u_student_id sid (Some v)
                                                | None \<Rightarrow> False)
                 then Inl UsernameOrStudentIdExists
                 else Inr (d\<lparr>users := update_rows v (\<lambda>_. r') (users d)\<rparr>))))"

section \<open>Administration: getAllUsers (lines 300--311), changeUserRole (lines 314--336), deleteUser (lines 339--400)\<close>

definition getAllUsers :: "db \<Rightarrow> (uid \<times> user_row) list" where
  "getAllUsers d = users d"

definition changeUserRole :: "uid \<Rightarrow> string option \<Rightarrow> db \<Rightarrow> api_error + db" where
  "changeUserRole v role d =
     (case Option.bind role parse_role of
        None \<Rightarrow> Inl InvalidRole
      | Some r \<Rightarrow> if map_of (users d) v = None then Inl UserNotFound else Inr (set_user_role v r d))"

text \<open>
  Not oneself; the user must exist; a user with memberships, registrations or
  clubs it administers is refused, since the foreign keys would make the delete
  fail.
\<close>

definition deleteUser :: "principal \<Rightarrow> uid \<Rightarrow> db \<Rightarrow> api_error + db" where
  "deleteUser u v d =
     (if p_id u = v then Inl CannotDeleteSelf
      else if map_of (users d) v = None then Inl UserNotFound
      else if list_ex (\<lambda>m. m_user m = v) (club_members d) \<or>
              list_ex (\<lambda>r. ua_user r = v) (user_activities d) \<or>
              list_ex (\<lambda>(k, c). c_admin c = v) (clubs d)
      then Inl UserHasRelations
      else Inr (d\<lparr>users := AList.delete v (users d)\<rparr>))"

section \<open>getPointsRanking (lines 403--429)\<close>

text \<open>\<open>col LIKE pattern\<close>; \<open>NULL\<close> matches nothing.\<close>

definition like_col :: "string \<Rightarrow> string option \<Rightarrow> bool" where
  "like_col pat v = (case v of Some s \<Rightarrow> like pat s | None \<Rightarrow> False)"

text \<open>
  With a truthy search, the users whose username, email or student id is
  \<open>LIKE '%search%'\<close> (the search text is not escaped); then by points, highest
  first, at most 100 rows. Equal points keep the table order (MySQL leaves it open).
\<close>

definition getPointsRanking :: "string option \<Rightarrow> db \<Rightarrow> (uid \<times> user_row) list" where
  "getPointsRanking search d =
     (let rows = (case search of
                    Some q \<Rightarrow>
                      if q = [] then users d
                      else (let pat = CHR ''%'' # q @ ''%''
                            in filter (\<lambda>(k, r). like pat (u_name r) \<or> like_col pat (u_email r) \<or>
                                                like_col pat (u_student_id r)) (users d))
                  | None \<Rightarrow> users d)
      in take 100 (sort_key (\<lambda>(k, r). - u_points r) rows))"

section \<open>createUser (lines 432--491)\<close>

text \<open>
  The admin's route. Four required fields; the role defaults to \<open>student\<close> and is
  not validated, so a value outside the \<open>ENUM\<close> makes the \<open>INSERT\<close> fail in strict
  mode (500), as does a value too long for its column; any \<open>UNIQUE\<close> violation is one 400; the avatar and bio default to
  \<open>NULL\<close>.
\<close>

definition createUser ::
  "(string \<Rightarrow> string) \<Rightarrow> principal \<Rightarrow> user_input option \<Rightarrow> string option \<Rightarrow> db \<Rightarrow> api_error + db \<times> uid" where
  "createUser hash u body file d =
     (case body of
        None \<Rightarrow> Inl EmptyBody
      | Some b \<Rightarrow>
          (case (ui_username b, ui_password b, ui_email b, ui_student_id b) of
             (Some n, Some pw, Some em, Some sid) \<Rightarrow>
               if n = [] \<or> pw = [] \<or> em = [] \<or> sid = [] then Inl MissingUserFields
               else
                 (let rs = (case ui_role b of Some s \<Rightarrow> if s = [] then ''student'' else s | None \<Rightarrow> ''student'');
                      rs' = (if rs = ''admin'' \<and> p_role u \<noteq> Admin then ''student'' else rs)
                  in case parse_role rs' of
                       None \<Rightarrow> Inl DbError
                     | Some ro \<Rightarrow>
                         (let k = next_uid d;
                              row = \<lparr>u_name = n, u_password = hash pw,
                                     u_avatar = map_option (\<lambda>f. ''/uploads/'' @ f) file,
                                     u_student_id = Some sid,
                                     u_bio = (if js_truthy_str (ui_bio b) then ui_bio b else None),
                                     u_email = Some em, u_role = ro, u_points = 0\<rparr>
                          in if \<not> fits_columns row then Inl DbError
                             else if name_taken d n None \<or> column_taken d u_student_id sid None \<or>
                                     column_taken d u_email em None
                             then Inl DuplicateUser
                             else Inr (d\<lparr>users := users d @ [(k, row)], next_uid := Suc k\<rparr>, k)))
           | _ \<Rightarrow> Inl MissingUserFields))"

section \<open>Routes (routes/userRoutes.js lines 31--60)\<close>

text \<open>
  The state-changing routes with their arguments: registration is public; the
  profile edit needs a token; role changes, user creation and deletion need a
  token whose role is \<open>admin\<close>. The \<open>GET\<close> routes and \<open>login\<close> change nothing.
\<close>

datatype user_request =
    Register "user_input option" "string option"
  | UpdateUser "principal option" uid user_input "string option"
  | ChangeUserRole "principal option" uid "string option"
  | CreateUser "principal option" "user_input option" "string option"
  | DeleteUser "principal option" uid

fun user_route :: "(string \<Rightarrow> string) \<Rightarrow> user_request \<Rightarrow> db \<Rightarrow> api_error + db" where
  "user_route hash (Register b file) d = map_sum id fst (register hash b file d)"
| "user_route hash (UpdateUser pu v b file) d =
     (case pu of None \<Rightarrow> Inl Unauthorized | Some u \<Rightarrow> updateUser u v b file d)"
| "user_route hash (ChangeUserRole pu v r) d =
     (case pu of None \<Rightarrow> Inl Unauthorized
      | Some u \<Rightarrow> if \<not> isAdmin u then Inl AdminRequired else changeUserRole v r d)"
| "user_route hash (CreateUser pu b file) d =
     (case pu of None \<Rightarrow> Inl Unauthorized
      | Some u \<Rightarrow> if \<not> isAdmin u then Inl AdminRequired else map_sum id fst (createUser hash u b file d))"
| "user_route hash (DeleteUser pu v) d =
     (case pu of None \<Rightarrow> Inl Unauthorized
      | Some u \<Rightarrow> if \<not> isAdmin u then Inl AdminRequired else deleteUser u v d)"

declare register_def [handler_defs] updateUser_def [handler_defs] changeUserRole_def [handler_defs]
  deleteUser_def [handler_defs] createUser_def [handler_defs]

section \<open>Invariants\<close>

text \<open>
  The \<open>UNIQUE\<close> keys of \<open>users\<close> (username, student id, email, compared under the
  collation; \<open>NULL\<close> repeats freely), a fresh \<open>AUTO_INCREMENT\<close> counter, and
  every balance within the \<open>INT\<close> column.
\<close>

text \<open>
  The constraints an \<open>INSERT\<close> or \<open>UPDATE\<close> of a \<open>users\<close> row checks against the
  other rows (\<open>self\<close> is the row's own id for an update): the \<open>UNIQUE\<close> keys
  username, student id and email under the collation (\<open>NULL\<close> repeats freely) and
  the column types (\<open>fits_columns\<close>).
\<close>

definition row_ok :: "db \<Rightarrow> uid option \<Rightarrow> user_row \<Rightarrow> bool" where
  "row_ok d self r =
     (\<not> name_taken d (u_name r) self \<and>
      (case u_student_id r of Some s \<Rightarrow> \<not> column_taken d u_student_id s self | None \<Rightarrow> True) \<and>
      (case u_email r of Some s \<Rightarrow> \<not> column_taken d u_email s self | None \<Rightarrow> True) \<and>
      fits_columns r)"

text \<open>Every row satisfies the constraints, and the \<open>AUTO_INCREMENT\<close> counter is fresh.\<close>

definition wf_users :: "db \<Rightarrow> bool" where
  "wf_users d =
     (list_all (\<lambda>k. k < next_uid d) (keys_of (users d)) \<and>
      list_all (\<lambda>(k, r). row_ok d (Some k) r) (users d))"

text \<open>Two rows that share no unique key.\<close>

definition apart :: "user_row \<Rightarrow> user_row \<Rightarrow> bool" where
  "apart a r =
     (\<not> ci_eq (u_name a) (u_name r) \<and>
      (case (u_student_id a, u_student_id r) of (Some t, Some s) \<Rightarrow> \<not> ci_eq t s | _ \<Rightarrow> True) \<and>
      (case (u_email a, u_email r) of (Some t, Some s) \<Rightarrow> \<not> ci_eq t s | _ \<Rightarrow> True))"

text \<open>A registration body for the witnesses: a fifth user, D.\<close>

definition fx_new_user :: user_input where
  "fx_new_user = \<lparr>ui_username = Some ''D'', ui_password = Some ''pw'', ui_student_id = Some ''20230001'',
                  ui_email = Some ''d@x.cn'', ui_bio = None, ui_role = None, ui_points = None\<rparr>"

section \<open>Behaviour of the user handlers\<close>

lemma apart_sym: "apart a r \<longleftrightarrow> apart r a"
  by (auto simp: apart_def ci_eq_sym split: option.splits)

lemma column_taken_iff:
  "column_taken d col v self \<longleftrightarrow> (\<exists>k r w. (k, r) \<in> set (users d) \<and> col r = Some w \<and> ci_eq w v \<and> Some k \<noteq> self)"
proof
  assume "column_taken d col v self"
  then obtain k r where "(k, r) \<in> set (users d)" "(case col r of Some w \<Rightarrow> ci_eq w v | None \<Rightarrow> False)" "Some k \<noteq> self"
    by (auto simp: column_taken_def list_ex_iff)
  then show "\<exists>k r w. (k, r) \<in> set (users d) \<and> col r = Some w \<and> ci_eq w v \<and> Some k \<noteq> self"
    by (auto split: option.splits)
next
  assume "\<exists>k r w. (k, r) \<in> set (users d) \<and> col r = Some w \<and> ci_eq w v \<and> Some k \<noteq> self"
  then show "column_taken d col v self"
    by (force simp: column_taken_def list_ex_iff)
qed

lemma name_free_iff:
  "\<not> name_taken d n self \<longleftrightarrow> (\<forall>j a. (j, a) \<in> set (users d) \<longrightarrow> Some j \<noteq> self \<longrightarrow> \<not> ci_eq (u_name a) n)"
  by (auto simp: name_taken_def column_taken_iff)

lemma col_free_iff:
  "(case v of Some s \<Rightarrow> \<not> column_taken d col s self | None \<Rightarrow> True) \<longleftrightarrow>
     (\<forall>j a. (j, a) \<in> set (users d) \<longrightarrow> Some j \<noteq> self \<longrightarrow>
        (case (col a, v) of (Some t, Some s) \<Rightarrow> \<not> ci_eq t s | _ \<Rightarrow> True))"
  by (cases v) (auto simp: column_taken_iff split: option.splits)

lemma row_ok_iff:
  "row_ok d self r \<longleftrightarrow>
     fits_columns r \<and> (\<forall>j a. (j, a) \<in> set (users d) \<longrightarrow> Some j \<noteq> self \<longrightarrow> apart a r)"
  unfolding row_ok_def apart_def name_free_iff col_free_iff by blast

lemma wf_users_iff:
  "wf_users d \<longleftrightarrow>
     (\<forall>k r. (k, r) \<in> set (users d) \<longrightarrow> k < next_uid d \<and> row_ok d (Some k) r)"
  by (auto simp: wf_users_def list_all_iff keys_of_def)

lemma column_taken_users_cong:
  "users d' = users d \<Longrightarrow> column_taken d' = column_taken d"
  by (simp add: column_taken_def fun_eq_iff)

lemma row_ok_users_cong:
  assumes "users d' = users d"
  shows "row_ok d' = row_ok d"
  unfolding row_ok_def name_taken_def column_taken_users_cong [OF assms] ..

lemma wf_users_cong:
  assumes "users d' = users d" "next_uid d' = next_uid d"
  shows "wf_users d' = wf_users d"
  unfolding wf_users_def row_ok_users_cong [OF assms(1)] assms ..

lemma row_ok_subset:
  "set (users d') \<subseteq> set (users d) \<Longrightarrow> row_ok d self r \<Longrightarrow> row_ok d' self r"
  by (auto simp: row_ok_iff)

lemma row_ok_role [simp]:
  "row_ok d self (r\<lparr>u_role := x\<rparr>) = row_ok d self r"
  by (simp add: row_ok_def fits_columns_def)

lemma wf_users_append:
  assumes "wf_users d" "row_ok d None row" "k = next_uid d"
  shows "wf_users (d\<lparr>users := users d @ [(k, row)], next_uid := Suc k\<rparr>)"
proof -
  have old: "\<And>j a. (j, a) \<in> set (users d) \<Longrightarrow> j < k \<and> row_ok d (Some j) a"
    using assms(1,3) by (simp add: wf_users_iff)
  have new: "\<And>j a. (j, a) \<in> set (users d) \<Longrightarrow> apart a row \<and> apart row a"
    using assms(2) by (auto simp: row_ok_iff apart_sym)
  show ?thesis
    using old new assms(2) unfolding wf_users_iff row_ok_iff by fastforce
qed

lemma wf_users_update_rows:
  assumes "wf_users d" "\<And>w. (v, w) \<in> set (users d) \<Longrightarrow> row_ok d (Some v) (f w)"
  shows "wf_users (d\<lparr>users := update_rows v f (users d)\<rparr>)"
proof -
  have old: "\<And>j a. (j, a) \<in> set (users d) \<Longrightarrow> j < next_uid d \<and> row_ok d (Some j) a"
    using assms(1) by (simp add: wf_users_iff)
  have new: "\<And>w j a. (v, w) \<in> set (users d) \<Longrightarrow> (j, a) \<in> set (users d) \<Longrightarrow> j \<noteq> v \<Longrightarrow>
               apart a (f w) \<and> apart (f w) a \<and> fits_columns (f w)"
    using assms(2) by (auto simp: row_ok_iff apart_sym)
  have single: "k < next_uid d \<and> fits_columns r"
    if "(k, r) \<in> set (update_rows v f (users d))" for k r
    using that old assms(2) by (auto simp: in_set_update_rows row_ok_iff)
  have "apart a r"
    if r: "(k, r) \<in> set (update_rows v f (users d))" and a: "(j, a) \<in> set (update_rows v f (users d))"
      and jk: "j \<noteq> k" for k r j a
  proof -
    obtain w where w: "(k, w) \<in> set (users d)" "r = (if k = v then f w else w)"
      using r by (auto simp: in_set_update_rows)
    obtain w' where w': "(j, w') \<in> set (users d)" "a = (if j = v then f w' else w')"
      using a by (auto simp: in_set_update_rows)
    show ?thesis
    proof (cases "k = v")
      case True
      then show ?thesis using w w' jk new [of w j w'] old [of k w] by simp
    next
      case False
      then show ?thesis
        using w w' jk new [of w' k w] old [of k w] by (cases "j = v") (auto simp: row_ok_iff)
    qed
  qed
  with single show ?thesis
    unfolding wf_users_iff row_ok_iff by simp
qed

lemma wf_users_delete:
  "wf_users d \<Longrightarrow> wf_users (d\<lparr>users := AList.delete v (users d)\<rparr>)"
  unfolding wf_users_iff by (auto simp: in_set_delete intro: row_ok_subset)

lemma wf_users_set_user_role:
  "wf_users d \<Longrightarrow> wf_users (set_user_role v r d)"
  unfolding set_user_role_def
  by (rule wf_users_update_rows) (auto simp: wf_users_iff)

lemma wf_users_row:
  "wf_users d \<Longrightarrow> (k, r) \<in> set (users d) \<Longrightarrow> row_ok d (Some k) r"
  by (simp add: wf_users_iff)

text \<open>A change of the \<open>users\<close> table alone that keeps every referenced user keeps the other invariants.\<close>

lemma users_change_invariants:
  assumes "wf_db d" "wf_clubs d" "distinct (keys_of (users d'))"
    and "\<And>j. map_of (users d) j \<noteq> None \<Longrightarrow> map_of (users d') j \<noteq> None"
    and "clubs d' = clubs d" "club_members d' = club_members d" "activities d' = activities d"
    and "user_activities d' = user_activities d" "next_aid d' = next_aid d" "next_ua d' = next_ua d"
    and "next_cid d' = next_cid d"
  shows "wf_db d' \<and> wf_clubs d' \<and> unique_members d' = unique_members d \<and> president_ok d' = president_ok d"
proof (intro conjI)
  show "wf_db d'"
    using assms(1,3,4,5,7,8,9,10) by (auto simp: wf_db_def list_all_iff)
  show "wf_clubs d'"
    using assms(2,4,5,6,7,11) unfolding wf_clubs_iff by auto
qed (simp_all add: assms unique_members_def president_ok_def)

lemma register_Inr:
  assumes "register hash (Some b) file d = Inr (d', k, tok)"
  obtains n pw row where "ui_username b = Some n" "ui_password b = Some pw" "n \<noteq> []" "pw \<noteq> []"
    "\<not> name_taken d n None" "k = next_uid d" "tok = \<lparr>p_id = k, p_role = Student\<rparr>"
    "u_name row = n" "u_password row = hash pw" "u_role row = Student" "row_ok d None row"
    "d' = d\<lparr>users := users d @ [(k, row)], next_uid := Suc k\<rparr>"
  using assms
  by (cases "ui_username b"; cases "ui_password b"; cases "ui_student_id b"; cases "ui_email b")
     (auto simp: register_def row_ok_def fits_columns_def int32_ok_def Let_def split: if_splits intro!: that)

lemma createUser_Inr:
  assumes "createUser hash u (Some b) file d = Inr (d', k)"
  obtains row where "k = next_uid d" "u_points row = 0" "row_ok d None row"
    "d' = d\<lparr>users := users d @ [(k, row)], next_uid := Suc k\<rparr>"
  using assms
  by (cases "ui_username b"; cases "ui_password b"; cases "ui_student_id b"; cases "ui_email b")
     (auto simp: createUser_def row_ok_def fits_columns_def int32_ok_def Let_def split: if_splits option.splits intro!: that)

lemma updateUser_Inr:
  assumes "updateUser u v b file d = Inr d'" "wf_users d"
  obtains r r' where "(v, r) \<in> set (users d)" "r' = patch_user u b file r" "row_ok d (Some v) r'"
    "d' = d\<lparr>users := update_rows v (\<lambda>_. r') (users d)\<rparr>"
proof -
  obtain r where r: "map_of (users d) v = Some r"
    and g: "fits_columns (patch_user u b file r)"
      "\<not> name_taken d (u_name (patch_user u b file r)) (Some v)"
      "\<forall>sid. u_student_id (patch_user u b file r) = Some sid \<longrightarrow> \<not> column_taken d u_student_id sid (Some v)"
      "\<not> truthy_and (\<lambda>em. column_taken d u_email em (Some v)) (ui_email b)"
    and d': "d' = d\<lparr>users := update_rows v (\<lambda>_. patch_user u b file r) (users d)\<rparr>"
    using assms(1) by (auto simp: updateUser_def Let_def split: if_splits option.splits)
  have rin: "(v, r) \<in> set (users d)" using r by (rule map_of_SomeD)
  have old: "row_ok d (Some v) r" using wf_users_row [OF assms(2) rin] .
  have "\<forall>em. u_email (patch_user u b file r) = Some em \<longrightarrow> \<not> column_taken d u_email em (Some v)"
    using g(4) old by (auto simp: patch_user_def truthy_and_def row_ok_def split: option.splits)
  then have "row_ok d (Some v) (patch_user u b file r)"
    using g(1,2,3) by (auto simp: row_ok_def split: option.splits)
  then show ?thesis using that rin d' by blast
qed

lemma append_user_invariants:
  assumes "wf_db d" "wf_clubs d" "unique_members d" "president_ok d" "wf_users d"
    and "row_ok d None row" "k = next_uid d"
    and d': "d' = d\<lparr>users := users d @ [(k, row)], next_uid := Suc k\<rparr>"
  shows "wf_db d' \<and> wf_clubs d' \<and> unique_members d' \<and> president_ok d' \<and> wf_users d'"
proof -
  have "\<forall>j \<in> set (keys_of (users d)). j < next_uid d"
    using assms(5) by (simp add: wf_users_def list_all_iff)
  then have "k \<notin> set (keys_of (users d))" using assms(7) by blast
  moreover have "distinct (keys_of (users d))" using assms(1) by (simp add: wf_db_def)
  ultimately have "distinct (keys_of (users d'))" by (simp add: d' keys_of_def)
  then have "wf_db d' \<and> wf_clubs d' \<and> unique_members d' = unique_members d \<and> president_ok d' = president_ok d"
    using assms(1,2) by (intro users_change_invariants) (simp_all add: d' map_of_append_not_None)
  moreover have "wf_users d'" unfolding d' using assms(5,6,7) by (rule wf_users_append)
  ultimately show ?thesis using assms(3,4) by blast
qed

lemma update_user_invariants:
  assumes "wf_db d" "wf_clubs d" "unique_members d" "president_ok d" "wf_users d"
    and "\<And>w. (v, w) \<in> set (users d) \<Longrightarrow> row_ok d (Some v) (f w)"
    and d': "d' = d\<lparr>users := update_rows v f (users d)\<rparr>"
  shows "wf_db d' \<and> wf_clubs d' \<and> unique_members d' \<and> president_ok d' \<and> wf_users d'"
proof -
  have "distinct (keys_of (users d))" using assms(1) by (simp add: wf_db_def)
  then have "wf_db d' \<and> wf_clubs d' \<and> unique_members d' = unique_members d \<and> president_ok d' = president_ok d"
    by (intro users_change_invariants [OF assms(1,2)]) (auto simp: d')
  moreover have "wf_users d'" unfolding d' using assms(5,6) by (rule wf_users_update_rows)
  ultimately show ?thesis using assms(3,4) by blast
qed

lemma deleteUser_Inr:
  "deleteUser u v d = Inr d' \<longleftrightarrow>
     p_id u \<noteq> v \<and> map_of (users d) v \<noteq> None \<and>
     (\<forall>m \<in> set (club_members d). m_user m \<noteq> v) \<and> (\<forall>r \<in> set (user_activities d). ua_user r \<noteq> v) \<and>
     (\<forall>k c. (k, c) \<in> set (clubs d) \<longrightarrow> c_admin c \<noteq> v) \<and> d' = d\<lparr>users := AList.delete v (users d)\<rparr>"
  by (auto simp: deleteUser_def list_ex_iff)

lemma deleteUser_invariants:
  assumes "wf_db d" "wf_clubs d" "unique_members d" "president_ok d" "wf_users d"
    and "deleteUser u v d = Inr d'"
  shows "wf_db d' \<and> wf_clubs d' \<and> unique_members d' \<and> president_ok d' \<and> wf_users d'"
proof -
  have H: "\<forall>m \<in> set (club_members d). m_user m \<noteq> v" "\<forall>r \<in> set (user_activities d). ua_user r \<noteq> v"
    "\<forall>k c. (k, c) \<in> set (clubs d) \<longrightarrow> c_admin c \<noteq> v" and d': "d' = d\<lparr>users := AList.delete v (users d)\<rparr>"
    using assms(6) by (simp_all add: deleteUser_Inr)
  have "wf_db d'"
    using assms(1) H(2) by (auto simp: d' wf_db_def list_all_iff delete_conv')
  moreover have "wf_clubs d'"
    using assms(2) H(1,3) unfolding wf_clubs_iff by (auto simp: d' delete_conv')
  moreover have "wf_users d'" unfolding d' using assms(5) by (rule wf_users_delete)
  ultimately show ?thesis using assms(3,4) by (simp add: d' unique_members_def president_ok_def)
qed

lemma fx_db_wf_users: "wf_users fx_db"
  by (simp add: wf_users_def row_ok_def name_taken_def column_taken_def fixture_defs keys_of_def
      ci_eq_def lower_ascii_def fits_columns_def int32_ok_def)

lemma fx_club_db_wf_users: "wf_users fx_club_db"
  using fx_db_wf_users wf_users_cong [of fx_club_db fx_db] by (simp add: fx_club_db_def)

text \<open>
  C28: every state-changing user route (registration, profile edit, role change, user
  creation, deletion) keeps the table invariants, the club invariants and the users-
  table constraints wf_users; in particular a deletion never leaves a dangling
  membership, registration or club admin, and an edit can never put a balance outside
  the INT column.
\<close>

theorem user_route_invariants:
  assumes "wf_db d" "wf_clubs d" "unique_members d" "president_ok d" "wf_users d"
    and "user_route hash r d = Inr d'"
  shows "wf_db d' \<and> wf_clubs d' \<and> unique_members d' \<and> president_ok d' \<and> wf_users d'"
proof (cases r)
  case (Register pb img)
  then obtain b k tok where "pb = Some b" "register hash (Some b) img d = Inr (d', k, tok)"
    using assms(6) by (cases pb) (auto simp: map_sum_fst_Inr register_def)
  then show ?thesis
    by (elim register_Inr) (rule append_user_invariants [OF assms(1-5)], blast+)
next
  case (UpdateUser pu v b img)
  then obtain u where "updateUser u v b img d = Inr d'"
    using assms(6) by (auto split: option.splits)
  then show ?thesis
    by (rule updateUser_Inr [OF _ assms(5)]) (rule update_user_invariants [OF assms(1-5)], simp_all)
next
  case (ChangeUserRole pu v rs)
  then obtain ro where "d' = set_user_role v ro d"
    using assms(6) by (auto simp: changeUserRole_def split: option.splits if_splits)
  then show ?thesis using assms(1-5) by (simp add: wf_users_set_user_role)
next
  case (CreateUser pu pb img)
  then obtain u k where c: "createUser hash u pb img d = Inr (d', k)"
    using assms(6) by (auto simp: map_sum_fst_Inr split: option.splits if_splits)
  moreover obtain b where "pb = Some b" using c by (cases pb) (auto simp: createUser_def)
  ultimately have "createUser hash u (Some b) img d = Inr (d', k)" by simp
  then show ?thesis
    by (elim createUser_Inr) (rule append_user_invariants [OF assms(1-5)], blast+)
next
  case (DeleteUser pu v)
  then obtain u where "deleteUser u v d = Inr d'"
    using assms(6) by (auto split: option.splits if_splits)
  then show ?thesis by (rule deleteUser_invariants [OF assms(1-5)])
qed

lemma user_route_invariants_witness:
  "\<exists>d'. user_route id (Register (Some fx_new_user) None) fx_club_db = Inr d' \<and>
     wf_users d' \<and> president_ok d' \<and> map_of (users d') 11 \<noteq> None"
proof -
  obtain d' where h: "user_route id (Register (Some fx_new_user) None) fx_club_db = Inr d'"
    and k: "map_of (users d') 11 \<noteq> None"
    by (simp add: register_def Let_def fits_columns_def int32_ok_def fx_new_user_def fx_club_db_def fixture_defs name_taken_def column_taken_def
        ci_eq_def lower_ascii_def)
  have "wf_users d' \<and> president_ok d'"
    using user_route_invariants [OF _ _ _ _ _ h] fx_club_db_invariants fx_club_db_wf_users by simp
  with h k show ?thesis by blast
qed

text \<open>
  C29: registration and login round-trip: with bcrypt's contract (compare accepts the
  hash of a password), the body that registered a user logs in as that user with the
  student role, and the token login issues is the one registration issued.
\<close>

theorem login_after_register:
  assumes "\<forall>p. cmp p (hash p)" and "register hash (Some b) file d = Inr (d', k, tok)"
  shows "login cmp (Some b) d' = Inr tok \<and> tok = \<lparr>p_id = k, p_role = Student\<rparr>"
proof -
  obtain n pw row where H: "ui_username b = Some n" "ui_password b = Some pw" "n \<noteq> []" "pw \<noteq> []"
    "\<not> name_taken d n None" "tok = \<lparr>p_id = k, p_role = Student\<rparr>"
    "u_name row = n" "u_password row = hash pw" "u_role row = Student"
    and d': "d' = d\<lparr>users := users d @ [(k, row)], next_uid := Suc k\<rparr>"
    using assms(2) by (rule register_Inr) blast
  have none: "find (\<lambda>(k, r). ci_eq (u_name r) n) (users d) = None"
    using H(5) by (auto simp: find_None_iff name_free_iff)
  have "find (\<lambda>(k, r). ci_eq (u_name r) n) (users d') = Some (k, row)"
    using none H(7) by (simp add: d' find_append_None ci_eq_def)
  then show ?thesis
    using H assms(1) by (simp add: login_def)
qed

lemma login_after_register_witness:
  "\<exists>d' k tok. register id (Some fx_new_user) None fx_db = Inr (d', k, tok) \<and>
     login (=) (Some fx_new_user) d' = Inr \<lparr>p_id = 11, p_role = Student\<rparr>"
proof -
  obtain d' where h: "register id (Some fx_new_user) None fx_db = Inr (d', 11, \<lparr>p_id = 11, p_role = Student\<rparr>)"
    by (simp add: register_def Let_def fits_columns_def int32_ok_def fx_new_user_def fixture_defs name_taken_def column_taken_def
        ci_eq_def lower_ascii_def)
  have "login (=) (Some fx_new_user) d' = Inr \<lparr>p_id = 11, p_role = Student\<rparr>"
    using login_after_register [OF _ h] by simp
  with h show ?thesis by blast
qed

text \<open>
  C30: a user who is not a system admin can only edit their own profile, and such an
  edit never changes a role or a points balance (points move only by settlement or by an
  admin, as the specification says).
\<close>

theorem updateUser_non_admin:
  assumes "p_role u \<noteq> Admin" and "updateUser u v b file d = Inr d'"
  shows "v = p_id u \<and>
         (\<forall>k. map_option (\<lambda>r. (u_role r, u_points r)) (map_of (users d') k) =
              map_option (\<lambda>r. (u_role r, u_points r)) (map_of (users d) k))"
proof -
  have v: "v = p_id u" using assms by (auto simp: updateUser_def split: if_splits)
  obtain r where r: "map_of (users d) v = Some r"
    and d': "d' = d\<lparr>users := update_rows v (\<lambda>_. patch_user u b file r) (users d)\<rparr>"
    using assms(2) by (auto simp: updateUser_def Let_def split: if_splits option.splits)
  show ?thesis
    using v r assms(1) by (simp add: d' patch_user_def)
qed

lemma updateUser_non_admin_witness:
  "\<exists>d'. updateUser (fx_student 1) 1
          \<lparr>ui_username = None, ui_password = None, ui_student_id = None, ui_email = None,
           ui_bio = Some ''hi'', ui_role = Some ''admin'', ui_points = Some ''999''\<rparr> None fx_db = Inr d' \<and>
        map_option (\<lambda>r. (u_role r, u_points r)) (map_of (users d') 1) = Some (Student, 0)"
proof -
  obtain d' where h: "updateUser (fx_student 1) 1
          \<lparr>ui_username = None, ui_password = None, ui_student_id = None, ui_email = None,
           ui_bio = Some ''hi'', ui_role = Some ''admin'', ui_points = Some ''999''\<rparr> None fx_db = Inr d'"
    by (simp add: updateUser_def user_fields_def patch_user_def patch_str_def truthy_and_def fixture_defs name_taken_def
        column_taken_def ci_eq_def lower_ascii_def fits_columns_def int32_ok_def)
  have "map_option (\<lambda>r. (u_role r, u_points r)) (map_of (users d') 1) = Some (Student, 0)"
    using updateUser_non_admin [OF _ h] by (simp add: fixture_defs)
  with h show ?thesis by blast
qed

text \<open>
  The points ranking returns at most 100 rows, ordered by points from the highest,
  and only rows of the users table.
\<close>

theorem getPointsRanking_bounds:
  "length (getPointsRanking q d) \<le> 100 \<and>
   sorted (map (\<lambda>(k, r). - u_points r) (getPointsRanking q d)) \<and>
   set (getPointsRanking q d) \<subseteq> set (users d)"
proof -
  define rows where "rows = (case q of
                    Some q \<Rightarrow>
                      if q = [] then users d
                      else (let pat = CHR ''%'' # q @ ''%''
                            in filter (\<lambda>(k, r). like pat (u_name r) \<or> like_col pat (u_email r) \<or>
                                                like_col pat (u_student_id r)) (users d))
                  | None \<Rightarrow> users d)"
  have res: "getPointsRanking q d = take 100 (sort_key (\<lambda>(k, r). - u_points r) rows)"
    by (simp add: getPointsRanking_def rows_def)
  have sub: "set rows \<subseteq> set (users d)"
    by (auto simp: rows_def Let_def split: option.splits)
  have "sorted (map (\<lambda>(k, r). - u_points r) (sort_key (\<lambda>(k, r). - u_points r) rows))"
    by (rule sorted_sort_key)
  then have "sorted (map (\<lambda>(k, r). - u_points r) (take 100 (sort_key (\<lambda>(k, r). - u_points r) rows)))"
    by (simp add: take_map [symmetric] sorted_wrt_take)
  moreover have "set (take 100 (sort_key (\<lambda>(k, r). - u_points r) rows)) \<subseteq> set (users d)"
    using sub set_take_subset by fastforce
  ultimately show ?thesis by (simp add: res)
qed

text \<open>
  C32: for a search text without LIKE wildcards or escapes, the ranking's filter is
  exactly a case-insensitive substring search on username, email and student id.
\<close>

theorem getPointsRanking_search:
  assumes "plain q" "q \<noteq> []"
  shows "getPointsRanking (Some q) d =
           take 100 (sort_key (\<lambda>(k, r). - u_points r)
             (filter (\<lambda>(k, r). ci_contains q (u_name r) \<or>
                               (case u_email r of Some e \<Rightarrow> ci_contains q e | None \<Rightarrow> False) \<or>
                               (case u_student_id r of Some s \<Rightarrow> ci_contains q s | None \<Rightarrow> False))
               (users d)))"
  using assms by (simp add: getPointsRanking_def like_col_def like_contains_plain split: option.splits)

lemma getPointsRanking_search_witness:
  "plain ''o'' \<and> ''o'' \<noteq> [] \<and>
   getPointsRanking (Some ''o'') fx_db =
     take 100 (sort_key (\<lambda>(k, r). - u_points r)
       (filter (\<lambda>(k, r). ci_contains ''o'' (u_name r) \<or>
                         (case u_email r of Some e \<Rightarrow> ci_contains ''o'' e | None \<Rightarrow> False) \<or>
                         (case u_student_id r of Some s \<Rightarrow> ci_contains ''o'' s | None \<Rightarrow> False))
         (users fx_db)))"
  using getPointsRanking_search [of "''o''" fx_db] by (simp add: plain_def)

text \<open>
  The search text is put into the LIKE pattern unescaped, so the search "%" returns
  the same ranking as no search at all: every user matches.
\<close>

theorem getPointsRanking_percent:
  "getPointsRanking (Some ''%'') d = getPointsRanking None d"
proof -
  have "like ''%%%'' s" for s by (rule like_percent_empty) simp
  then show ?thesis by (simp add: getPointsRanking_def)
qed

end
