(* ===== verification/Uploads.thy ===== *)
theory Uploads
  imports Engine Users
begin

text \<open>
  The upload middleware of the routes that take a file: the \<open>multer\<close>
  configurations of src/liantuanfen/server/routes/activityRoutes.js (lines
  15--56, with its \<open>uploadErrorHandler\<close>), clubRoutes.js (lines 8--28) and
  userRoutes.js (lines 8--29), composed with the controllers in the order each
  route line lists its middleware. A file is written to disk when the upload
  passes, before the controller runs; the disk is the list of stored paths.
\<close>

section \<open>Files and the multer check\<close>

text \<open>
  What multer knows of a file part: its declared MIME type, its size in bytes,
  and \<open>path.extname(file.originalname)\<close> (computed by Node's \<open>path\<close>, taken as given).
\<close>

record upload_file =
  uf_mimetype :: string
  uf_size :: nat
  uf_ext :: string

datatype upload_error = LimitFileSize | FileTypeRejected

datatype http_error = UploadError upload_error | ApiError api_error

type_synonym disk = "string list"

text \<open>\<open>limits: { fileSize: 5 * 1024 * 1024 }\<close>, the same on the three routers.\<close>

definition upload_limit :: nat where
  "upload_limit = 5 * 1024 * 1024"

text \<open>activityRoutes.js lines 30--38: four image types.\<close>

definition activity_mimetype :: "string \<Rightarrow> bool" where
  "activity_mimetype t = (t \<in> set [''image/jpeg'', ''image/png'', ''image/gif'', ''image/webp''])"

text \<open>clubRoutes.js lines 21--27 and userRoutes.js lines 22--28: \<open>mimetype.startsWith('image/')\<close>.\<close>

definition image_mimetype :: "string \<Rightarrow> bool" where
  "image_mimetype t = (take 6 t = ''image/'')"

text \<open>
  The stored file's name: \<open>Date.now() + '-' + Math.round(Math.random() * 1E9)\<close>
  and the extension (activityRoutes.js lines 20--24, userRoutes.js lines
  13--16), or \<open>Date.now()\<close> and the extension (clubRoutes.js lines 13--15).
\<close>

definition unique_name :: "nat \<Rightarrow> nat \<Rightarrow> upload_file \<Rightarrow> string" where
  "unique_name ms rnd f = nat_str ms @ ''-'' @ nat_str rnd @ uf_ext f"

definition stamp_name :: "nat \<Rightarrow> upload_file \<Rightarrow> string" where
  "stamp_name ms f = nat_str ms @ uf_ext f"

text \<open>
  \<open>upload.single(field)\<close>: no file part passes with no file; the file filter
  runs first, then the size limit (a file of exactly the limit passes).
\<close>

definition multer_single ::
  "(string \<Rightarrow> bool) \<Rightarrow> (upload_file \<Rightarrow> string) \<Rightarrow> upload_file option \<Rightarrow> upload_error + string option" where
  "multer_single ok nm f =
     (case f of
        None \<Rightarrow> Inr None
      | Some x \<Rightarrow>
          if \<not> ok (uf_mimetype x) then Inl FileTypeRejected
          else if upload_limit < uf_size x then Inl LimitFileSize
          else Inr (Some (nm x)))"

text \<open>
  The upload followed by the controller: a refused upload is the response and
  stores nothing; a passed one is on disk under the router's directory whatever
  the controller then answers.
\<close>

definition with_upload ::
  "(string \<Rightarrow> bool) \<Rightarrow> string \<Rightarrow> (upload_file \<Rightarrow> string) \<Rightarrow> upload_file option \<Rightarrow>
   (string option \<Rightarrow> db \<Rightarrow> api_error + db) \<Rightarrow> disk \<times> db \<Rightarrow> (http_error + unit) \<times> disk \<times> db" where
  "with_upload ok dir nm f h s =
     (case multer_single ok nm f of
        Inl e \<Rightarrow> (Inl (UploadError e), s)
      | Inr file \<Rightarrow>
          (let disk = fst s @ (case file of None \<Rightarrow> [] | Some n \<Rightarrow> [dir @ n]) in
           case h file (snd s) of
             Inl e \<Rightarrow> (Inl (ApiError e), disk, snd s)
           | Inr d' \<Rightarrow> (Inr (), disk, d')))"

section \<open>The routes that take a file\<close>

text \<open>activityRoutes.js line 60: \<open>verifyToken, isClubAdminOrAdmin, uploadErrorHandler, createActivity\<close>.\<close>

definition post_activity ::
  "time \<Rightarrow> nat \<Rightarrow> nat \<Rightarrow> principal option \<Rightarrow> activity_input option \<Rightarrow> upload_file option \<Rightarrow>
   disk \<times> db \<Rightarrow> (http_error + unit) \<times> disk \<times> db" where
  "post_activity now ms rnd pu body f s =
     (case pu of
        None \<Rightarrow> (Inl (ApiError Unauthorized), s)
      | Some u \<Rightarrow>
          if \<not> isClubAdminOrAdmin u then (Inl (ApiError ClubAdminRequired), s)
          else with_upload activity_mimetype ''uploads/activities/'' (unique_name ms rnd) f
                 (\<lambda>file d. map_sum id fst (createActivity now u body file d)) s)"

text \<open>Line 69: \<open>verifyToken, uploadErrorHandler, updateActivity\<close>, with no role check before the upload.\<close>

definition put_activity ::
  "nat \<Rightarrow> nat \<Rightarrow> principal option \<Rightarrow> aid \<Rightarrow> activity_input option \<Rightarrow> upload_file option \<Rightarrow>
   disk \<times> db \<Rightarrow> (http_error + unit) \<times> disk \<times> db" where
  "put_activity ms rnd pu a body f s =
     (case pu of
        None \<Rightarrow> (Inl (ApiError Unauthorized), s)
      | Some u \<Rightarrow> with_upload activity_mimetype ''uploads/activities/'' (unique_name ms rnd) f
                   (updateActivity u a body) s)"

text \<open>clubRoutes.js lines 31 and 40: \<open>verifyToken, upload.single('logo')\<close>, then the controller.\<close>

definition post_club ::
  "time \<Rightarrow> nat \<Rightarrow> principal option \<Rightarrow> string option \<Rightarrow> string option \<Rightarrow> upload_file option \<Rightarrow>
   disk \<times> db \<Rightarrow> (http_error + unit) \<times> disk \<times> db" where
  "post_club now ms pu n ds f s =
     (case pu of
        None \<Rightarrow> (Inl (ApiError Unauthorized), s)
      | Some u \<Rightarrow> with_upload image_mimetype ''uploads/'' (stamp_name ms) f
                   (\<lambda>file d. map_sum id fst (createClub now u n ds file d)) s)"

definition put_club ::
  "nat \<Rightarrow> principal option \<Rightarrow> cid \<Rightarrow> string option \<Rightarrow> string option \<Rightarrow> upload_file option \<Rightarrow>
   disk \<times> db \<Rightarrow> (http_error + unit) \<times> disk \<times> db" where
  "put_club ms pu c n ds f s =
     (case pu of
        None \<Rightarrow> (Inl (ApiError Unauthorized), s)
      | Some u \<Rightarrow> with_upload image_mimetype ''uploads/'' (stamp_name ms) f (updateClub u c n ds) s)"

text \<open>
  userRoutes.js line 33: \<open>upload.single('avatar'), register\<close>, with no token;
  lines 44--45: \<open>verifyToken, upload.single('avatar'), updateUser\<close>; line 54:
  \<open>verifyToken, isAdmin, upload.single('avatar'), createUser\<close>.
\<close>

definition post_register ::
  "(string \<Rightarrow> string) \<Rightarrow> nat \<Rightarrow> nat \<Rightarrow> user_input option \<Rightarrow> upload_file option \<Rightarrow>
   disk \<times> db \<Rightarrow> (http_error + unit) \<times> disk \<times> db" where
  "post_register hash ms rnd b f s =
     with_upload image_mimetype ''uploads/'' (unique_name ms rnd) f (\<lambda>file d. map_sum id fst (register hash b file d)) s"

definition put_user ::
  "nat \<Rightarrow> nat \<Rightarrow> principal option \<Rightarrow> uid \<Rightarrow> user_input \<Rightarrow> upload_file option \<Rightarrow>
   disk \<times> db \<Rightarrow> (http_error + unit) \<times> disk \<times> db" where
  "put_user ms rnd pu v b f s =
     (case pu of
        None \<Rightarrow> (Inl (ApiError Unauthorized), s)
      | Some u \<Rightarrow> with_upload image_mimetype ''uploads/'' (unique_name ms rnd) f (updateUser u v b) s)"

definition post_user ::
  "(string \<Rightarrow> string) \<Rightarrow> nat \<Rightarrow> nat \<Rightarrow> principal option \<Rightarrow> user_input option \<Rightarrow> upload_file option \<Rightarrow>
   disk \<times> db \<Rightarrow> (http_error + unit) \<times> disk \<times> db" where
  "post_user hash ms rnd pu b f s =
     (case pu of
        None \<Rightarrow> (Inl (ApiError Unauthorized), s)
      | Some u \<Rightarrow>
          if \<not> isAdmin u then (Inl (ApiError AdminRequired), s)
          else with_upload image_mimetype ''uploads/'' (unique_name ms rnd) f
                 (\<lambda>file d. map_sum id fst (createUser hash u b file d)) s)"

text \<open>A PNG of 1000 bytes, for the witnesses.\<close>

definition fx_png :: upload_file where
  "fx_png = \<lparr>uf_mimetype = ''image/png'', uf_size = 1000, uf_ext = ''.png''\<rparr>"

section \<open>Properties of the uploads\<close>

lemma nat_str_inj: "nat_str a = nat_str b \<Longrightarrow> a = b"
  by (metis nat_str_props)

lemma takeWhile_digits_append:
  "list_all is_digit xs \<Longrightarrow> ys = [] \<or> \<not> is_digit (hd ys) \<Longrightarrow>
   takeWhile is_digit (xs @ ys) = xs \<and> dropWhile is_digit (xs @ ys) = ys"
  by (cases ys) (auto simp: takeWhile_append2 dropWhile_append2 list_all_iff)

lemma nat_str_prefix_cancel:
  assumes "nat_str a @ ys = nat_str b @ zs" "ys = [] \<or> \<not> is_digit (hd ys)" "zs = [] \<or> \<not> is_digit (hd zs)"
  shows "a = b \<and> ys = zs"
proof -
  have "takeWhile is_digit (nat_str a @ ys) = nat_str a \<and> dropWhile is_digit (nat_str a @ ys) = ys"
    using nat_str_props [of a] assms(2) by (simp add: takeWhile_digits_append)
  moreover have "takeWhile is_digit (nat_str b @ zs) = nat_str b \<and> dropWhile is_digit (nat_str b @ zs) = zs"
    using nat_str_props [of b] assms(3) by (simp add: takeWhile_digits_append)
  ultimately show ?thesis using assms(1) by (metis nat_str_inj)
qed

text \<open>
  The activity and avatar routers' names never collide across different
  millisecond stamps or random suffixes: the name determines both, and the
  extension (empty or starting with a dot, as \<open>path.extname\<close> returns).
\<close>

lemma unique_name_inj:
  assumes "unique_name ms rnd x = unique_name ms' rnd' y"
    "uf_ext x = [] \<or> \<not> is_digit (hd (uf_ext x))" "uf_ext y = [] \<or> \<not> is_digit (hd (uf_ext y))"
  shows "ms = ms' \<and> rnd = rnd' \<and> uf_ext x = uf_ext y"
proof -
  have dash: "\<not> is_digit (CHR ''-'')" by (simp add: is_digit_def)
  have "ms = ms' \<and> ''-'' @ nat_str rnd @ uf_ext x = ''-'' @ nat_str rnd' @ uf_ext y"
    using assms(1) dash by (intro nat_str_prefix_cancel) (simp_all add: unique_name_def)
  then show ?thesis using nat_str_prefix_cancel [OF _ assms(2,3), of rnd rnd'] by simp
qed

text \<open>
  The club router's names have no random part: two logos with the same extension
  uploaded within one millisecond get one name, and the second overwrites the first.
\<close>

lemma stamp_name_same_ms: "uf_ext x = uf_ext y \<Longrightarrow> stamp_name ms x = stamp_name ms y"
  by (simp add: stamp_name_def)

lemma with_upload_InrE:
  assumes "with_upload ok dir nm (Some x) h s = (Inr (), fs', d')"
  shows "h (Some (nm x)) (snd s) = Inr d' \<and> fs' = fst s @ [dir @ nm x]"
  using assms by (auto simp: with_upload_def multer_single_def Let_def split: if_splits sum.splits)

text \<open>A passed upload stays on disk when the controller then refuses the request.\<close>

lemma with_upload_refused:
  assumes "ok (uf_mimetype x)" "uf_size x \<le> upload_limit" "h (Some (nm x)) d = Inl e"
  shows "with_upload ok dir nm (Some x) h (fs, d) = (Inl (ApiError e), fs @ [dir @ nm x], d)"
  using assms by (simp add: with_upload_def multer_single_def)

text \<open>
  C18: \<open>PUT /api/activities/:id\<close> runs the upload before any role check. A
  student's update of an existing activity is refused with 403 and changes no
  row, but the student's file is already written to the served directory
  \<open>uploads/activities\<close>, where no activity refers to it.
\<close>

theorem put_activity_forbidden_keeps_file:
  assumes "p_role u = Student" "map_of (activities d) a = Some act" "map_of (clubs d) (a_club act) = Some c"
    "activity_mimetype (uf_mimetype x)" "uf_size x \<le> upload_limit"
  shows "put_activity ms rnd (Some u) a (Some b) (Some x) (fs, d) =
           (Inl (ApiError UpdateForbidden), fs @ [''uploads/activities/'' @ unique_name ms rnd x], d)"
proof -
  have "updateActivity u a (Some b) (Some (unique_name ms rnd x)) d = Inl UpdateForbidden"
    using assms(1-3) by (simp add: updateActivity_def)
  then show ?thesis
    using assms(4,5) by (simp add: put_activity_def with_upload_refused)
qed

text \<open>\<open>POST /api/activities\<close> checks the role first: a student's file is never stored.\<close>

lemma put_activity_forbidden_keeps_file_witness:
  "put_activity 5 7 (Some (fx_student 1)) 1 (Some \<lparr>in_title = Some ''x'', in_description = None, in_club = None,
      in_location = None, in_start = None, in_end = None, in_points = None, in_max = None\<rparr>) (Some fx_png) ([], fx_db) =
   (Inl (ApiError UpdateForbidden), [''uploads/activities/'' @ unique_name 5 7 fx_png], fx_db)"
  using put_activity_forbidden_keeps_file [of "fx_student 1" fx_db 1 fx_activity
          "\<lparr>c_name = ''club'', c_description = ''d'', c_logo = None, c_admin = 9\<rparr>" fx_png 5 7
          "\<lparr>in_title = Some ''x'', in_description = None, in_club = None, in_location = None, in_start = None,
            in_end = None, in_points = None, in_max = None\<rparr>" "[]"]
  by (simp add: fixture_defs fx_png_def activity_mimetype_def upload_limit_def)

lemma post_activity_role_first:
  "\<not> isClubAdminOrAdmin u \<Longrightarrow> post_activity now ms rnd (Some u) body f s = (Inl (ApiError ClubAdminRequired), s)"
  by (simp add: post_activity_def)

text \<open>
  After a successful update with a file, the stored image reference is the path
  under which \<open>express.static\<close> serves the file just written (index.js line 17
  serves \<open>uploads\<close> at \<open>/uploads\<close>); the same holds for club logos and avatars.
\<close>

lemma put_activity_image_served:
  assumes "put_activity ms rnd pu a body (Some x) (fs, d) = (Inr (), fs', d')"
  shows "\<exists>act. map_of (activities d') a = Some act \<and> a_image act = Some (CHR ''/'' # last fs')"
proof -
  obtain u where u: "pu = Some u" using assms by (cases pu) (simp_all add: put_activity_def)
  then have h: "updateActivity u a body (Some (unique_name ms rnd x)) d = Inr d'"
    and fs': "fs' = fs @ [''uploads/activities/'' @ unique_name ms rnd x]"
    using with_upload_InrE [of activity_mimetype "''uploads/activities/''" "unique_name ms rnd" x "updateActivity u a body" "(fs, d)"] assms
    by (simp_all add: put_activity_def)
  from h show ?thesis
    by (elim updateActivity_InrE) (simp add: fs' patch_activity_def image_path_def)
qed

lemma put_club_logo_served:
  assumes "put_club ms pu c n ds (Some x) (fs, d) = (Inr (), fs', d')"
  shows "\<exists>club. map_of (clubs d') c = Some club \<and> c_logo club = Some (CHR ''/'' # last fs')"
proof -
  obtain u where u: "pu = Some u" using assms by (cases pu) (simp_all add: put_club_def)
  then have h: "updateClub u c n ds (Some (stamp_name ms x)) d = Inr d'"
    and fs': "fs' = fs @ [''uploads/'' @ stamp_name ms x]"
    using with_upload_InrE [of image_mimetype "''uploads/''" "stamp_name ms" x "updateClub u c n ds" "(fs, d)"] assms
    by (simp_all add: put_club_def)
  from h show ?thesis
    by (elim updateClub_Inr) (simp add: fs' patch_club_def logo_path_def)
qed

lemma put_user_avatar_served:
  assumes "put_user ms rnd pu v b (Some x) (fs, d) = (Inr (), fs', d')"
  shows "\<exists>r. map_of (users d') v = Some r \<and> u_avatar r = Some (CHR ''/'' # last fs')"
proof -
  obtain u where u: "pu = Some u" using assms by (cases pu) (simp_all add: put_user_def)
  then have h: "updateUser u v b (Some (unique_name ms rnd x)) d = Inr d'"
    and fs': "fs' = fs @ [''uploads/'' @ unique_name ms rnd x]"
    using with_upload_InrE [of image_mimetype "''uploads/''" "unique_name ms rnd" x "updateUser u v b" "(fs, d)"] assms
    by (simp_all add: put_user_def)
  from h show ?thesis
    by (auto simp: updateUser_def Let_def fs' patch_user_def split: if_splits option.splits)
qed

end
