(* ===== verification/Client_Auth.thy ===== *)
theory Client_Auth
  imports Users
begin

text \<open>
  The client's session, src/liantuanfen/client/src/contexts/AuthContext.tsx: the
  React state of \<open>AuthProvider\<close> together with the browser's \<open>localStorage\<close>
  (keys \<open>token\<close>, \<open>user\<close> and the club pages' \<open>joinedClubs\<close>), and one function
  per handler or effect. A server call is an argument of the handler: its outcome
  (the response's data, or an error message). The composition with the server is
  \<open>server_me\<close>: \<open>GET /api/users/me\<close> through \<open>authenticateToken\<close> and
  \<open>getCurrentUser\<close>. A token is a string; \<open>sign\<close> and \<open>verify\<close> of
  jsonwebtoken are parameters.
\<close>

section \<open>State\<close>

text \<open>\<open>interface User\<close> (lines 4--11), the user object the client keeps.\<close>

record cuser =
  cu_id :: uid
  cu_name :: string
  cu_role :: role
  cu_points :: int

text \<open>
  The message the provider shows: the \<open>message\<close> of the server's error response
  (one per \<open>api_error\<close>), or the handler's own fallback text when the response
  has none (lines 141, 167, 208).
\<close>

datatype client_msg = ServerMessage api_error | LoginFailedMsg | RegisterFailedMsg | UpdateFailedMsg

text \<open>
  The provider's state (lines 56--60) and the three \<open>localStorage\<close> entries;
  \<open>joinedClubs\<close> is written by the club pages and cleared by \<open>logout\<close>.
\<close>

record auth_state =
  ls_token :: "string option"
  ls_user :: "cuser option"
  ls_joined :: "cid list"
  s_user :: "cuser option"
  s_token :: "string option"
  s_loading :: bool
  s_initialized :: bool
  s_error :: "client_msg option"

text \<open>Lines 52--60: the state restored from \<open>localStorage\<close> when the provider mounts.\<close>

definition auth_init :: "string option \<Rightarrow> cuser option \<Rightarrow> cid list \<Rightarrow> auth_state" where
  "auth_init tok u joined =
     \<lparr>ls_token = tok, ls_user = u, ls_joined = joined, s_user = u, s_token = tok,
      s_loading = (js_truthy_str tok \<and> u = None), s_initialized = (\<not> js_truthy_str tok \<or> u \<noteq> None),
      s_error = None\<rparr>"

text \<open>Lines 62--64: the flags the pages read.\<close>

definition client_isAuthenticated :: "auth_state \<Rightarrow> bool" where
  "client_isAuthenticated st = (js_truthy_str (s_token st) \<and> s_user st \<noteq> None)"

definition client_isAdmin :: "auth_state \<Rightarrow> bool" where
  "client_isAdmin st = (case s_user st of Some u \<Rightarrow> cu_role u = Admin | None \<Rightarrow> False)"

definition client_isClubAdmin :: "auth_state \<Rightarrow> bool" where
  "client_isClubAdmin st = (case s_user st of Some u \<Rightarrow> cu_role u = ClubAdmin \<or> cu_role u = Admin | None \<Rightarrow> False)"

section \<open>Handlers and effects\<close>

text \<open>The outcome of \<open>GET /api/users/me\<close>: the user object, or any failure (status, network, timeout).\<close>

datatype me_result = MeOk cuser | MeFail

text \<open>
  The effect of lines 76--118 once the request has settled: with a truthy token and
  no user (or before initialization) the current user is fetched; a failure clears
  token and user, in the state and in \<open>localStorage\<close>, but not \<open>joinedClubs\<close>.
  \<open>loading\<close> is set and cleared around the request.
\<close>

definition auth_effect :: "me_result \<Rightarrow> auth_state \<Rightarrow> auth_state" where
  "auth_effect r st =
     (if js_truthy_str (s_token st) then
        (if s_user st = None \<or> \<not> s_initialized st then
           (case r of
              MeOk u \<Rightarrow> st\<lparr>s_user := Some u, ls_user := Some u, s_initialized := True, s_loading := False\<rparr>
            | MeFail \<Rightarrow> st\<lparr>ls_token := None, ls_user := None, s_token := None, s_user := None,
                          s_initialized := True, s_loading := False\<rparr>)
         else st\<lparr>s_loading := False, s_initialized := True\<rparr>)
      else st\<lparr>s_initialized := True\<rparr>)"

text \<open>Whether the effect issues the request (line 78).\<close>

definition fetch_needed :: "auth_state \<Rightarrow> bool" where
  "fetch_needed st = (js_truthy_str (s_token st) \<and> (s_user st = None \<or> \<not> s_initialized st))"

text \<open>
  The outcome of \<open>POST /api/users/login\<close>: token and user, or a failure with the
  server's error response (\<open>None\<close>: no response, e.g. the server is down).
\<close>

datatype login_result = LoginOk string cuser | LoginErr "api_error option"

text \<open>\<open>login\<close>, lines 121--149 (the rethrown error is the caller's).\<close>

definition auth_login :: "login_result \<Rightarrow> auth_state \<Rightarrow> auth_state" where
  "auth_login r st =
     (case r of
        LoginOk tok u \<Rightarrow> st\<lparr>ls_token := Some tok, ls_user := Some u, s_token := Some tok, s_user := Some u,
                          s_loading := False, s_error := None\<rparr>
      | LoginErr e \<Rightarrow> st\<lparr>s_error := Some (case e of Some x \<Rightarrow> ServerMessage x | None \<Rightarrow> LoginFailedMsg),
                         s_loading := False\<rparr>)"

text \<open>\<open>register\<close>, lines 152--175: the registration's error, or the login that follows it.\<close>

definition auth_register :: "api_error option option \<Rightarrow> login_result \<Rightarrow> auth_state \<Rightarrow> auth_state" where
  "auth_register reg r st =
     (case reg of
        Some e \<Rightarrow> st\<lparr>s_error := Some (case e of Some x \<Rightarrow> ServerMessage x | None \<Rightarrow> RegisterFailedMsg),
                    s_loading := False\<rparr>
      | None \<Rightarrow> (auth_login r st)\<lparr>s_loading := False\<rparr>)"

text \<open>\<open>logout\<close>, lines 178--190 (the page then navigates to \<open>/login\<close>).\<close>

definition auth_logout :: "auth_state \<Rightarrow> auth_state" where
  "auth_logout st =
     st\<lparr>ls_token := None, ls_user := None, ls_joined := [], s_token := None, s_user := None\<rparr>"

text \<open>
  \<open>updateUser\<close>, lines 193--216: the update and the refetch of the current user
  succeed with the new user object, or the first of them fails.
\<close>

definition auth_update :: "api_error option + cuser \<Rightarrow> auth_state \<Rightarrow> auth_state" where
  "auth_update r st =
     (case r of
        Inr u \<Rightarrow> st\<lparr>s_user := Some u, ls_user := Some u, s_loading := False, s_error := None\<rparr>
      | Inl e \<Rightarrow> st\<lparr>s_error := Some (case e of Some x \<Rightarrow> ServerMessage x | None \<Rightarrow> UpdateFailedMsg),
                    s_loading := False\<rparr>)"

section \<open>The server's side of the session\<close>

text \<open>The user object of a row of \<open>users\<close>, as \<open>getCurrentUser\<close> and \<open>login\<close> return it.\<close>

definition cuser_of :: "uid \<Rightarrow> user_row \<Rightarrow> cuser" where
  "cuser_of k r = \<lparr>cu_id = k, cu_name = u_name r, cu_role = u_role r, cu_points = u_points r\<rparr>"

text \<open>
  \<open>GET /api/users/me\<close> with \<open>Authorization: Bearer token\<close> (lines 69, 87):
  \<open>authenticateToken\<close>, then \<open>getCurrentUser\<close> for the token's id.
\<close>

definition server_me :: "(string \<Rightarrow> principal option) \<Rightarrow> db \<Rightarrow> string \<Rightarrow> me_result" where
  "server_me verify d tok =
     (case authenticateToken verify (Some (''Bearer '' @ tok)) of
        Inl e \<Rightarrow> MeFail
      | Inr p \<Rightarrow> (case getCurrentUser p d of Inl e \<Rightarrow> MeFail | Inr r \<Rightarrow> MeOk (cuser_of (p_id p) r)))"

text \<open>\<open>POST /api/users/login\<close>: the signed principal and the user's row.\<close>

definition server_login ::
  "(principal \<Rightarrow> string) \<Rightarrow> (string \<Rightarrow> string \<Rightarrow> bool) \<Rightarrow> user_input \<Rightarrow> db \<Rightarrow> login_result" where
  "server_login sign cmp b d =
     (case login cmp (Some b) d of
        Inl e \<Rightarrow> LoginErr (Some e)
      | Inr p \<Rightarrow> (case map_of (users d) (p_id p) of
                   Some r \<Rightarrow> LoginOk (sign p) (cuser_of (p_id p) r)
                 | None \<Rightarrow> LoginErr (Some DbError)))"


section \<open>Fixtures\<close>

text \<open>
  A token format for the witnesses that \<open>verify\<close> reads back: the user id in
  unary and a letter for the role.
\<close>

primrec role_char :: "role \<Rightarrow> char" where
  "role_char Admin = CHR ''a''"
| "role_char Student = CHR ''s''"
| "role_char ClubAdmin = CHR ''c''"

definition role_of_char :: "char \<Rightarrow> role option" where
  "role_of_char c =
     (if c = CHR ''a'' then Some Admin else if c = CHR ''s'' then Some Student
      else if c = CHR ''c'' then Some ClubAdmin else None)"

definition fx_sign :: "principal \<Rightarrow> string" where
  "fx_sign p = replicate (Suc (p_id p)) CHR ''x'' @ [role_char (p_role p)]"

definition fx_verify :: "string \<Rightarrow> principal option" where
  "fx_verify t =
     (case rev t of
        [] \<Rightarrow> None
      | c # rs \<Rightarrow> (case role_of_char c of
                    None \<Rightarrow> None
                  | Some r \<Rightarrow> if rs \<noteq> [] \<and> list_all (\<lambda>x. x = CHR ''x'') rs
                              then Some \<lparr>p_id = length rs - 1, p_role = r\<rparr> else None))"

definition fx_root_login :: user_input where
  "fx_root_login = \<lparr>ui_username = Some ''root'', ui_password = Some ''h'', ui_student_id = None,
                    ui_email = None, ui_bio = None, ui_role = None, ui_points = None\<rparr>"

section \<open>Properties of the session\<close>

lemma split_on_no_sep:
  "c \<notin> set xs \<Longrightarrow> split_on c xs = [xs]"
  by (induction xs) (auto simp: Let_def)

lemma bearer_token_roundtrip:
  assumes "t \<noteq> []" "CHR '' '' \<notin> set t"
  shows "authenticateToken verify (Some (''Bearer '' @ t)) = (case verify t of None \<Rightarrow> Inl Unauthorized | Some p \<Rightarrow> Inr p)"
proof -
  have "split_on CHR '' '' (''Bearer '' @ t) = [''Bearer'', t]"
    using split_on_no_sep [OF assms(2)] by (simp add: Let_def)
  then have "bearer_token (Some (''Bearer '' @ t)) = Some t"
    by (simp add: bearer_token_def)
  then show ?thesis using assms(1) by (simp add: authenticateToken_def)
qed

lemma login_principal:
  assumes "server_login sign cmp b d = LoginOk tok u"
  obtains p r where "login cmp (Some b) d = Inr p" "map_of (users d) (p_id p) = Some r"
    "tok = sign p" "u = cuser_of (p_id p) r"
  using assms by (auto simp: server_login_def split: sum.splits option.splits)

lemma login_role:
  assumes "login cmp (Some b) d = Inr p" "wf_db d"
  shows "map_option u_role (map_of (users d) (p_id p)) = Some (p_role p)"
proof -
  obtain n pw r where f: "find (\<lambda>(k, r). ci_eq (u_name r) n) (users d) = Some (p_id p, r)" "p_role p = u_role r"
    using assms(1) by (auto simp: login_def split: option.splits prod.splits if_splits)
  have "(p_id p, r) \<in> set (users d)" using f(1) by (auto simp: find_Some_iff) (metis nth_mem)
  then have "map_of (users d) (p_id p) = Some r"
    using assms(2) by (simp add: wf_db_def keys_of_def)
  then show ?thesis using f(2) by simp
qed

lemma fx_jwt:
  "\<forall>p. fx_verify (fx_sign p) = Some p" "\<forall>p. fx_sign p \<noteq> [] \<and> CHR '' '' \<notin> set (fx_sign p)"
proof -
  have v: "role_of_char (role_char r) = Some r" for r
    by (cases r) (simp_all add: role_of_char_def)
  then show "\<forall>p. fx_verify (fx_sign p) = Some p"
    by (auto simp: fx_sign_def fx_verify_def list_all_iff)
  have "CHR '' '' \<noteq> role_char r" for r
    by (cases r) simp_all
  then show "\<forall>p. fx_sign p \<noteq> [] \<and> CHR '' '' \<notin> set (fx_sign p)"
    by (auto simp: fx_sign_def)
qed

text \<open>
  C38: the provider leaves its loading screen after at most one request for the current
  user, whatever the server answers: after the effect has run once from the restored
  state, the provider is initialized, not loading, needs no further request, and running
  the effect again changes nothing.
\<close>

theorem auth_effect_settles:
  "let st = auth_effect r1 (auth_init tok u joined)
   in s_initialized st \<and> \<not> s_loading st \<and> \<not> fetch_needed st \<and> auth_effect r2 st = st"
  by (cases r1; cases r2) (auto simp: Let_def auth_effect_def auth_init_def fetch_needed_def)

text \<open>
  C39: roles are read at login and never refreshed: after an admin changes a user's role
  in the database, the token the user obtained at login still authenticates with the old
  role (so the server's role guards use it), and the client's isAdmin keeps the old role
  whatever the current-user request answers.
\<close>

theorem stale_role_after_change:
  assumes jwt: "\<forall>p. verify (sign p) = Some p" "\<forall>p. sign p \<noteq> [] \<and> CHR '' '' \<notin> set (sign p)"
    and wf: "wf_db d"
    and li: "server_login sign cmp b d = LoginOk tok u"
    and ch: "changeUserRole (cu_id u) (Some rs) d = Inr d'" "parse_role rs = Some ro"
    and init: "s_initialized st"
  shows "authenticateToken verify (Some (''Bearer '' @ tok)) = Inr \<lparr>p_id = cu_id u, p_role = cu_role u\<rparr> \<and>
         map_option u_role (map_of (users d') (cu_id u)) = Some ro \<and>
         (\<forall>res. client_isAdmin (auth_effect res (auth_login (LoginOk tok u) st)) = (cu_role u = Admin))"
proof -
  obtain p r where l: "login cmp (Some b) d = Inr p" "map_of (users d) (p_id p) = Some r"
    and tok: "tok = sign p" and u: "u = cuser_of (p_id p) r"
    using li by (rule login_principal)
  have role: "p_role p = u_role r" using login_role [OF l(1) wf] l(2) by simp
  have pu: "p = \<lparr>p_id = cu_id u, p_role = cu_role u\<rparr>" using u role by (simp add: cuser_of_def)
  have a: "authenticateToken verify (Some (''Bearer '' @ tok)) = Inr \<lparr>p_id = cu_id u, p_role = cu_role u\<rparr>"
    using bearer_token_roundtrip [of tok verify] jwt tok pu by simp
  have "d' = set_user_role (cu_id u) ro d"
    using ch by (auto simp: changeUserRole_def split: if_splits)
  then have b: "map_option u_role (map_of (users d') (cu_id u)) = Some ro"
    using l(2) u by (simp add: map_of_set_user_role cuser_of_def)
  have "client_isAdmin (auth_effect res (auth_login (LoginOk tok u) st)) = (cu_role u = Admin)" for res
    using init jwt(2) tok by (simp add: auth_effect_def auth_login_def client_isAdmin_def)
  with a b show ?thesis by blast
qed

lemma stale_role_after_change_witness:
  "\<exists>tok u d'. server_login fx_sign (=) fx_root_login fx_db = LoginOk tok u \<and>
     changeUserRole 10 (Some ''student'') fx_db = Inr d' \<and>
     authenticateToken fx_verify (Some (''Bearer '' @ tok)) = Inr \<lparr>p_id = 10, p_role = Admin\<rparr> \<and>
     map_option u_role (map_of (users d') 10) = Some Student \<and>
     client_isAdmin (auth_effect MeFail (auth_login (LoginOk tok u) (auth_init None None [])))"
proof -
  have wf: "wf_db fx_db" by (simp add: wf_db_def fixture_defs keys_of_def)
  obtain u where li: "server_login fx_sign (=) fx_root_login fx_db = LoginOk (fx_sign \<lparr>p_id = 10, p_role = Admin\<rparr>) u"
    and u: "cu_id u = 10" "cu_role u = Admin"
    by (simp add: server_login_def login_def fx_root_login_def fixture_defs ci_eq_def lower_ascii_def cuser_of_def)
  obtain d' where ch: "changeUserRole 10 (Some ''student'') fx_db = Inr d'"
    by (simp add: changeUserRole_def parse_role_def fixture_defs)
  have pr: "parse_role ''student'' = Some Student" by (simp add: parse_role_def)
  have init: "s_initialized (auth_init None None [])" by (simp add: auth_init_def)
  have "authenticateToken fx_verify (Some (''Bearer '' @ fx_sign \<lparr>p_id = 10, p_role = Admin\<rparr>)) =
        Inr \<lparr>p_id = cu_id u, p_role = cu_role u\<rparr> \<and>
      map_option u_role (map_of (users d') (cu_id u)) = Some Student \<and>
      (\<forall>res. client_isAdmin (auth_effect res (auth_login (LoginOk (fx_sign \<lparr>p_id = 10, p_role = Admin\<rparr>) u)
                 (auth_init None None []))) = (cu_role u = Admin))"
    using stale_role_after_change [OF fx_jwt wf li _ pr init] ch u by simp
  with li ch u show ?thesis by auto
qed

end
