(* ===== verification/Queries.thy ===== *)
theory Queries
  imports Clubs Js_Text
begin

text \<open>
  The read-only activity queries of
  src/liantuanfen/server/controllers/activityController.js: the public list
  (\<open>getAllActivities\<close>) and detail (\<open>getActivityById\<close>), the caller's own
  activities (\<open>getUserActivities\<close>) and the admin's statistics
  (\<open>getActivityStats\<close>), with the public \<open>GET\<close> routes of
  routes/activityRoutes.js. Each query's \<open>JOIN\<close>, \<open>WHERE\<close> and \<open>ORDER BY\<close> is a
  filter, a lookup and a stable sort over the tables (rows MySQL may return in
  either order keep the table order); the status the list shows is the derivation
  of Status. The theory shows what each response contains and the divergences the
  model exposes.
\<close>

section \<open>Rows of the responses\<close>

text \<open>The labels of \<open>activities.status\<close>, as the \<open>ENUM\<close> compares them with a string.\<close>

primrec status_name :: "stored_status \<Rightarrow> string" where
  "status_name Pending = ''pending''"
| "status_name Approved = ''approved''"
| "status_name Rejected = ''rejected''"
| "status_name Completed = ''completed''"

text \<open>
  A row of the list and of the detail: \<open>a.*\<close> with the status after the
  derivation, the club's name and logo, and \<open>current_participants\<close>.
\<close>

record activity_listing =
  al_id :: aid
  al_row :: activity_row
  al_status :: view_status
  al_club_name :: string
  al_club_logo :: "string option"
  al_current :: nat

text \<open>\<open>FROM activities a JOIN clubs c ON a.club_id = c.id\<close>: an activity whose club is missing is not listed.\<close>

definition activity_join :: "db \<Rightarrow> (aid \<times> activity_row \<times> club_row) list" where
  "activity_join d =
     concat (map (\<lambda>(k, act). case map_of (clubs d) (a_club act) of None \<Rightarrow> [] | Some c \<Rightarrow> [(k, act, c)])
               (activities d))"

text \<open>The columns of one joined row, with the status rewritten as lines 184--196 (and 226--238) do.\<close>

definition listing :: "time \<Rightarrow> db \<Rightarrow> aid \<times> activity_row \<times> club_row \<Rightarrow> activity_listing" where
  "listing now d x =
     (case x of (k, act, c) \<Rightarrow>
        \<lparr>al_id = k, al_row = act, al_status = derive_status now (a_status act) (a_start act) (a_end act),
         al_club_name = c_name c, al_club_logo = c_logo c, al_current = participants d k\<rparr>)"

section \<open>getAllActivities (lines 153--199)\<close>

text \<open>
  The optional filters of \<open>req.query\<close>: a truthy \<open>status\<close> compared with the stored
  label under the collation (a derived label such as \<open>ongoing\<close> matches no row),
  and a truthy \<open>club_id\<close>, given here as the number MySQL compares it as. Then
  \<open>ORDER BY a.start_time DESC\<close>.
\<close>

definition getAllActivities :: "time \<Rightarrow> string option \<Rightarrow> nat option \<Rightarrow> db \<Rightarrow> activity_listing list" where
  "getAllActivities now status club d =
     map (listing now d)
       (sort_key (\<lambda>(k, act, c). - a_start act)
          (filter (\<lambda>(k, act, c). (case status of Some s \<Rightarrow> s = [] \<or> ci_eq (status_name (a_status act)) s
                                                | None \<Rightarrow> True) \<and>
                                 (case club of Some n \<Rightarrow> a_club act = n | None \<Rightarrow> True))
             (activity_join d)))"

section \<open>getActivityById (lines 202--299)\<close>

text \<open>A row of \<open>participants\<close>: \<open>u.id, u.username as name, u.avatar, ua.created_at as join_time\<close>.\<close>

record participant =
  pt_id :: uid
  pt_name :: string
  pt_avatar :: "string option"
  pt_join :: time

text \<open>The registrations of the activity joined with their users, \<open>ORDER BY ua.created_at ASC\<close>.\<close>

definition activity_participants :: "db \<Rightarrow> aid \<Rightarrow> participant list" where
  "activity_participants d a =
     map (\<lambda>(r, u). \<lparr>pt_id = ua_user r, pt_name = u_name u, pt_avatar = u_avatar u, pt_join = ua_created r\<rparr>)
       (sort_key (\<lambda>(r, u). ua_created r)
          (concat (map (\<lambda>r. if ua_activity r = a
                            then (case map_of (users d) (ua_user r) of None \<Rightarrow> [] | Some u \<Rightarrow> [(r, u)])
                            else [])
                     (user_activities d))))"

text \<open>
  The detail: 404 when no joined row has the id; \<open>is_joined\<close> is computed only when
  \<open>req.user\<close> is set (\<open>None\<close> otherwise: the field is absent).
\<close>

definition getActivityById ::
  "time \<Rightarrow> principal option \<Rightarrow> aid \<Rightarrow> db \<Rightarrow> api_error + activity_listing \<times> bool option \<times> participant list" where
  "getActivityById now pu a d =
     (case find (\<lambda>(k, act, c). k = a) (activity_join d) of
        None \<Rightarrow> Inl ActivityNotFound
      | Some x \<Rightarrow>
          Inr (listing now d x,
               (case pu of Some u \<Rightarrow> Some (is_registered d (p_id u) a) | None \<Rightarrow> None),
               activity_participants d a))"

section \<open>getUserActivities (lines 770--790)\<close>

text \<open>
  A row of the caller's activities: \<open>a.*\<close> with the stored status (no derivation
  here), the club's name and logo, and the registration's status and earned
  points.
\<close>

record joined_activity =
  ja_id :: aid
  ja_row :: activity_row
  ja_club_name :: string
  ja_club_logo :: "string option"
  ja_participation :: reg_status
  ja_earned :: int

text \<open>One row per registration of the caller whose activity and club exist, \<open>ORDER BY a.start_time DESC\<close>.\<close>

definition getUserActivities :: "principal \<Rightarrow> db \<Rightarrow> joined_activity list" where
  "getUserActivities u d =
     map (\<lambda>(r, k, act, c). \<lparr>ja_id = k, ja_row = act, ja_club_name = c_name c, ja_club_logo = c_logo c,
                            ja_participation = ua_status r, ja_earned = ua_earned r\<rparr>)
       (sort_key (\<lambda>(r, k, act, c). - a_start act)
          (concat (map (\<lambda>(k, act, c). map (\<lambda>r. (r, k, act, c))
                                          (filter (\<lambda>r. ua_activity r = k \<and> ua_user r = p_id u) (user_activities d)))
                     (activity_join d))))"

section \<open>getActivityStats (lines 793--850)\<close>

text \<open>
  The statistics: \<open>COUNT(*)\<close> and the four \<open>SUM(CASE ...)\<close> columns, which are
  \<open>NULL\<close> over an empty table; the activities starting in the current month
  (the calendar month of a time is a parameter: \<open>MONTH\<close> and \<open>YEAR\<close> of the
  server's time zone); the five activities with the most registrations
  (\<open>LEFT JOIN\<close>, \<open>GROUP BY a.id\<close>, \<open>ORDER BY participant_count DESC LIMIT 5\<close>).
\<close>

record activity_stats =
  st_total :: nat
  st_pending :: "nat option"
  st_approved :: "nat option"
  st_completed :: "nat option"
  st_rejected :: "nat option"
  st_month :: nat
  st_popular :: "(aid \<times> string \<times> nat) list"

definition status_sum :: "stored_status \<Rightarrow> db \<Rightarrow> nat option" where
  "status_sum s d =
     (if activities d = [] then None else Some (count_rows (\<lambda>(k, act). a_status act = s) (activities d)))"

definition getActivityStats :: "(time \<Rightarrow> nat \<times> nat) \<Rightarrow> time \<Rightarrow> db \<Rightarrow> activity_stats" where
  "getActivityStats month_of now d =
     \<lparr>st_total = length (activities d),
      st_pending = status_sum Pending d, st_approved = status_sum Approved d,
      st_completed = status_sum Completed d, st_rejected = status_sum Rejected d,
      st_month = count_rows (\<lambda>(k, act). month_of (a_start act) = month_of now) (activities d),
      st_popular = take 5 (sort_key (\<lambda>(k, t, n). - int n)
                            (map (\<lambda>(k, act). (k, a_title act, participants d k)) (activities d)))\<rparr>"

section \<open>The public read routes (routes/activityRoutes.js lines 62--66)\<close>

text \<open>
  \<open>GET /\<close> and \<open>GET /:id\<close> run without \<open>verifyToken\<close>, so \<open>req.user\<close> is never set
  when \<open>getActivityById\<close> runs: the route passes no principal, whatever the
  request's \<open>Authorization\<close> header holds.
\<close>

definition activity_detail_route ::
  "time \<Rightarrow> aid \<Rightarrow> db \<Rightarrow> api_error + activity_listing \<times> bool option \<times> participant list" where
  "activity_detail_route now a d = getActivityById now None a d"

text \<open>
  The guarded read routes, lines 87 and 90: \<open>verifyToken\<close> (401 without a
  principal), for the statistics also \<open>isAdmin\<close> (403).
\<close>

definition user_joined_route :: "principal option \<Rightarrow> db \<Rightarrow> api_error + joined_activity list" where
  "user_joined_route pu d = (case pu of None \<Rightarrow> Inl Unauthorized | Some u \<Rightarrow> Inr (getUserActivities u d))"

definition stats_route ::
  "(time \<Rightarrow> nat \<times> nat) \<Rightarrow> time \<Rightarrow> principal option \<Rightarrow> db \<Rightarrow> api_error + activity_stats" where
  "stats_route month_of now pu d =
     (case pu of None \<Rightarrow> Inl Unauthorized
      | Some u \<Rightarrow> if \<not> isAdmin u then Inl AdminRequired else Inr (getActivityStats month_of now d))"

section \<open>The detail page's reading of the response\<close>

text \<open>
  pages/ActivityDetail.tsx keeps \<open>response.data.activity\<close> (lines 53--55) and
  decides from it with \<open>canRegister\<close> and \<open>canCancelRegistration\<close>; an absent
  \<open>is_joined\<close> is falsy.
\<close>

definition detail_view :: "activity_listing \<Rightarrow> bool option \<Rightarrow> activity_view" where
  "detail_view l j =
     \<lparr>v_status = al_status l, v_is_joined = (j = Some True), v_current = int (al_current l),
      v_max = a_max (al_row l), v_start = a_start (al_row l)\<rparr>"


section \<open>Properties of the queries\<close>

lemma in_set_activity_join:
  "(k, act, c) \<in> set (activity_join d) \<longleftrightarrow> (k, act) \<in> set (activities d) \<and> map_of (clubs d) (a_club act) = Some c"
  by (auto simp: activity_join_def split: option.splits)

lemma join_rows:
  "(\<forall>k act. (k, act) \<in> set xs \<longrightarrow> M (a_club act) \<noteq> None) \<Longrightarrow>
   map (\<lambda>(k, act, c). (k, act))
     (concat (map (\<lambda>(k, act). case M (a_club act) of None \<Rightarrow> [] | Some c \<Rightarrow> [(k, act, c)]) xs)) = xs"
  by (induction xs) (auto split: option.splits)

lemma listing_simps [simp]:
  "al_id (listing now d x) = fst x" "al_row (listing now d x) = fst (snd x)"
  "al_status (listing now d x) = derive_status now (a_status (fst (snd x))) (a_start (fst (snd x))) (a_end (fst (snd x)))"
  "al_current (listing now d x) = participants d (fst x)"
  by (cases x; simp add: listing_def)+

text \<open>
  C34: under the club invariant (every activity's club exists), the unfiltered activity
  list holds every activity exactly once, ordered by start time from the latest, each
  with its current registration count and the status the server derives from the stored
  one and the clock.
\<close>

theorem getAllActivities_unfiltered:
  assumes "wf_clubs d"
  shows "map (\<lambda>l. (al_id l, al_row l)) (getAllActivities now None None d) =
           sort_key (\<lambda>(k, act). - a_start act) (activities d) \<and>
         (\<forall>l \<in> set (getAllActivities now None None d).
            al_current l = participants d (al_id l) \<and>
            al_status l = derive_status now (a_status (al_row l)) (a_start (al_row l)) (a_end (al_row l)))"
proof -
  let ?j = "activity_join d" and ?p = "\<lambda>(k :: aid, act :: activity_row, c :: club_row). (k, act)"
  have all: "\<forall>k act. (k, act) \<in> set (activities d) \<longrightarrow> map_of (clubs d) (a_club act) \<noteq> None"
    using assms by (simp add: wf_clubs_iff)
  have j: "map ?p ?j = activities d"
    unfolding activity_join_def by (rule join_rows [OF all])
  have res: "getAllActivities now None None d = map (listing now d) (sort_key (\<lambda>(k, act, c). - a_start act) ?j)"
    by (simp add: getAllActivities_def)
  have pl: "map (\<lambda>l. (al_id l, al_row l)) (map (listing now d) xs) = map ?p xs" for xs
    by (induction xs) auto
  have "sort_key (\<lambda>(k, act). - a_start act) (map ?p ?j) = map ?p (sort_key (\<lambda>(k, act, c). - a_start act) ?j)"
    by (simp add: sort_key_map split_def)
  then have "map (\<lambda>l. (al_id l, al_row l)) (getAllActivities now None None d) =
               sort_key (\<lambda>(k, act). - a_start act) (activities d)"
    by (simp add: res pl j) (simp add: split_def)
  moreover have "\<forall>l \<in> set (getAllActivities now None None d).
            al_current l = participants d (al_id l) \<and>
            al_status l = derive_status now (a_status (al_row l)) (a_start (al_row l)) (a_end (al_row l))"
    by (auto simp: res)
  ultimately show ?thesis by blast
qed

lemma getAllActivities_unfiltered_witness:
  "map (\<lambda>l. (al_id l, al_row l)) (getAllActivities 0 None None fx_club_db) = [(1, fx_activity)]"
  using getAllActivities_unfiltered [of fx_club_db 0] fx_club_db_invariants
  by (simp add: fx_club_db_def fixture_defs)

text \<open>
  The list's status filter compares with the stored status, so filtering by a
  derived status (ongoing, upcoming) returns nothing, whatever the activities.
\<close>

theorem getAllActivities_derived_filter:
  "getAllActivities now (Some ''ongoing'') club d = [] \<and> getAllActivities now (Some ''upcoming'') club d = []"
proof -
  have "\<not> ci_eq (status_name s) ''ongoing''" "\<not> ci_eq (status_name s) ''upcoming''" for s
    by (cases s; simp add: ci_eq_def lower_ascii_def)+
  then show ?thesis by (simp add: getAllActivities_def filter_empty_conv split_def)
qed

text \<open>
  C36: the detail route runs without verifyToken, so its response never carries
  is_joined, and the detail page (ActivityDetail.tsx) never offers to cancel a
  registration, even to a registered user.
\<close>

theorem detail_page_never_cancels:
  assumes "activity_detail_route now a d = Inr (l, j, ps)"
  shows "j = None \<and> (\<forall>t. \<not> canCancelRegistration t (detail_view l j))"
proof -
  have "j = None"
    using assms by (auto simp: activity_detail_route_def getActivityById_def split: option.splits)
  then show ?thesis by (simp add: detail_view_def canCancelRegistration_def)
qed

lemma detail_page_never_cancels_witness:
  "is_registered fx_db_AB 1 1 \<and>
   (\<exists>l ps. activity_detail_route 0 1 fx_db_AB = Inr (l, None, ps) \<and> \<not> canCancelRegistration 0 (detail_view l None))"
proof -
  obtain l ps where h: "activity_detail_route 0 1 fx_db_AB = Inr (l, None, ps)"
    by (simp add: activity_detail_route_def getActivityById_def activity_join_def fixture_defs)
  have "\<not> canCancelRegistration 0 (detail_view l None)"
    using detail_page_never_cancels [OF h] by blast
  with h show ?thesis by (auto simp: is_registered_def fixture_defs)
qed

text \<open>
  The statistics' four status sums are all NULL on an empty table and otherwise add
  up to the total; at most five popular activities are returned, the most registered
  first.
\<close>

theorem getActivityStats_partition:
  "let s = getActivityStats month_of now d in
   (case (st_pending s, st_approved s, st_completed s, st_rejected s) of
      (Some p, Some a, Some c, Some r) \<Rightarrow> p + a + c + r = st_total s \<and> 0 < st_total s
    | (None, None, None, None) \<Rightarrow> st_total s = 0
    | _ \<Rightarrow> False) \<and>
   length (st_popular s) \<le> 5 \<and> sorted (map (\<lambda>(k, t, n). - int n) (st_popular s))"
proof -
  have cnt: "count_rows (\<lambda>(k, act). a_status act = Pending) xs + count_rows (\<lambda>(k, act). a_status act = Approved) xs +
             count_rows (\<lambda>(k, act). a_status act = Completed) xs + count_rows (\<lambda>(k, act). a_status act = Rejected) xs
             = length xs" for xs :: "(aid \<times> activity_row) list"
  proof (induction xs)
    case Nil then show ?case by simp
  next
    case (Cons x xs) then show ?case by (cases "a_status (snd x)") (auto simp: split_def)
  qed
  have "sorted (map (\<lambda>(k, t, n). - int n) (take 5 (sort_key (\<lambda>(k, t, n). - int n) ys)))" for ys :: "(aid \<times> string \<times> nat) list"
    by (metis sorted_sort_key sorted_wrt_take take_map)
  then show ?thesis
    using cnt [of "activities d"] by (auto simp: Let_def getActivityStats_def status_sum_def)
qed

end
