(* ===== verification/Client_Pages.thy ===== *)
theory Client_Pages
  imports Client_Auth Queries
begin

text \<open>
  The decision logic of three more client pages, each composed with the server
  query it calls: the filters of pages/ActivityList.tsx over the list of
  \<open>getAllActivities\<close>, the form of pages/Register.tsx and the request body it
  sends to \<open>register\<close>, and the ranks and orders of pages/PointsRanking.tsx over
  \<open>getPointsRanking\<close>. Library behaviour the pages rely on (antd's e-mail rule,
  dayjs's day boundaries, \<open>localeCompare\<close>) is a parameter.
\<close>

section \<open>ActivityList.tsx\<close>

text \<open>The \<open>status\<close> string of an activity in the list response (activityController.js lines 185--195).\<close>

primrec view_status_name :: "view_status \<Rightarrow> string" where
  "view_status_name VPending = ''pending''"
| "view_status_name VApproved = ''approved''"
| "view_status_name VRejected = ''rejected''"
| "view_status_name VCompleted = ''completed''"
| "view_status_name VUpcoming = ''upcoming''"
| "view_status_name VOngoing = ''ongoing''"

text \<open>
  The filter state (lines 42--45): the search text, the status (\<open>'all'\<close> for
  none), the club (\<open>null\<close> for none) and the date range, given here by its two days'
  boundaries (\<open>startOf('day')\<close> of the first, \<open>endOf('day')\<close> of the last).
\<close>

record activity_filters =
  af_search :: string
  af_status :: string
  af_club :: "nat option"
  af_range :: "(time \<times> time) option"

text \<open>\<open>resetFilters\<close>, lines 138--143.\<close>

definition reset_filters :: activity_filters where
  "reset_filters = \<lparr>af_search = [], af_status = ''all'', af_club = None, af_range = None\<rparr>"

text \<open>
  \<open>applyFilters\<close>, lines 76--116: a search on title, description and location
  (lower case), the derived status, a truthy club id, and activities lying within
  the range.
\<close>

definition apply_filters :: "activity_filters \<Rightarrow> activity_listing list \<Rightarrow> activity_listing list" where
  "apply_filters f acts =
     (let r1 = (if js_trim (af_search f) \<noteq> []
                then filter (\<lambda>a. js_includes (js_lower (a_title (al_row a))) (js_lower (af_search f)) \<or>
                                 js_includes (js_lower (a_description (al_row a))) (js_lower (af_search f)) \<or>
                                 js_includes (js_lower (a_location (al_row a))) (js_lower (af_search f))) acts
                else acts);
          r2 = (if af_status f \<noteq> ''all'' then filter (\<lambda>a. view_status_name (al_status a) = af_status f) r1 else r1);
          r3 = (case af_club f of Some c \<Rightarrow> if c = 0 then r2 else filter (\<lambda>a. a_club (al_row a) = c) r2
                                | None \<Rightarrow> r2)
      in case af_range f of
           Some (s, e) \<Rightarrow> filter (\<lambda>a. s \<le> a_start (al_row a) \<and> a_end (al_row a) \<le> e) r3
         | None \<Rightarrow> r3)"

text \<open>\<open>fetchActivities\<close> (lines 49--60) with the filters applied: the page's list at time \<open>now\<close>.\<close>

definition activity_list_page :: "time \<Rightarrow> activity_filters \<Rightarrow> db \<Rightarrow> activity_listing list" where
  "activity_list_page now f d = apply_filters f (getAllActivities now None None d)"

section \<open>Register.tsx\<close>

text \<open>The form's fields (lines 96--160).\<close>

record register_form =
  rf_username :: string
  rf_password :: string
  rf_confirm :: string
  rf_student_id :: string
  rf_email :: string
  rf_bio :: "string option"

text \<open>
  The form's rules: username required with at least 3 characters, password with
  at least 6, the confirmation equal to it, student id required, an e-mail address
  as antd's \<open>type: 'email'\<close> rule accepts it (\<open>is_email\<close>). No maximum length
  and no student-id format is checked.
\<close>

definition register_form_ok :: "(string \<Rightarrow> bool) \<Rightarrow> register_form \<Rightarrow> bool" where
  "register_form_ok is_email f =
     (rf_username f \<noteq> [] \<and> 3 \<le> length (rf_username f) \<and>
      rf_password f \<noteq> [] \<and> 6 \<le> length (rf_password f) \<and>
      rf_confirm f \<noteq> [] \<and> rf_confirm f = rf_password f \<and>
      rf_student_id f \<noteq> [] \<and> rf_email f \<noteq> [] \<and> is_email (rf_email f))"

text \<open>\<open>onFinish\<close>, lines 18--34: the \<open>FormData\<close> sent to \<open>POST /api/users/register\<close>.\<close>

definition register_form_data :: "register_form \<Rightarrow> user_input" where
  "register_form_data f =
     \<lparr>ui_username = Some (rf_username f), ui_password = Some (rf_password f),
      ui_student_id = Some (rf_student_id f), ui_email = Some (rf_email f),
      ui_bio = (if js_truthy_str (rf_bio f) then rf_bio f else None), ui_role = None, ui_points = None\<rparr>"

text \<open>
  \<open>onFinish\<close> with the context's \<open>register\<close> (AuthContext lines 152--175): the
  registration, then a login with the form's username and password; on success
  the page navigates to \<open>/\<close>. The third component says whether it did.
\<close>

definition register_login_body :: "register_form \<Rightarrow> user_input" where
  "register_login_body f =
     \<lparr>ui_username = Some (rf_username f), ui_password = Some (rf_password f), ui_student_id = None,
      ui_email = None, ui_bio = None, ui_role = None, ui_points = None\<rparr>"

definition register_submit ::
  "(string \<Rightarrow> string) \<Rightarrow> (principal \<Rightarrow> string) \<Rightarrow> (string \<Rightarrow> string \<Rightarrow> bool) \<Rightarrow> register_form \<Rightarrow>
   string option \<Rightarrow> auth_state \<times> db \<Rightarrow> auth_state \<times> db \<times> bool" where
  "register_submit hash sign cmp f file s =
     (case user_route hash (Register (Some (register_form_data f)) file) (snd s) of
        Inl e \<Rightarrow> (auth_register (Some (Some e)) (LoginErr None) (fst s), snd s, False)
      | Inr d' \<Rightarrow>
          (let r = server_login sign cmp (register_login_body f) d'
           in (auth_register None r (fst s), d', (case r of LoginOk tok u \<Rightarrow> True | LoginErr e \<Rightarrow> False))))"

section \<open>PointsRanking.tsx\<close>

text \<open>
  \<open>fetchRankings\<close>, lines 27--42: the server's ranking for the search (sent only
  when truthy), each row numbered from 1 in the order received.
\<close>

definition fetch_rankings :: "string \<Rightarrow> db \<Rightarrow> (nat \<times> uid \<times> user_row) list" where
  "fetch_rankings search d =
     (let rows = getPointsRanking (if search = [] then None else Some search) d
      in zip [1..<Suc (length rows)] rows)"

text \<open>
  \<open>handleSortTypeChange\<close>, lines 53--68: \<open>Array.prototype.sort\<close> is stable;
  \<open>localeCompare\<close> orders names by a collation key, a parameter.
\<close>

definition sort_rankings ::
  "(string \<Rightarrow> string) \<Rightarrow> string \<Rightarrow> (nat \<times> uid \<times> user_row) list \<Rightarrow> (nat \<times> uid \<times> user_row) list" where
  "sort_rankings key t rs =
     (if t = ''rank'' then sort_key (\<lambda>(n, k, r). n) rs
      else if t = ''points_desc'' then sort_key (\<lambda>(n, k, r). - u_points r) rs
      else if t = ''points_asc'' then sort_key (\<lambda>(n, k, r). u_points r) rs
      else if t = ''name'' then sort_key (\<lambda>(n, k, r). key (u_name r)) rs
      else rs)"

text \<open>\<open>getRankColor\<close>, lines 70--75: gold, silver and bronze for the first three ranks.\<close>

definition rank_color :: "nat \<Rightarrow> string" where
  "rank_color n =
     (if n = 1 then ''gold'' else if n = 2 then ''#C0C0C0'' else if n = 3 then ''#CD7F32'' else [])"


text \<open>
  The page as a session, lines 20--25 and 44--68 and the refresh button (lines
  169--176): the fetched rows, the rows shown, the search text and the sort the
  select displays.
\<close>

record ranking_page =
  rp_users :: "(nat \<times> uid \<times> user_row) list"
  rp_shown :: "(nat \<times> uid \<times> user_row) list"
  rp_search :: string
  rp_sort :: string

datatype ranking_event = RankType string | RankSearch string | RankSort string | RankRefresh

fun ranking_step :: "(string \<Rightarrow> string) \<Rightarrow> db \<Rightarrow> ranking_event \<Rightarrow> ranking_page \<Rightarrow> ranking_page" where
  "ranking_step key d (RankType v) p = p\<lparr>rp_search := v\<rparr>"
| "ranking_step key d (RankSearch v) p =
     (let rs = fetch_rankings v d in p\<lparr>rp_search := v, rp_users := rs, rp_shown := rs\<rparr>)"
| "ranking_step key d (RankSort t) p = p\<lparr>rp_sort := t, rp_shown := sort_rankings key t (rp_shown p)\<rparr>"
| "ranking_step key d RankRefresh p =
     (let rs = fetch_rankings [] d in p\<lparr>rp_search := [], rp_users := rs, rp_shown := rs\<rparr>)"

section \<open>Properties of the pages\<close>

lemma view_status_name_eq [simp]:
  "view_status_name s = view_status_name t \<longleftrightarrow> s = t"
  by (cases s; cases t) simp_all

text \<open>
  Filtering on the client by a status label selects exactly the activities whose
  derived status it names, unlike the server's filter (Queries).
\<close>

lemma apply_filters_status_only:
  "apply_filters (reset_filters\<lparr>af_status := view_status_name s\<rparr>) acts = filter (\<lambda>a. al_status a = s) acts"
proof -
  have "view_status_name s \<noteq> ''all''" by (cases s) simp_all
  then show ?thesis by (simp add: apply_filters_def reset_filters_def js_trim_def)
qed

text \<open>
  The form bounds no length: every form it accepts whose username is longer than
  the \<open>VARCHAR(50)\<close> column ends in the server's 500, not in a message.
\<close>

lemma register_form_long_username:
  assumes "register_form_ok is_email f" "50 < length (rf_username f)"
  shows "register hash (Some (register_form_data f)) file d = Inl DbError"
  using assms by (auto simp: register_def register_form_ok_def register_form_data_def fits_columns_def Let_def)


text \<open>
  A search (or a refresh) shows the server's order, ranks 1, 2, ... in turn, while
  the select keeps showing the sort chosen before: the list and the select disagree.
\<close>

lemma ranking_search_resets_order:
  assumes "e = RankSearch v \<or> e = RankRefresh"
  shows "rp_sort (ranking_step key d e p) = rp_sort p \<and>
         map fst (rp_shown (ranking_step key d e p)) = [1..<Suc (length (rp_shown (ranking_step key d e p)))]"
  using assms by (auto simp: fetch_rankings_def Let_def)


text \<open>
  A registration the server refuses leaves the database and the session's user
  as they were and shows the server's message; one it accepts is followed by a
  login, and when that succeeds the session holds the stored row of the user the
  token names, and the page goes home.
\<close>

lemma register_submit_outcome:
  assumes "register_submit hash sign cmp f file (st, d) = (st', d', home)"
  shows "(\<exists>e. user_route hash (Register (Some (register_form_data f)) file) d = Inl e \<and>
            d' = d \<and> \<not> home \<and> s_user st' = s_user st \<and> s_error st' = Some (ServerMessage e)) \<or>
         (user_route hash (Register (Some (register_form_data f)) file) d = Inr d' \<and>
            (home \<longrightarrow> (\<exists>p r. login cmp (Some (register_login_body f)) d' = Inr p \<and>
                          map_of (users d') (p_id p) = Some r \<and> s_user st' = Some (cuser_of (p_id p) r) \<and>
                          s_token st' = Some (sign p))))"
proof (cases "user_route hash (Register (Some (register_form_data f)) file) d")
  case (Inl e)
  then show ?thesis using assms by (auto simp: register_submit_def auth_register_def)
next
  case (Inr d1)
  show ?thesis
  proof (cases "server_login sign cmp (register_login_body f) d1")
    case (LoginOk tok u)
    then obtain p r where "login cmp (Some (register_login_body f)) d1 = Inr p" "map_of (users d1) (p_id p) = Some r"
      "tok = sign p" "u = cuser_of (p_id p) r"
      by (rule login_principal)
    then show ?thesis
      using assms Inr LoginOk by (auto simp: register_submit_def auth_register_def auth_login_def)
  next
    case (LoginErr e)
    then show ?thesis using assms Inr by (simp add: register_submit_def)
  qed
qed

end
