(* ===== verification/Client_Admin_Activities.thy ===== *)
theory Client_Admin_Activities
  imports Engine Client_Pages
begin

text \<open>
  The activity administration page src/liantuanfen/client/src/pages/admin/ActivityManagement.tsx
  composed with the routes it calls: its table filter and orders over the list of
  \<open>getAllActivities\<close>, the modal's form and the \<open>FormData\<close> it sends to
  \<open>POST /api/activities\<close> and \<open>PUT /api/activities/:id\<close> (\<open>activity_route\<close> of
  Engine), the delete button, and the poster's upload check. The date strings the
  form formats are given as the instants MySQL reads them as.
\<close>

section \<open>The table\<close>

text \<open>
  The effect of lines 102--125: a truthy search on title, club name and location
  (lower case), a truthy status compared with the response's \<open>status\<close>, then a
  stable sort, by start time, by participants or by points, each descending.
\<close>

definition admin_activity_filter ::
  "string \<Rightarrow> string \<Rightarrow> string \<Rightarrow> activity_listing list \<Rightarrow> activity_listing list" where
  "admin_activity_filter search status order acts =
     (let r1 = (if search \<noteq> []
                then filter (\<lambda>a. js_includes (js_lower (a_title (al_row a))) (js_lower search) \<or>
                                 js_includes (js_lower (al_club_name a)) (js_lower search) \<or>
                                 js_includes (js_lower (a_location (al_row a))) (js_lower search)) acts
                else acts);
          r2 = (if status \<noteq> [] then filter (\<lambda>a. view_status_name (al_status a) = status) r1 else r1)
      in if order = ''time'' then sort_key (\<lambda>a. - a_start (al_row a)) r2
         else if order = ''popularity'' then sort_key (\<lambda>a. - int (al_current a)) r2
         else if order = ''points'' then sort_key (\<lambda>a. - a_points (al_row a)) r2
         else r2)"

text \<open>\<open>fetchActivities\<close> (lines 70--83) and the filter: the table the page shows at time \<open>now\<close>.\<close>

definition admin_activity_table :: "time \<Rightarrow> string \<Rightarrow> string \<Rightarrow> string \<Rightarrow> db \<Rightarrow> activity_listing list" where
  "admin_activity_table now search status order d =
     admin_activity_filter search status order (getAllActivities now None None d)"

text \<open>\<open>getStatusLabel\<close>'s cases, lines 228--243: \<open>approved\<close> is not one of them.\<close>

definition status_labelled :: "string \<Rightarrow> bool" where
  "status_labelled s = (s \<in> {''upcoming'', ''ongoing'', ''completed'', ''pending'', ''rejected''})"

section \<open>The modal\<close>

text \<open>The form's fields (lines 462--553): the club from the club list, the time as a range.\<close>

record activity_form =
  ff_title :: string
  ff_club :: "cid option"
  ff_location :: string
  ff_time :: "(time \<times> time) option"
  ff_points :: "int option"
  ff_max :: "int option"
  ff_description :: string

text \<open>Every field is required; points at least 0 and the maximum at least 1 (the \<open>InputNumber\<close> bounds).\<close>

definition activity_form_ok :: "activity_form \<Rightarrow> bool" where
  "activity_form_ok f =
     (ff_title f \<noteq> [] \<and> ff_club f \<noteq> None \<and> ff_location f \<noteq> [] \<and> ff_time f \<noteq> None \<and>
      (case ff_points f of Some p \<Rightarrow> 0 \<le> p | None \<Rightarrow> False) \<and>
      (case ff_max f of Some m \<Rightarrow> 1 \<le> m | None \<Rightarrow> False) \<and> ff_description f \<noteq> [])"

text \<open>Lines 186--194: every field appended, whatever its value; the range split in two.\<close>

definition activity_form_data :: "activity_form \<Rightarrow> activity_input" where
  "activity_form_data f =
     \<lparr>in_title = Some (ff_title f), in_description = Some (ff_description f), in_club = ff_club f,
      in_location = Some (ff_location f), in_start = map_option fst (ff_time f),
      in_end = map_option snd (ff_time f), in_points = ff_points f, in_max = ff_max f\<rparr>"

text \<open>
  \<open>handleOpenModal\<close>, lines 128--160: editing seeds the form with the row's
  values (the image only as a preview, with no file to upload); adding resets the
  form to 0 points and 20 places.
\<close>

definition edit_activity_form :: "activity_row \<Rightarrow> activity_form" where
  "edit_activity_form act =
     \<lparr>ff_title = a_title act, ff_club = Some (a_club act), ff_location = a_location act,
      ff_time = Some (a_start act, a_end act), ff_points = Some (a_points act), ff_max = Some (a_max act),
      ff_description = a_description act\<rparr>"

definition new_activity_form :: activity_form where
  "new_activity_form =
     \<lparr>ff_title = [], ff_club = None, ff_location = [], ff_time = None, ff_points = Some 0, ff_max = Some 20,
      ff_description = []\<rparr>"

text \<open>\<open>handleSubmit\<close>, lines 183--213: an edit of \<open>editingActivity\<close> or a creation.\<close>

definition admin_activity_submit ::
  "time \<Rightarrow> principal \<Rightarrow> aid option \<Rightarrow> activity_form \<Rightarrow> string option \<Rightarrow> db \<Rightarrow> api_error + db" where
  "admin_activity_submit now u editing f file d =
     (case editing of
        Some a \<Rightarrow> activity_route (Update (Some u) a (Some (activity_form_data f)) file) d
      | None \<Rightarrow> activity_route (Create now (Some u) (Some (activity_form_data f)) file) d)"

text \<open>\<open>handleDelete\<close>, lines 216--225.\<close>

definition admin_activity_delete :: "principal \<Rightarrow> aid \<Rightarrow> db \<Rightarrow> api_error + db" where
  "admin_activity_delete u a d = activity_route (Delete (Some u) a) d"

text \<open>\<open>beforeUpload\<close>, lines 170--180: a JPEG or PNG under 2 MiB (\<open>size / 1024 / 1024 < 2\<close>).\<close>

definition before_upload :: "string \<Rightarrow> nat \<Rightarrow> bool" where
  "before_upload ty sz = ((ty = ''image/jpeg'' \<or> ty = ''image/png'') \<and> sz < 2 * 1024 * 1024)"

section \<open>Properties of the page\<close>

lemma view_status_name_approved [simp]: "view_status_name s = ''approved'' \<longleftrightarrow> s = VApproved"
  by (cases s) simp_all

lemma admin_activity_filter_subset: "set (admin_activity_filter search status order acts) \<subseteq> set acts"
  by (auto simp: admin_activity_filter_def Let_def)

lemma derive_status_never_approved: "derive_status now s st et \<noteq> VApproved"
  by (cases s) auto

lemma getAllActivities_not_approved:
  "a \<in> set (getAllActivities now status club d) \<Longrightarrow> al_status a \<noteq> VApproved"
  using derive_status_never_approved by (auto simp: getAllActivities_def listing_def split: prod.splits)

text \<open>
  C27: the admin page's status filter offers \<open>approved\<close> and compares it with
  the listed status, but the server rewrites every approved activity to
  upcoming, ongoing or completed: choosing it empties the table whatever the
  database, the search text and the order.
\<close>

theorem admin_filter_approved_empty:
  "admin_activity_table now search ''approved'' order d = []"
  using getAllActivities_not_approved [of _ now None None d]
  by (fastforce simp: admin_activity_table_def admin_activity_filter_def Let_def filter_empty_conv)

text \<open>Every row of the table has one of \<open>getStatusLabel\<close>'s labels, none is shown as unknown.\<close>

lemma admin_table_labelled:
  assumes "a \<in> set (admin_activity_table now search status order d)"
  shows "status_labelled (view_status_name (al_status a))"
proof -
  have "al_status a \<noteq> VApproved"
    using assms admin_activity_filter_subset getAllActivities_not_approved
    unfolding admin_activity_table_def by blast
  then show ?thesis by (cases "al_status a") (simp_all add: status_labelled_def)
qed

text \<open>
  An admin's valid form for an existing club is accepted whatever the club, and
  the new activity is stored approved, with the form's values.
\<close>

lemma admin_create_accepted:
  assumes "wf_db d" "activity_form_ok f" "isAdmin u" "ff_club f = Some c" "0 < c" "map_of (clubs d) c = Some cl"
  shows "\<exists>d'. admin_activity_submit now u None f file d = Inr d' \<and>
               map_of (activities d') (next_aid d) =
                 Some (\<lparr>a_title = ff_title f, a_description = ff_description f, a_club = c,
                        a_location = ff_location f, a_start = fst (the (ff_time f)), a_end = snd (the (ff_time f)),
                        a_points = js_or_int (ff_points f) 0, a_max = js_or_int (ff_max f) 100,
                        a_status = Approved, a_image = image_path file, a_feedback = None, a_created = now\<rparr>)"
  using assms wf_db_fresh_activity [OF assms(1)]
  by (auto simp: admin_activity_submit_def activity_form_ok_def activity_form_data_def createActivity_def
                 isClubAdminOrAdmin_def isAdmin_def Let_def map_of_append map_add_def split: option.splits)

lemma patch_activity_form_same:
  "a_title act \<noteq> [] \<Longrightarrow> a_description act \<noteq> [] \<Longrightarrow> a_location act \<noteq> [] \<Longrightarrow> a_club act \<noteq> 0 \<Longrightarrow>
   patch_activity (activity_form_data (edit_activity_form act)) None act = act"
  by (simp add: patch_activity_def activity_form_data_def edit_activity_form_def patch_str_def image_path_def)

lemma updateActivity_form_same:
  assumes "wf_db d" "isAdmin u" "map_of (activities d) a = Some act" "map_of (clubs d) (a_club act) = Some c"
    "a_title act \<noteq> []" "a_description act \<noteq> []" "a_location act \<noteq> []" "a_club act \<noteq> 0"
  shows "updateActivity u a (Some (activity_form_data (edit_activity_form act))) None d = Inr d"
proof -
  have dk: "distinct (map fst (activities d))" using assms(1) by (simp add: wf_db_def keys_of_def)
  have same: "patch_activity (activity_form_data (edit_activity_form act)) None act = act"
    using assms(5-8) by (rule patch_activity_form_same)
  have "patch_fields (activity_form_data (edit_activity_form act)) None"
    using assms(5) by (simp add: patch_fields_def activity_form_data_def edit_activity_form_def)
  then show ?thesis
    using assms(2-4) same update_rows_same [OF dk assms(3)]
    by (simp add: updateActivity_def isAdmin_def Let_def)
qed

text \<open>
  C31: the edit modal round-trips. An admin who opens a stored activity (with
  the non-empty title, description and location the form requires and a club)
  and saves it unchanged, with no new image, leaves the database as it was: the
  form carries every stored value back, and the server's patch writes each one
  over itself.
\<close>

theorem admin_edit_activity_unchanged:
  assumes "wf_db d" "isAdmin u" "map_of (activities d) a = Some act" "map_of (clubs d) (a_club act) = Some c"
    "a_title act \<noteq> []" "a_description act \<noteq> []" "a_location act \<noteq> []" "a_club act \<noteq> 0"
  shows "admin_activity_submit now u (Some a) (edit_activity_form act) None d = Inr d"
proof -
  have dk: "distinct (map fst (activities d))" using assms(1) by (simp add: wf_db_def keys_of_def)
  show ?thesis
    using assms(2-8) update_rows_same [OF dk assms(3)]
    by (simp add: admin_activity_submit_def updateActivity_def isAdmin_def Let_def patch_fields_def
                  activity_form_data_def edit_activity_form_def patch_activity_def patch_str_def image_path_def)
qed

lemma admin_edit_activity_unchanged_witness:
  "admin_activity_submit 0 fx_admin (Some 1) (edit_activity_form fx_activity) None fx_db = Inr fx_db"
  using admin_edit_activity_unchanged [of fx_db fx_admin 1 fx_activity
          "\<lparr>c_name = ''club'', c_description = ''d'', c_logo = None, c_admin = 9\<rparr>" 0]
  by (simp add: wf_db_def keys_of_def fixture_defs isAdmin_def)

end
