(* ===== verification/Client_Activity_Management.thy ===== *)
theory Client_Activity_Management
  imports Uploads Client_Admin_Activities Client_Auth
begin

text \<open>
  The activity management page src/liantuanfen/client/src/pages/ActivityManagement.tsx,
  which App.tsx does not route (the routed one is pages/admin/ActivityManagement.tsx,
  in Client_Admin_Activities). Its modal sends the form as JSON, or as multipart
  data with the picked file; the requests go through the upload routes of
  Uploads. The theory relates the page's upload check to the server's.
\<close>

section \<open>The page\<close>

text \<open>\<open>fetchActivities\<close>, lines 49--60: the unfiltered list.\<close>

definition am_fetch :: "time \<Rightarrow> db \<Rightarrow> activity_listing list" where
  "am_fetch now d = getAllActivities now None None d"

text \<open>
  An entry of the upload's file list: the preview of the stored image, which
  has no file object, or a file the user picked.
\<close>

datatype file_item = PreviewItem string | PickedFile upload_file

text \<open>Lines 90--92: a stored reference that is not an absolute URL is prefixed with the server's address.\<close>

definition am_preview_url :: "string \<Rightarrow> string" where
  "am_preview_url u = (if take 4 u = ''http'' then u else ''http://localhost:5000'' @ u)"

text \<open>
  \<open>handleOpenModal\<close>, lines 76--110: editing seeds the same fields as the admin
  page and shows the stored image as a preview; adding resets every field, with
  no default points or places.
\<close>

definition am_empty_form :: activity_form where
  "am_empty_form =
     \<lparr>ff_title = [], ff_club = None, ff_location = [], ff_time = None, ff_points = None, ff_max = None,
      ff_description = []\<rparr>"

definition am_open_modal :: "activity_listing option \<Rightarrow> aid option \<times> activity_form \<times> file_item list" where
  "am_open_modal l =
     (case l of
        Some x \<Rightarrow> (Some (al_id x), edit_activity_form (al_row x),
                   (if js_truthy_str (a_image (al_row x)) then [PreviewItem (am_preview_url (the (a_image (al_row x))))] else []))
      | None \<Rightarrow> (None, am_empty_form, []))"

text \<open>The form's rules, lines 368--431: every field required, points and places at least 1.\<close>

definition am_form_ok :: "activity_form \<Rightarrow> bool" where
  "am_form_ok f =
     (ff_title f \<noteq> [] \<and> ff_club f \<noteq> None \<and> ff_location f \<noteq> [] \<and> ff_time f \<noteq> None \<and>
      (case ff_points f of Some p \<Rightarrow> 1 \<le> p | None \<Rightarrow> False) \<and>
      (case ff_max f of Some m \<Rightarrow> 1 \<le> m | None \<Rightarrow> False) \<and> ff_description f \<noteq> [])"

text \<open>\<open>beforeUpload\<close>, lines 180--190: the four image types, under 5 MiB.\<close>

definition am_before_upload :: "string \<Rightarrow> nat \<Rightarrow> bool" where
  "am_before_upload ty sz =
     ((ty = ''image/jpeg'' \<or> ty = ''image/png'' \<or> ty = ''image/gif'' \<or> ty = ''image/webp'') \<and>
      sz < 5 * 1024 * 1024)"

text \<open>\<open>handleChange\<close>, lines 192--214: a failed item changes nothing; otherwise only the last item is kept.\<close>

definition am_handle_change :: "bool \<Rightarrow> file_item list \<Rightarrow> file_item list \<Rightarrow> file_item list" where
  "am_handle_change failed old new = (if failed then old else drop (length new - 1) new)"

text \<open>\<open>fileList[0].originFileObj\<close>: the file sent, if the first item is a picked file.\<close>

definition am_picked :: "file_item list \<Rightarrow> upload_file option" where
  "am_picked fl = (case fl of PickedFile x # _ \<Rightarrow> Some x | _ \<Rightarrow> None)"

text \<open>
  \<open>handleSubmit\<close>, lines 118--167: the form's values with the range split (the
  same fields as the admin page's), to \<open>PUT /api/activities/:id\<close> when editing
  and \<open>POST /api/activities\<close> otherwise, with the picked file if there is one.
\<close>

definition am_submit ::
  "time \<Rightarrow> nat \<Rightarrow> nat \<Rightarrow> principal option \<Rightarrow> aid option \<Rightarrow> activity_form \<Rightarrow> file_item list \<Rightarrow>
   disk \<times> db \<Rightarrow> (http_error + unit) \<times> disk \<times> db" where
  "am_submit now ms rnd pu editing f fl s =
     (case editing of
        Some a \<Rightarrow> put_activity ms rnd pu a (Some (activity_form_data f)) (am_picked fl) s
      | None \<Rightarrow> post_activity now ms rnd pu (Some (activity_form_data f)) (am_picked fl) s)"

text \<open>\<open>handleDelete\<close>, lines 169--178.\<close>

definition am_delete :: "principal option \<Rightarrow> aid \<Rightarrow> db \<Rightarrow> api_error + db" where
  "am_delete pu a d = activity_route (Delete pu a) d"

text \<open>Lines 43 and 298--320: the add, edit and delete controls are enabled for a system admin only.\<close>

definition am_controls :: "auth_state \<Rightarrow> bool" where
  "am_controls st = client_isAdmin st"

section \<open>Properties of the page\<close>

text \<open>
  Every file either page lets through is accepted by the activity router: the
  pages' checks are stricter than the server's type filter and size limit.
\<close>

lemma am_before_upload_server_accepts:
  "am_before_upload (uf_mimetype x) (uf_size x) \<Longrightarrow> multer_single activity_mimetype nm (Some x) = Inr (Some (nm x))"
  by (auto simp: am_before_upload_def multer_single_def activity_mimetype_def upload_limit_def)

lemma before_upload_server_accepts:
  "before_upload (uf_mimetype x) (uf_size x) \<Longrightarrow> multer_single activity_mimetype nm (Some x) = Inr (Some (nm x))"
  by (auto simp: before_upload_def multer_single_def activity_mimetype_def upload_limit_def)

lemma am_handle_change_one: "length old \<le> 1 \<Longrightarrow> length (am_handle_change failed old new) \<le> 1"
  by (simp add: am_handle_change_def) linarith

text \<open>
  An activity opened for editing and saved unchanged by an admin sends no file
  (the preview is not one) and leaves the disk and the database as they were.
\<close>

lemma am_edit_unchanged:
  assumes "wf_db d" "isAdmin u" "map_of (activities d) (al_id l) = Some (al_row l)"
    "map_of (clubs d) (a_club (al_row l)) = Some c"
    "a_title (al_row l) \<noteq> []" "a_description (al_row l) \<noteq> []" "a_location (al_row l) \<noteq> []" "a_club (al_row l) \<noteq> 0"
    "am_open_modal (Some l) = (e, f, fl)"
  shows "am_submit now ms rnd (Some u) e f fl (fs, d) = (Inr (), fs, d)"
proof -
  have fl: "am_picked fl = None" and e: "e = Some (al_id l)" and f: "f = edit_activity_form (al_row l)"
    using assms(9) by (auto simp: am_open_modal_def am_picked_def split: option.splits)
  show ?thesis
    using updateActivity_form_same [OF assms(1-8)]
    by (simp add: am_submit_def put_activity_def with_upload_def multer_single_def fl e f)
qed

text \<open>
  The page's rules are stricter than the server's: an activity worth 0 points,
  which the admin page and the server accept, cannot be saved from this page
  without changing its points.
\<close>

lemma am_zero_points_refused: "a_points act = 0 \<Longrightarrow> \<not> am_form_ok (edit_activity_form act)"
  by (simp add: am_form_ok_def edit_activity_form_def)

end
