(* ===== verification/Client_Admin_Clubs.thy ===== *)
theory Client_Admin_Clubs
  imports Clubs
begin

text \<open>
  The club administration page src/liantuanfen/client/src/pages/admin/ClubManagement.tsx
  composed with the club routes it calls (\<open>club_route\<close> of Clubs): the modal's
  form, the \<open>FormData\<close> it sends to \<open>POST /api/clubs\<close> and \<open>PUT /api/clubs/:id\<close>,
  and the delete button. Its upload check is the one of the activity page
  (\<open>before_upload\<close>, Client_Admin_Activities).
\<close>

section \<open>The page\<close>

text \<open>The modal's two required fields, lines 257--272 (the logo is the uploaded file).\<close>

record club_form =
  cf_name :: string
  cf_description :: string

definition club_form_ok :: "club_form \<Rightarrow> bool" where
  "club_form_ok f = (cf_name f \<noteq> [] \<and> cf_description f \<noteq> [])"

text \<open>
  \<open>handleSubmit\<close>, lines 92--118: both fields appended, the logo when a new file
  was chosen, then an update of \<open>editingClub\<close> or a creation.
\<close>

definition admin_club_submit ::
  "time \<Rightarrow> principal \<Rightarrow> cid option \<Rightarrow> club_form \<Rightarrow> string option \<Rightarrow> db \<Rightarrow> api_error + db" where
  "admin_club_submit now u editing f file d =
     (case editing of
        Some c \<Rightarrow> club_route (UpdateClub (Some u) c (Some (cf_name f)) (Some (cf_description f)) file) d
      | None \<Rightarrow> club_route (CreateClub now (Some u) (Some (cf_name f)) (Some (cf_description f)) file) d)"

text \<open>\<open>handleDelete\<close>, lines 120--129.\<close>

definition admin_club_delete :: "principal \<Rightarrow> cid \<Rightarrow> db \<Rightarrow> api_error + db" where
  "admin_club_delete u c d = club_route (DeleteClub (Some u) c) d"

section \<open>Properties of the page\<close>

text \<open>
  A club an admin creates from this page is administered by the admin: the new
  row's \<open>admin_id\<close> is the admin and the admin is its only member, as president;
  the admin keeps the role \<open>admin\<close>. The page offers no way to name another
  administrator.
\<close>

lemma admin_club_create:
  assumes "wf_clubs d" "isAdmin u" "club_form_ok f" "\<not> club_name_taken d (cf_name f) None"
    "map_of (users d) (p_id u) = Some r"
  shows "\<exists>d'. admin_club_submit now u None f file d = Inr d' \<and>
               map_of (clubs d') (next_cid d) =
                 Some \<lparr>c_name = cf_name f, c_description = cf_description f, c_logo = logo_path file, c_admin = p_id u\<rparr> \<and>
               filter (\<lambda>m. m_club m = next_cid d) (club_members d') =
                 [\<lparr>m_user = p_id u, m_club = next_cid d, m_role = President, m_joined = now\<rparr>] \<and>
               users d' = users d"
proof -
  have fresh: "map_of (clubs d) (next_cid d) = None" using assms(1) by (rule fresh_club_key)
  have nomem: "filter (\<lambda>m. m_club m = next_cid d) (club_members d) = []"
    using assms(1) member_club_not_fresh by (auto simp: filter_empty_conv)
  show ?thesis
    using assms fresh nomem
    by (auto simp: admin_club_submit_def createClub_def club_form_ok_def isAdmin_def Let_def
                   map_of_append map_add_def)
qed

text \<open>Deleting a club that still has an activity fails, whoever asks, and changes nothing.\<close>

lemma admin_club_delete_with_activity:
  assumes "(k, act) \<in> set (activities d)" "a_club act = c"
  shows "admin_club_delete u c d \<noteq> Inr d'"
  using assms by (auto simp: admin_club_delete_def deleteClub_Inr map_sum_fst_Inr split: if_splits)

end
