(* ===== verification/Client_Club_Management.thy ===== *)
theory Client_Club_Management
  imports Client_Admin_Clubs Client_Auth
begin

text \<open>
  The club management page src/liantuanfen/client/src/pages/ClubManagement.tsx,
  which App.tsx does not route (the routed one is pages/admin/ClubManagement.tsx,
  in Client_Admin_Clubs). It sends the form's two fields as JSON, with no logo,
  to the club routes of Clubs.
\<close>

section \<open>The page\<close>

text \<open>\<open>fetchClubs\<close>, lines 27--38: \<open>response.data.clubs\<close> of \<open>GET /api/clubs\<close>.\<close>

definition cm_fetch :: "principal option \<Rightarrow> db \<Rightarrow> (cid \<times> club_row \<times> nat \<times> bool) list" where
  "cm_fetch pu d = getAllClubs pu d"

text \<open>\<open>handleOpenModal\<close>, lines 44--58: editing seeds name and description; adding resets both.\<close>

definition cm_open_modal :: "(cid \<times> club_row \<times> nat \<times> bool) option \<Rightarrow> cid option \<times> club_form" where
  "cm_open_modal x =
     (case x of
        Some (c, club, n, j) \<Rightarrow> (Some c, \<lparr>cf_name = c_name club, cf_description = c_description club\<rparr>)
      | None \<Rightarrow> (None, \<lparr>cf_name = [], cf_description = []\<rparr>))"

text \<open>
  \<open>handleSubmit\<close>, lines 65--83: the form's values as the JSON body of
  \<open>PUT /api/clubs/:id\<close> when editing and of \<open>POST /api/clubs\<close> otherwise; no file.
\<close>

definition cm_submit :: "time \<Rightarrow> principal option \<Rightarrow> cid option \<Rightarrow> club_form \<Rightarrow> db \<Rightarrow> api_error + db" where
  "cm_submit now pu editing f d =
     (case editing of
        Some c \<Rightarrow> club_route (UpdateClub pu c (Some (cf_name f)) (Some (cf_description f)) None) d
      | None \<Rightarrow> club_route (CreateClub now pu (Some (cf_name f)) (Some (cf_description f)) None) d)"

text \<open>\<open>handleDelete\<close>, lines 85--94.\<close>

definition cm_delete :: "principal option \<Rightarrow> cid \<Rightarrow> db \<Rightarrow> api_error + db" where
  "cm_delete pu c d = club_route (DeleteClub pu c) d"

text \<open>Lines 25 and 118--161: the add, edit and delete controls are enabled for a system admin only.\<close>

definition cm_controls :: "auth_state \<Rightarrow> bool" where
  "cm_controls st = client_isAdmin st"

section \<open>Properties of the page\<close>

text \<open>
  A club opened for editing and saved unchanged, by its administrator or a
  system admin, leaves the database as it was: its own name does not count as
  taken, and the logo is kept.
\<close>

lemma cm_edit_unchanged:
  assumes "wf_clubs d" "wf_db d" "map_of (clubs d) c = Some club" "c_admin club = p_id u \<or> p_role u = Admin"
    "c_name club \<noteq> []" "c_description club \<noteq> []" "cm_open_modal (Some (c, club, n, j)) = (e, f)"
  shows "cm_submit now (Some u) e f d = Inr d"
proof -
  have dk: "distinct (map fst (clubs d))" using assms(2) by (simp add: wf_db_def keys_of_def)
  have e: "e = Some c" and f: "f = \<lparr>cf_name = c_name club, cf_description = c_description club\<rparr>"
    using assms(7) by (simp_all add: cm_open_modal_def)
  have same: "patch_club (Some (c_name club)) (Some (c_description club)) None club = club"
    using assms(5,6) by (simp add: patch_club_def patch_str_def logo_path_def)
  have free: "\<not> club_name_taken d (c_name club) (Some c)"
    using wf_clubs_name_other [OF assms(1,2,3)] by (auto simp: club_name_taken_def list_ex_iff)
  show ?thesis
    using assms(3-6) same free update_rows_same [OF dk assms(3)]
    by (auto simp: cm_submit_def e f updateClub_def Let_def js_truthy_str_def)
qed

text \<open>The page never sends a logo: a club created from it has none.\<close>

lemma cm_create_no_logo:
  assumes "wf_clubs d" "cm_submit now (Some u) None f d = Inr d'"
  shows "map_option c_logo (map_of (clubs d') (next_cid d)) = Some None"
  using assms fresh_club_key [OF assms(1)]
  by (auto simp: cm_submit_def createClub_def Let_def logo_path_def map_of_append map_add_def
           split: option.splits prod.splits if_splits sum.splits)

end
