(* ===== verification/Client_Clubs.thy ===== *)
theory Client_Clubs
  imports Client_Auth
begin

text \<open>
  The club pages of the client, src/liantuanfen/client/src/pages/ClubList.tsx and
  ClubDetail.tsx, against the public club routes (routes/clubRoutes.js lines
  33--37, which run without \<open>verifyToken\<close>). A response is a JSON value built
  the way clubController.js builds it; the pages read it by key, so a key the
  server does not send reads as \<open>undefined\<close>. Both pages keep the ids of the
  clubs the user joined in \<open>localStorage.joinedClubs\<close> (\<open>ls_joined\<close> of
  Client_Auth).
\<close>

section \<open>JSON values\<close>

datatype json = JNull | JBool bool | JNum int | JStr string | JArr "json list" | JObj "(string \<times> json) list"

text \<open>\<open>obj.key\<close>: \<open>None\<close> is \<open>undefined\<close> (no such key, or not an object).\<close>

definition jget :: "json \<Rightarrow> string \<Rightarrow> json option" where
  "jget v k = (case v of JObj kvs \<Rightarrow> map_of kvs k | _ \<Rightarrow> None)"

text \<open>\<open>x || 0\<close> for a count.\<close>

definition jnum_or0 :: "json option \<Rightarrow> int" where
  "jnum_or0 v = (case v of Some (JNum n) \<Rightarrow> n | _ \<Rightarrow> 0)"

section \<open>The server's responses\<close>

text \<open>\<open>c.*\<close> with \<open>member_count\<close> (the \<open>created_at\<close> column is left out).\<close>

definition club_json :: "cid \<Rightarrow> club_row \<Rightarrow> nat \<Rightarrow> json" where
  "club_json k c n =
     JObj [(''id'', JNum (int k)), (''name'', JStr (c_name c)), (''description'', JStr (c_description c)),
           (''logo'', case c_logo c of Some l \<Rightarrow> JStr l | None \<Rightarrow> JNull),
           (''admin_id'', JNum (int (c_admin c))), (''member_count'', JNum (int n))]"

text \<open>
  \<open>GET /api/clubs\<close>: the route has no \<open>verifyToken\<close>, so \<open>getAllClubs\<close> runs
  without \<open>req.user\<close> and answers \<open>{ clubs }\<close> with \<open>is_member: false\<close>
  everywhere (clubController.js lines 116--123).
\<close>

definition club_list_route :: "db \<Rightarrow> json" where
  "club_list_route d =
     JObj [(''clubs'', JArr (map (\<lambda>(k, c, n, m). case club_json k c n of
                                                JObj kvs \<Rightarrow> JObj (kvs @ [(''is_member'', JBool m)])
                                              | v \<Rightarrow> v)
                              (getAllClubs None d)))]"

text \<open>
  The answer of a successful join or leave: the club with its new
  \<open>member_count\<close> nested under \<open>club\<close> (lines 339--345 and 424--430; the
  \<open>message\<close> text and the member list are left out).
\<close>

definition membership_response :: "db \<Rightarrow> cid \<Rightarrow> json" where
  "membership_response d c =
     JObj [(''club'', case map_of (clubs d) c of Some club \<Rightarrow> club_json c club (member_count d c) | None \<Rightarrow> JNull)]"

text \<open>
  \<open>GET /api/clubs/:id\<close>: also without \<open>verifyToken\<close>, so \<open>getClubById\<close> never
  sees the caller and \<open>is_joined\<close> is false (lines 174--184).
\<close>

definition club_detail_route :: "cid \<Rightarrow> db \<Rightarrow> api_error + (club_row \<times> nat \<times> (uid \<times> string \<times> member_role) list \<times> bool)" where
  "club_detail_route c d = getClubById None c d"

section \<open>ClubList.tsx\<close>

text \<open>\<open>interface Club\<close> (lines 11--18) as the page keeps it.\<close>

record club_view =
  cv_id :: cid
  cv_name :: string
  cv_description :: string
  cv_member_count :: int
  cv_is_member :: bool

text \<open>
  \<open>fetchClubs\<close>, lines 38--59: each club of \<open>response.data.clubs\<close>, with
  \<open>is_member\<close> replaced by whether its id is in \<open>response.data.user_joined_clubs\<close>
  (default \<open>[]\<close>) when the user is authenticated.
\<close>

definition club_view_of :: "bool \<Rightarrow> int list \<Rightarrow> json \<Rightarrow> club_view" where
  "club_view_of auth joined v =
     (let num = (\<lambda>k. case jget v k of Some (JNum n) \<Rightarrow> n | _ \<Rightarrow> 0);
          str = (\<lambda>k. case jget v k of Some (JStr s) \<Rightarrow> s | _ \<Rightarrow> [])
      in \<lparr>cv_id = nat (num ''id''), cv_name = str ''name'', cv_description = str ''description'',
          cv_member_count = num ''member_count'', cv_is_member = (auth \<and> num ''id'' \<in> set joined)\<rparr>)"

definition fetch_clubs :: "bool \<Rightarrow> json \<Rightarrow> club_view list" where
  "fetch_clubs auth resp =
     (let joined = (case jget resp ''user_joined_clubs'' of
                      Some (JArr xs) \<Rightarrow> map (\<lambda>x. case x of JNum n \<Rightarrow> n | _ \<Rightarrow> -1) xs
                    | _ \<Rightarrow> [])
      in case jget resp ''clubs'' of
           Some (JArr cs) \<Rightarrow> map (club_view_of auth joined) cs
         | _ \<Rightarrow> [])"

text \<open>\<open>handleSearch\<close>, lines 65--77: a blank search shows every club.\<close>

definition club_search :: "string \<Rightarrow> club_view list \<Rightarrow> club_view list" where
  "club_search v cs =
     (if js_trim v = [] then cs
      else filter (\<lambda>c. js_includes (js_lower (cv_name c)) (js_lower v) \<or>
                       js_includes (js_lower (cv_description c)) (js_lower v)) cs)"

text \<open>
  \<open>handleJoinClub\<close> after a successful request (lines 89--113): the club is marked
  joined with \<open>response.data.member_count || 0\<close>, and its id added to
  \<open>joinedClubs\<close>.
\<close>

definition list_join_success :: "cid \<Rightarrow> json \<Rightarrow> club_view list \<times> cid list \<Rightarrow> club_view list \<times> cid list" where
  "list_join_success c resp st =
     (let n = jnum_or0 (jget resp ''member_count'')
      in (map (\<lambda>cl. if cv_id cl = c then cl\<lparr>cv_is_member := True, cv_member_count := n\<rparr> else cl) (fst st),
          if c \<in> set (snd st) then snd st else snd st @ [c]))"

text \<open>\<open>handleLeaveClub\<close> after a successful request (lines 152--174).\<close>

definition list_leave_success :: "cid \<Rightarrow> json \<Rightarrow> club_view list \<times> cid list \<Rightarrow> club_view list \<times> cid list" where
  "list_leave_success c resp st =
     (let n = jnum_or0 (jget resp ''member_count'')
      in (map (\<lambda>cl. if cv_id cl = c then cl\<lparr>cv_is_member := False, cv_member_count := n\<rparr> else cl) (fst st),
          filter (\<lambda>k. k \<noteq> c) (snd st)))"

section \<open>ClubDetail.tsx\<close>

text \<open>
  \<open>fetchClubDetails\<close>, lines 64--95: the joined flag is \<open>response.data.is_joined\<close>,
  or, when that is false and a user is logged in, whether \<open>joinedClubs\<close> holds the
  club.
\<close>

definition detail_is_joined :: "bool \<Rightarrow> cuser option \<Rightarrow> cid list \<Rightarrow> cid \<Rightarrow> bool" where
  "detail_is_joined api u joined c = (if \<not> api \<and> u \<noteq> None then c \<in> set joined else api)"

text \<open>The page's club, members and joined flag.\<close>

record club_page =
  cp_member_count :: int
  cp_members :: "(uid \<times> string \<times> member_role) list"
  cp_is_joined :: bool

definition club_page_of ::
  "club_row \<times> nat \<times> (uid \<times> string \<times> member_role) list \<times> bool \<Rightarrow> cuser option \<Rightarrow> cid list \<Rightarrow> cid \<Rightarrow> club_page" where
  "club_page_of r u joined c =
     (case r of (club, n, ms, api) \<Rightarrow>
        \<lparr>cp_member_count = int n, cp_members = ms, cp_is_joined = detail_is_joined api u joined c\<rparr>)"

text \<open>
  \<open>handleJoinLeave\<close>, join branch after a successful request (lines 176--217): the
  user appended as a member, the count from \<open>response.data.member_count\<close> if
  defined and the new list's length otherwise, the id added to \<open>joinedClubs\<close>.
\<close>

definition detail_join_success :: "cuser \<Rightarrow> cid \<Rightarrow> json \<Rightarrow> club_page \<times> cid list \<Rightarrow> club_page \<times> cid list" where
  "detail_join_success u c resp st =
     (let ms = cp_members (fst st) @ [(cu_id u, cu_name u, Member)];
          n = (case jget resp ''member_count'' of Some (JNum k) \<Rightarrow> k | _ \<Rightarrow> int (length ms))
      in ((fst st)\<lparr>cp_members := ms, cp_member_count := n, cp_is_joined := True\<rparr>,
          if c \<in> set (snd st) then snd st else snd st @ [c]))"

text \<open>The leave branch after a successful request (lines 132--163).\<close>

definition detail_leave_success :: "cuser \<Rightarrow> cid \<Rightarrow> club_page \<times> cid list \<Rightarrow> club_page \<times> cid list" where
  "detail_leave_success u c st =
     ((fst st)\<lparr>cp_is_joined := False, cp_members := filter (\<lambda>(v, _, _). v \<noteq> cu_id u) (cp_members (fst st)),
               cp_member_count := cp_member_count (fst st) - 1\<rparr>,
      filter (\<lambda>k. k \<noteq> c) (snd st))"

text \<open>A logged-in user for the witnesses.\<close>

definition fx_cuser :: "uid \<Rightarrow> string \<Rightarrow> cuser" where
  "fx_cuser k n = \<lparr>cu_id = k, cu_name = n, cu_role = Student, cu_points = 0\<rparr>"

section \<open>Properties of the club pages\<close>

text \<open>
  C40: neither club page learns memberships from the server. The detail page's
  joined flag is exactly whether \<open>localStorage.joinedClubs\<close> holds the club
  (the public route never reports \<open>is_joined\<close>), and the list marks no club as
  joined (the server never sends the \<open>user_joined_clubs\<close> the page reads). The
  cache is written only by this browser's own join and leave, so it disagrees with
  the server as soon as the membership changes elsewhere or another user logs in
  without logging out.
\<close>

theorem club_pages_ignore_membership:
  assumes "club_detail_route c d = Inr r" "u \<noteq> None"
  shows "cp_is_joined (club_page_of r u joined c) = (c \<in> set joined) \<and>
         (\<forall>cl \<in> set (fetch_clubs auth (club_list_route d)). \<not> cv_is_member cl)"
proof -
  obtain club n ms where r: "r = (club, n, ms, False)"
    using assms(1) by (auto simp: club_detail_route_def getClubById_def Let_def split: option.splits)
  have "cp_is_joined (club_page_of r u joined c) = (c \<in> set joined)"
    using assms(2) by (simp add: r club_page_of_def detail_is_joined_def)
  moreover have "\<forall>cl \<in> set (fetch_clubs auth (club_list_route d)). \<not> cv_is_member cl"
    by (auto simp: fetch_clubs_def club_list_route_def jget_def club_view_of_def Let_def)
  ultimately show ?thesis by blast
qed

lemma club_pages_ignore_membership_witness:
  "is_member fx_club_db 1 1 \<and> \<not> is_member fx_club_db 2 1 \<and>
   (let st = auth_login (LoginOk ''tb'' (fx_cuser 2 ''B'')) (auth_init (Some ''ta'') (Some (fx_cuser 1 ''A'')) [1])
    in \<exists>r. club_detail_route 1 fx_club_db = Inr r \<and> cp_is_joined (club_page_of r (s_user st) (ls_joined st) 1))"
proof -
  obtain r where h: "club_detail_route 1 fx_club_db = Inr r"
    by (simp add: club_detail_route_def getClubById_def fx_club_db_def fixture_defs Let_def)
  have "cp_is_joined (club_page_of r (Some (fx_cuser 2 ''B'')) [1] 1)"
    using club_pages_ignore_membership [OF h, of "Some (fx_cuser 2 ''B'')" "[1]"] by simp
  with h show ?thesis
    by (simp add: is_member_def fx_club_db_def fixture_defs auth_login_def auth_init_def Let_def)
qed

end
