(* ===== verification/Client_Members.thy ===== *)
theory Client_Members
  imports Client_Auth
begin

text \<open>
  The user administration pages src/liantuanfen/client/src/pages/MemberManagement.tsx
  and pages/admin/UserManagement.tsx composed with the user routes they call (\<open>PUT /api/users/:id\<close>,
  \<open>POST /api/users\<close>, \<open>DELETE /api/users/:id\<close>, with the session's token). The
  first page's form fields are not the ones the server reads: it sends \<open>name\<close>
  and \<open>phone\<close>, which no handler reads, and no \<open>username\<close> or
  \<open>password\<close>; the second sends the server's own field names.
\<close>

section \<open>The page\<close>

text \<open>The \<open>users.role\<close> labels the server sends (server/index.js line 54).\<close>

primrec role_name :: "role \<Rightarrow> string" where
  "role_name Admin = ''admin''"
| "role_name Student = ''student''"
| "role_name ClubAdmin = ''club_admin''"

text \<open>The tag of the role column (lines 122--133 and 160--165): \<open>student\<close> is not one of its cases.\<close>

datatype role_tag = TagAdmin | TagClubAdmin | TagMember | TagUnknown

definition role_tag_of :: "string \<Rightarrow> role_tag" where
  "role_tag_of s =
     (if s = ''admin'' then TagAdmin else if s = ''club_admin'' then TagClubAdmin
      else if s = ''member'' then TagMember else TagUnknown)"

text \<open>The modal's form (lines 262--330); \<open>points\<close> is the text of a number input.\<close>

record member_form =
  mf_name :: string
  mf_email :: string
  mf_phone :: string
  mf_student_id :: string
  mf_role :: string
  mf_points :: string
  mf_joined :: "string list"

text \<open>\<open>/^1[3-9]\d{9}$/\<close>, the phone rule (line 285).\<close>

definition valid_phone :: "string \<Rightarrow> bool" where
  "valid_phone s =
     (length s = 11 \<and> s ! 0 = CHR ''1'' \<and> s ! 1 \<in> set ''3456789'' \<and> list_all is_digit s)"

text \<open>The form's rules: every field but the clubs required, an e-mail address (antd's rule, \<open>is_email\<close>) and a mobile number.\<close>

definition member_form_ok :: "(string \<Rightarrow> bool) \<Rightarrow> member_form \<Rightarrow> bool" where
  "member_form_ok is_email f =
     (mf_name f \<noteq> [] \<and> mf_email f \<noteq> [] \<and> is_email (mf_email f) \<and> mf_phone f \<noteq> [] \<and> valid_phone (mf_phone f) \<and>
      mf_student_id f \<noteq> [] \<and> mf_role f \<noteq> [] \<and> mf_points f \<noteq> [])"

text \<open>
  The JSON body \<open>values\<close> as the user handlers read it (lines 96 and 99): the keys
  \<open>student_id\<close>, \<open>email\<close>, \<open>role\<close> and \<open>points\<close> arrive; \<open>name\<close>, \<open>phone\<close> and
  \<open>joined_clubs\<close> are read by nobody; \<open>username\<close>, \<open>password\<close> and \<open>bio\<close> are absent.
\<close>

definition member_form_body :: "member_form \<Rightarrow> user_input" where
  "member_form_body f =
     \<lparr>ui_username = None, ui_password = None, ui_student_id = Some (mf_student_id f),
      ui_email = Some (mf_email f), ui_bio = None, ui_role = Some (mf_role f), ui_points = Some (mf_points f)\<rparr>"

text \<open>
  \<open>handleSubmit\<close>, lines 91--109: an edit of the member \<open>k\<close> or a creation,
  through the routes with the logged-in user's token.
\<close>

definition member_submit ::
  "(string \<Rightarrow> string) \<Rightarrow> principal \<Rightarrow> uid option \<Rightarrow> member_form \<Rightarrow> db \<Rightarrow> api_error + db" where
  "member_submit hash u editing f d =
     (case editing of
        Some k \<Rightarrow> user_route hash (UpdateUser (Some u) k (member_form_body f) None) d
      | None \<Rightarrow> user_route hash (CreateUser (Some u) (Some (member_form_body f)) None) d)"

text \<open>\<open>handleDelete\<close>, lines 111--120.\<close>

definition member_delete :: "(string \<Rightarrow> string) \<Rightarrow> principal \<Rightarrow> uid \<Rightarrow> db \<Rightarrow> api_error + db" where
  "member_delete hash u k d = user_route hash (DeleteUser (Some u) k) d"

section \<open>admin/UserManagement.tsx\<close>

text \<open>\<open>handleSearch\<close>, lines 70--82: username or student id containing the text, ignoring case.\<close>

definition user_search :: "string \<Rightarrow> (uid \<times> user_row) list \<Rightarrow> (uid \<times> user_row) list" where
  "user_search v us =
     (if js_trim v = [] then us
      else filter (\<lambda>(k, r). js_includes (js_lower (u_name r)) (js_lower v) \<or>
                            (case u_student_id r of Some s \<Rightarrow> s \<noteq> [] \<and> js_includes (js_lower s) (js_lower v)
                                                 | None \<Rightarrow> False)) us)"

text \<open>
  The modal's form (lines 440--502); the password field exists only when adding a
  user, and \<open>points\<close> is the text of a number input (or \<open>String\<close> of the number
  the page put there, line 155).
\<close>

record admin_user_form =
  uf_username :: string
  uf_email :: string
  uf_password :: "string option"
  uf_student_id :: string
  uf_bio :: string
  uf_role :: string
  uf_points :: string

text \<open>The form's rules: all fields but the bio required (the password only when adding), an e-mail address.\<close>

definition admin_form_ok :: "(string \<Rightarrow> bool) \<Rightarrow> bool \<Rightarrow> admin_user_form \<Rightarrow> bool" where
  "admin_form_ok is_email editing f =
     (uf_username f \<noteq> [] \<and> uf_email f \<noteq> [] \<and> is_email (uf_email f) \<and>
      (editing \<or> (case uf_password f of Some p \<Rightarrow> p \<noteq> [] | None \<Rightarrow> False)) \<and>
      uf_student_id f \<noteq> [] \<and> uf_role f \<noteq> [] \<and> uf_points f \<noteq> [])"

text \<open>Lines 149--160: every non-empty value is appended to the \<open>FormData\<close>.\<close>

definition nonempty :: "string \<Rightarrow> string option" where
  "nonempty s = (if s = [] then None else Some s)"

definition admin_form_data :: "admin_user_form \<Rightarrow> user_input" where
  "admin_form_data f =
     \<lparr>ui_username = nonempty (uf_username f), ui_password = Option.bind (uf_password f) nonempty,
      ui_student_id = nonempty (uf_student_id f), ui_email = nonempty (uf_email f), ui_bio = nonempty (uf_bio f),
      ui_role = nonempty (uf_role f), ui_points = nonempty (uf_points f)\<rparr>"

text \<open>\<open>handleSubmit\<close>, lines 146--208, with the uploaded avatar's file name.\<close>

definition admin_submit ::
  "(string \<Rightarrow> string) \<Rightarrow> principal \<Rightarrow> uid option \<Rightarrow> admin_user_form \<Rightarrow> string option \<Rightarrow> db \<Rightarrow> api_error + db" where
  "admin_submit hash u editing f file d =
     (case editing of
        Some k \<Rightarrow> user_route hash (UpdateUser (Some u) k (admin_form_data f) file) d
      | None \<Rightarrow> user_route hash (CreateUser (Some u) (Some (admin_form_data f)) file) d)"

text \<open>
  \<open>handleRoleChange\<close> (lines 227--236) from the role select, which is disabled for
  a non-admin and on the admin's own row (line 309).
\<close>

definition role_select_enabled :: "auth_state \<Rightarrow> uid \<Rightarrow> bool" where
  "role_select_enabled st k =
     (client_isAdmin st \<and> (case s_user st of Some cu \<Rightarrow> cu_id cu \<noteq> k | None \<Rightarrow> True))"

definition admin_role_change :: "(string \<Rightarrow> string) \<Rightarrow> principal \<Rightarrow> uid \<Rightarrow> string \<Rightarrow> db \<Rightarrow> api_error + db" where
  "admin_role_change hash u k r d = user_route hash (ChangeUserRole (Some u) k (Some r)) d"

text \<open>\<open>handleDelete\<close>, lines 211--224.\<close>

definition admin_user_delete :: "(string \<Rightarrow> string) \<Rightarrow> principal \<Rightarrow> uid \<Rightarrow> db \<Rightarrow> api_error + db" where
  "admin_user_delete hash u k d = user_route hash (DeleteUser (Some u) k) d"

text \<open>
  \<open>handleOpenModal\<close>, lines 85--118: the edit form filled from a row of the
  list (a \<open>null\<close> column gives an empty field, which the submit skips), and the
  add form with role \<open>student\<close> and points 0.
\<close>

definition opt_field :: "string option \<Rightarrow> string" where
  "opt_field v = (case v of Some s \<Rightarrow> s | None \<Rightarrow> [])"

definition edit_form_of :: "user_row \<Rightarrow> admin_user_form" where
  "edit_form_of r =
     \<lparr>uf_username = u_name r, uf_email = opt_field (u_email r), uf_password = None,
      uf_student_id = opt_field (u_student_id r), uf_bio = opt_field (u_bio r),
      uf_role = role_name (u_role r), uf_points = js_string_of_int (u_points r)\<rparr>"

definition add_form :: admin_user_form where
  "add_form = \<lparr>uf_username = [], uf_email = [], uf_password = Some [], uf_student_id = [], uf_bio = [],
               uf_role = ''student'', uf_points = ''0''\<rparr>"

section \<open>Properties of the pages\<close>

text \<open>
  Adding a member never succeeds: the body has no \<open>username\<close> and no
  \<open>password\<close>, so an admin gets the 400 of missing fields, anyone else the 403 of
  the route.
\<close>

lemma member_add_always_fails:
  "member_submit hash u None f d = Inl (if isAdmin u then MissingUserFields else AdminRequired)"
  by (simp add: member_submit_def createUser_def member_form_body_def)

text \<open>An edit through the page never changes a username: the form's \<open>name\<close> is not sent as \<open>username\<close>.\<close>

lemma member_edit_keeps_names:
  assumes "wf_db d" and "member_submit hash u (Some k) f d = Inr d'"
  shows "map (\<lambda>(j, r). (j, u_name r)) (users d') = map (\<lambda>(j, r). (j, u_name r)) (users d)"
proof -
  obtain r where r: "map_of (users d) k = Some r"
    and d': "d' = d\<lparr>users := update_rows k (\<lambda>_. patch_user u (member_form_body f) None r) (users d)\<rparr>"
    using assms(2) by (auto simp: member_submit_def updateUser_def Let_def split: if_splits option.splits)
  have dk: "distinct (map fst (users d))" using assms(1) by (simp add: wf_db_def keys_of_def)
  have same: "\<forall>x \<in> set (users d). fst x = k \<longrightarrow> snd x = r"
  proof (intro ballI impI)
    fix x assume "x \<in> set (users d)" "fst x = k"
    then have "map_of (users d) k = Some (snd x)" using dk by (metis map_of_is_SomeI prod.collapse)
    with r show "snd x = r" by simp
  qed
  have "u_name (patch_user u (member_form_body f) None w) = u_name w" for w
    by (simp add: patch_user_def member_form_body_def patch_str_def)
  then show ?thesis
    using same by (simp add: d' update_rows_def case_prod_beta)
qed


text \<open>
  The admin page's creation form, once its rules pass, always carries the four
  fields \<open>createUser\<close> requires: its requests never fail for missing fields.
\<close>

lemma admin_add_has_fields:
  assumes "admin_form_ok is_email False f"
  shows "admin_submit hash u None f file d \<noteq> Inl MissingUserFields"
  using assms
  by (cases "uf_password f")
     (auto simp: admin_submit_def admin_form_ok_def admin_form_data_def nonempty_def createUser_def Let_def
           split: option.splits if_splits)


lemma parse_role_name [simp]: "parse_role (role_name ro) = Some ro"
  by (cases ro) (simp_all add: parse_role_def)

lemma parseInt_points: "js_parseInt (js_string_of_int n) = Some n"
  using nat_str_props [of "nat n"] nat_str_props [of "nat (- n)"]
    js_parseInt_digits [of "nat_str (nat n)"] js_parseInt_digits [of "nat_str (nat (- n))"]
  by (simp add: js_string_of_int_def)

text \<open>
  Opening the edit modal on a user and saving it unchanged leaves the database
  as it was, provided the stored values pass updateUser's own checks (an e-mail
  address, a username of 2 to 50 characters, a student id of the expected form).
\<close>

lemma admin_edit_unchanged:
  assumes "wf_db d" "wf_users d" "isAdmin u" "map_of (users d) k = Some r"
    "u_email r = Some e" "valid_email e" "2 \<le> length (u_name r)" "length (u_name r) \<le> 50"
    "\<forall>s. u_student_id r = Some s \<longrightarrow> s = [] \<or> valid_student_id s"
  shows "admin_submit hash u (Some k) (edit_form_of r) None d = Inr d"
proof -
  have kr: "(k, r) \<in> set (users d)" using assms(4) by (rule map_of_SomeD)
  have ok: "row_ok d (Some k) r" using assms(2) kr by (rule wf_users_row)
  have dk: "distinct (map fst (users d))" using assms(1) by (simp add: wf_db_def keys_of_def)
  have e: "e \<noteq> []" using assms(6) by (auto simp: valid_email_def)
  let ?b = "admin_form_data (edit_form_of r)"
  have b: "ui_email ?b = Some e" "ui_username ?b = Some (u_name r)" "ui_password ?b = None"
    "ui_points ?b = Some (js_string_of_int (u_points r))" "ui_role ?b = Some (role_name (u_role r))"
    "ui_student_id ?b = nonempty (opt_field (u_student_id r))" "ui_bio ?b = nonempty (opt_field (u_bio r))"
  proof -
    have "u_name r \<noteq> []" using assms(7) by auto
    moreover have "role_name (u_role r) \<noteq> []" by (cases "u_role r") simp_all
    moreover have "js_string_of_int (u_points r) \<noteq> []"
      using nat_str_props [of "nat (u_points r)"] by (simp add: js_string_of_int_def)
    ultimately show "ui_email ?b = Some e" "ui_username ?b = Some (u_name r)" "ui_password ?b = None"
      "ui_points ?b = Some (js_string_of_int (u_points r))" "ui_role ?b = Some (role_name (u_role r))"
      "ui_student_id ?b = nonempty (opt_field (u_student_id r))" "ui_bio ?b = nonempty (opt_field (u_bio r))"
      using assms(5) e by (simp_all add: admin_form_data_def edit_form_of_def nonempty_def opt_field_def)
  qed
  have adm: "p_role u = Admin" using assms(3) by (simp add: isAdmin_def)
  have patch: "patch_user u ?b None r = r"
    using adm assms(5) e parseInt_points [of "u_points r"]
    by (cases "u_student_id r"; cases "u_bio r")
       (simp_all add: patch_user_def patch_str_def js_truthy_str_def b nonempty_def opt_field_def)
  have c_email: "\<not> truthy_and (\<lambda>s. \<not> valid_email s) (ui_email ?b)" using b assms(6) by (simp add: truthy_and_def)
  have c_name: "\<not> truthy_and (\<lambda>s. length s < 2 \<or> 50 < length s) (ui_username ?b)"
    using b assms(7,8) by (simp add: truthy_and_def)
  have c_sid: "\<not> truthy_and (\<lambda>s. \<not> valid_student_id s) (ui_student_id ?b)"
    using b assms(9) by (cases "u_student_id r") (auto simp: truthy_and_def nonempty_def opt_field_def)
  have c_pts: "Option.bind (ui_points ?b) js_parseInt \<noteq> None" using b parseInt_points by simp
  have c_fields: "user_fields u ?b None"
    using b assms(7) by (auto simp: user_fields_def js_truthy_str_def)
  have c_taken: "\<not> truthy_and (\<lambda>em. column_taken d u_email em (Some k)) (ui_email ?b)"
    using b ok assms(5) by (simp add: truthy_and_def row_ok_def)
  have c_row: "fits_columns r" "\<not> name_taken d (u_name r) (Some k)"
    "\<not> (case u_student_id r of Some sid \<Rightarrow> column_taken d u_student_id sid (Some k) | None \<Rightarrow> False)"
    using ok by (auto simp: row_ok_def split: option.splits)
  have "updateUser u k ?b None d = Inr d"
    using adm c_email c_name c_sid c_pts c_fields c_taken c_row assms(4) patch update_rows_same [OF dk assms(4)]
    by (simp add: updateUser_def Let_def)
  then show ?thesis by (simp add: admin_submit_def)
qed

lemma third_guard_Inl: "R \<Longrightarrow> \<exists>e. (if P then Inl a else if Q then Inl b else if R then Inl c else X) = Inl e"
  by auto

text \<open>
  A username of one character, which registration accepts, can never be saved
  back: the edit modal's submit of such a user is always refused.
\<close>

lemma admin_edit_short_name_refused:
  assumes "length (u_name r) = 1"
  shows "\<exists>err. admin_submit hash u (Some k) (edit_form_of r) file d = Inl err"
proof -
  have nm: "truthy_and (\<lambda>s. length s < 2 \<or> 50 < length s) (ui_username (admin_form_data (edit_form_of r)))"
    using assms by (auto simp: admin_form_data_def edit_form_of_def nonempty_def truthy_and_def)
  show ?thesis
    unfolding admin_submit_def user_route.simps option.case updateUser_def
    by (rule third_guard_Inl [OF nm])
qed

end
