(* ===== verification/Client_Routes.thy ===== *)
theory Client_Routes
  imports Client_Auth
begin

text \<open>
  The client's router and its guards: the routes of src/liantuanfen/client/src/App.tsx,
  the guards components/auth/PrivateRoute.tsx and AdminRoute.tsx over the session
  of AuthContext (Client_Auth), and the links components/layout/AppLayout.tsx
  offers in its side menu and user menu. A location is a value of \<open>path\<close>; what
  the router renders there is a value of \<open>screen\<close>.
\<close>

section \<open>Routes and guards\<close>

datatype path =
    PathLogin | PathRegister | PathHome | PathClubs | PathClubDetail nat | PathActivities
  | PathActivityDetail nat | PathRanking | PathProfile
  | PathAdminUsers | PathAdminClubs | PathAdminActivities | PathAdminReview | PathUnknown

datatype page =
    LoginPage | RegisterPage | HomePage | ClubListPage | ClubDetailPage nat | ActivityListPage
  | ActivityDetailPage nat | RankingPage | ProfilePage
  | UserManagementPage | ClubManagementPage | ActivityManagementPage | ActivityReviewPage

text \<open>A guard shows a spinner, redirects to \<open>/login\<close> or answers the 403 result page.\<close>

datatype screen = Show page | Spinner | RedirectLogin | Forbidden | NoMatch

text \<open>\<open>PrivateRoute\<close>, lines 10--35.\<close>

definition private_route :: "auth_state \<Rightarrow> page \<Rightarrow> screen" where
  "private_route st pg =
     (if s_loading st then Spinner
      else if \<not> client_isAuthenticated st then RedirectLogin
      else Show pg)"

text \<open>\<open>AdminRoute\<close>, lines 10--52: the same, then the 403 page for a non-admin.\<close>

definition admin_route :: "auth_state \<Rightarrow> page \<Rightarrow> screen" where
  "admin_route st pg =
     (if s_loading st then Spinner
      else if \<not> client_isAuthenticated st then RedirectLogin
      else if \<not> client_isAdmin st then Forbidden
      else Show pg)"

text \<open>\<open>App\<close>, lines 36--92: public pages, the profile behind \<open>PrivateRoute\<close>, the four admin pages behind \<open>AdminRoute\<close>.\<close>

fun app_route :: "auth_state \<Rightarrow> path \<Rightarrow> screen" where
  "app_route st PathLogin = Show LoginPage"
| "app_route st PathRegister = Show RegisterPage"
| "app_route st PathHome = Show HomePage"
| "app_route st PathClubs = Show ClubListPage"
| "app_route st (PathClubDetail n) = Show (ClubDetailPage n)"
| "app_route st PathActivities = Show ActivityListPage"
| "app_route st (PathActivityDetail n) = Show (ActivityDetailPage n)"
| "app_route st PathRanking = Show RankingPage"
| "app_route st PathProfile = private_route st ProfilePage"
| "app_route st PathAdminUsers = admin_route st UserManagementPage"
| "app_route st PathAdminClubs = admin_route st ClubManagementPage"
| "app_route st PathAdminActivities = admin_route st ActivityManagementPage"
| "app_route st PathAdminReview = admin_route st ActivityReviewPage"
| "app_route st PathUnknown = NoMatch"

definition admin_page :: "page \<Rightarrow> bool" where
  "admin_page pg = (pg \<in> {UserManagementPage, ClubManagementPage, ActivityManagementPage, ActivityReviewPage})"

section \<open>The layout's links\<close>

text \<open>
  The side menu, AppLayout lines 65--117: home; the public pages for a non-admin;
  the three admin pages for an admin (the review entry is commented out); the club
  and activity administration for a club admin who is not an admin.
\<close>

definition menu_links :: "auth_state \<Rightarrow> path list" where
  "menu_links st =
     [PathHome] @
     (if \<not> client_isAdmin st then [PathClubs, PathActivities, PathRanking] else []) @
     (if client_isAdmin st then [PathAdminUsers, PathAdminClubs, PathAdminActivities] else []) @
     (if \<not> client_isAdmin st \<and> client_isClubAdmin st then [PathAdminClubs, PathAdminActivities] else [])"

text \<open>The user menu, lines 37--57 and 135--150: profile, the admin entry for an admin, or the login and register buttons.\<close>

definition user_menu_links :: "auth_state \<Rightarrow> path list" where
  "user_menu_links st =
     (if client_isAuthenticated st
      then PathProfile # (if client_isAdmin st then [PathAdminUsers] else [])
      else [PathLogin, PathRegister])"

section \<open>The saved path and Login.tsx\<close>

text \<open>
  Where the client is: the current path, \<open>sessionStorage\<close>'s \<open>redirectPath\<close>,
  and the \<open>from\<close> location a redirect passes to the login page.
\<close>

record nav =
  nav_path :: path
  nav_saved :: "path option"
  nav_from :: "path option"

definition guarded :: "path \<Rightarrow> bool" where
  "guarded p = (p \<in> {PathProfile, PathAdminUsers, PathAdminClubs, PathAdminActivities, PathAdminReview})"

text \<open>The effect both guards run (PrivateRoute lines 14--19, AdminRoute lines 14--19).\<close>

definition guard_save :: "auth_state \<Rightarrow> path \<Rightarrow> nav \<Rightarrow> nav" where
  "guard_save st p n =
     (if \<not> client_isAuthenticated st \<and> \<not> s_loading st \<and> p \<noteq> PathLogin then n\<lparr>nav_saved := Some p\<rparr> else n)"

text \<open>
  Navigating to \<open>p\<close>: the guard's effect when \<open>p\<close> is guarded, and the
  \<open>Navigate\<close> to \<open>/login\<close> with \<open>state.from\<close> when the router redirects.
\<close>

definition visit :: "auth_state \<Rightarrow> path \<Rightarrow> nav \<Rightarrow> nav" where
  "visit st p n =
     (let n1 = n\<lparr>nav_path := p\<rparr>;
          n2 = (if guarded p then guard_save st p n1 else n1)
      in if app_route st p = RedirectLogin then n2\<lparr>nav_path := PathLogin, nav_from := Some p\<rparr> else n2)"

text \<open>Login.tsx lines 40--46 (and the effect of lines 20--31): the saved path, consumed, else \<open>from\<close>, else \<open>/\<close>.\<close>

definition login_redirect :: "nav \<Rightarrow> nav" where
  "login_redirect n =
     (case nav_saved n of
        Some q \<Rightarrow> n\<lparr>nav_saved := None, nav_path := q\<rparr>
      | None \<Rightarrow> n\<lparr>nav_path := (case nav_from n of Some q \<Rightarrow> q | None \<Rightarrow> PathHome)\<rparr>)"

text \<open>\<open>onFinish\<close>, lines 33--55: the context's \<open>login\<close>, then the redirect on success.\<close>

definition login_submit :: "login_result \<Rightarrow> auth_state \<Rightarrow> nav \<Rightarrow> auth_state \<times> nav" where
  "login_submit r st n =
     (case r of
        LoginOk tok u \<Rightarrow> (auth_login r st, login_redirect n)
      | LoginErr e \<Rightarrow> (auth_login r st, n))"

section \<open>Properties of the router\<close>

lemma admin_route_Show: "admin_route st pg = Show pg' \<longleftrightarrow> pg' = pg \<and> \<not> s_loading st \<and> client_isAuthenticated st \<and> client_isAdmin st"
  by (auto simp: admin_route_def)

lemma client_isAdmin_ClubAdmin: "client_isAdmin st \<Longrightarrow> client_isClubAdmin st"
  by (auto simp: client_isAdmin_def client_isClubAdmin_def split: option.splits)

text \<open>The admin pages are rendered only for a settled session whose user the client believes to be an admin.\<close>

lemma admin_pages_need_admin:
  assumes "app_route st p = Show pg" "admin_page pg"
  shows "client_isAdmin st \<and> \<not> s_loading st \<and> client_isAuthenticated st"
  using assms by (cases p) (auto simp: admin_page_def admin_route_Show private_route_def split: if_splits)

text \<open>
  C37: AppLayout offers a club admin (who is not a system admin) the club and
  activity administration in the side menu, and App wraps both routes in
  AdminRoute, which answers a club admin with the 403 page: of all the links of
  the menu exactly these two never work.
\<close>

theorem club_admin_menu_forbidden:
  assumes "\<not> s_loading st" "client_isAuthenticated st" "s_user st = Some u" "cu_role u = ClubAdmin"
  shows "filter (\<lambda>p. app_route st p = Forbidden) (menu_links st) = [PathAdminClubs, PathAdminActivities]"
  using assms
  by (simp add: menu_links_def client_isAdmin_def client_isClubAdmin_def admin_route_def)

text \<open>For every other settled session (with a token whenever it has a user) each link of both menus leads to a page.\<close>

lemma menu_links_render:
  assumes "\<not> s_loading st" "client_isAuthenticated st \<or> s_user st = None"
    "client_isAdmin st \<or> \<not> client_isClubAdmin st"
    "p \<in> set (menu_links st) \<union> set (user_menu_links st)"
  shows "\<exists>pg. app_route st p = Show pg"
  using assms
  by (auto simp: menu_links_def user_menu_links_def admin_route_def private_route_def client_isAdmin_def
           split: if_splits)


lemma visit_guarded_redirect:
  assumes "guarded p" "\<not> client_isAuthenticated st" "\<not> s_loading st"
  shows "nav_path (visit st p n) = PathLogin \<and> nav_saved (visit st p n) = Some p"
  using assms by (auto simp: visit_def guarded_def guard_save_def private_route_def admin_route_def Let_def)

text \<open>
  A signed-out visit to a guarded page goes to the login page, and a successful
  login comes back to it; there the page is shown unless it is an admin page and
  the user is not an admin, who then gets the 403 page.
\<close>

lemma login_returns_to_guarded:
  assumes "guarded p" "\<not> client_isAuthenticated st" "\<not> s_loading st" "tok \<noteq> []"
    "login_submit (LoginOk tok u) st (visit st p n) = (st', n')"
  shows "nav_path n' = p \<and>
         (p \<noteq> PathProfile \<and> cu_role u \<noteq> Admin \<longrightarrow> app_route st' p = Forbidden) \<and>
         (p = PathProfile \<or> cu_role u = Admin \<longrightarrow> (\<exists>pg. app_route st' p = Show pg))"
proof -
  have v: "nav_saved (visit st p n) = Some p" using assms(1-3) visit_guarded_redirect by blast
  have st': "st' = auth_login (LoginOk tok u) st" and n': "n' = login_redirect (visit st p n)"
    using assms(5) by (simp_all add: login_submit_def)
  have auth: "client_isAuthenticated st'" "\<not> s_loading st'" "client_isAdmin st' = (cu_role u = Admin)"
    using assms(4) by (simp_all add: st' auth_login_def client_isAuthenticated_def client_isAdmin_def js_truthy_str_def)
  show ?thesis
    using assms(1) v auth
    by (auto simp: n' login_redirect_def guarded_def admin_route_def private_route_def)
qed

lemma club_admin_menu_forbidden_witness:
  "filter (\<lambda>p. app_route \<lparr>ls_token = Some ''t'', ls_user = None, ls_joined = [],
       s_user = Some \<lparr>cu_id = 9, cu_name = ''P'', cu_role = ClubAdmin, cu_points = 0\<rparr>, s_token = Some ''t'',
       s_loading = False, s_initialized = True, s_error = None\<rparr> p = Forbidden)
     (menu_links \<lparr>ls_token = Some ''t'', ls_user = None, ls_joined = [],
       s_user = Some \<lparr>cu_id = 9, cu_name = ''P'', cu_role = ClubAdmin, cu_points = 0\<rparr>, s_token = Some ''t'',
       s_loading = False, s_initialized = True, s_error = None\<rparr>) = [PathAdminClubs, PathAdminActivities]"
  by (rule club_admin_menu_forbidden [where u = "\<lparr>cu_id = 9, cu_name = ''P'', cu_role = ClubAdmin, cu_points = 0\<rparr>"])
     (simp_all add: client_isAuthenticated_def js_truthy_str_def)

end
