(* ===== verification/Client_Review.thy ===== *)
theory Client_Review
  imports Engine
begin

text \<open>
  The review page src/liantuanfen/client/src/pages/admin/ActivityReview.tsx composed
  with the two routes it calls: \<open>GET /api/activities/pending/list\<close> and
  \<open>PUT /api/activities/:id/review\<close> (\<open>activity_route\<close>'s \<open>Review\<close>). The page is a
  record of its React state; each handler is one event of \<open>review_event\<close>, and
  \<open>review_run\<close> folds a sequence of events over the page and the database, as a
  user session on the page does.
\<close>

section \<open>The pending-list route\<close>

text \<open>activityRoutes.js line 84: \<open>verifyToken\<close>, \<open>isAdmin\<close>, then \<open>getPendingActivities\<close>.\<close>

definition pending_route :: "principal option \<Rightarrow> db \<Rightarrow> api_error + (aid \<times> activity_row \<times> nat) list" where
  "pending_route pu d =
     (case pu of None \<Rightarrow> Inl Unauthorized
      | Some u \<Rightarrow> if \<not> isAdmin u then Inl AdminRequired else Inr (getPendingActivities d))"

section \<open>The page\<close>

text \<open>The page's state, lines 28--33; \<open>rv_feedback\<close> is the form's \<open>feedback\<close> field.\<close>

record review_page =
  rv_list :: "(aid \<times> activity_row \<times> nat) list"
  rv_loading :: bool
  rv_review_open :: bool
  rv_detail_open :: bool
  rv_current :: "aid option"
  rv_feedback :: string

definition review_init :: review_page where
  "review_init = \<lparr>rv_list = [], rv_loading = True, rv_review_open = False, rv_detail_open = False,
                  rv_current = None, rv_feedback = []\<rparr>"

text \<open>\<open>fetchPendingActivities\<close>, lines 37--48: on an error the list stays as it was.\<close>

definition review_fetch :: "principal option \<Rightarrow> db \<Rightarrow> review_page \<Rightarrow> review_page" where
  "review_fetch pu d p =
     (case pending_route pu d of
        Inr xs \<Rightarrow> p\<lparr>rv_list := xs, rv_loading := False\<rparr>
      | Inl e \<Rightarrow> p\<lparr>rv_loading := False\<rparr>)"

text \<open>The handlers of lines 54--100 and the detail modal's review button (lines 199--212).\<close>

datatype review_event =
    Fetch | OpenReview aid | CloseReview | OpenDetail aid | CloseDetail | ReviewFromDetail
  | TypeFeedback string | Approve | Reject

text \<open>
  \<open>handleApprove\<close> sends \<open>approved\<close> without reading the form; \<open>handleReject\<close>
  first validates it (the feedback is required) and sends \<open>rejected\<close> with the
  feedback. A success closes the modal and fetches the list again; a failure
  leaves the page as it was.
\<close>

definition review_send ::
  "principal option \<Rightarrow> aid \<Rightarrow> string \<Rightarrow> string option \<Rightarrow> review_page \<times> db \<Rightarrow> review_page \<times> db" where
  "review_send pu a dec fb s =
     (case activity_route (Review pu a (Some dec) fb) (snd s) of
        Inr d' \<Rightarrow> (review_fetch pu d' ((fst s)\<lparr>rv_review_open := False\<rparr>), d')
      | Inl e \<Rightarrow> s)"

fun review_step :: "principal option \<Rightarrow> review_event \<Rightarrow> review_page \<times> db \<Rightarrow> review_page \<times> db" where
  "review_step pu Fetch (p, d) = (review_fetch pu d p, d)"
| "review_step pu (OpenReview a) (p, d) = (p\<lparr>rv_current := Some a, rv_feedback := [], rv_review_open := True\<rparr>, d)"
| "review_step pu CloseReview (p, d) = (p\<lparr>rv_review_open := False\<rparr>, d)"
| "review_step pu (OpenDetail a) (p, d) = (p\<lparr>rv_current := Some a, rv_detail_open := True\<rparr>, d)"
| "review_step pu CloseDetail (p, d) = (p\<lparr>rv_detail_open := False\<rparr>, d)"
| "review_step pu ReviewFromDetail (p, d) =
     (case rv_current p of
        Some a \<Rightarrow> (p\<lparr>rv_detail_open := False, rv_feedback := [], rv_review_open := True\<rparr>, d)
      | None \<Rightarrow> (p\<lparr>rv_detail_open := False\<rparr>, d))"
| "review_step pu (TypeFeedback s) (p, d) = (p\<lparr>rv_feedback := s\<rparr>, d)"
| "review_step pu Approve (p, d) =
     (case rv_current p of
        None \<Rightarrow> (p, d)
      | Some a \<Rightarrow> review_send pu a ''approved'' None (p, d))"
| "review_step pu Reject (p, d) =
     (case rv_current p of
        None \<Rightarrow> (p, d)
      | Some a \<Rightarrow> if rv_feedback p = [] then (p, d)
                  else review_send pu a ''rejected'' (Some (rv_feedback p)) (p, d))"

primrec review_run :: "principal option \<Rightarrow> review_event list \<Rightarrow> review_page \<times> db \<Rightarrow> review_page \<times> db" where
  "review_run pu [] s = s"
| "review_run pu (e # es) s = review_run pu es (review_step pu e s)"

section \<open>Properties of the page\<close>

lemma review_run_append [simp]:
  "review_run pu (es @ fs) s = review_run pu fs (review_run pu es s)"
  by (induction es arbitrary: s) simp_all

text \<open>A step changes the database only by one successful \<open>Review\<close> request of the current activity.\<close>

lemma review_step_db:
  "snd (review_step pu e s) = snd s \<or>
   (\<exists>a dec fb. activity_route (Review pu a (Some dec) fb) (snd s) = Inr (snd (review_step pu e s)))"
  by (cases s; cases e) (auto simp: review_send_def split: option.splits sum.splits)

text \<open>The rows a review leaves alone: every field but the status and the feedback.\<close>

definition review_frame :: "db \<Rightarrow> db" where
  "review_frame d = d\<lparr>activities := map (\<lambda>(k, a). (k, a\<lparr>a_status := Pending, a_feedback := None\<rparr>)) (activities d)\<rparr>"

lemma review_frame_update_rows:
  "review_frame (d\<lparr>activities := update_rows a (\<lambda>act. act\<lparr>a_status := s, a_feedback := fb\<rparr>) (activities d)\<rparr>) =
   review_frame d"
  by (simp add: review_frame_def update_rows_def case_prod_beta)

lemma review_route_frame:
  "activity_route (Review pu a dec fb) d = Inr d' \<Longrightarrow> review_frame d' = review_frame d"
  by (auto simp: reviewActivity_Inr review_frame_update_rows split: option.splits if_splits)

text \<open>
  However long the session, the page changes no table but the activities and in
  them only statuses and feedback, and it keeps the table invariants.
\<close>

lemma review_run_frame:
  "review_frame (snd (review_run pu es s)) = review_frame (snd s) \<and>
   (wf_db (snd s) \<longrightarrow> wf_db (snd (review_run pu es s)))"
proof (induction es arbitrary: s)
  case Nil
  then show ?case by simp
next
  case (Cons e es)
  have "review_frame (snd (review_step pu e s)) = review_frame (snd s) \<and>
        (wf_db (snd s) \<longrightarrow> wf_db (snd (review_step pu e s)))"
    using review_step_db [of pu e s] review_route_frame activity_route_wf_db by metis
  with Cons.IH [of "review_step pu e s"] show ?case by simp
qed

text \<open>A rejection without feedback sends nothing: the form's rule stops it.\<close>

lemma reject_needs_feedback:
  "rv_feedback p = [] \<Longrightarrow> review_step pu Reject (p, d) = (p, d)"
  by (simp split: option.splits)

text \<open>
  Approving the pending activity the modal was opened on stores it approved with
  no feedback (an earlier rejection's feedback is erased), and the list fetched
  afterwards no longer shows it.
\<close>

lemma approve_current:
  assumes "isAdmin u" "rv_current p = Some a" "map_of (activities d) a = Some act"
  shows "map_of (activities (snd (review_step (Some u) Approve (p, d)))) a =
           Some (act\<lparr>a_status := Approved, a_feedback := None\<rparr>) \<and>
         a \<notin> fst ` set (rv_list (fst (review_step (Some u) Approve (p, d)))) \<and>
         \<not> rv_review_open (fst (review_step (Some u) Approve (p, d)))"
proof -
  let ?f = "\<lambda>act. act\<lparr>a_status := Approved, a_feedback := None\<rparr>"
  let ?d' = "d\<lparr>activities := update_rows a ?f (activities d)\<rparr>"
  have r: "activity_route (Review (Some u) a (Some ''approved'') None) d = Inr ?d'"
    using assms by (simp add: reviewActivity_Inr js_truthy_str_def)
  have m: "map_of (activities ?d') a = Some (?f act)"
    using assms(3) by simp
  have "a \<notin> fst ` set (getPendingActivities ?d')"
    by (auto simp: getPendingActivities_def in_set_update_rows)
  then show ?thesis
    using assms(1,2) r m
    by (simp add: review_send_def review_fetch_def pending_route_def)
qed

end
