(* ===== verification/Client_Profile.thy ===== *)
theory Client_Profile
  imports Client_Members
begin

text \<open>
  The profile page src/liantuanfen/client/src/pages/Profile.tsx composed with the
  session's \<open>updateUser\<close> (contexts/AuthContext.tsx lines 193--216): the form's
  fields are sent to \<open>PUT /api/users/update/:id\<close> (userRoutes.js line 45, the
  controller's \<open>updateUser\<close>), and the session's user is then read back from
  \<open>GET /api/users/me\<close>. Both requests carry the session's token.
\<close>

section \<open>The page\<close>

text \<open>The form, lines 112--170: username and e-mail, and the three password fields.\<close>

record profile_form =
  pf_username :: string
  pf_email :: string
  pf_old_password :: string
  pf_new_password :: string
  pf_confirm :: string

text \<open>Its rules: username and e-mail required, an e-mail address, the confirmation empty or equal to the new password.\<close>

definition profile_form_ok :: "(string \<Rightarrow> bool) \<Rightarrow> profile_form \<Rightarrow> bool" where
  "profile_form_ok is_email f =
     (pf_username f \<noteq> [] \<and> pf_email f \<noteq> [] \<and> is_email (pf_email f) \<and>
      (pf_confirm f = [] \<or> pf_confirm f = pf_new_password f))"

text \<open>
  Lines 41--45: every non-empty value is appended under its field's name. The
  server reads \<open>username\<close> and \<open>email\<close>; \<open>oldPassword\<close>, \<open>newPassword\<close> and
  \<open>confirmPassword\<close> are keys no handler reads.
\<close>

definition profile_form_data :: "profile_form \<Rightarrow> user_input" where
  "profile_form_data f =
     \<lparr>ui_username = nonempty (pf_username f), ui_password = None, ui_student_id = None,
      ui_email = nonempty (pf_email f), ui_bio = None, ui_role = None, ui_points = None\<rparr>"

text \<open>The \<open>Authorization\<close> header the context sets from its token (AuthContext lines 67--73).\<close>

definition session_principal :: "(string \<Rightarrow> principal option) \<Rightarrow> auth_state \<Rightarrow> api_error + principal" where
  "session_principal verify st =
     authenticateToken verify (if js_truthy_str (s_token st) then Some (''Bearer '' @ the (s_token st)) else None)"

text \<open>
  \<open>onFinish\<close> (lines 33--60) with the context's \<open>updateUser\<close>: nothing without a
  user; the update, then the current user read again; the first failure is the
  error the context records.
\<close>

definition profile_submit ::
  "(string \<Rightarrow> string) \<Rightarrow> (string \<Rightarrow> principal option) \<Rightarrow> profile_form \<Rightarrow> string option \<Rightarrow>
   auth_state \<times> db \<Rightarrow> auth_state \<times> db" where
  "profile_submit hash verify f file s =
     (case s_user (fst s) of
        None \<Rightarrow> s
      | Some cu \<Rightarrow>
          (case session_principal verify (fst s) of
             Inl e \<Rightarrow> (auth_update (Inl (Some e)) (fst s), snd s)
           | Inr p \<Rightarrow>
               (case user_route hash (UpdateUser (Some p) (cu_id cu) (profile_form_data f) file) (snd s) of
                  Inl e \<Rightarrow> (auth_update (Inl (Some e)) (fst s), snd s)
                | Inr d' \<Rightarrow>
                    (case getCurrentUser p d' of
                       Inl e \<Rightarrow> (auth_update (Inl (Some e)) (fst s), d')
                     | Inr r \<Rightarrow> (auth_update (Inr (cuser_of (p_id p) r)) (fst s), d')))))"

section \<open>Properties of the page\<close>

lemma updateUser_passwords:
  assumes "updateUser u v b file d = Inr d'"
  shows "map_option u_password (map_of (users d') k) = map_option u_password (map_of (users d) k)"
proof -
  obtain r where r: "map_of (users d) v = Some r"
    and d': "d' = d\<lparr>users := update_rows v (\<lambda>_. patch_user u b file r) (users d)\<rparr>"
    using assms by (auto simp: updateUser_def Let_def split: if_splits option.splits)
  show ?thesis by (simp add: d' r patch_user_def)
qed

text \<open>
  The password fields change nothing: whatever the form holds, no stored
  password changes, so a user can never change a password from this page.
\<close>

lemma profile_password_unchanged:
  assumes "profile_submit hash verify f file (st, d) = (st', d')"
  shows "map_option u_password (map_of (users d') k) = map_option u_password (map_of (users d) k)"
  using assms updateUser_passwords
  by (auto simp: profile_submit_def split: option.splits sum.splits)

text \<open>
  After a submit that records no error, the session's user is the row the server
  stores for the token's user, in the database the submit left.
\<close>

lemma profile_session_matches:
  assumes "profile_submit hash verify f file (st, d) = (st', d')" "s_user st \<noteq> None" "s_error st' = None"
  shows "\<exists>p r. session_principal verify st = Inr p \<and> map_of (users d') (p_id p) = Some r \<and>
               s_user st' = Some (cuser_of (p_id p) r) \<and> ls_user st' = s_user st'"
  using assms
  by (auto simp: profile_submit_def auth_update_def getCurrentUser_def split: option.splits sum.splits)

end
