(* ===== verification/Client_Home.thy ===== *)
theory Client_Home
  imports Client_Pages
begin

text \<open>
  The home page src/liantuanfen/client/src/pages/Home.tsx: the three requests it
  sends together (the club list, the activities filtered by \<open>status=approved\<close>
  and the ranking), the three totals it shows, and the lists it renders.
\<close>

section \<open>The page\<close>

record home_page =
  hp_loading :: bool
  hp_clubs :: "(cid \<times> club_row \<times> nat \<times> bool) list"
  hp_activities :: "activity_listing list"
  hp_rankings :: "(uid \<times> user_row) list"

text \<open>
  \<open>fetchData\<close>, lines 35--59: \<open>getAllClubs\<close> (with the session's token, if any),
  \<open>getAllActivities({status: 'approved'})\<close> and \<open>getRankings()\<close>.
\<close>

definition home_fetch :: "time \<Rightarrow> principal option \<Rightarrow> db \<Rightarrow> home_page" where
  "home_fetch now pu d =
     \<lparr>hp_loading = False, hp_clubs = getAllClubs pu d,
      hp_activities = getAllActivities now (Some ''approved'') None d,
      hp_rankings = getPointsRanking None d\<rparr>"

text \<open>The three statistics of lines 78--109: clubs, activities and users.\<close>

definition home_stats :: "home_page \<Rightarrow> nat \<times> nat \<times> nat" where
  "home_stats p = (length (hp_clubs p), length (hp_activities p), length (hp_rankings p))"

text \<open>The lists of lines 111--220: five clubs, every activity, every ranked user with its medal colour.\<close>

definition home_lists :: "home_page \<Rightarrow> cid list \<times> aid list \<times> (nat \<times> uid) list" where
  "home_lists p =
     (map fst (take 5 (hp_clubs p)), map al_id (hp_activities p),
      zip [1..<Suc (length (hp_rankings p))] (map fst (hp_rankings p)))"

section \<open>Properties of the page\<close>

lemma ci_eq_status_approved: "ci_eq (status_name s) ''approved'' \<longleftrightarrow> s = Approved"
  by (cases s) (simp_all add: ci_eq_def lower_ascii_def)

lemma length_filter_join:
  "length (filter (\<lambda>(k, act, c). Q k act c)
             (concat (map (\<lambda>(k, act). case map_of cs (a_club act) of None \<Rightarrow> [] | Some c \<Rightarrow> [(k, act, c)]) xs))) =
   length (filter (\<lambda>(k, act). case map_of cs (a_club act) of None \<Rightarrow> False | Some c \<Rightarrow> Q k act c) xs)"
  by (induction xs) (auto split: option.splits if_splits)

text \<open>
  The totals: every club; only the activities stored \<open>approved\<close> (pending ones, and
  those already settled as completed, are not counted); and the ranking's length
  as the number of users, which stops at 100.
\<close>

lemma home_totals:
  "home_stats (home_fetch now pu d) =
     (length (clubs d),
      length (filter (\<lambda>(k, act). a_status act = Approved \<and> map_of (clubs d) (a_club act) \<noteq> None) (activities d)),
      min 100 (length (users d)))"
proof -
  have "length (getAllActivities now (Some ''approved'') None d) =
        length (filter (\<lambda>(k, act). case map_of (clubs d) (a_club act) of None \<Rightarrow> False
                                       | Some c \<Rightarrow> a_status act = Approved) (activities d))"
    by (simp add: getAllActivities_def activity_join_def length_filter_join ci_eq_status_approved)
  also have "\<dots> = length (filter (\<lambda>(k, act). a_status act = Approved \<and> map_of (clubs d) (a_club act) \<noteq> None)
                                (activities d))"
    by (rule arg_cong [where f = length], rule filter_cong) (auto split: option.splits)
  finally have "length (getAllActivities now (Some ''approved'') None d) =
        length (filter (\<lambda>(k, act). a_status act = Approved \<and> map_of (clubs d) (a_club act) \<noteq> None) (activities d))" .
  then show ?thesis
    by (simp add: home_stats_def home_fetch_def getAllClubs_def getPointsRanking_def)
qed

end
