(* ===== verification/Client_Activity_Detail.thy ===== *)
theory Client_Activity_Detail
  imports Engine Client_Pages
begin

text \<open>
  The activity detail page src/liantuanfen/client/src/pages/ActivityDetail.tsx as a
  session over the page and the database: the fetch of \<open>GET /api/activities/:id\<close>
  (\<open>activity_detail_route\<close>, Queries), the join and leave handlers, which call
  \<open>activity_route\<close>'s \<open>Join\<close> and \<open>Leave\<close> (Engine) and fetch the detail again, and
  the action button the page renders from the fetched activity.
\<close>

section \<open>The page\<close>

datatype detail_msg = DetailFetchFailed | DetailServerMsg api_error | DetailLoginWarning

text \<open>The page's state, lines 41--45, with the message shown last and whether it navigated to \<open>/login\<close>.\<close>

record detail_page =
  dp_activity :: "activity_listing option"
  dp_joined :: "bool option"
  dp_parts :: "participant list"
  dp_loading :: bool
  dp_msg :: "detail_msg option"
  dp_to_login :: bool

text \<open>\<open>fetchActivityDetails\<close>, lines 47--65: a failure shows a fixed message and keeps the rest.\<close>

definition detail_fetch :: "time \<Rightarrow> aid \<Rightarrow> db \<Rightarrow> detail_page \<Rightarrow> detail_page" where
  "detail_fetch now a d p =
     (case activity_detail_route now a d of
        Inr (l, j, ps) \<Rightarrow> p\<lparr>dp_activity := Some l, dp_joined := j, dp_parts := ps, dp_loading := False\<rparr>
      | Inl e \<Rightarrow> p\<lparr>dp_msg := Some DetailFetchFailed, dp_loading := False\<rparr>)"

text \<open>
  \<open>handleJoinActivity\<close> (lines 67--112) and \<open>handleLeaveActivity\<close> (lines
  114--142): a signed-out user is sent to \<open>/login\<close>; otherwise the request, then
  the detail fetched again in the same \<open>try\<close>, so that a failure of either shows
  the server's message.
\<close>

definition detail_after ::
  "time \<Rightarrow> aid \<Rightarrow> api_error + db \<Rightarrow> detail_page \<times> db \<Rightarrow> detail_page \<times> db" where
  "detail_after now a r s =
     (case r of
        Inl e \<Rightarrow> ((fst s)\<lparr>dp_msg := Some (DetailServerMsg e)\<rparr>, snd s)
      | Inr d' \<Rightarrow>
          (case activity_detail_route now a d' of
             Inr (l, j, ps) \<Rightarrow> ((fst s)\<lparr>dp_activity := Some l, dp_joined := j, dp_parts := ps\<rparr>, d')
           | Inl e \<Rightarrow> ((fst s)\<lparr>dp_msg := Some (DetailServerMsg e)\<rparr>, d')))"

definition detail_join ::
  "time \<Rightarrow> auth_state \<Rightarrow> principal option \<Rightarrow> aid \<Rightarrow> detail_page \<times> db \<Rightarrow> detail_page \<times> db" where
  "detail_join now st pu a s =
     (if \<not> client_isAuthenticated st
      then ((fst s)\<lparr>dp_msg := Some DetailLoginWarning, dp_to_login := True\<rparr>, snd s)
      else detail_after now a (activity_route (Join now pu a) (snd s)) s)"

definition detail_leave ::
  "time \<Rightarrow> auth_state \<Rightarrow> principal option \<Rightarrow> aid \<Rightarrow> detail_page \<times> db \<Rightarrow> detail_page \<times> db" where
  "detail_leave now st pu a s =
     (if \<not> client_isAuthenticated st
      then ((fst s)\<lparr>dp_msg := Some DetailLoginWarning, dp_to_login := True\<rparr>, snd s)
      else detail_after now a (activity_route (Leave now pu a) (snd s)) s)"

text \<open>The action button, lines 281--350, in the order of its conditions.\<close>

datatype detail_button =
    BtnJoin | BtnLeave | BtnJoinedLocked | BtnJoinedWaiting | BtnFull | BtnEnded | BtnClosed | BtnLogin

definition detail_button :: "time \<Rightarrow> bool \<Rightarrow> activity_view \<Rightarrow> detail_button" where
  "detail_button now auth v =
     (if auth \<and> canRegister_detail now v then
        (if v_is_joined v then (if canCancelRegistration now v then BtnLeave else BtnJoinedLocked) else BtnJoin)
      else if auth \<and> v_is_joined v then (if canCancelRegistration now v then BtnLeave else BtnJoinedWaiting)
      else if auth \<and> v_max v \<le> v_current v then BtnFull
      else if auth \<and> v_status v = VCompleted then BtnEnded
      else if auth then BtnClosed
      else BtnLogin)"

definition page_button :: "time \<Rightarrow> auth_state \<Rightarrow> detail_page \<Rightarrow> detail_button option" where
  "page_button now st p =
     map_option (\<lambda>l. detail_button now (client_isAuthenticated st) (detail_view l (dp_joined p))) (dp_activity p)"

section \<open>Properties of the page\<close>

lemma detail_fetch_joined: "activity_detail_route now a d = Inr (l, j, ps) \<Longrightarrow> j = None"
  by (simp add: activity_detail_route_def getActivityById_def split: option.splits)

text \<open>The page never renders a leave button: the fetched detail never says the user joined.\<close>

lemma detail_button_never_leave:
  "detail_after now a r s = (p', d') \<Longrightarrow> dp_joined (fst s) = None \<Longrightarrow> page_button t st p' \<noteq> Some BtnLeave"
  by (auto simp: detail_after_def page_button_def detail_button_def detail_view_def canRegister_detail_def
           dest: detail_fetch_joined split: sum.splits prod.splits if_splits)

text \<open>
  After a successful join through the page (whose button still offers to join,
  see above), a second join from it is refused by the server with a message and
  leaves the database as the first left it.
\<close>

lemma detail_rejoin_refused:
  assumes "client_isAuthenticated st" "activity_route (Join now (Some u) a) d = Inr d1"
    "detail_join now st (Some u) a (p, d) = (p1, d1)"
    "detail_join now st (Some u) a (p1, d1) = (p2, d2)"
  shows "d2 = d1 \<and> (\<exists>e. dp_msg p2 = Some (DetailServerMsg e))"
proof -
  obtain act where act: "map_of (activities d) a = Some act" "a_status act = Approved"
    and ins: "insert_registration now (p_id u) a d = Inr d1"
    using assms(2) by (auto dest!: joinActivity_Inr)
  have reg: "is_registered d1 (p_id u) a" using ins by simp
  have "\<exists>e. activity_route (Join now (Some u) a) d1 = Inl e"
    using reg by (auto simp: joinActivity_eq split: option.splits)
  then show ?thesis
    using assms(1,4) by (auto simp: detail_join_def detail_after_def)
qed

end
