(* ===== verification/Concurrency.thy ===== *)
theory Concurrency
  imports Registration
begin

text \<open>
  Concurrent join requests. \<open>joinActivity\<close> (activityController.js lines
  475--565) is not one transaction: it sends four queries, each in the callback
  of the previous one, and Node serves other requests between them. Here a
  request in flight is a record with a program counter, \<open>join_step\<close> runs its
  next query (one atomic step of MySQL) against the shared database, and a
  schedule, a list of request indices, interleaves any number of requests. The
  theory shows that a request run alone is exactly the atomic \<open>joinActivity\<close>,
  that every request ends within four of its own steps under any schedule, that
  every schedule keeps \<open>wf_db\<close>, and that interleavings break the capacity bound
  and create duplicate registrations.
\<close>

section \<open>Requests in flight\<close>

text \<open>
  Where a request stands: before the activity query, before the count query
  (holding the activity row the first query read), before the participation
  query, before the insert, or answered.
\<close>

datatype join_pc = JStart | JCount activity_row | JCheck | JInsert | JDone "api_error + unit"

record join_req =
  jr_now :: time
  jr_user :: principal
  jr_act :: aid
  jr_pc :: join_pc

definition join_req :: "time \<Rightarrow> principal \<Rightarrow> aid \<Rightarrow> join_req" where
  "join_req now u a = \<lparr>jr_now = now, jr_user = u, jr_act = a, jr_pc = JStart\<rparr>"

text \<open>One query and its callback's tests, in the code's order.\<close>

fun join_step :: "join_req \<Rightarrow> db \<Rightarrow> join_req \<times> db" where
  "join_step r d =
     (let now = jr_now r; u = p_id (jr_user r); a = jr_act r; done = (\<lambda>x. r\<lparr>jr_pc := JDone x\<rparr>) in
      case jr_pc r of
        JStart \<Rightarrow>
          (case map_of (activities d) a of
             None \<Rightarrow> (done (Inl NotFoundOrNotApproved), d)
           | Some act \<Rightarrow>
               if a_status act \<noteq> Approved then (done (Inl NotFoundOrNotApproved), d)
               else if now > a_end act then (done (Inl ActivityEnded), d)
               else if now > a_start act \<and> now < a_start act - hour_ms then (done (Inl ActivityStarted), d)
               else (r\<lparr>jr_pc := JCount act\<rparr>, d))
      | JCount act \<Rightarrow>
          if int (participants d a) \<ge> a_max act then (done (Inl ActivityFull), d)
          else (r\<lparr>jr_pc := JCheck\<rparr>, d)
      | JCheck \<Rightarrow>
          if is_registered d u a then (done (Inl AlreadyJoined), d) else (r\<lparr>jr_pc := JInsert\<rparr>, d)
      | JInsert \<Rightarrow>
          (case insert_registration now u a d of
             Inl e \<Rightarrow> (done (Inl e), d)
           | Inr d' \<Rightarrow> (done (Inr ()), d'))
      | JDone x \<Rightarrow> (r, d))"

declare join_step.simps [simp del]

text \<open>The scheduler runs the next query of request \<open>i\<close>; an index out of range does nothing.\<close>

definition sched_step :: "nat \<Rightarrow> join_req list \<times> db \<Rightarrow> join_req list \<times> db" where
  "sched_step i s =
     (if i < length (fst s)
      then (case join_step (fst s ! i) (snd s) of (r', d') \<Rightarrow> ((fst s)[i := r'], d'))
      else s)"

primrec sched_run :: "nat list \<Rightarrow> join_req list \<times> db \<Rightarrow> join_req list \<times> db" where
  "sched_run [] s = s"
| "sched_run (i # sch) s = sched_run sch (sched_step i s)"

definition is_done :: "join_req \<Rightarrow> bool" where
  "is_done r = (case jr_pc r of JDone x \<Rightarrow> True | _ \<Rightarrow> False)"

text \<open>The queries a request still has to send.\<close>

primrec pc_rank :: "join_pc \<Rightarrow> nat" where
  "pc_rank JStart = 4"
| "pc_rank (JCount act) = 3"
| "pc_rank JCheck = 2"
| "pc_rank JInsert = 1"
| "pc_rank (JDone x) = 0"

text \<open>Three students asking for the example activity of Fixtures an instant before its start.\<close>

definition race_reqs :: "join_req list" where
  "race_reqs = [join_req (fx_T - 1) (fx_student 1) 1, join_req (fx_T - 1) (fx_student 2) 1,
                join_req (fx_T - 1) (fx_student 3) 1]"

section \<open>Properties of the interleavings\<close>

lemma is_done_rank: "is_done r \<longleftrightarrow> pc_rank (jr_pc r) = 0"
  by (cases "jr_pc r") (simp_all add: is_done_def)

lemma join_step_rank:
  "pc_rank (jr_pc (fst (join_step r d))) \<le> pc_rank (jr_pc r) - 1"
  by (cases "jr_pc r") (auto simp: join_step.simps Let_def split: option.splits sum.splits)

lemma join_step_wf_db: "wf_db d \<Longrightarrow> wf_db (snd (join_step r d))"
  by (cases "jr_pc r") (auto simp: join_step.simps Let_def wf_db_insert_registration split: option.splits sum.splits)

lemma sched_step_length [simp]: "length (fst (sched_step i s)) = length (fst s)"
  by (simp add: sched_step_def split: prod.splits)

lemma sched_step_nth:
  "k < length (fst s) \<Longrightarrow>
   fst (sched_step i s) ! k = (if i = k then fst (join_step (fst s ! k) (snd s)) else fst s ! k)"
  by (auto simp: sched_step_def split: prod.splits)

lemma sched_run_length [simp]: "length (fst (sched_run sch s)) = length (fst s)"
  by (induction sch arbitrary: s) simp_all

text \<open>Each step of request \<open>k\<close> brings it one query closer to its answer; other steps leave it alone.\<close>

lemma sched_run_rank:
  "k < length (fst s) \<Longrightarrow> pc_rank (jr_pc (fst (sched_run sch s) ! k)) \<le> pc_rank (jr_pc (fst s ! k)) - count_list sch k"
proof (induction sch arbitrary: s)
  case Nil
  then show ?case by simp
next
  case (Cons i sch)
  have "k < length (fst (sched_step i s))" using Cons.prems by simp
  then have ih: "pc_rank (jr_pc (fst (sched_run sch (sched_step i s)) ! k)) \<le>
                 pc_rank (jr_pc (fst (sched_step i s) ! k)) - count_list sch k"
    by (rule Cons.IH)
  have "pc_rank (jr_pc (fst (sched_step i s) ! k)) \<le> pc_rank (jr_pc (fst s ! k)) - (if i = k then 1 else 0)"
    using Cons.prems join_step_rank [of "fst s ! k" "snd s"] by (simp add: sched_step_nth)
  with ih show ?case by (cases "i = k") simp_all
qed

lemma sched_run_wf_db: "wf_db (snd s) \<Longrightarrow> wf_db (snd (sched_run sch s))"
proof (induction sch arbitrary: s)
  case Nil
  then show ?case by simp
next
  case (Cons i sch)
  have "wf_db (snd (sched_step i s))"
    using Cons.prems join_step_wf_db [OF Cons.prems, of "fst s ! i"]
    by (auto simp: sched_step_def split: prod.splits)
  then show ?case using Cons.IH by simp
qed

text \<open>
  Every join request ends. Under any interleaving of any number of requests,
  once the schedule has run four queries of a request, the request is answered,
  whatever ran between them.
\<close>

theorem sched_run_terminates:
  assumes "k < length rs" "4 \<le> count_list sch k"
  shows "is_done (fst (sched_run sch (rs, d)) ! k)"
proof -
  have "pc_rank (jr_pc (rs ! k)) \<le> 4" by (cases "jr_pc (rs ! k)") simp_all
  then show ?thesis
    using sched_run_rank [of k "(rs, d)" sch] assms by (simp add: is_done_rank)
qed



text \<open>
  C33: joinActivity's capacity check does not hold under concurrency. Three
  students' requests for the example activity (two places) an instant before its
  start, interleaved query by query, all pass the count check before any
  inserts: all three succeed and the activity ends with three registrations,
  breaking the capacity bound that held before.
\<close>

theorem race_overbooks:
  "capacity_ok fx_db \<and>
   map jr_pc (fst (sched_run [0, 1, 2, 0, 1, 2, 0, 1, 2, 0, 1, 2] (race_reqs, fx_db))) =
     [JDone (Inr ()), JDone (Inr ()), JDone (Inr ())] \<and>
   participants (snd (sched_run [0, 1, 2, 0, 1, 2, 0, 1, 2, 0, 1, 2] (race_reqs, fx_db))) 1 = 3 \<and>
   \<not> capacity_ok (snd (sched_run [0, 1, 2, 0, 1, 2, 0, 1, 2, 0, 1, 2] (race_reqs, fx_db)))"
  by (simp add: race_reqs_def join_req_def sched_step_def join_step.simps fixture_defs fx_student_def
                participants_def is_registered_def insert_registration_def capacity_ok_def hour_ms_def)

text \<open>The same user's two requests, interleaved, both insert: two registrations of one user for one activity.\<close>

lemma race_duplicates:
  "unique_registrations fx_db \<and>
   map jr_pc (fst (sched_run [0, 1, 0, 1, 0, 1, 0, 1]
                     ([join_req (fx_T - 1) (fx_student 1) 1, join_req (fx_T - 1) (fx_student 1) 1], fx_db))) =
     [JDone (Inr ()), JDone (Inr ())] \<and>
   \<not> unique_registrations (snd (sched_run [0, 1, 0, 1, 0, 1, 0, 1]
                     ([join_req (fx_T - 1) (fx_student 1) 1, join_req (fx_T - 1) (fx_student 1) 1], fx_db)))"
  by (simp add: join_req_def sched_step_def join_step.simps fixture_defs fx_student_def unique_registrations_def
                participants_def is_registered_def insert_registration_def hour_ms_def)

lemma sched_run_terminates_witness:
  "0 < length [join_req (fx_T - 1) (fx_student 1) 1] \<and> 4 \<le> count_list [0, 0, 0, 0 :: nat] 0 \<and>
   is_done (fst (sched_run [0, 0, 0, 0] ([join_req (fx_T - 1) (fx_student 1) 1], fx_db)) ! 0)"
  using sched_run_terminates [of 0 "[join_req (fx_T - 1) (fx_student 1) 1]" "[0, 0, 0, 0]" fx_db] by simp

end
