(* ===== verification/Client_Activity_List.thy ===== *)
theory Client_Activity_List
  imports Engine Client_Pages
begin

text \<open>
  The activity list page src/liantuanfen/client/src/pages/ActivityList.tsx with its
  cards, src/liantuanfen/client/src/components/ActivityCard.tsx, as a session over
  the page and the database: the filter handlers, the card's join and leave
  handlers composed with \<open>activity_route\<close> (Engine), and the refetch of the list
  (\<open>getAllActivities\<close>, Queries) that follows them. The filters themselves are
  \<open>apply_filters\<close> of Client_Pages.
\<close>

section \<open>The page and its cards\<close>

record list_page =
  lp_acts :: "activity_listing list"
  lp_filters :: activity_filters
  lp_loading :: bool
  lp_to_login :: bool
  lp_error :: "api_error option"

text \<open>\<open>fetchActivities\<close>, lines 49--60: the unfiltered list.\<close>

definition list_fetch :: "time \<Rightarrow> db \<Rightarrow> list_page \<Rightarrow> list_page" where
  "list_fetch now d p = p\<lparr>lp_acts := getAllActivities now None None d, lp_loading := False\<rparr>"

text \<open>What the page shows: the filters applied to the fetched list (the effect of lines 118--120).\<close>

definition list_shown :: "list_page \<Rightarrow> activity_listing list" where
  "list_shown p = apply_filters (lp_filters p) (lp_acts p)"

text \<open>A card's activity: the list's object, which carries no \<open>is_joined\<close>.\<close>

definition card_view :: "activity_listing \<Rightarrow> activity_view" where
  "card_view l = detail_view l None"

text \<open>The card's action, ActivityCard lines 217--258.\<close>

datatype card_action = CardJoin | CardLeave | CardJoinedTag | CardNone

definition card_action :: "time \<Rightarrow> bool \<Rightarrow> activity_view \<Rightarrow> card_action" where
  "card_action now auth v =
     (if auth \<and> canRegister_card now v then (if v_is_joined v then CardLeave else CardJoin)
      else if v_is_joined v then (if canCancelRegistration now v then CardLeave else CardJoinedTag)
      else CardNone)"

text \<open>
  The page's events: the filter handlers (lines 122--143), the refresh button, and
  a card's confirmed join or leave (ActivityCard lines 99--169), whose success
  makes the page fetch its list again (\<open>handleActivityJoin\<close>, lines 175--178).
\<close>

datatype list_event =
    ListFetch | Search string | StatusFilter string | ClubFilter "nat option"
  | DateRange "(time \<times> time) option" | ResetFilters | CardJoinEv aid | CardLeaveEv aid

definition card_request ::
  "time \<Rightarrow> auth_state \<Rightarrow> request \<Rightarrow> list_page \<times> db \<Rightarrow> list_page \<times> db" where
  "card_request now st r s =
     (if \<not> client_isAuthenticated st then ((fst s)\<lparr>lp_to_login := True\<rparr>, snd s)
      else case activity_route r (snd s) of
             Inl e \<Rightarrow> ((fst s)\<lparr>lp_error := Some e\<rparr>, snd s)
           | Inr d' \<Rightarrow> (list_fetch now d' (fst s), d'))"

fun list_step :: "time \<Rightarrow> auth_state \<Rightarrow> principal option \<Rightarrow> list_event \<Rightarrow> list_page \<times> db \<Rightarrow> list_page \<times> db" where
  "list_step now st pu ListFetch (p, d) = (list_fetch now d p, d)"
| "list_step now st pu (Search v) (p, d) = (p\<lparr>lp_filters := (lp_filters p)\<lparr>af_search := v\<rparr>\<rparr>, d)"
| "list_step now st pu (StatusFilter v) (p, d) = (p\<lparr>lp_filters := (lp_filters p)\<lparr>af_status := v\<rparr>\<rparr>, d)"
| "list_step now st pu (ClubFilter v) (p, d) = (p\<lparr>lp_filters := (lp_filters p)\<lparr>af_club := v\<rparr>\<rparr>, d)"
| "list_step now st pu (DateRange v) (p, d) = (p\<lparr>lp_filters := (lp_filters p)\<lparr>af_range := v\<rparr>\<rparr>, d)"
| "list_step now st pu ResetFilters (p, d) = (p\<lparr>lp_filters := reset_filters\<rparr>, d)"
| "list_step now st pu (CardJoinEv a) (p, d) = card_request now st (Join now pu a) (p, d)"
| "list_step now st pu (CardLeaveEv a) (p, d) = card_request now st (Leave now pu a) (p, d)"

section \<open>Properties of the page\<close>

text \<open>No card of the list offers to leave: the list never says the user joined.\<close>

lemma card_never_leave: "card_action now auth (card_view l) \<noteq> CardLeave"
  by (simp add: card_action_def card_view_def detail_view_def canCancelRegistration_def)

lemma listing_participants:
  "(\<And>k. participants d' k = f k) \<Longrightarrow> activities d' = activities d \<Longrightarrow> clubs d' = clubs d \<Longrightarrow>
   getAllActivities now s c d' = map (\<lambda>l. l\<lparr>al_current := f (al_id l)\<rparr>) (getAllActivities now s c d)"
  by (simp add: getAllActivities_def activity_join_def listing_def case_prod_beta)

text \<open>
  After a card's successful join the page's list is fetched again and shows one
  more participant for that activity and the same counts for the others.
\<close>

lemma card_join_refreshes_count:
  assumes "client_isAuthenticated st" "activity_route (Join now (Some u) a) d = Inr d'"
  shows "lp_acts (fst (list_step now st (Some u) (CardJoinEv a) (p, d))) =
           map (\<lambda>l. l\<lparr>al_current := (if al_id l = a then Suc (al_current l) else al_current l)\<rparr>)
             (getAllActivities now None None d)"
proof -
  have ins: "insert_registration now (p_id u) a d = Inr d'"
    using assms(2) by (auto dest!: joinActivity_Inr)
  then have tabs: "activities d' = activities d" "clubs d' = clubs d"
    by (auto simp: insert_registration_Inr)
  have "getAllActivities now None None d' =
        map (\<lambda>l. l\<lparr>al_current := (if al_id l = a then Suc (participants d a) else participants d (al_id l))\<rparr>)
          (getAllActivities now None None d)"
    using ins tabs by (intro listing_participants) simp_all
  also have "\<dots> = map (\<lambda>l. l\<lparr>al_current := (if al_id l = a then Suc (al_current l) else al_current l)\<rparr>)
                    (getAllActivities now None None d)"
    by (rule map_cong) (auto simp: getAllActivities_def listing_def split: prod.splits)
  finally show ?thesis
    using assms by (simp add: card_request_def list_fetch_def)
qed

end
