(* ===== verification/Spec2Isabelle.thy ===== *)
theory Spec2Isabelle
  imports Engine Schema Uploads Client_Activity_Management Client_Club_Management Client_Clubs Client_Pages Client_Members Client_Admin_Activities Client_Routes Client_Review Client_Admin_Clubs Client_Profile Client_Home Client_Activity_Detail Concurrency Client_Activity_List
begin

text \<open>
  Verification development of LianTuanfen, a campus club and activity platform: an
  Express/MySQL server (src/liantuanfen/server) and a React client
  (src/liantuanfen/client/src). Students join clubs and the activities of clubs;
  club admins create, edit and settle the activities of their club; the system admin
  reviews activities and manages users. Settlement credits each participant the
  activity's points; the points ranking lists the balances.

  \<^bold>\<open>Model.\<close> The server's state is the MySQL database created in
  server/index.js; each controller handler is a function from its request's
  arguments and the database to an error response or the new database. The nested
  query callbacks of a handler become nested \<open>if\<close>/\<open>case\<close> in the code's order,
  each early \<open>res.status(...)\<close> a constructor of \<open>api_error\<close> (a \<open>Inl\<close>), a
  success a \<open>Inr\<close>. Queries are assumed to succeed, except where the schema makes a
  statement fail: a foreign key, a \<open>UNIQUE\<close> key (400 where the code maps
  \<open>ER_DUP_ENTRY\<close>), a value outside its column type in strict mode (500,
  \<open>DbError\<close>). A client page is its React state with \<open>localStorage\<close>, one function
  per handler or effect, and takes the server's answer as an argument or calls the
  server model directly.

  \<^item> Prelude: type synonyms of ids and time (JavaScript milliseconds, \<open>int\<close>),
    row counting, association-list and \<open>sort_key\<close> lemmas, JavaScript truthiness.
  \<^item> Status: the status derivation of getAllActivities/getActivityById
    (\<open>derive_status\<close>) against the specification's evaluator (\<open>spec_status\<close>),
    and the client predicates \<open>canRegister\<close> (ActivityCard.tsx, ActivityDetail.tsx)
    and \<open>canCancelRegistration\<close>.
  \<^item> Db, Fixtures: the tables as records and association lists, the
    \<open>AUTO_INCREMENT\<close> counters, the invariant \<open>wf_db\<close>, the row primitives, and
    the specification's example data.
  \<^item> Registration, Settlement, Lifecycle: the activity handlers of
    activityController.js (\<open>joinActivity\<close>, \<open>leaveActivity\<close>,
    \<open>completeActivity\<close> as its three \<open>UPDATE\<close>s, \<open>createActivity\<close>,
    \<open>updateActivity\<close>, \<open>reviewActivity\<close>, \<open>deleteActivity\<close>,
    \<open>getPendingActivities\<close>) with the invariants \<open>capacity_ok\<close>,
    \<open>unique_registrations\<close>, \<open>settled_consistent\<close>.
  \<^item> Auth: middleware/auth.js, \<open>authenticateToken\<close> (the header's bearer token
    checked by \<open>verify\<close>, a parameter) and the role guards, which read the role
    signed into the token.
  \<^item> Engine: the activity routes as \<open>activity_route\<close> over a \<open>request\<close> datatype
    and \<open>run\<close>, a sequence of requests; the invariants hold for every run, two
    scenarios are computed, and the stored-status changes are compared with the
    specification's lifecycle as inductive relations.
  \<^item> Clubs: clubController.js and clubRoutes.js with the invariants
    \<open>wf_clubs\<close>, \<open>unique_members\<close> and \<open>president_ok\<close> (one president per
    club, its \<open>admin_id\<close>).
  \<^item> Js_Text: the library semantics the user controller and the pages rely on:
    \<open>parseInt\<close>, \<open>String\<close> of an integer, the two regular expressions of
    \<open>updateUser\<close>, the collation's ASCII case folding, \<open>LIKE\<close>, \<open>trim\<close>,
    \<open>includes\<close>.
  \<^item> Users: userController.js and userRoutes.js (bcrypt's \<open>hash\<close> and
    \<open>compare\<close> are parameters) with the invariant \<open>wf_users\<close>: every row
    satisfies the \<open>UNIQUE\<close> keys and the column types (\<open>row_ok\<close>).
  \<^item> Queries: the read-only activity queries (\<open>getAllActivities\<close>,
    \<open>getActivityById\<close>, \<open>getUserActivities\<close>, \<open>getActivityStats\<close>) and the
    public detail route, with the detail page's reading of the response.
  \<^item> Client_Auth: contexts/AuthContext.tsx composed with \<open>GET /api/users/me\<close>
    and \<open>POST /api/users/login\<close>.
  \<^item> Client_Clubs: pages/ClubList.tsx and ClubDetail.tsx over the JSON the
    public club routes answer, with the \<open>joinedClubs\<close> cache.
  \<^item> Client_Pages, Client_Members: the filters of ActivityList.tsx, the form of
    Register.tsx, the ranks of PointsRanking.tsx, the forms of
    MemberManagement.tsx and admin/UserManagement.tsx (search, submit, delete,
    role change), each composed with the server handler it calls.
  \<^item> Client_Admin_Activities: admin/ActivityManagement.tsx, its table filter
    and orders over \<open>getAllActivities\<close>, its form and \<open>FormData\<close> composed
    with \<open>activity_route\<close>'s create, update and delete, and the upload check.
  \<^item> Client_Admin_Clubs, Client_Review: admin/ClubManagement.tsx composed with
    \<open>club_route\<close>; admin/ActivityReview.tsx as a step function over the page and
    the database (\<open>review_step\<close>, \<open>review_run\<close> over a list of
    \<open>review_event\<close>s) composed with the pending-list and review routes.
  \<^item> Client_Routes: App.tsx's routes behind PrivateRoute and AdminRoute, the
    menus of components/layout/AppLayout.tsx, and Login.tsx's return to the path
    saved in \<open>sessionStorage\<close>.
  \<^item> Concurrency: \<open>joinActivity\<close>'s four queries as steps of a request in
    flight (\<open>join_step\<close>) interleaved by a schedule (\<open>sched_run\<close>, Node's event
    loop between two callbacks); run alone, the steps are the atomic handler.
  \<^item> Client_Profile, Client_Home, Client_Activity_Detail: Profile.tsx with the
    context's update-then-refetch, Home.tsx's three requests and totals, and
    ActivityDetail.tsx's fetch, join and leave handlers and action button,
    composed with the routes they call.
  \<^item> Client_Activity_List: ActivityList.tsx with its cards (ActivityCard.tsx) as a
    session (\<open>list_step\<close>) whose successful join or leave fetches the list again.
    Client_Pages also holds Register.tsx's submit (register, then login) and
    PointsRanking.tsx as a session (\<open>ranking_step\<close>).
  \<^item> Uploads: the multer configuration of activityRoutes.js, clubRoutes.js and
    userRoutes.js (type filter, 5 MiB limit, stored name) and each route that
    takes a file with its middleware in order (\<open>post_activity\<close>,
    \<open>put_activity\<close>, \<open>post_club\<close>, \<open>put_club\<close>, \<open>post_register\<close>,
    \<open>put_user\<close>, \<open>post_user\<close>), over the disk (the stored paths) and the
    database.
  \<^item> Schema: the tables index.js creates, \<open>checkAndAddColumns\<close>'s two
    \<open>ALTER\<close>s (activityController.js), and the columns every writing statement
    names. The other theories model rows with every column the statements use,
    that is a database that also has \<open>activities.feedback\<close>; Schema shows that
    the schema the server itself creates lacks it, so that there every review
    fails (\<open>reviewActivity_on\<close>).
  \<^item> Client_Activity_Management, Client_Club_Management: the pages
    pages/ActivityManagement.tsx and pages/ClubManagement.tsx, which App.tsx does
    not route, composed with the upload routes and the club routes.

  \<^bold>\<open>What the lemmas show.\<close> Every branch of each handler, errors included;
  preservation of the table invariants by every activity, club and user route and
  by every run; the refinement of the specification's status evaluator, and of the
  activity table by the public list; round trips (join/leave, register/login,
  \<open>String\<close>/\<open>parseInt\<close>); bounds (the ranking's 100 rows, the statistics' sums,
  the \<open>INT\<close> range of balances); termination of the client's session effect; and
  the divergences the model exposes: the join window test that never holds,
  re-credited settlements, reviews that reopen any status, edits that break the
  capacity bound, two presidents or none, an unescaped \<open>LIKE\<close> search, roles
  that stay as they were at login in the token and in the client, and client
  pages that never learn memberships or participation from the server, an
  admin status filter (\<open>approved\<close>) that always empties the table, menu links
  a club admin can only follow to a 403 page, password fields the server
  ignores, a user total that stops at 100, a review statement naming a column
  the created schema lacks, a role check that comes after the
  upload (a refused activity edit still stores its file), and club logos that
  overwrite each other within a millisecond. The page sessions (review, detail,
  login) are shown to keep the table invariants and to change only what their
  routes change; the edit modals of the admin pages and of the unrouted pages
  round-trip (a record opened and saved unchanged leaves the database as it
  was), the admin edit of a one-letter username is refused, and every file the
  activity pages let through passes the server's filter and limit. Concurrent
  joins overbook and duplicate registrations; a request run alone through the
  query-by-query model is the atomic handler, and every join request ends
  within four of its own steps.

  \<^bold>\<open>Bounds and fuel.\<close> Every definition is total and structurally recursive
  (or non-recursive), so no fuel is needed: the program has no loop whose end
  is in doubt (its only iterations are over query results); \<open>run\<close>,
  \<open>review_run\<close> and \<open>sched_run\<close> recurse on their list; a join request in
  flight has at most four queries left (\<open>pc_rank\<close>), which bounds it under any
  schedule; \<open>nat_str\<close> recurses on
  \<open>n div 10\<close> with the termination proof \<open>fun\<close> finds.

  \<^bold>\<open>Not modelled.\<close> Interleavings of handlers other than \<open>joinActivity\<close>
  (each of them is one atomic step, so the invariants of \<open>run\<close> hold for
  requests served one after the other; the join race is the one the
  specification names, and Concurrency shows it breaks them); the \<open>INT\<close> overflow of a settlement's credit (the \<open>UPDATE\<close> is
  modelled without the range check); JWT signing and bcrypt (parameters); the
  file contents, \<open>path.extname\<close>, \<open>Date.now\<close> and \<open>Math.random\<close> (inputs of
  the upload model), and the status Express's default handler gives to upload
  errors of the club and user routers; the very first start, when
  \<open>checkAndAddColumns\<close> may run before index.js has created the tables, and
  the columns of the \<open>SELECT\<close> lists; the collation beyond ASCII case folding
  (trailing-space padding, accents), and the case-insensitive \<open>UNIQUE\<close> key on
  club names, which \<open>club_name_taken\<close> compares exactly (the user keys are
  compared under the collation); \<open>String\<close> of numbers of \<open>10^21\<close> and more
  (exponent form; no \<open>INT\<close> value is that large); the calendar of
  \<open>MONTH()\<close> (a parameter); the order MySQL gives to rows with equal sort keys
  (the model keeps table order); the client's rendering, styling and image
  previews; and api/api.ts, a table of URLs the models call by name.
\<close>

end
